(* ===== verification/River_Prelude.thy ===== *)
theory River_Prelude
  imports Main "HOL-Library.Word"
begin

text \<open>
  Shared vocabulary of the development.  The processor is written in SystemC; its data are
  \<open>sc_uint<w>\<close>, \<open>sc_bv<w>\<close> and \<open>sc_biguint<w>\<close> values, all modelled as \<open>w word\<close>, and
  \<open>bool\<close>.  This theory gives the part selects the code uses everywhere (\<open>x.range(hi, lo)\<close> read
  and written, \<open>x[i]\<close> written, and the reversed range of a bit vector), the facts that let
  the simplifier cancel writes against reads, and the reading of words as signed numbers that
  the instruction set is specified with.

  Convention for processes.  An \<open>SC_METHOD\<close> reads signals and writes signals, and a written
  value becomes visible only after the activation.  A method is therefore a function from the
  record of signals before the activation to the record after it, in which every read is of
  the old record.  A signal the activation does not write keeps its value.  A clocked thread
  is the function of one clock edge.
\<close>

unbundle bit_operations_syntax

named_theorems range_simps \<open>reads of part selects through writes of part selects\<close>

type_synonym u2 = "2 word"
type_synonym u6 = "6 word"
type_synonym u12 = "12 word"
type_synonym u32 = "32 word"
type_synonym u64 = "64 word"

subsection \<open>Part selects\<close>

definition rng :: "nat \<Rightarrow> nat \<Rightarrow> 'a::len word \<Rightarrow> 'b::len word" where
  "rng hi lo x = ucast (take_bit (Suc hi - lo) (drop_bit lo x))"

definition put :: "nat \<Rightarrow> nat \<Rightarrow> 'b::len word \<Rightarrow> 'a::len word \<Rightarrow> 'a word" where
  "put hi lo v x =
     (x AND NOT (push_bit lo (mask (Suc hi - lo)))) OR
     push_bit lo (take_bit (Suc hi - lo) (ucast v))"

definition put_bit :: "nat \<Rightarrow> bool \<Rightarrow> 'a::len word \<Rightarrow> 'a word" where
  "put_bit i b x = (if b then set_bit i x else unset_bit i x)"

text \<open>
  \<open>v.range(lo, hi)\<close> with the smaller index first is the same bits of \<open>v\<close> in reversed order.
\<close>

definition rng_rev :: "nat \<Rightarrow> nat \<Rightarrow> 'a::len word \<Rightarrow> 'b::len word" where
  "rng_rev lo hi x = word_reverse (rng hi lo x)"

definition put_rev :: "nat \<Rightarrow> nat \<Rightarrow> 'b::len word \<Rightarrow> 'a::len word \<Rightarrow> 'a word" where
  "put_rev lo hi v x = put hi lo (word_reverse v) x"

lemma bit_rng:
  "bit (rng hi lo x :: 'b::len word) n \<longleftrightarrow> n < LENGTH('b) \<and> lo + n \<le> hi \<and> bit x (lo + n)"
  for x :: "'a::len word"
  by (auto simp: rng_def bit_simps dest: bit_imp_le_length)

lemma bit_put:
  "bit (put hi lo v x) n \<longleftrightarrow>
     (if lo \<le> n \<and> n \<le> hi then n < LENGTH('a) \<and> bit v (n - lo) else bit x n)"
  for x :: "'a::len word" and v :: "'b::len word"
  by (auto simp: put_def bit_simps dest: bit_imp_le_length)

lemma bit_put_bit:
  "bit (put_bit i b x) n \<longleftrightarrow> (if n = i then n < LENGTH('a) \<and> b else bit x n)"
  for x :: "'a::len word"
  by (auto simp: put_bit_def bit_simps dest: bit_imp_le_length)

lemma bit_twice: "bit (x * 2) n \<longleftrightarrow> 0 < n \<and> n < LENGTH('a) \<and> bit x (n - 1)"
  for x :: "'a::len word"
  using bit_double_iff [of x n] by (auto simp: mult.commute)

lemma rng_put_same [range_simps]:
  "hi < LENGTH('a) \<Longrightarrow> lo \<le> hi \<Longrightarrow> LENGTH('c) \<le> LENGTH('b) \<Longrightarrow> LENGTH('c) \<le> Suc hi - lo \<Longrightarrow>
     (rng hi lo (put hi lo v x) :: 'c::len word) = ucast v"
  for x :: "'a::len word" and v :: "'b::len word"
  by (rule bit_word_eqI) (auto simp: bit_rng bit_put bit_simps)

lemma rng_put_same_narrow [range_simps]:
  "hi < LENGTH('a) \<Longrightarrow> lo \<le> hi \<Longrightarrow> LENGTH('b) \<le> Suc hi - lo \<Longrightarrow>
     (rng hi lo (put hi lo v x) :: 'c::len word) = ucast v"
  for x :: "'a::len word" and v :: "'b::len word"
  by (rule bit_word_eqI) (auto simp: bit_rng bit_put bit_simps dest: bit_imp_le_length)

lemma rng_rng [range_simps]:
  "h + L \<le> H \<Longrightarrow> h < LENGTH('b) \<Longrightarrow>
     rng h l (rng H L x :: 'b::len word) = rng (h + L) (l + L) x"
  for x :: "'a::len word"
  by (rule bit_word_eqI) (auto simp: bit_rng ac_simps)

lemma rng_put_other [range_simps]:
  "h < l' \<or> h' < l \<Longrightarrow> rng h l (put h' l' v x) = rng h l x"
  by (rule bit_word_eqI) (auto simp: bit_rng bit_put)

lemma rng_put_bit_other [range_simps]:
  "i < l \<or> h < i \<Longrightarrow> rng h l (put_bit i b x) = rng h l x"
  by (rule bit_word_eqI) (auto simp: bit_rng bit_put_bit)

lemma bit_put_other [range_simps]:
  "n < lo \<or> hi < n \<Longrightarrow> bit (put hi lo v x) n = bit x n"
  by (auto simp: bit_put)

lemma bit_put_bit_same [range_simps]:
  "n < LENGTH('a) \<Longrightarrow> bit (put_bit n b x) n = b" for x :: "'a::len word"
  by (simp add: bit_put_bit)

lemma bit_put_bit_other [range_simps]:
  "n \<noteq> i \<Longrightarrow> bit (put_bit i b x) n = bit x n"
  by (simp add: bit_put_bit)

lemma rng_rev_put_rev_same [range_simps]:
  "hi < LENGTH('a) \<Longrightarrow> lo \<le> hi \<Longrightarrow> LENGTH('b) \<le> Suc hi - lo \<Longrightarrow>
     (rng_rev lo hi (put_rev lo hi v x) :: 'b::len word) = v"
  for x :: "'a::len word" and v :: "'b::len word"
  by (simp add: rng_rev_def put_rev_def rng_put_same_narrow)

lemma rng_rev_put_other [range_simps]:
  "hi < l' \<or> h' < lo \<Longrightarrow> rng_rev lo hi (put h' l' v x) = rng_rev lo hi x"
  by (simp add: rng_rev_def rng_put_other)

lemma rng_rev_put_bit_other [range_simps]:
  "i < lo \<or> hi < i \<Longrightarrow> rng_rev lo hi (put_bit i b x) = rng_rev lo hi x"
  by (simp add: rng_rev_def rng_put_bit_other)

lemma rng_put_rev_other [range_simps]:
  "h < l' \<or> h' < l \<Longrightarrow> rng h l (put_rev l' h' v x) = rng h l x"
  by (simp add: put_rev_def rng_put_other)

lemma bit_put_rev_other [range_simps]:
  "n < lo \<or> hi < n \<Longrightarrow> bit (put_rev lo hi v x) n = bit x n"
  by (simp add: put_rev_def bit_put_other)

lemma rng_zero [simp]: "rng hi lo 0 = 0" "rng_rev lo hi 0 = 0"
  by (rule bit_word_eqI, simp add: bit_rng rng_rev_def bit_simps)+

text \<open>Case distinction on the 32 values of a five-bit count.\<close>

lemma u5_cases:
  fixes k :: "5 word"
  obtains n where "n < 32" and "k = of_nat n" and "unat k = n"
proof
  show "unat k < 32"
    using unsigned_less [of k, where ?'a = nat] by simp
qed simp_all

lemma u2_cases: "w = 0 \<or> w = 1 \<or> w = 2 \<or> w = 3" for w :: u2
proof -
  have "uint w < 4" "0 \<le> uint w"
    using unsigned_less [of w, where ?'a = int] by simp_all
  then have "uint w = 0 \<or> uint w = 1 \<or> uint w = 2 \<or> uint w = 3"
    by linarith
  then show ?thesis
    by (auto simp: word_uint_eq_iff)
qed

lemma u3_cases: "w = 0 \<or> w = 1 \<or> w = 2 \<or> w = 3 \<or> w = 4 \<or> w = 5 \<or> w = 6 \<or> w = 7" for w :: "3 word"
proof -
  have "unat w < 8"
    using unsigned_less [of w, where ?'a = nat] by simp
  then have "unat w \<in> {0, 1, 2, 3, 4, 5, 6, 7}" by auto
  then show ?thesis
    by (auto simp: word_unat_eq_iff)
qed

subsection \<open>Words as signed numbers\<close>

lemma bit31_sint: "bit x 31 \<longleftrightarrow> sint x < 0" for x :: u32
  using bit_last_iff [of x] by simp

lemma sint_bit31: "sint x = (if bit x 31 then uint x - 2 ^ 32 else uint x)" for x :: u32
proof -
  have "take_bit 32 (uint x) = uint x"
    by (rule bintr_uint) simp
  then show ?thesis
    by (simp add: sint_uint signed_take_bit_eq_take_bit_minus bit_uint_iff)
qed

end
