(* ===== verification/Rv32_Spec.thy ===== *)
theory Rv32_Spec
  imports River_Prelude "HOL-Library.Signed_Division"
begin

text \<open>
  The abstract specification of the arithmetic of RV32IM, as the unprivileged specification
  states it on signed and unsigned integers, independent of any hardware.  The components of
  the execute stage are proved against these definitions.
\<close>

subsection \<open>Base integer instructions\<close>

definition rv_slt :: "u32 \<Rightarrow> u32 \<Rightarrow> u32" where
  "rv_slt a b = (if sint a < sint b then 1 else 0)"

definition rv_sltu :: "u32 \<Rightarrow> u32 \<Rightarrow> u32" where
  "rv_sltu a b = (if uint a < uint b then 1 else 0)"

text \<open>The condition of the six branches, by \<open>funct3\<close>.\<close>

definition rv_branch :: "3 word \<Rightarrow> u32 \<Rightarrow> u32 \<Rightarrow> bool" where
  "rv_branch f3 a b =
     (if f3 = 0 then a = b else if f3 = 1 then a \<noteq> b
      else if f3 = 4 then sint a < sint b else if f3 = 5 then sint b \<le> sint a
      else if f3 = 6 then uint a < uint b else uint b \<le> uint a)"

subsection \<open>Results of the register, immediate and jump instructions, and addresses\<close>

definition rv_op :: "3 word \<Rightarrow> bool \<Rightarrow> u32 \<Rightarrow> u32 \<Rightarrow> u32" where
  "rv_op f3 alt a b =
     (let k = unat b mod 32 in
      if f3 = 0 then (if alt then a - b else a + b)
      else if f3 = 1 then push_bit k a
      else if f3 = 2 then rv_slt a b
      else if f3 = 3 then rv_sltu a b
      else if f3 = 4 then a XOR b
      else if f3 = 5 then (if alt then signed_drop_bit k a else drop_bit k a)
      else if f3 = 6 then a OR b
      else a AND b)"

definition rv_result :: "u32 \<Rightarrow> u32 \<Rightarrow> u32 \<Rightarrow> u32 \<Rightarrow> u32 option" where
  "rv_result ir pc a b =
     (let op = rng 6 0 ir :: 7 word; f3 = rng 14 12 ir :: 3 word; f7 = rng 31 25 ir :: 7 word;
          imm_i = scast (rng 31 20 ir :: 12 word) :: u32;
          imm_s = scast (word_cat f7 (rng 11 7 ir :: 5 word) :: 12 word) :: u32;
          imm_u = push_bit 12 (drop_bit 12 ir)
      in if op = 0b0110011 \<and> (f7 = 0 \<or> f7 = 0b0100000 \<and> (f3 = 0 \<or> f3 = 5)) then
           Some (rv_op f3 (f7 \<noteq> 0) a b)
         else if op = 0b0010011 \<and> ((f3 \<noteq> 1 \<and> f3 \<noteq> 5) \<or> f7 = 0 \<or> f7 = 0b0100000 \<and> f3 = 5) then
           Some (rv_op f3 (f3 = 5 \<and> f7 \<noteq> 0) a imm_i)
         else if op = 0b0110111 then Some imm_u
         else if op = 0b0010111 then Some (pc + imm_u)
         else if op = 0b0000011 then Some (a + imm_i)
         else if op = 0b0100011 \<and> f3 < 3 then Some (a + imm_s)
         else if op = 0b1101111 \<or> op = 0b1100111 then Some (pc + 4)
         else None)"

lemma shift_amount: "unat (rng 4 0 b :: 5 word) = unat b mod 32" for b :: u32
proof -
  have "(rng 4 0 b :: 5 word) = ucast b"
    by (rule bit_word_eqI) (auto simp: bit_rng bit_simps)
  then show ?thesis
    by (simp add: unsigned_ucast_eq take_bit_eq_mod)
qed

subsection \<open>Multiplication: the low or the high half of the exact product\<close>

definition rv_mul :: "u32 \<Rightarrow> u32 \<Rightarrow> u32" where
  "rv_mul a b = word_of_int (sint a * sint b)"

definition rv_mulh :: "u32 \<Rightarrow> u32 \<Rightarrow> u32" where
  "rv_mulh a b = word_of_int ((sint a * sint b) div 2 ^ 32)"

definition rv_mulhsu :: "u32 \<Rightarrow> u32 \<Rightarrow> u32" where
  "rv_mulhsu a b = word_of_int ((sint a * uint b) div 2 ^ 32)"

definition rv_mulhu :: "u32 \<Rightarrow> u32 \<Rightarrow> u32" where
  "rv_mulhu a b = word_of_int ((uint a * uint b) div 2 ^ 32)"

subsection \<open>Division: truncation towards zero, all ones and the dividend for a zero divisor\<close>

definition rv_div :: "u32 \<Rightarrow> u32 \<Rightarrow> u32" where
  "rv_div a b = (if b = 0 then - 1 else word_of_int (sint a sdiv sint b))"

definition rv_divu :: "u32 \<Rightarrow> u32 \<Rightarrow> u32" where
  "rv_divu a b = (if b = 0 then - 1 else word_of_int (uint a div uint b))"

definition rv_rem :: "u32 \<Rightarrow> u32 \<Rightarrow> u32" where
  "rv_rem a b = (if b = 0 then a else word_of_int (sint a smod sint b))"

definition rv_remu :: "u32 \<Rightarrow> u32 \<Rightarrow> u32" where
  "rv_remu a b = (if b = 0 then a else word_of_int (uint a mod uint b))"

subsection \<open>Magnitudes of signed words\<close>

lemma uint_neg_word: "bit x 31 \<Longrightarrow> uint (- x) = - sint x" for x :: u32
proof -
  assume b: "bit x 31"
  have "uint x \<noteq> 0"
    using b by (metis bit_0_eq bot_fun_def bot_bool_def uint_0_iff)
  moreover have "uint x < 2 ^ 32"
    using unsigned_less [of x, where ?'a = int] by simp
  moreover have "0 \<le> uint x" by simp
  moreover have "uint (- x) = (- uint x) mod 2 ^ 32"
    by (simp add: uint_word_ariths)
  ultimately have "uint (- x) = 2 ^ 32 - uint x"
    by (smt (verit) mod_add_self2 mod_pos_pos_trivial)
  then show ?thesis
    using b by (simp add: sint_bit31)
qed

lemma not_plus_one: "NOT x + 1 = - x" for x :: u32
  by (simp add: not_eq_complement)

lemma uint_pos_word: "\<not> bit x 31 \<Longrightarrow> uint x = sint x" for x :: u32
  by (simp add: sint_bit31)

subsection \<open>Comparisons from the sign of a difference\<close>

lemma u32_range: "0 \<le> uint x" "uint x < 2 ^ 32" "bit x 31 \<longleftrightarrow> 2 ^ 31 \<le> uint x" for x :: u32
proof -
  show "0 \<le> uint x" by simp
  show less: "uint x < 2 ^ 32"
    using unsigned_less [of x, where ?'a = int] by simp
  have "bit x 31 \<longleftrightarrow> sint x < 0" by (rule bit31_sint)
  moreover have "sint x < 2 ^ 31" "- (2 ^ 31) \<le> sint x"
    using sint_greater_eq [of x] sint_less [of x] by simp_all
  ultimately show "bit x 31 \<longleftrightarrow> 2 ^ 31 \<le> uint x"
    using less sint_bit31 [of x] by (cases "bit x 31") simp_all
qed

lemma mod_signed_range:
  "x < 2 ^ 31 \<Longrightarrow> - (2 ^ 31) \<le> x \<Longrightarrow> x mod 2 ^ 32 = (if x < 0 then x + 2 ^ 32 else x)"
  for x :: int
proof (cases "x < 0")
  assume r: "x < 2 ^ 31" "- (2 ^ 31) \<le> x"
  case True
  have "x mod 2 ^ 32 = (x + 2 ^ 32) mod 2 ^ 32" by simp
  also have "\<dots> = x + 2 ^ 32" using r True by (intro mod_pos_pos_trivial) simp_all
  finally show ?thesis using True by simp
qed simp

lemma half_range:
  "0 \<le> x \<Longrightarrow> x < 2 ^ 32 \<Longrightarrow> 0 \<le> y \<Longrightarrow> y < 2 ^ 32 \<Longrightarrow> (2 ^ 31 \<le> x) = (2 ^ 31 \<le> y) \<Longrightarrow>
     x - y < 2 ^ 31 \<and> - (2 ^ 31) \<le> x - y"
  for x y :: int
  by (cases "2 ^ 31 \<le> y") simp_all

lemma half_sign:
  "x < 2 ^ 31 \<Longrightarrow> - (2 ^ 31) \<le> x \<Longrightarrow> 2 ^ 31 \<le> (if x < 0 then x + 2 ^ 32 else x) \<longleftrightarrow> x < 0"
  for x :: int
  by simp

lemma sign_of_difference:
  fixes a b :: u32
  assumes "bit a 31 = bit b 31"
  shows "bit (a - b) 31 \<longleftrightarrow> uint a < uint b" and "bit (a - b) 31 \<longleftrightarrow> sint a < sint b"
proof -
  have eq: "(2 ^ 31 \<le> uint a) = (2 ^ 31 \<le> uint b)"
    using assms by (simp only: u32_range(3))
  have d: "uint a - uint b < 2 ^ 31" "- (2 ^ 31) \<le> uint a - uint b"
    using half_range [OF u32_range(1) [of a] u32_range(2) [of a] u32_range(1) [of b]
        u32_range(2) [of b] eq] by (rule conjunct1, rule conjunct2)
  have "uint (a - b) = (uint a - uint b) mod 2 ^ 32"
    by (simp only: uint_word_ariths word_size) simp
  also have "\<dots> = (if uint a - uint b < 0 then uint a - uint b + 2 ^ 32 else uint a - uint b)"
    by (rule mod_signed_range [OF d])
  finally show u: "bit (a - b) 31 \<longleftrightarrow> uint a < uint b"
    using half_sign [OF d] by (simp only: u32_range(3) diff_less_0_iff_less)
  show "bit (a - b) 31 \<longleftrightarrow> sint a < sint b"
    unfolding u sint_bit31 [of a] sint_bit31 [of b] using assms by (cases "bit b 31") simp_all
qed

lemma signed_less_by_sign:
  "sint a < sint b \<longleftrightarrow> (if bit a 31 \<noteq> bit b 31 then bit a 31 else bit (a - b) 31)"
  "uint a < uint b \<longleftrightarrow> (if bit a 31 \<noteq> bit b 31 then bit b 31 else bit (a - b) 31)"
  for a b :: u32
  using bit31_sint [of a] bit31_sint [of b] u32_range [of a] u32_range [of b]
    sign_of_difference [of a b] by auto

lemma difference_33:
  fixes a b :: u32
  shows "bit (ucast a - ucast b :: 33 word) 31 = bit (a - b) 31"
    and "(ucast a - ucast b :: 33 word) = 0 \<longleftrightarrow> a = b"
proof -
  have low: "(ucast (word_of_int z :: 33 word) :: u32) = word_of_int z" for z
    by (rule bit_word_eqI) (auto simp: bit_ucast_iff bit_word_of_int_iff)
  have "(ucast a - ucast b :: 33 word) = word_of_int (uint a - uint b)"
    by (simp add: unsigned_ucast_eq)
  then have "(ucast (ucast a - ucast b :: 33 word) :: u32) = word_of_int (uint a - uint b)"
    by (simp only: low)
  also have "\<dots> = a - b" by simp
  finally have "(ucast (ucast a - ucast b :: 33 word) :: u32) = a - b" .
  moreover have "bit (ucast x :: u32) 31 = bit x 31" for x :: "33 word"
    by (simp add: bit_ucast_iff)
  ultimately show "bit (ucast a - ucast b :: 33 word) 31 = bit (a - b) 31"
    by metis
  have "(ucast (ucast x :: 33 word) :: u32) = x" for x :: u32
    by (rule bit_word_eqI) (simp add: bit_ucast_iff)
  then show "(ucast a - ucast b :: 33 word) = 0 \<longleftrightarrow> a = b"
    by (metis eq_iff_diff_eq_0)
qed

end
