(* ===== verification/Decode_Instr.thy ===== *)
theory Decode_Instr
  imports Rv32_Spec
begin

text \<open>
  Recognition of instructions in decode (\<open>SIM/SystemC/CORE/DEC/dec.cpp\<close>, methods
  \<open>decoding_instruction_type\<close> and \<open>decoding_instruction\<close>): one flag per instruction format and
  one per instruction, from the opcode and the function fields of the instruction word; and the
  immediates of the formats, as \<open>post_reg_read_decoding\<close> puts them together.

  Lemmas: each flag as a condition on the fields; the immediates are the sign-extended fields of
  the instruction set; the cases of the instructions with a result.
\<close>

subsection \<open>Fields of the instruction word\<close>

definition opcode :: "u32 \<Rightarrow> 7 word" where "opcode ir = rng 6 0 ir"
definition funct7 :: "u32 \<Rightarrow> 7 word" where "funct7 ir = rng 31 25 ir"
definition funct3 :: "u32 \<Rightarrow> 3 word" where "funct3 ir = rng 14 12 ir"
definition funct12 :: "u32 \<Rightarrow> 12 word" where "funct12 ir = rng 31 20 ir"

subsection \<open>Formats\<close>

record instr_type =
  r_type_inst_sd :: bool
  i_type_inst_sd :: bool
  s_type_inst_sd :: bool
  b_type_inst_sd :: bool
  u_type_inst_sd :: bool
  j_type_inst_sd :: bool
  jalr_type_inst_sd :: bool
  system_type_inst_sd :: bool
  m_type_inst_sd :: bool

definition decoding_instruction_type :: "u32 \<Rightarrow> instr_type" where
  "decoding_instruction_type ir =
     \<lparr>r_type_inst_sd = (opcode ir = 0b0110011 \<and> funct7 ir \<noteq> 0b0000001),
      i_type_inst_sd = (opcode ir = 0b0010011 \<or> opcode ir = 0b0000011),
      s_type_inst_sd = (opcode ir = 0b0100011),
      b_type_inst_sd = (opcode ir = 0b1100011),
      u_type_inst_sd = (opcode ir = 0b0110111 \<or> opcode ir = 0b0010111),
      j_type_inst_sd = (opcode ir = 0b1101111),
      jalr_type_inst_sd = (opcode ir = 0b1100111),
      system_type_inst_sd = (opcode ir = 0b1110011),
      m_type_inst_sd = (opcode ir = 0b0110011 \<and> funct7 ir = 0b0000001)\<rparr>"

subsection \<open>Instructions\<close>

record instr_flags =
  add_i_sd :: bool
  slt_i_sd :: bool
  sltu_i_sd :: bool
  and_i_sd :: bool
  or_i_sd :: bool
  xor_i_sd :: bool
  sll_i_sd :: bool
  srl_i_sd :: bool
  sub_i_sd :: bool
  sra_i_sd :: bool
  addi_i_sd :: bool
  slti_i_sd :: bool
  sltiu_i_sd :: bool
  andi_i_sd :: bool
  ori_i_sd :: bool
  xori_i_sd :: bool
  fence_i_sd :: bool
  slli_i_sd :: bool
  srli_i_sd :: bool
  srai_i_sd :: bool
  lw_i_sd :: bool
  lh_i_sd :: bool
  lhu_i_sd :: bool
  lb_i_sd :: bool
  lbu_i_sd :: bool
  beq_i_sd :: bool
  bne_i_sd :: bool
  blt_i_sd :: bool
  bge_i_sd :: bool
  bltu_i_sd :: bool
  bgeu_i_sd :: bool
  lui_i_sd :: bool
  auipc_i_sd :: bool
  jal_i_sd :: bool
  jalr_i_sd :: bool
  sw_i_sd :: bool
  sh_i_sd :: bool
  sb_i_sd :: bool
  ecall_i_sd :: bool
  ebreak_i_sd :: bool
  csrrw_i_sd :: bool
  csrrs_i_sd :: bool
  csrrc_i_sd :: bool
  csrrwi_i_sd :: bool
  csrrsi_i_sd :: bool
  csrrci_i_sd :: bool
  mret_i_sd :: bool
  sret_i_sd :: bool
  mul_i_sd :: bool
  mulh_i_sd :: bool
  mulhsu_i_sd :: bool
  mulhu_i_sd :: bool
  div_i_sd :: bool
  divu_i_sd :: bool
  rem_i_sd :: bool
  remu_i_sd :: bool

definition decoding_instruction :: "u32 \<Rightarrow> instr_flags" where
  "decoding_instruction ir =
     \<lparr>add_i_sd = (opcode ir = 0b0110011 \<and> funct7 ir = 0b0000000 \<and> funct3 ir = 0b000),
      slt_i_sd = (opcode ir = 0b0110011 \<and> funct7 ir = 0b0000000 \<and> funct3 ir = 0b010),
      sltu_i_sd = (opcode ir = 0b0110011 \<and> funct7 ir = 0b0000000 \<and> funct3 ir = 0b011),
      and_i_sd = (opcode ir = 0b0110011 \<and> funct7 ir = 0b0000000 \<and> funct3 ir = 0b111),
      or_i_sd = (opcode ir = 0b0110011 \<and> funct7 ir = 0b0000000 \<and> funct3 ir = 0b110),
      xor_i_sd = (opcode ir = 0b0110011 \<and> funct7 ir = 0b0000000 \<and> funct3 ir = 0b100),
      sll_i_sd = (opcode ir = 0b0110011 \<and> funct7 ir = 0b0000000 \<and> funct3 ir = 0b001),
      srl_i_sd = (opcode ir = 0b0110011 \<and> funct7 ir = 0b0000000 \<and> funct3 ir = 0b101),
      sub_i_sd = (opcode ir = 0b0110011 \<and> funct7 ir = 0b0100000 \<and> funct3 ir = 0b000),
      sra_i_sd = (opcode ir = 0b0110011 \<and> funct7 ir = 0b0100000 \<and> funct3 ir = 0b101),
      addi_i_sd = (opcode ir = 0b0010011 \<and> funct3 ir = 0b000),
      slti_i_sd = (opcode ir = 0b0010011 \<and> funct3 ir = 0b010),
      sltiu_i_sd = (opcode ir = 0b0010011 \<and> funct3 ir = 0b011),
      andi_i_sd = (opcode ir = 0b0010011 \<and> funct3 ir = 0b111),
      ori_i_sd = (opcode ir = 0b0010011 \<and> funct3 ir = 0b110),
      xori_i_sd = (opcode ir = 0b0010011 \<and> funct3 ir = 0b100),
      fence_i_sd = (opcode ir = 0b0001111 \<and> funct3 ir = 0b000),
      slli_i_sd = (opcode ir = 0b0010011 \<and> funct7 ir = 0b0000000 \<and> funct3 ir = 0b001),
      srli_i_sd = (opcode ir = 0b0010011 \<and> funct7 ir = 0b0000000 \<and> funct3 ir = 0b101),
      srai_i_sd = (opcode ir = 0b0010011 \<and> funct7 ir = 0b0100000 \<and> funct3 ir = 0b101),
      lw_i_sd = (opcode ir = 0b0000011 \<and> funct3 ir = 0b010),
      lh_i_sd = (opcode ir = 0b0000011 \<and> funct3 ir = 0b001),
      lhu_i_sd = (opcode ir = 0b0000011 \<and> funct3 ir = 0b101),
      lb_i_sd = (opcode ir = 0b0000011 \<and> funct3 ir = 0b000),
      lbu_i_sd = (opcode ir = 0b0000011 \<and> funct3 ir = 0b100),
      beq_i_sd = (opcode ir = 0b1100011 \<and> funct3 ir = 0b000),
      bne_i_sd = (opcode ir = 0b1100011 \<and> funct3 ir = 0b001),
      blt_i_sd = (opcode ir = 0b1100011 \<and> funct3 ir = 0b100),
      bge_i_sd = (opcode ir = 0b1100011 \<and> funct3 ir = 0b101),
      bltu_i_sd = (opcode ir = 0b1100011 \<and> funct3 ir = 0b110),
      bgeu_i_sd = (opcode ir = 0b1100011 \<and> funct3 ir = 0b111),
      lui_i_sd = (opcode ir = 0b0110111),
      auipc_i_sd = (opcode ir = 0b0010111),
      jal_i_sd = (opcode ir = 0b1101111),
      jalr_i_sd = (opcode ir = 0b1100111),
      sw_i_sd = (opcode ir = 0b0100011 \<and> funct3 ir = 0b010),
      sh_i_sd = (opcode ir = 0b0100011 \<and> funct3 ir = 0b001),
      sb_i_sd = (opcode ir = 0b0100011 \<and> funct3 ir = 0b000),
      ecall_i_sd = (opcode ir = 0b1110011 \<and> funct3 ir = 0b000 \<and> funct12 ir = 0b000000000000),
      ebreak_i_sd = (opcode ir = 0b1110011 \<and> funct3 ir = 0b000 \<and> funct12 ir = 0b000000000001),
      csrrw_i_sd = (opcode ir = 0b1110011 \<and> funct3 ir = 0b001),
      csrrs_i_sd = (opcode ir = 0b1110011 \<and> funct3 ir = 0b010),
      csrrc_i_sd = (opcode ir = 0b1110011 \<and> funct3 ir = 0b011),
      csrrwi_i_sd = (opcode ir = 0b1110011 \<and> funct3 ir = 0b101),
      csrrsi_i_sd = (opcode ir = 0b1110011 \<and> funct3 ir = 0b110),
      csrrci_i_sd = (opcode ir = 0b1110011 \<and> funct3 ir = 0b111),
      mret_i_sd = (ir = 0b00110000001000000000000001110011),
      sret_i_sd = (ir = 0b00010000001000000000000001110011),
      mul_i_sd = (opcode ir = 0b0110011 \<and> funct3 ir = 0b000 \<and> funct7 ir = 0b0000001),
      mulh_i_sd = (opcode ir = 0b0110011 \<and> funct3 ir = 0b001 \<and> funct7 ir = 0b0000001),
      mulhsu_i_sd = (opcode ir = 0b0110011 \<and> funct3 ir = 0b010 \<and> funct7 ir = 0b0000001),
      mulhu_i_sd = (opcode ir = 0b0110011 \<and> funct3 ir = 0b011 \<and> funct7 ir = 0b0000001),
      div_i_sd = (opcode ir = 0b0110011 \<and> funct3 ir = 0b100 \<and> funct7 ir = 0b0000001),
      divu_i_sd = (opcode ir = 0b0110011 \<and> funct3 ir = 0b101 \<and> funct7 ir = 0b0000001),
      rem_i_sd = (opcode ir = 0b0110011 \<and> funct3 ir = 0b110 \<and> funct7 ir = 0b0000001),
      remu_i_sd = (opcode ir = 0b0110011 \<and> funct3 ir = 0b111 \<and> funct7 ir = 0b0000001)\<rparr>"

text \<open>The flags one by one.\<close>

lemma decoding_instruction_flags:
  "add_i_sd (decoding_instruction ir) \<longleftrightarrow> opcode ir = 0b0110011 \<and> funct7 ir = 0b0000000 \<and> funct3 ir = 0b000"
  "slt_i_sd (decoding_instruction ir) \<longleftrightarrow> opcode ir = 0b0110011 \<and> funct7 ir = 0b0000000 \<and> funct3 ir = 0b010"
  "sltu_i_sd (decoding_instruction ir) \<longleftrightarrow> opcode ir = 0b0110011 \<and> funct7 ir = 0b0000000 \<and> funct3 ir = 0b011"
  "and_i_sd (decoding_instruction ir) \<longleftrightarrow> opcode ir = 0b0110011 \<and> funct7 ir = 0b0000000 \<and> funct3 ir = 0b111"
  "or_i_sd (decoding_instruction ir) \<longleftrightarrow> opcode ir = 0b0110011 \<and> funct7 ir = 0b0000000 \<and> funct3 ir = 0b110"
  "xor_i_sd (decoding_instruction ir) \<longleftrightarrow> opcode ir = 0b0110011 \<and> funct7 ir = 0b0000000 \<and> funct3 ir = 0b100"
  "sll_i_sd (decoding_instruction ir) \<longleftrightarrow> opcode ir = 0b0110011 \<and> funct7 ir = 0b0000000 \<and> funct3 ir = 0b001"
  "srl_i_sd (decoding_instruction ir) \<longleftrightarrow> opcode ir = 0b0110011 \<and> funct7 ir = 0b0000000 \<and> funct3 ir = 0b101"
  "sub_i_sd (decoding_instruction ir) \<longleftrightarrow> opcode ir = 0b0110011 \<and> funct7 ir = 0b0100000 \<and> funct3 ir = 0b000"
  "sra_i_sd (decoding_instruction ir) \<longleftrightarrow> opcode ir = 0b0110011 \<and> funct7 ir = 0b0100000 \<and> funct3 ir = 0b101"
  "addi_i_sd (decoding_instruction ir) \<longleftrightarrow> opcode ir = 0b0010011 \<and> funct3 ir = 0b000"
  "slti_i_sd (decoding_instruction ir) \<longleftrightarrow> opcode ir = 0b0010011 \<and> funct3 ir = 0b010"
  "sltiu_i_sd (decoding_instruction ir) \<longleftrightarrow> opcode ir = 0b0010011 \<and> funct3 ir = 0b011"
  "andi_i_sd (decoding_instruction ir) \<longleftrightarrow> opcode ir = 0b0010011 \<and> funct3 ir = 0b111"
  "ori_i_sd (decoding_instruction ir) \<longleftrightarrow> opcode ir = 0b0010011 \<and> funct3 ir = 0b110"
  "xori_i_sd (decoding_instruction ir) \<longleftrightarrow> opcode ir = 0b0010011 \<and> funct3 ir = 0b100"
  "fence_i_sd (decoding_instruction ir) \<longleftrightarrow> opcode ir = 0b0001111 \<and> funct3 ir = 0b000"
  "slli_i_sd (decoding_instruction ir) \<longleftrightarrow> opcode ir = 0b0010011 \<and> funct7 ir = 0b0000000 \<and> funct3 ir = 0b001"
  "srli_i_sd (decoding_instruction ir) \<longleftrightarrow> opcode ir = 0b0010011 \<and> funct7 ir = 0b0000000 \<and> funct3 ir = 0b101"
  "srai_i_sd (decoding_instruction ir) \<longleftrightarrow> opcode ir = 0b0010011 \<and> funct7 ir = 0b0100000 \<and> funct3 ir = 0b101"
  "lw_i_sd (decoding_instruction ir) \<longleftrightarrow> opcode ir = 0b0000011 \<and> funct3 ir = 0b010"
  "lh_i_sd (decoding_instruction ir) \<longleftrightarrow> opcode ir = 0b0000011 \<and> funct3 ir = 0b001"
  "lhu_i_sd (decoding_instruction ir) \<longleftrightarrow> opcode ir = 0b0000011 \<and> funct3 ir = 0b101"
  "lb_i_sd (decoding_instruction ir) \<longleftrightarrow> opcode ir = 0b0000011 \<and> funct3 ir = 0b000"
  "lbu_i_sd (decoding_instruction ir) \<longleftrightarrow> opcode ir = 0b0000011 \<and> funct3 ir = 0b100"
  "beq_i_sd (decoding_instruction ir) \<longleftrightarrow> opcode ir = 0b1100011 \<and> funct3 ir = 0b000"
  "bne_i_sd (decoding_instruction ir) \<longleftrightarrow> opcode ir = 0b1100011 \<and> funct3 ir = 0b001"
  "blt_i_sd (decoding_instruction ir) \<longleftrightarrow> opcode ir = 0b1100011 \<and> funct3 ir = 0b100"
  "bge_i_sd (decoding_instruction ir) \<longleftrightarrow> opcode ir = 0b1100011 \<and> funct3 ir = 0b101"
  "bltu_i_sd (decoding_instruction ir) \<longleftrightarrow> opcode ir = 0b1100011 \<and> funct3 ir = 0b110"
  "bgeu_i_sd (decoding_instruction ir) \<longleftrightarrow> opcode ir = 0b1100011 \<and> funct3 ir = 0b111"
  "lui_i_sd (decoding_instruction ir) \<longleftrightarrow> opcode ir = 0b0110111"
  "auipc_i_sd (decoding_instruction ir) \<longleftrightarrow> opcode ir = 0b0010111"
  "jal_i_sd (decoding_instruction ir) \<longleftrightarrow> opcode ir = 0b1101111"
  "jalr_i_sd (decoding_instruction ir) \<longleftrightarrow> opcode ir = 0b1100111"
  "sw_i_sd (decoding_instruction ir) \<longleftrightarrow> opcode ir = 0b0100011 \<and> funct3 ir = 0b010"
  "sh_i_sd (decoding_instruction ir) \<longleftrightarrow> opcode ir = 0b0100011 \<and> funct3 ir = 0b001"
  "sb_i_sd (decoding_instruction ir) \<longleftrightarrow> opcode ir = 0b0100011 \<and> funct3 ir = 0b000"
  "ecall_i_sd (decoding_instruction ir) \<longleftrightarrow> opcode ir = 0b1110011 \<and> funct3 ir = 0b000 \<and> funct12 ir = 0b000000000000"
  "ebreak_i_sd (decoding_instruction ir) \<longleftrightarrow> opcode ir = 0b1110011 \<and> funct3 ir = 0b000 \<and> funct12 ir = 0b000000000001"
  "csrrw_i_sd (decoding_instruction ir) \<longleftrightarrow> opcode ir = 0b1110011 \<and> funct3 ir = 0b001"
  "csrrs_i_sd (decoding_instruction ir) \<longleftrightarrow> opcode ir = 0b1110011 \<and> funct3 ir = 0b010"
  "csrrc_i_sd (decoding_instruction ir) \<longleftrightarrow> opcode ir = 0b1110011 \<and> funct3 ir = 0b011"
  "csrrwi_i_sd (decoding_instruction ir) \<longleftrightarrow> opcode ir = 0b1110011 \<and> funct3 ir = 0b101"
  "csrrsi_i_sd (decoding_instruction ir) \<longleftrightarrow> opcode ir = 0b1110011 \<and> funct3 ir = 0b110"
  "csrrci_i_sd (decoding_instruction ir) \<longleftrightarrow> opcode ir = 0b1110011 \<and> funct3 ir = 0b111"
  "mret_i_sd (decoding_instruction ir) \<longleftrightarrow> ir = 0b00110000001000000000000001110011"
  "sret_i_sd (decoding_instruction ir) \<longleftrightarrow> ir = 0b00010000001000000000000001110011"
  "mul_i_sd (decoding_instruction ir) \<longleftrightarrow> opcode ir = 0b0110011 \<and> funct3 ir = 0b000 \<and> funct7 ir = 0b0000001"
  "mulh_i_sd (decoding_instruction ir) \<longleftrightarrow> opcode ir = 0b0110011 \<and> funct3 ir = 0b001 \<and> funct7 ir = 0b0000001"
  "mulhsu_i_sd (decoding_instruction ir) \<longleftrightarrow> opcode ir = 0b0110011 \<and> funct3 ir = 0b010 \<and> funct7 ir = 0b0000001"
  "mulhu_i_sd (decoding_instruction ir) \<longleftrightarrow> opcode ir = 0b0110011 \<and> funct3 ir = 0b011 \<and> funct7 ir = 0b0000001"
  "div_i_sd (decoding_instruction ir) \<longleftrightarrow> opcode ir = 0b0110011 \<and> funct3 ir = 0b100 \<and> funct7 ir = 0b0000001"
  "divu_i_sd (decoding_instruction ir) \<longleftrightarrow> opcode ir = 0b0110011 \<and> funct3 ir = 0b101 \<and> funct7 ir = 0b0000001"
  "rem_i_sd (decoding_instruction ir) \<longleftrightarrow> opcode ir = 0b0110011 \<and> funct3 ir = 0b110 \<and> funct7 ir = 0b0000001"
  "remu_i_sd (decoding_instruction ir) \<longleftrightarrow> opcode ir = 0b0110011 \<and> funct3 ir = 0b111 \<and> funct7 ir = 0b0000001"
  by (simp_all add: decoding_instruction_def)

subsection \<open>Immediates\<close>

definition dec_imm_i :: "u32 \<Rightarrow> u32" where
  "dec_imm_i ir =
     put 11 0 (rng 31 20 ir :: u12)
       (put 31 12 (if bit ir 31 then 0b11111111111111111111 else 0 :: 20 word) 0)"

definition dec_imm_u :: "u32 \<Rightarrow> u32" where
  "dec_imm_u ir = put 11 0 (0 :: u12) (put 31 12 (rng 31 12 ir :: 20 word) 0)"

definition dec_imm_s :: "u32 \<Rightarrow> u32" where
  "dec_imm_s ir =
     put 4 0 (rng 11 7 ir :: 5 word) (put 11 5 (rng 31 25 ir :: 7 word)
       (put 31 12 (if bit ir 31 then 0b11111111111111111111 else 0 :: 20 word) 0))"

definition dec_imm_b :: "u32 \<Rightarrow> u32" where
  "dec_imm_b ir =
     put 0 0 (0 :: 1 word) (put 4 1 (rng 11 8 ir :: 4 word) (put 10 5 (rng 30 25 ir :: 6 word)
       (put 11 11 (rng 7 7 ir :: 1 word) (put 12 12 (rng 31 31 ir :: 1 word)
         (put 31 13 (if bit ir 31 then 0b1111111111111111111 else 0 :: 19 word) 0)))))"

definition dec_imm_j :: "u32 \<Rightarrow> u32" where
  "dec_imm_j ir =
     put 0 0 (0 :: 1 word) (put 10 1 (rng 30 21 ir :: 10 word) (put 11 11 (rng 20 20 ir :: 1 word)
       (put 19 12 (rng 19 12 ir :: 8 word) (put 20 20 (rng 31 31 ir :: 1 word)
         (put 31 21 (if bit ir 31 then 0b11111111111 else 0 :: 11 word) 0)))))"

subsection \<open>Immediates are the sign-extended fields\<close>

lemma ones_20: "(0b11111111111111111111 :: 20 word) = - 1"
  and ones_19: "(0b1111111111111111111 :: 19 word) = - 1"
  and ones_11: "(0b11111111111 :: 11 word) = - 1"
  by simp_all

lemma dec_imm_i_spec: "dec_imm_i ir = scast (rng 31 20 ir :: 12 word)"
  unfolding dec_imm_i_def ones_20
  by (rule bit_word_eqI) (auto simp: bit_put bit_rng bit_simps bit_signed_iff)

lemma dec_imm_u_spec: "dec_imm_u ir = push_bit 12 (drop_bit 12 ir)"
  unfolding dec_imm_u_def
  by (rule bit_word_eqI) (auto simp: bit_put bit_rng bit_simps)

lemma dec_imm_s_spec:
  "dec_imm_s ir = scast (word_cat (rng 31 25 ir :: 7 word) (rng 11 7 ir :: 5 word) :: 12 word)"
  unfolding dec_imm_s_def ones_20
  by (rule bit_word_eqI) (auto simp: bit_put bit_rng bit_simps bit_signed_iff bit_word_cat_iff)

lemma dec_imm_b_spec:
  "dec_imm_b ir =
     scast (push_bit 1 (word_cat (word_cat (rng 31 31 ir :: 1 word) (rng 7 7 ir :: 1 word) :: 2 word)
       (word_cat (rng 30 25 ir :: 6 word) (rng 11 8 ir :: 4 word) :: 10 word)) :: 13 word)"
  unfolding dec_imm_b_def ones_19
  by (rule bit_word_eqI)
    (auto simp: bit_put bit_rng bit_simps bit_signed_iff bit_word_cat_iff bit_twice le_less_Suc_eq
      not_le less_Suc_eq_le elim: le_SucE)

lemma dec_imm_j_spec:
  "dec_imm_j ir =
     scast (push_bit 1 (word_cat (word_cat (rng 31 31 ir :: 1 word) (rng 19 12 ir :: 8 word) :: 9 word)
       (word_cat (rng 20 20 ir :: 1 word) (rng 30 21 ir :: 10 word) :: 11 word)) :: 21 word)"
  unfolding dec_imm_j_def ones_11
  by (rule bit_word_eqI)
    (auto simp: bit_put bit_rng bit_simps bit_signed_iff bit_word_cat_iff bit_twice le_less_Suc_eq
      not_le less_Suc_eq_le elim: le_SucE)

subsection \<open>The instructions with a result\<close>

lemma rv_result_cases:
  assumes "rv_result ir pc a b = Some v"
  obtains
    (R) "opcode ir = 0b0110011"
      "funct7 ir = 0 \<or> funct7 ir = 0b0100000 \<and> (funct3 ir = 0 \<or> funct3 ir = 5)"
      "v = rv_op (funct3 ir) (funct7 ir \<noteq> 0) a b"
  | (I) "opcode ir = 0b0010011"
      "(funct3 ir \<noteq> 1 \<and> funct3 ir \<noteq> 5) \<or> funct7 ir = 0 \<or> funct7 ir = 0b0100000 \<and> funct3 ir = 5"
      "v = rv_op (funct3 ir) (funct3 ir = 5 \<and> funct7 ir \<noteq> 0) a (dec_imm_i ir)"
  | (Lui) "opcode ir = 0b0110111" "v = dec_imm_u ir"
  | (Auipc) "opcode ir = 0b0010111" "v = pc + dec_imm_u ir"
  | (Load) "opcode ir = 0b0000011" "v = a + dec_imm_i ir"
  | (Store) "opcode ir = 0b0100011" "funct3 ir < 3" "v = a + dec_imm_s ir"
  | (Jump) "opcode ir = 0b1101111 \<or> opcode ir = 0b1100111" "v = pc + 4"
  using assms
  unfolding rv_result_def Let_def opcode_def [symmetric] funct3_def [symmetric]
    funct7_def [symmetric] dec_imm_i_spec [symmetric] dec_imm_u_spec [symmetric]
    dec_imm_s_spec [symmetric, folded funct7_def]
  by (auto split: if_splits)

end
