(* ===== verification/Fifo.thy ===== *)
theory Fifo
  imports River_Prelude
begin

text \<open>
  The one-place FIFO that separates every two pipeline stages
  (\<open>SIM/SystemC/UTIL/fifo.h\<close>), and the contract its clients rely on.

  The component is a clocked thread (\<open>fifo_function_loop\<close>, \<open>fifo_clock\<close>) and a method that
  drives the flags (\<open>fifo_FULL\<close>, \<open>fifo_EMPTY\<close>).  The contract is the locale
  \<open>elastic_channel\<close>: over any run that does not push into a full channel, what is popped
  followed by what is still stored is what was stored followed by what was pushed.  The locale
  \<open>stage_codec\<close> states what a stage's packing and unpacking of the payload promise, and
  \<open>stage_link\<close> puts both together: a pipeline stage receives the records its predecessor sent.
\<close>

subsection \<open>State and operations\<close>

text \<open>
  \<open>wait_left\<close> is the number of clock edges before the suspended thread resumes:
  \<open>wait(n)\<close> sets it to \<open>n\<close>, and the body runs on the edge that finds it at 1.
\<close>

record 't fifo =
  fifo_v :: bool
  DOUT_R :: 't
  wait_left :: nat

definition fifo_FULL :: "'t fifo \<Rightarrow> bool \<Rightarrow> bool" where
  "fifo_FULL s pop = (if fifo_v s then (if pop then False else True) else False)"

definition fifo_EMPTY :: "'t fifo \<Rightarrow> bool" where
  "fifo_EMPTY s = (if fifo_v s then False else True)"

text \<open>
  The reset part of the thread, up to \<open>wait(3)\<close>.  The thread runs it once, at its first clock
  edge: \<open>reset_signal_is\<close> follows the declaration of the method \<open>flags_update\<close> in the
  constructor and so applies to that method, and not to the thread.
\<close>

definition fifo_start :: "'t::zero fifo" where
  "fifo_start = \<lparr>fifo_v = False, DOUT_R = 0, wait_left = 3\<rparr>"

definition fifo_function_loop :: "'t \<Rightarrow> bool \<Rightarrow> bool \<Rightarrow> 't fifo \<Rightarrow> 't fifo" where
  "fifo_function_loop din push pop s =
     (if fifo_v s \<and> \<not> push \<and> pop then s\<lparr>fifo_v := False, wait_left := 1\<rparr>
      else if push \<and> (pop \<or> \<not> fifo_v s) then
        s\<lparr>DOUT_R := din, fifo_v := True, wait_left := 1\<rparr>
      else s\<lparr>wait_left := 1\<rparr>)"

definition fifo_clock :: "'t \<Rightarrow> bool \<Rightarrow> bool \<Rightarrow> 't fifo \<Rightarrow> 't fifo" where
  "fifo_clock din push pop s =
     (if 1 < wait_left s then s\<lparr>wait_left := wait_left s - 1\<rparr>
      else fifo_function_loop din push pop s)"

definition fifo_content :: "'t fifo \<Rightarrow> 't list" where
  "fifo_content s = (if fifo_v s then [DOUT_R s] else [])"

subsection \<open>The contract of a channel between two stages\<close>

locale elastic_channel =
  fixes step :: "'a \<Rightarrow> bool \<Rightarrow> bool \<Rightarrow> 's \<Rightarrow> 's"
    and full :: "'s \<Rightarrow> bool \<Rightarrow> bool"
    and is_empty :: "'s \<Rightarrow> bool"
    and front :: "'s \<Rightarrow> 'a"
    and content :: "'s \<Rightarrow> 'a list"
  assumes content_step:
      "push \<longrightarrow> \<not> full s pop \<Longrightarrow>
         content (step d push pop s) =
           (if pop then tl (content s) else content s) @ (if push then [d] else [])"
    and full_keeps: "full s pop \<Longrightarrow> content (step d True pop s) = content s"
    and front_content: "\<not> is_empty s \<Longrightarrow> content s \<noteq> [] \<and> front s = hd (content s)"
    and empty_content: "is_empty s \<Longrightarrow> content s = []"
begin

text \<open>
  A run is a list of cycles, each with the data, push and pop lines of that cycle.  The producer
  is \<open>polite\<close> when it never pushes into a full channel.
\<close>

fun run :: "('a \<times> bool \<times> bool) list \<Rightarrow> 's \<Rightarrow> 's" where
  "run [] s = s"
| "run ((d, push, pop) # cs) s = run cs (step d push pop s)"

fun polite :: "('a \<times> bool \<times> bool) list \<Rightarrow> 's \<Rightarrow> bool" where
  "polite [] s = True"
| "polite ((d, push, pop) # cs) s =
     ((push \<longrightarrow> \<not> full s pop) \<and> polite cs (step d push pop s))"

fun popped :: "('a \<times> bool \<times> bool) list \<Rightarrow> 's \<Rightarrow> 'a list" where
  "popped [] s = []"
| "popped ((d, push, pop) # cs) s =
     (if pop \<and> \<not> is_empty s then [front s] else []) @ popped cs (step d push pop s)"

definition pushed :: "('a \<times> bool \<times> bool) list \<Rightarrow> 'a list" where
  "pushed cs = concat (map (\<lambda>(d, push, pop). if push then [d] else []) cs)"

lemma one_cycle:
  assumes "push \<longrightarrow> \<not> full s pop"
  shows "(if pop \<and> \<not> is_empty s then [front s] else []) @ content (step d push pop s) =
     content s @ (if push then [d] else [])"
proof (cases "is_empty s")
  case True
  then show ?thesis
    using content_step [OF assms, of d] empty_content [OF True] by simp
next
  case False
  then obtain x xs where "content s = x # xs" and "front s = x"
    using front_content [of s] by (cases "content s") auto
  then show ?thesis
    using content_step [OF assms, of d] False by simp
qed

lemma order_preserved:
  "polite cs s \<Longrightarrow> popped cs s @ content (run cs s) = content s @ pushed cs"
proof (induction cs arbitrary: s)
  case Nil
  then show ?case by (simp add: pushed_def)
next
  case (Cons c cs)
  obtain d push pop where c: "c = (d, push, pop)"
    by (cases c)
  have ok: "push \<longrightarrow> \<not> full s pop" and rest: "polite cs (step d push pop s)"
    using Cons.prems by (auto simp: c)
  have "popped cs (step d push pop s) @ content (run cs (step d push pop s)) =
      content (step d push pop s) @ pushed cs"
    by (rule Cons.IH [OF rest])
  then have "popped (c # cs) s @ content (run (c # cs) s) =
      ((if pop \<and> \<not> is_empty s then [front s] else []) @ content (step d push pop s)) @ pushed cs"
    by (simp add: c)
  also have "\<dots> = (content s @ (if push then [d] else [])) @ pushed cs"
    by (simp only: one_cycle [OF ok])
  finally show ?case
    by (simp add: c pushed_def)
qed

end

interpretation pipe: elastic_channel fifo_function_loop fifo_FULL fifo_EMPTY DOUT_R fifo_content
  by unfold_locales
    (auto simp: fifo_function_loop_def fifo_FULL_def fifo_EMPTY_def fifo_content_def
      split: if_splits)

subsection \<open>Packing of the payload\<close>

locale stage_codec =
  fixes enc :: "'r \<Rightarrow> 'w"
    and dec :: "'w \<Rightarrow> 'r"
    and valid :: "'r \<Rightarrow> bool"
  assumes dec_enc: "valid r \<Longrightarrow> dec (enc r) = r"
begin

lemma map_dec_enc: "\<forall>r \<in> set rs. valid r \<Longrightarrow> map dec (map enc rs) = rs"
  by (induction rs) (auto simp: dec_enc)

lemma enc_inject: "valid r \<Longrightarrow> valid r' \<Longrightarrow> enc r = enc r' \<Longrightarrow> r = r'"
  by (metis dec_enc)

end

locale stage_link = elastic_channel step full is_empty front content + stage_codec enc dec valid
  for step :: "'w \<Rightarrow> bool \<Rightarrow> bool \<Rightarrow> 's \<Rightarrow> 's"
    and full :: "'s \<Rightarrow> bool \<Rightarrow> bool"
    and is_empty :: "'s \<Rightarrow> bool"
    and front :: "'s \<Rightarrow> 'w"
    and content :: "'s \<Rightarrow> 'w list"
    and enc :: "'r \<Rightarrow> 'w"
    and dec :: "'w \<Rightarrow> 'r"
    and valid :: "'r \<Rightarrow> bool"
begin

text \<open>The cycles of a producer that packs a record each time it pushes.\<close>

definition packed :: "('r \<times> bool \<times> bool) list \<Rightarrow> ('w \<times> bool \<times> bool) list" where
  "packed cs = map (\<lambda>(r, push, pop). (enc r, push, pop)) cs"

definition sent :: "('r \<times> bool \<times> bool) list \<Rightarrow> 'r list" where
  "sent cs = concat (map (\<lambda>(r, push, pop). if push then [r] else []) cs)"

lemma pushed_packed: "pushed (packed cs) = map enc (sent cs)"
  by (induction cs) (auto simp: pushed_def packed_def sent_def)

lemma set_sent: "set (sent cs) \<subseteq> fst ` set cs"
  by (induction cs) (auto simp: sent_def)

theorem records_delivered:
  assumes polite: "polite (packed cs) s" and start: "content s = []"
    and ok: "\<forall>c \<in> set cs. valid (fst c)"
  shows "map dec (popped (packed cs) s) @ map dec (content (run (packed cs) s)) = sent cs"
proof -
  have "popped (packed cs) s @ content (run (packed cs) s) = map enc (sent cs)"
    using order_preserved [OF polite] by (simp add: start pushed_packed)
  moreover have "\<forall>r \<in> set (sent cs). valid r"
    using ok set_sent [of cs] by auto
  ultimately show ?thesis
    by (metis map_append map_dec_enc)
qed

end

subsection \<open>Properties\<close>

lemma fifo_content_length: "length (fifo_content s) \<le> 1"
  by (simp add: fifo_content_def)

text \<open>
  over any run whose producer respects the full flag, what the consumer takes, followed by
  what is still stored, is what was stored at first, followed by what was pushed, in order.
\<close>

theorem fifo_order:
  "pipe.polite cs s \<Longrightarrow>
     pipe.popped cs s @ fifo_content (pipe.run cs s) = fifo_content s @ pipe.pushed cs"
  by (rule pipe.order_preserved)

definition fifo_after_reset :: "u32 fifo" where
  "fifo_after_reset = \<lparr>fifo_v = False, DOUT_R = 0, wait_left = 1\<rparr>"

theorem fifo_order_witness:
  "let cs = [(5, True, False), (6, True, True), (0, False, True)] in
     pipe.polite cs fifo_after_reset \<and> pipe.popped cs fifo_after_reset = [5, 6]"
proof -
  let ?cs = "[(5, True, False), (6, True, True), (0, False, True)] :: (u32 \<times> bool \<times> bool) list"
  have polite: "pipe.polite ?cs fifo_after_reset"
    by (simp add: fifo_after_reset_def fifo_FULL_def fifo_function_loop_def)
  have "fifo_content (pipe.run ?cs fifo_after_reset) = []"
    by (simp add: fifo_after_reset_def fifo_function_loop_def fifo_content_def)
  then show ?thesis
    using polite fifo_order [OF polite]
    by (simp add: fifo_after_reset_def fifo_content_def pipe.pushed_def Let_def)
qed

end
