(* ===== verification/Stage_Interfaces.thy ===== *)
theory Stage_Interfaces
  imports Fifo
begin

text \<open>
  The payloads of the FIFOs between the pipeline stages.  Each payload is a record whose fields
  carry the names of the signals the receiving stage sees (\<open>*_RD\<close> after decode, \<open>*_RE\<close> after
  execute, \<open>*_RM\<close> after memory), with the bit layout of the \<open>concat\<close> and \<open>unconcat\<close> methods of
  the stage that owns the FIFO (\<open>DEC/dec.cpp\<close>, \<open>EXE/exec.cpp\<close>, \<open>MEM/mem.cpp\<close>).  The sending
  stage decides which of its signals goes into which field; that is in its own theory.

  Unpacking after packing is the identity, so that each link, with the FIFO between, delivers
  the records of the sender in order (interpretations of \<open>stage_link\<close>).
\<close>

record dec2exe_out =
  CSRRC_I_RD :: bool
  PC_BRANCH_VALUE_RD :: u32
  MULT_INST_RD :: bool
  EBREAK_RD :: bool
  INSTRUCTION_ACCESS_FAULT_RD :: bool
  MRET_RD :: bool
  BLOCK_BP_RD :: bool
  EXCEPTION_RD :: bool
  ENV_CALL_WRONG_MODE_RD :: bool
  ENV_CALL_U_MODE_RD :: bool
  ILLEGAL_INSTRUCTION_RD :: bool
  ADRESS_MISSALIGNED_RD :: bool
  ENV_CALL_M_MODE_RD :: bool
  ENV_CALL_S_MODE_RD :: bool
  CSR_RDATA_RD :: u32
  CSR_WENABLE_RD :: bool
  CSR_WADR_RD :: u12
  PC_DEC2EXE_RD :: u32
  BP_R1_VALID_RD :: bool
  BP_R2_VALID_RD :: bool
  BP_RADR1_RD :: u6
  BP_RADR2_RD :: u6
  EXE_CMD_RD :: u2
  OP1_RD :: u32
  OP2_RD :: u32
  NEG_OP2_RD :: bool
  WB_RD :: bool
  MEM_DATA_RD :: u32
  MEM_LOAD_RD :: bool
  MEM_STORE_RD :: bool
  MEM_SIGN_EXTEND_RD :: bool
  MEM_SIZE_RD :: u2
  SELECT_TYPE_OPERATIONS_RD :: "4 word"
  EXE_DEST_RD :: u6
  SLT_RD :: bool
  SLTU_RD :: bool

definition dec2exe_pack :: "dec2exe_out \<Rightarrow> 253 word" where
  "dec2exe_pack r =
     (put_bit 252 (CSRRC_I_RD r)
     (put 251 220 (PC_BRANCH_VALUE_RD r)
     (put_bit 219 (MULT_INST_RD r)
     (put_bit 218 (EBREAK_RD r)
     (put_bit 217 (INSTRUCTION_ACCESS_FAULT_RD r)
     (put_bit 216 (MRET_RD r)
     (put_bit 215 (BLOCK_BP_RD r)
     (put_bit 214 (EXCEPTION_RD r)
     (put_bit 213 (ENV_CALL_WRONG_MODE_RD r)
     (put_bit 212 (ENV_CALL_U_MODE_RD r)
     (put_bit 211 (ILLEGAL_INSTRUCTION_RD r)
     (put_bit 210 (ADRESS_MISSALIGNED_RD r)
     (put_bit 209 (ENV_CALL_M_MODE_RD r)
     (put_bit 208 (ENV_CALL_S_MODE_RD r)
     (put 207 176 (CSR_RDATA_RD r)
     (put_bit 175 (CSR_WENABLE_RD r)
     (put 174 163 (CSR_WADR_RD r)
     (put 162 131 (PC_DEC2EXE_RD r)
     (put_bit 130 (BP_R1_VALID_RD r)
     (put_bit 129 (BP_R2_VALID_RD r)
     (put 128 123 (BP_RADR1_RD r)
     (put 122 117 (BP_RADR2_RD r)
     (put 116 115 (EXE_CMD_RD r)
     (put 114 83 (OP1_RD r)
     (put 82 51 (OP2_RD r)
     (put_bit 50 (NEG_OP2_RD r)
     (put_bit 49 (WB_RD r)
     (put 48 17 (MEM_DATA_RD r)
     (put_bit 16 (MEM_LOAD_RD r)
     (put_bit 15 (MEM_STORE_RD r)
     (put_bit 14 (MEM_SIGN_EXTEND_RD r)
     (put 13 12 (MEM_SIZE_RD r)
     (put 11 8 (SELECT_TYPE_OPERATIONS_RD r)
     (put 7 2 (EXE_DEST_RD r)
     (put_bit 1 (SLT_RD r)
     (put_bit 0 (SLTU_RD r)
     0))))))))))))))))))))))))))))))))))))"

definition unconcat_dec2exe :: "253 word \<Rightarrow> dec2exe_out" where
  "unconcat_dec2exe v =
     \<lparr>CSRRC_I_RD = bit v 252,
      PC_BRANCH_VALUE_RD = rng 251 220 v,
      MULT_INST_RD = bit v 219,
      EBREAK_RD = bit v 218,
      INSTRUCTION_ACCESS_FAULT_RD = bit v 217,
      MRET_RD = bit v 216,
      BLOCK_BP_RD = bit v 215,
      EXCEPTION_RD = bit v 214,
      ENV_CALL_WRONG_MODE_RD = bit v 213,
      ENV_CALL_U_MODE_RD = bit v 212,
      ILLEGAL_INSTRUCTION_RD = bit v 211,
      ADRESS_MISSALIGNED_RD = bit v 210,
      ENV_CALL_M_MODE_RD = bit v 209,
      ENV_CALL_S_MODE_RD = bit v 208,
      CSR_RDATA_RD = rng 207 176 v,
      CSR_WENABLE_RD = bit v 175,
      CSR_WADR_RD = rng 174 163 v,
      PC_DEC2EXE_RD = rng 162 131 v,
      BP_R1_VALID_RD = bit v 130,
      BP_R2_VALID_RD = bit v 129,
      BP_RADR1_RD = rng 128 123 v,
      BP_RADR2_RD = rng 122 117 v,
      EXE_CMD_RD = rng 116 115 v,
      OP1_RD = rng 114 83 v,
      OP2_RD = rng 82 51 v,
      NEG_OP2_RD = bit v 50,
      WB_RD = bit v 49,
      MEM_DATA_RD = rng 48 17 v,
      MEM_LOAD_RD = bit v 16,
      MEM_STORE_RD = bit v 15,
      MEM_SIGN_EXTEND_RD = bit v 14,
      MEM_SIZE_RD = rng 13 12 v,
      SELECT_TYPE_OPERATIONS_RD = rng 11 8 v,
      EXE_DEST_RD = rng 7 2 v,
      SLT_RD = bit v 1,
      SLTU_RD = bit v 0\<rparr>"

lemma unconcat_dec2exe_dec2exe_pack: "unconcat_dec2exe (dec2exe_pack r) = r"
  by (simp add: unconcat_dec2exe_def dec2exe_pack_def range_simps)

record dec2if_out =
  PUSH_ADR_RAS_RD :: bool
  POP_ADR_RAS_RD :: bool
  RETURN_ADR_RD :: u32
  RET_INST_RD :: bool
  PRED_FAILED_RD :: bool
  PRED_SUCCESS_RD :: bool
  INSTR_IS_BRANCH_RD :: bool
  BRANCH_INST_ADR_RD :: u32
  BRANCH_TARGET_ADR_RD :: u32
  PC_RD :: u32

definition dec2if_pack :: "dec2if_out \<Rightarrow> 134 word" where
  "dec2if_pack r =
     (put_bit 133 (PUSH_ADR_RAS_RD r)
     (put_bit 132 (POP_ADR_RAS_RD r)
     (put 131 100 (RETURN_ADR_RD r)
     (put_bit 99 (RET_INST_RD r)
     (put_bit 98 (PRED_FAILED_RD r)
     (put_bit 97 (PRED_SUCCESS_RD r)
     (put_bit 96 (INSTR_IS_BRANCH_RD r)
     (put 95 64 (BRANCH_INST_ADR_RD r)
     (put 63 32 (BRANCH_TARGET_ADR_RD r)
     (put 31 0 (PC_RD r)
     0))))))))))"

definition unconcat_dec2if :: "134 word \<Rightarrow> dec2if_out" where
  "unconcat_dec2if v =
     \<lparr>PUSH_ADR_RAS_RD = bit v 133,
      POP_ADR_RAS_RD = bit v 132,
      RETURN_ADR_RD = rng 131 100 v,
      RET_INST_RD = bit v 99,
      PRED_FAILED_RD = bit v 98,
      PRED_SUCCESS_RD = bit v 97,
      INSTR_IS_BRANCH_RD = bit v 96,
      BRANCH_INST_ADR_RD = rng 95 64 v,
      BRANCH_TARGET_ADR_RD = rng 63 32 v,
      PC_RD = rng 31 0 v\<rparr>"

lemma unconcat_dec2if_dec2if_pack: "unconcat_dec2if (dec2if_pack r) = r"
  by (simp add: unconcat_dec2if_def dec2if_pack_def range_simps)

record exe2mem_out =
  EXE_RES_RE :: u32
  MEM_DATA_RE :: u32
  DEST_RE :: u6
  MEM_SIZE_RE :: u2
  WB_RE :: bool
  MEM_LOAD_RE :: bool
  MEM_STORE_RE :: bool
  MEM_SIGN_EXTEND_RE :: bool
  PC_EXE2MEM_RE :: u32
  CSR_WENABLE_RE :: bool
  CSR_WADR_RE :: u12
  CSR_RDATA_RE :: u32
  ENV_CALL_S_MODE_RE :: bool
  ENV_CALL_WRONG_MODE_RE :: bool
  ILLEGAL_INSTRUCTION_RE :: bool
  INSTRUCTION_ADRESS_MISSALIGNED_RE :: bool
  ENV_CALL_U_MODE_RE :: bool
  ENV_CALL_M_MODE_RE :: bool
  EXCEPTION_RE :: bool
  LOAD_ADRESS_MISSALIGNED_RE :: bool
  LOAD_ACCESS_FAULT_RE :: bool
  MRET_RE :: bool
  STORE_ADRESS_MISSALIGNED_RE :: bool
  STORE_ACCESS_FAULT_RE :: bool
  INSTRUCTION_ACCESS_FAULT_RE :: bool
  EBREAK_RE :: bool
  MULT_INST_RE :: bool
  PC_BRANCH_VALUE_RE :: u32

definition exe2mem_pack :: "exe2mem_out \<Rightarrow> 200 word" where
  "exe2mem_pack r =
     (put 31 0 (EXE_RES_RE r)
     (put 63 32 (MEM_DATA_RE r)
     (put 69 64 (DEST_RE r)
     (put 71 70 (MEM_SIZE_RE r)
     (put_bit 72 (WB_RE r)
     (put_bit 73 (MEM_LOAD_RE r)
     (put_bit 74 (MEM_STORE_RE r)
     (put_bit 75 (MEM_SIGN_EXTEND_RE r)
     (put 107 76 (PC_EXE2MEM_RE r)
     (put_bit 108 (CSR_WENABLE_RE r)
     (put 120 109 (CSR_WADR_RE r)
     (put 152 121 (CSR_RDATA_RE r)
     (put_bit 153 (ENV_CALL_S_MODE_RE r)
     (put_bit 154 (ENV_CALL_WRONG_MODE_RE r)
     (put_bit 155 (ILLEGAL_INSTRUCTION_RE r)
     (put_bit 156 (INSTRUCTION_ADRESS_MISSALIGNED_RE r)
     (put_bit 157 (ENV_CALL_U_MODE_RE r)
     (put_bit 158 (ENV_CALL_M_MODE_RE r)
     (put_bit 159 (EXCEPTION_RE r)
     (put_bit 160 (LOAD_ADRESS_MISSALIGNED_RE r)
     (put_bit 161 (LOAD_ACCESS_FAULT_RE r)
     (put_bit 162 (MRET_RE r)
     (put_bit 163 (STORE_ADRESS_MISSALIGNED_RE r)
     (put_bit 164 (STORE_ACCESS_FAULT_RE r)
     (put_bit 165 (INSTRUCTION_ACCESS_FAULT_RE r)
     (put_bit 166 (EBREAK_RE r)
     (put_bit 167 (MULT_INST_RE r)
     (put_rev 168 199 (PC_BRANCH_VALUE_RE r)
     0))))))))))))))))))))))))))))"

definition exe2mem_unconcat :: "200 word \<Rightarrow> exe2mem_out" where
  "exe2mem_unconcat v =
     \<lparr>EXE_RES_RE = rng 31 0 v,
      MEM_DATA_RE = rng 63 32 v,
      DEST_RE = rng 69 64 v,
      MEM_SIZE_RE = rng 71 70 v,
      WB_RE = bit v 72,
      MEM_LOAD_RE = bit v 73,
      MEM_STORE_RE = bit v 74,
      MEM_SIGN_EXTEND_RE = bit v 75,
      PC_EXE2MEM_RE = rng 107 76 v,
      CSR_WENABLE_RE = bit v 108,
      CSR_WADR_RE = rng 120 109 v,
      CSR_RDATA_RE = rng 152 121 v,
      ENV_CALL_S_MODE_RE = bit v 153,
      ENV_CALL_WRONG_MODE_RE = bit v 154,
      ILLEGAL_INSTRUCTION_RE = bit v 155,
      INSTRUCTION_ADRESS_MISSALIGNED_RE = bit v 156,
      ENV_CALL_U_MODE_RE = bit v 157,
      ENV_CALL_M_MODE_RE = bit v 158,
      EXCEPTION_RE = bit v 159,
      LOAD_ADRESS_MISSALIGNED_RE = bit v 160,
      LOAD_ACCESS_FAULT_RE = bit v 161,
      MRET_RE = bit v 162,
      STORE_ADRESS_MISSALIGNED_RE = bit v 163,
      STORE_ACCESS_FAULT_RE = bit v 164,
      INSTRUCTION_ACCESS_FAULT_RE = bit v 165,
      EBREAK_RE = bit v 166,
      MULT_INST_RE = bit v 167,
      PC_BRANCH_VALUE_RE = rng_rev 168 199 v\<rparr>"

lemma exe2mem_unconcat_exe2mem_pack: "exe2mem_unconcat (exe2mem_pack r) = r"
  by (simp add: exe2mem_unconcat_def exe2mem_pack_def range_simps)

text \<open>
  \<open>mem2wbk_concat\<close> keeps five bits of the six-bit destination and stores the program counter in
  a slot of 36 bits.
\<close>

record mem2wbk_out =
  MEM_RES_RM :: u32
  DEST_RM :: u6
  WB_RM :: bool
  PC_MEM2WBK_RM :: u32
  CSR_WENABLE_RM :: bool
  CSR_RDATA_RM :: u32
  MULT_INST_RM :: bool

definition mem2wbk_pack :: "mem2wbk_out \<Rightarrow> 108 word" where
  "mem2wbk_pack r =
     (put 31 0 (MEM_RES_RM r)
     (put 36 32 (DEST_RM r)
     (put_bit 37 (WB_RM r)
     (put 73 38 (PC_MEM2WBK_RM r)
     (put_bit 74 (CSR_WENABLE_RM r)
     (put 106 75 (CSR_RDATA_RM r)
     (put_bit 107 (MULT_INST_RM r)
     0)))))))"

definition mem2wbk_unconcat :: "108 word \<Rightarrow> mem2wbk_out" where
  "mem2wbk_unconcat v =
     \<lparr>MEM_RES_RM = rng 31 0 v,
      DEST_RM = rng 36 32 v,
      WB_RM = bit v 37,
      PC_MEM2WBK_RM = rng 73 38 v,
      CSR_WENABLE_RM = bit v 74,
      CSR_RDATA_RM = rng 106 75 v,
      MULT_INST_RM = bit v 107\<rparr>"

lemma rng_dest: "(rng 36 32 (put 36 32 (d :: u6) (x :: 108 word)) :: u6) = take_bit 5 d"
  by (rule bit_word_eqI) (auto simp: bit_rng bit_put bit_simps)

lemma mem2wbk_unconcat_mem2wbk_pack:
  "mem2wbk_unconcat (mem2wbk_pack r) = r\<lparr>DEST_RM := take_bit 5 (DEST_RM r)\<rparr>"
  by (simp add: mem2wbk_unconcat_def mem2wbk_pack_def range_simps rng_dest)

definition dest_ok :: "mem2wbk_out \<Rightarrow> bool" where
  "dest_ok r \<longleftrightarrow> DEST_RM r < 32"

lemma take_bit_dest: "d < 32 \<Longrightarrow> take_bit 5 d = d" for d :: u6
  by (simp add: take_bit_eq_mod word_less_nat_alt word_unat_eq_iff unat_mod)

subsection \<open>The links between the stages\<close>

interpretation dec2exe_link: stage_link fifo_function_loop fifo_FULL fifo_EMPTY DOUT_R fifo_content
  dec2exe_pack unconcat_dec2exe "\<lambda>_. True"
  by unfold_locales (simp add: unconcat_dec2exe_dec2exe_pack)

interpretation dec2if_link: stage_link fifo_function_loop fifo_FULL fifo_EMPTY DOUT_R fifo_content
  dec2if_pack unconcat_dec2if "\<lambda>_. True"
  by unfold_locales (simp add: unconcat_dec2if_dec2if_pack)

interpretation exe2mem_link: stage_link fifo_function_loop fifo_FULL fifo_EMPTY DOUT_R fifo_content
  exe2mem_pack exe2mem_unconcat "\<lambda>_. True"
  by unfold_locales (simp add: exe2mem_unconcat_exe2mem_pack)

interpretation mem2wbk_link: stage_link fifo_function_loop fifo_FULL fifo_EMPTY DOUT_R fifo_content
  mem2wbk_pack mem2wbk_unconcat dest_ok
  by unfold_locales (simp add: mem2wbk_unconcat_mem2wbk_pack dest_ok_def take_bit_dest)


subsection \<open>The value an instruction will write\<close>

text \<open>A CSR instruction writes the old value of the CSR into its register.\<close>

definition value_re :: "exe2mem_out \<Rightarrow> u32" where
  "value_re re = (if CSR_WENABLE_RE re then CSR_RDATA_RE re else EXE_RES_RE re)"

definition value_rm :: "mem2wbk_out \<Rightarrow> u32" where
  "value_rm rm = (if CSR_WENABLE_RM rm then CSR_RDATA_RM rm else MEM_RES_RM rm)"

subsection \<open>Properties\<close>

text \<open>
  C19: the records that the memory stage unpacks from the \<open>exe2mem\<close> FIFO, with the one still
  stored, are the records that the execute stage sent, in order.
\<close>

theorem exe2mem_records_delivered:
  assumes "pipe.polite (exe2mem_link.packed cs) s" "fifo_content s = []"
  shows "map exe2mem_unconcat (pipe.popped (exe2mem_link.packed cs) s) @
    map exe2mem_unconcat (fifo_content (pipe.run (exe2mem_link.packed cs) s)) =
    exe2mem_link.sent cs"
  using assms by (intro exe2mem_link.records_delivered) simp_all

theorem exe2mem_records_delivered_witness:
  "\<exists>cs s. pipe.polite (exe2mem_link.packed cs) s \<and> fifo_content s = [] \<and>
     exe2mem_link.sent cs = [exe2mem_unconcat 1, exe2mem_unconcat 2] \<and>
     map exe2mem_unconcat (pipe.popped (exe2mem_link.packed cs) s) @
       map exe2mem_unconcat (fifo_content (pipe.run (exe2mem_link.packed cs) s)) =
     [exe2mem_unconcat 1, exe2mem_unconcat 2]"
proof -
  let ?cs = "[(exe2mem_unconcat 1, True, False), (exe2mem_unconcat 2, True, True)]"
  let ?s = "\<lparr>fifo_v = False, DOUT_R = 0, wait_left = 1\<rparr> :: 200 word fifo"
  have "pipe.polite (exe2mem_link.packed ?cs) ?s" "fifo_content ?s = []"
    "exe2mem_link.sent ?cs = [exe2mem_unconcat 1, exe2mem_unconcat 2]"
    by (simp_all add: exe2mem_link.packed_def exe2mem_link.sent_def fifo_FULL_def
        fifo_function_loop_def fifo_content_def)
  then show ?thesis
    using exe2mem_records_delivered [of ?cs ?s] by metis
qed

text \<open>
  The destination keeps five of its six bits on the way to write-back; everything else
  arrives as it was sent.
\<close>

theorem mem2wbk_round_trip:
  "mem2wbk_unconcat (mem2wbk_pack r) = r\<lparr>DEST_RM := take_bit 5 (DEST_RM r)\<rparr>"
  by (rule mem2wbk_unconcat_mem2wbk_pack)

end
