(* ===== verification/Decode.thy ===== *)
theory Decode
  imports Decode_Instr Stage_Interfaces Rv32_Spec
begin

text \<open>
  The decode stage (\<open>SIM/SystemC/CORE/DEC/dec.cpp\<close>, \<open>dec.h\<close>): register addresses and
  environment calls (\<open>pre_reg_read_decoding\<close>), operands, commands and branch conditions
  (\<open>post_reg_read_decoding\<close>), the program counter and the handshakes (\<open>pc_inc\<close>), bypasses and
  stalls, and the payloads for the execute and the fetch stage.

  Every method has the record of the signals it writes as its state, and reads the records
  of the others.  A signal that a branch does not write keeps its value.  Locals of type
  \<open>sc_uint\<close> start at 0; the three locals of type \<open>bool\<close> that a branch may leave unassigned
  are parameters (\<open>uninit\<close>).
\<close>

subsection \<open>Signals\<close>

record dec_in =
  INSTR_RI :: u32
  PC_IF2DEC_RI :: u32
  IF2DEC_EMPTY_SI :: bool
  PRED_BRANCH_ADR_RI :: u32
  PRED_TAKEN_RI :: bool
  RDATA1_SR :: u32
  RDATA2_SR :: u32
  READ_PC_SR :: u32
  CSR_RDATA_SC :: u32
  KERNEL_ADR_SC :: u32
  CURRENT_MODE_SM :: u2
  EXCEPTION_SM :: bool
  MTVEC_VALUE_RC :: u32
  MCAUSE_WDATA_SM :: u32
  MRET_SM :: bool
  RETURN_ADRESS_SM :: u32
  EXE2MEM_EMPTY_SE :: bool
  MEM2WBK_EMPTY_SM :: bool
  DEC2EXE_EMPTY_SD :: bool
  dec2exe_full_sd :: bool
  dec2if_full_sd :: bool
  dec2if_empty_sd :: bool

record dec_reg =
  RADR1_SD :: u6
  RADR2_SD :: u6
  adr_dest_sd :: u6
  CSR_RADR_SD :: u12
  csr_radr_sd :: u12
  env_call_u_mode_sd :: bool
  env_call_s_mode_sd :: bool
  env_call_m_mode_sd :: bool
  env_call_wrong_mode :: bool

record dec_byp =
  rdata1_sd :: u32
  rdata2_sd :: u32
  r1_valid_sd :: bool
  r2_valid_sd :: bool
  block_in_dec :: bool
  dependence_on_mult :: bool

record dec_ops =
  csr_wenable_sd :: bool
  exe_cmd_sd :: u2
  exe_neg_op2_sd :: bool
  mem_load_sd :: bool
  mem_store_sd :: bool
  mem_size_sd :: u2
  mem_sign_extend_sd :: bool
  select_type_operations_sd :: "4 word"
  illegal_instruction_sd :: bool
  block_bp_sd :: bool
  exe_wb_sd :: bool
  offset_branch_sd :: u32
  exe_op1_sd :: u32
  exe_op2_sd :: u32
  mem_data_sd :: u32
  jump_sd :: bool

record dec_stall =
  csr_in_progress :: bool
  stall_sd :: bool

record dec_pc =
  branch_adr_sd :: u32
  DEC2IF_EMPTY_SD :: bool
  res_pc_sd :: u32
  WRITE_PC_SD :: u32
  WRITE_PC_ENABLE_SD :: bool
  IF2DEC_POP_SD :: bool
  IF2DEC_FLUSH_SD :: bool
  dec2if_push_sd :: bool
  dec2exe_push_sd :: bool
  pred_success_sd :: bool
  pred_failed_sd :: bool
  pc_branch_value_sd :: u32
  instruction_adress_missaligned_sd :: bool
  instruction_access_fault_sd :: bool

record dec_uninit =
  uninit_wb :: bool
  uninit_not_jump :: bool
  uninit_branch :: bool

subsection \<open>Register addresses and environment calls\<close>

definition dec_set_regs :: "u6 \<Rightarrow> u6 \<Rightarrow> u6 \<Rightarrow> dec_reg \<Rightarrow> dec_reg" where
  "dec_set_regs r1 r2 rd s = s\<lparr>RADR1_SD := r1, RADR2_SD := r2, adr_dest_sd := rd\<rparr>"

definition dec_csr_inst :: "instr_flags \<Rightarrow> bool" where
  "dec_csr_inst f \<longleftrightarrow> csrrw_i_sd f \<or> csrrs_i_sd f \<or> csrrc_i_sd f \<or> csrrwi_i_sd f \<or>
     csrrsi_i_sd f \<or> csrrci_i_sd f"

definition dec_env_call :: "dec_in \<Rightarrow> instr_flags \<Rightarrow> dec_reg \<Rightarrow> dec_reg" where
  "dec_env_call i f s =
     (if CURRENT_MODE_SM i = 0 \<and> ecall_i_sd f then
        s\<lparr>env_call_u_mode_sd := True, env_call_s_mode_sd := False, env_call_m_mode_sd := False\<rparr>
      else if ecall_i_sd f \<and> CURRENT_MODE_SM i = 3 then
        s\<lparr>env_call_u_mode_sd := False, env_call_s_mode_sd := False, env_call_m_mode_sd := True\<rparr>
      else
        s\<lparr>env_call_u_mode_sd := False, env_call_s_mode_sd := False, env_call_m_mode_sd := False\<rparr>)"

definition dec_xret :: "dec_in \<Rightarrow> instr_flags \<Rightarrow> dec_reg \<Rightarrow> dec_reg" where
  "dec_xret i f s =
     (if mret_i_sd f \<and> CURRENT_MODE_SM i \<noteq> 3 then s\<lparr>env_call_wrong_mode := True\<rparr>
      else if sret_i_sd f \<and> CURRENT_MODE_SM i \<noteq> 2 then s\<lparr>env_call_s_mode_sd := True\<rparr>
      else s\<lparr>env_call_wrong_mode := False\<rparr>)"

definition dec_pre_reg_read ::
  "dec_in \<Rightarrow> instr_type \<Rightarrow> instr_flags \<Rightarrow> dec_reg \<Rightarrow> dec_reg" where
  "dec_pre_reg_read i t f s =
     (let ir = INSTR_RI i;
          rs1 = rng 19 15 ir; rs2 = rng 24 20 ir; rd = rng 11 7 ir;
          s1 =
            (if r_type_inst_sd t then dec_set_regs rs1 rs2 rd (s\<lparr>CSR_RADR_SD := 0\<rparr>)
             else if i_type_inst_sd t then dec_set_regs rs1 0 rd (s\<lparr>CSR_RADR_SD := 0\<rparr>)
             else if s_type_inst_sd t then dec_set_regs rs1 rs2 0 (s\<lparr>CSR_RADR_SD := 0\<rparr>)
             else if b_type_inst_sd t then dec_set_regs rs1 rs2 0 (s\<lparr>CSR_RADR_SD := 0\<rparr>)
             else if u_type_inst_sd t then dec_set_regs 0 0 rd (s\<lparr>CSR_RADR_SD := 0\<rparr>)
             else if j_type_inst_sd t then dec_set_regs 0 0 rd (s\<lparr>CSR_RADR_SD := 0\<rparr>)
             else if jalr_type_inst_sd t then dec_set_regs rs1 0 rd (s\<lparr>CSR_RADR_SD := 0\<rparr>)
             else if m_type_inst_sd t then dec_set_regs rs1 rs2 rd s
             else if system_type_inst_sd t then
               (if dec_csr_inst f then
                  dec_set_regs (if csrrw_i_sd f \<or> csrrs_i_sd f \<or> csrrc_i_sd f then rs1 else 0) 0 rd
                    (s\<lparr>CSR_RADR_SD := rng 31 20 ir, csr_radr_sd := rng 31 20 ir\<rparr>)
                else if ecall_i_sd f \<or> ebreak_i_sd f then dec_set_regs 0 0 0 (dec_env_call i f s)
                else if sret_i_sd f \<or> mret_i_sd f then dec_set_regs 0 0 0 (dec_xret i f s)
                else dec_set_regs 0 0 0 s)
             else dec_set_regs 0 0 0 s);
          s2 =
            (if \<not> ecall_i_sd f then
               s1\<lparr>env_call_u_mode_sd := False, env_call_s_mode_sd := False,
                  env_call_m_mode_sd := False\<rparr>
             else s1)
      in if \<not> mret_i_sd f \<or> \<not> sret_i_sd f then s2\<lparr>env_call_wrong_mode := False\<rparr> else s2)"

subsection \<open>Operands, commands and branch conditions\<close>

text \<open>The locals of \<open>post_reg_read_decoding\<close>.\<close>

record dec_locals =
  dec2exe_wb_var :: bool
  dec2exe_op1_var :: u32
  dec2exe_op2_var :: u32
  mem_data_var :: u32
  offset_branch_var :: u32
  not_jump_var :: bool
  illegal_inst :: bool

definition dec_locals_init :: "dec_uninit \<Rightarrow> dec_locals" where
  "dec_locals_init u =
     \<lparr>dec2exe_wb_var = uninit_wb u, dec2exe_op1_var = 0, dec2exe_op2_var = 0, mem_data_var = 0,
      offset_branch_var = 0, not_jump_var = uninit_not_jump u, illegal_inst = False\<rparr>"

definition dec_alu_operands ::
  "dec_in \<Rightarrow> instr_type \<Rightarrow> instr_flags \<Rightarrow> dec_byp \<Rightarrow> dec_locals \<Rightarrow> dec_locals" where
  "dec_alu_operands i t f b l =
     (if i_type_inst_sd t then
        l\<lparr>dec2exe_op1_var := rdata1_sd b, dec2exe_op2_var := dec_imm_i (INSTR_RI i)\<rparr>
      else if u_type_inst_sd t then
        l\<lparr>dec2exe_op1_var := dec_imm_u (INSTR_RI i),
          dec2exe_op2_var := (if auipc_i_sd f then PC_IF2DEC_RI i else rdata2_sd b)\<rparr>
      else l\<lparr>dec2exe_op1_var := rdata1_sd b, dec2exe_op2_var := rdata2_sd b\<rparr>)"

definition dec_load_size :: "instr_flags \<Rightarrow> dec_ops \<Rightarrow> dec_ops" where
  "dec_load_size f s =
     (if lw_i_sd f \<or> lh_i_sd f \<or> lhu_i_sd f \<or> lb_i_sd f \<or> lbu_i_sd f then
        (let s1 = s\<lparr>mem_load_sd := True\<rparr> in
         if lw_i_sd f then s1\<lparr>mem_size_sd := 0, mem_sign_extend_sd := False\<rparr>
         else if lh_i_sd f \<or> lhu_i_sd f then
           s1\<lparr>mem_size_sd := 1, mem_sign_extend_sd := (if lhu_i_sd f then False else True)\<rparr>
         else if lb_i_sd f \<or> lbu_i_sd f then
           s1\<lparr>mem_size_sd := 2, mem_sign_extend_sd := (if lbu_i_sd f then False else True)\<rparr>
         else s1)
      else s\<lparr>mem_load_sd := False, mem_size_sd := 0, mem_sign_extend_sd := False\<rparr>)"

definition dec_alu_cmd :: "instr_flags \<Rightarrow> u2" where
  "dec_alu_cmd f =
     (if and_i_sd f \<or> andi_i_sd f \<or> srl_i_sd f \<or> srli_i_sd f \<or> mul_i_sd f \<or> div_i_sd f then 1
      else if or_i_sd f \<or> ori_i_sd f \<or> sra_i_sd f \<or> srai_i_sd f \<or> mulh_i_sd f \<or> divu_i_sd f then 2
      else if xor_i_sd f \<or> xori_i_sd f \<or> mulhu_i_sd f \<or> rem_i_sd f then 3
      else 0)"

definition dec_alu_select :: "instr_flags \<Rightarrow> 4 word" where
  "dec_alu_select f =
     (if div_i_sd f \<or> divu_i_sd f \<or> rem_i_sd f \<or> remu_i_sd f then 0b1000
      else if mul_i_sd f \<or> mulh_i_sd f \<or> mulhsu_i_sd f \<or> mulhu_i_sd f then 0b0100
      else if sll_i_sd f \<or> slli_i_sd f \<or> srl_i_sd f \<or> srli_i_sd f \<or> sra_i_sd f \<or> srai_i_sd f
        then 0b0010
      else 0b0001)"

definition dec_alu_neg :: "instr_flags \<Rightarrow> bool" where
  "dec_alu_neg f \<longleftrightarrow> sub_i_sd f \<or> slt_i_sd f \<or> slti_i_sd f \<or> sltu_i_sd f \<or> sltiu_i_sd f"

definition dec_post_alu ::
  "dec_in \<Rightarrow> instr_type \<Rightarrow> instr_flags \<Rightarrow> dec_byp \<Rightarrow> dec_locals \<Rightarrow> dec_ops \<Rightarrow> dec_ops \<times> dec_locals"
where
  "dec_post_alu i t f b l s =
     ((dec_load_size f (s\<lparr>csr_wenable_sd := False\<rparr>))
        \<lparr>mem_store_sd := False, exe_neg_op2_sd := dec_alu_neg f, exe_cmd_sd := dec_alu_cmd f,
         select_type_operations_sd := dec_alu_select f\<rparr>,
      (dec_alu_operands i t f b l)
        \<lparr>dec2exe_wb_var := True, mem_data_var := 0, offset_branch_var := 0,
         not_jump_var := True\<rparr>)"

text \<open>Stores do not assign \<open>dec2exe_wb_var\<close> and do not write \<open>mem_sign_extend_sd\<close>.\<close>

definition dec_post_store ::
  "dec_in \<Rightarrow> instr_flags \<Rightarrow> dec_byp \<Rightarrow> dec_locals \<Rightarrow> dec_ops \<Rightarrow> dec_ops \<times> dec_locals" where
  "dec_post_store i f b l s =
     (let s1 = s\<lparr>csr_wenable_sd := False, exe_cmd_sd := 0, select_type_operations_sd := 0b0001,
                exe_neg_op2_sd := False, mem_load_sd := False\<rparr>;
          s2 = (if sw_i_sd f \<or> sh_i_sd f \<or> sb_i_sd f then
                  (let s3 = s1\<lparr>mem_store_sd := True\<rparr> in
                   if sw_i_sd f then s3\<lparr>mem_size_sd := 0\<rparr>
                   else if sh_i_sd f then s3\<lparr>mem_size_sd := 1\<rparr>
                   else if sb_i_sd f then s3\<lparr>mem_size_sd := 2\<rparr>
                   else s3)
                else s1\<lparr>mem_size_sd := 0, mem_store_sd := False\<rparr>)
      in (s2,
          l\<lparr>offset_branch_var := 0, not_jump_var := True, dec2exe_op1_var := rdata1_sd b,
            dec2exe_op2_var := dec_imm_s (INSTR_RI i), mem_data_var := rdata2_sd b\<rparr>))"

definition dec_branch_taken :: "instr_flags \<Rightarrow> u32 \<Rightarrow> u32 \<Rightarrow> bool \<Rightarrow> bool" where
  "dec_branch_taken f op1 op2 branch0 =
     (let res_comparaison = ucast op1 - ucast op2 :: 33 word;
          different_sign = (bit op1 31 \<noteq> bit op2 31);
          equal = (res_comparaison = 0)
      in if bne_i_sd f then \<not> equal
         else if beq_i_sd f then equal
         else if blt_i_sd f then
           (if different_sign then bit op1 31 else bit res_comparaison 31)
         else if bltu_i_sd f then
           (if different_sign then bit op2 31 else bit res_comparaison 31)
         else if bge_i_sd f then
           (if different_sign then bit op2 31 else \<not> bit res_comparaison 31)
         else if bgeu_i_sd f then
           (if different_sign then bit op1 31 else \<not> bit res_comparaison 31)
         else branch0)"

definition dec_post_branch ::
  "dec_in \<Rightarrow> instr_flags \<Rightarrow> dec_byp \<Rightarrow> bool \<Rightarrow> dec_locals \<Rightarrow> dec_ops \<Rightarrow> dec_ops \<times> dec_locals" where
  "dec_post_branch i f b branch0 l s =
     (s\<lparr>csr_wenable_sd := False, mem_load_sd := False, mem_store_sd := False,
        mem_sign_extend_sd := False, mem_size_sd := 0, exe_cmd_sd := 0,
        select_type_operations_sd := 0b0001, exe_neg_op2_sd := False\<rparr>,
      l\<lparr>dec2exe_wb_var := True, mem_data_var := 0, offset_branch_var := dec_imm_b (INSTR_RI i),
        dec2exe_op1_var := rdata1_sd b, dec2exe_op2_var := rdata2_sd b,
        not_jump_var := (\<not> dec_branch_taken f (rdata1_sd b) (rdata2_sd b) branch0)\<rparr>)"

definition dec_post_jump ::
  "dec_in \<Rightarrow> instr_type \<Rightarrow> dec_byp \<Rightarrow> dec_locals \<Rightarrow> dec_ops \<Rightarrow> dec_ops \<times> dec_locals" where
  "dec_post_jump i t b l s =
     (s\<lparr>csr_wenable_sd := False, exe_cmd_sd := 0, exe_neg_op2_sd := False, mem_load_sd := False,
        mem_store_sd := False, mem_sign_extend_sd := False, mem_size_sd := 0,
        select_type_operations_sd := 1\<rparr>,
      l\<lparr>dec2exe_wb_var := True, mem_data_var := 0, dec2exe_op1_var := READ_PC_SR i,
        dec2exe_op2_var := 0,
        offset_branch_var :=
          (if jalr_type_inst_sd t then
             put_bit 0 False (dec_imm_i (INSTR_RI i) + (rdata1_sd b - READ_PC_SR i + 4))
           else dec_imm_j (INSTR_RI i)),
        not_jump_var := False\<rparr>)"

definition dec_csr_operands :: "dec_in \<Rightarrow> instr_flags \<Rightarrow> dec_byp \<Rightarrow> dec_locals \<Rightarrow> dec_locals" where
  "dec_csr_operands i f b l =
     (let uimm = ucast (rng 19 15 (INSTR_RI i) :: 5 word) :: u32 in
      l\<lparr>dec2exe_op1_var :=
          (if csrrw_i_sd f \<or> csrrc_i_sd f \<or> csrrs_i_sd f then
             (if \<not> csrrc_i_sd f then rdata1_sd b else NOT (rdata1_sd b))
           else (if \<not> csrrci_i_sd f then uimm else NOT uimm)),
        dec2exe_op2_var :=
          (if csrrs_i_sd f \<or> csrrc_i_sd f \<or> csrrsi_i_sd f \<or> csrrci_i_sd f then CSR_RDATA_SC i
           else 0),
        dec2exe_wb_var := True, offset_branch_var := 0, mem_data_var := 0,
        not_jump_var := True\<rparr>)"

definition dec_no_operands :: "dec_locals \<Rightarrow> dec_locals" where
  "dec_no_operands l =
     l\<lparr>dec2exe_op1_var := 0, dec2exe_op2_var := 0, dec2exe_wb_var := False,
       offset_branch_var := 0, mem_data_var := 0, not_jump_var := True\<rparr>"

definition dec_post_system ::
  "dec_in \<Rightarrow> instr_flags \<Rightarrow> dec_byp \<Rightarrow> dec_locals \<Rightarrow> dec_ops \<Rightarrow> dec_ops \<times> dec_locals" where
  "dec_post_system i f b l s =
     (let s1 = s\<lparr>mem_load_sd := False, mem_store_sd := False, mem_sign_extend_sd := False,
                mem_size_sd := 0, select_type_operations_sd := 1\<rparr>
      in if dec_csr_inst f then
           (s1\<lparr>csr_wenable_sd := True, exe_neg_op2_sd := False,
               exe_cmd_sd := (if csrrc_i_sd f \<or> csrrci_i_sd f then 1
                              else if csrrw_i_sd f \<or> csrrwi_i_sd f then 0 else 2)\<rparr>,
            dec_csr_operands i f b l)
         else if ecall_i_sd f \<or> ebreak_i_sd f \<or> sret_i_sd f \<or> mret_i_sd f then
           (s1\<lparr>csr_wenable_sd := False, exe_cmd_sd := 0, exe_neg_op2_sd := False\<rparr>,
            dec_no_operands l)
         else (s1, l))"

definition dec_post_fence :: "dec_locals \<Rightarrow> dec_ops \<Rightarrow> dec_ops \<times> dec_locals" where
  "dec_post_fence l s =
     (s\<lparr>csr_wenable_sd := False, exe_cmd_sd := 0, exe_neg_op2_sd := False, mem_load_sd := False,
        mem_store_sd := False, mem_sign_extend_sd := False, mem_size_sd := 0,
        select_type_operations_sd := 0b0001\<rparr>,
      dec_no_operands l)"

definition dec_post_illegal :: "dec_locals \<Rightarrow> dec_ops \<Rightarrow> dec_ops \<times> dec_locals" where
  "dec_post_illegal l s =
     (s\<lparr>csr_wenable_sd := False, exe_cmd_sd := 0, exe_neg_op2_sd := False, mem_load_sd := False,
        mem_store_sd := False, mem_sign_extend_sd := False, mem_size_sd := 0,
        select_type_operations_sd := 0b0001\<rparr>,
      l\<lparr>dec2exe_op1_var := 0, dec2exe_op2_var := 0, dec2exe_wb_var := False,
        illegal_inst := True\<rparr>)"

text \<open>The second detection of illegal instructions, from the function fields.\<close>

definition dec_illegal_fields :: "u32 \<Rightarrow> instr_type \<Rightarrow> bool \<Rightarrow> bool" where
  "dec_illegal_fields ir t illegal =
     (if r_type_inst_sd t then illegal \<or> (funct7 ir \<noteq> 0 \<and> funct7 ir \<noteq> 0b0100000)
      else if b_type_inst_sd t then illegal \<or> funct3 ir = 2 \<or> funct3 ir = 3
      else if s_type_inst_sd t then illegal \<or> funct3 ir > 2
      else if system_type_inst_sd t then illegal \<or> funct3 ir = 4
      else illegal)"

definition dec_post_reg_read ::
  "dec_uninit \<Rightarrow> dec_in \<Rightarrow> instr_type \<Rightarrow> instr_flags \<Rightarrow> dec_byp \<Rightarrow> dec_ops \<Rightarrow> dec_ops" where
  "dec_post_reg_read u i t f b s0 =
     (let l0 = dec_locals_init u;
          (s, l) =
            (if r_type_inst_sd t \<or> i_type_inst_sd t \<or> u_type_inst_sd t \<or> m_type_inst_sd t then
               dec_post_alu i t f b l0 s0
             else if s_type_inst_sd t then dec_post_store i f b l0 s0
             else if b_type_inst_sd t then dec_post_branch i f b (uninit_branch u) l0 s0
             else if jalr_type_inst_sd t \<or> j_type_inst_sd t then dec_post_jump i t b l0 s0
             else if system_type_inst_sd t then dec_post_system i f b l0 s0
             else if fence_i_sd f then dec_post_fence l0 s0
             else dec_post_illegal l0 s0);
          illegal = dec_illegal_fields (INSTR_RI i) t (illegal_inst l) \<and> \<not> IF2DEC_EMPTY_SI i
      in s\<lparr>illegal_instruction_sd := illegal, block_bp_sd := jalr_type_inst_sd t,
           exe_wb_sd := dec2exe_wb_var l, offset_branch_sd := offset_branch_var l,
           exe_op1_sd := dec2exe_op1_var l, exe_op2_sd := dec2exe_op2_var l,
           mem_data_sd := mem_data_var l, jump_sd := (\<not> not_jump_var l)\<rparr>)"


subsection \<open>Bypasses\<close>

text \<open>
  The result of a register read: whether the operand is valid, and the value, unless the
  branch leaves the old value.
\<close>

definition dec_bypass ::
  "dec_in \<Rightarrow> instr_flags \<Rightarrow> dec2exe_out \<Rightarrow> exe2mem_out \<Rightarrow> mem2wbk_out \<Rightarrow> u6 \<Rightarrow> u32 \<Rightarrow> u32 \<Rightarrow>
     u32 \<times> bool" where
  "dec_bypass i f rd re rm radr rdata_sr old =
     (if radr = 0 then (rdata_sr, True)
      else if radr = EXE_DEST_RD rd \<and> \<not> DEC2EXE_EMPTY_SD i then (old, False)
      else if radr = DEST_RE re \<and> MEM_LOAD_RE re \<and> \<not> EXE2MEM_EMPTY_SE i then (old, False)
      else if radr = DEST_RE re \<and> MULT_INST_RE re \<and> \<not> EXE2MEM_EMPTY_SE i then (old, False)
      else if radr = DEST_RM rm \<and> MULT_INST_RM rm \<and> \<not> MEM2WBK_EMPTY_SM i then (old, False)
      else if radr = DEST_RE re \<and> \<not> EXE2MEM_EMPTY_SE i then
        (if CSR_WENABLE_RE re then CSR_RDATA_RE re
         else if csrrc_i_sd f then NOT (EXE_RES_RE re)
         else EXE_RES_RE re, True)
      else if radr = DEST_RM rm \<and> \<not> MEM2WBK_EMPTY_SM i then
        (if CSR_WENABLE_RM rm then CSR_RDATA_RM rm
         else if csrrc_i_sd f then NOT (MEM_RES_RM rm)
         else MEM_RES_RM rm, True)
      else (rdata_sr, True))"

definition dec_bypasses ::
  "dec_in \<Rightarrow> instr_flags \<Rightarrow> dec_reg \<Rightarrow> dec2exe_out \<Rightarrow> exe2mem_out \<Rightarrow> mem2wbk_out \<Rightarrow> dec_byp \<Rightarrow>
     dec_byp" where
  "dec_bypasses i f r rd re rm s =
     (let (v1, ok1) = dec_bypass i f rd re rm (RADR1_SD r) (RDATA1_SR i) (rdata1_sd s);
          (v2, ok2) = dec_bypass i f rd re rm (RADR2_SD r) (RDATA2_SR i) (rdata2_sd s)
      in \<lparr>rdata1_sd = v1, rdata2_sd = v2, r1_valid_sd = ok1, r2_valid_sd = ok2,
          block_in_dec =
            ((RADR1_SD r = EXE_DEST_RD rd \<and> MEM_LOAD_RD rd \<and> \<not> DEC2EXE_EMPTY_SD i) \<or>
             (RADR2_SD r = EXE_DEST_RD rd \<and> MEM_LOAD_RD rd \<and> \<not> DEC2EXE_EMPTY_SD i)),
          dependence_on_mult =
            ((RADR1_SD r = EXE_DEST_RD rd \<and> MULT_INST_RD rd \<and> \<not> DEC2EXE_EMPTY_SD i) \<or>
             (RADR2_SD r = EXE_DEST_RD rd \<and> MULT_INST_RD rd \<and> \<not> DEC2EXE_EMPTY_SD i) \<or>
             (RADR1_SD r = DEST_RE re \<and> MULT_INST_RE re \<and> \<not> EXE2MEM_EMPTY_SE i) \<or>
             (RADR2_SD r = DEST_RE re \<and> MULT_INST_RE re \<and> \<not> EXE2MEM_EMPTY_SE i) \<or>
             (RADR1_SD r = DEST_RM rm \<and> MULT_INST_RM rm \<and> \<not> MEM2WBK_EMPTY_SM i) \<or>
             (RADR2_SD r = DEST_RM rm \<and> MULT_INST_RM rm \<and> \<not> MEM2WBK_EMPTY_SM i))\<rparr>)"

subsection \<open>Stalls\<close>

text \<open>\<open>stall_method\<close> reads \<open>csr_in_progress\<close>, which it writes, and is sensitive to it.\<close>

definition dec_stall_method ::
  "dec_in \<Rightarrow> instr_type \<Rightarrow> dec_byp \<Rightarrow> dec2exe_out \<Rightarrow> exe2mem_out \<Rightarrow> dec_stall \<Rightarrow> dec_stall" where
  "dec_stall_method i t b rd re s =
     \<lparr>csr_in_progress = ((CSR_WENABLE_RD rd \<and> \<not> DEC2EXE_EMPTY_SD i) \<or>
                         (CSR_WENABLE_RE re \<and> \<not> EXE2MEM_EMPTY_SE i)),
      stall_sd =
        (csr_in_progress s \<or>
         ((\<not> r1_valid_sd b \<or> \<not> r2_valid_sd b) \<and>
          (b_type_inst_sd t \<or> jalr_type_inst_sd t \<or> j_type_inst_sd t \<or> block_in_dec b \<or>
           dependence_on_mult b)) \<or>
         IF2DEC_EMPTY_SI i \<or> dec2exe_full_sd i)\<rparr>"

definition dec_stall_settle ::
  "dec_in \<Rightarrow> instr_type \<Rightarrow> dec_byp \<Rightarrow> dec2exe_out \<Rightarrow> exe2mem_out \<Rightarrow> dec_stall \<Rightarrow> dec_stall" where
  "dec_stall_settle i t b rd re s =
     dec_stall_method i t b rd re (dec_stall_method i t b rd re s)"

subsection \<open>Program counter and handshakes\<close>

definition dec_trap_pc :: "dec_in \<Rightarrow> dec_pc \<Rightarrow> dec_pc" where
  "dec_trap_pc i s =
     (let mtvec_value_var = put 1 0 (0 :: u2) (put 31 2 (rng 31 2 (MTVEC_VALUE_RC i) :: 30 word) 0)
      in if (rng 1 0 (MTVEC_VALUE_RC i) :: u2) = 0 then
           s\<lparr>res_pc_sd := mtvec_value_var, WRITE_PC_SD := mtvec_value_var,
             WRITE_PC_ENABLE_SD := True\<rparr>
         else if (rng 1 0 (MTVEC_VALUE_RC i) :: u2) = 1 then
           (let mcause_var =
                  put 1 0 (0 :: u2) (put 31 2 (rng 29 0 (MCAUSE_WDATA_SM i) :: 30 word) 0)
            in s\<lparr>res_pc_sd := mcause_var + mtvec_value_var,
                 WRITE_PC_SD := mcause_var + mtvec_value_var, WRITE_PC_ENABLE_SD := True\<rparr>)
         else s)"

definition dec_exception_pc :: "dec_in \<Rightarrow> dec_pc \<Rightarrow> dec_pc" where
  "dec_exception_pc i s =
     (if \<not> MRET_SM i then dec_trap_pc i s
      else s\<lparr>res_pc_sd := RETURN_ADRESS_SM i, WRITE_PC_SD := RETURN_ADRESS_SM i,
             WRITE_PC_ENABLE_SD := True\<rparr>)
       \<lparr>IF2DEC_POP_SD := True, IF2DEC_FLUSH_SD := False, dec2if_push_sd := True,
        dec2exe_push_sd := True\<rparr>"

text \<open>
  \<open>pc_out\<close>, the enable, the push to fetch and the outcome of the prediction.  The flags of the
  previous outcome come back from the \<open>dec2if\<close> FIFO.
\<close>

definition dec_next_pc ::
  "dec_in \<Rightarrow> dec_ops \<Rightarrow> dec_stall \<Rightarrow> dec2if_out \<Rightarrow> u32 \<times> bool \<times> bool \<times> bool" where
  "dec_next_pc i ops st fb =
     (let pc = READ_PC_SR i;
          add_offset_to_pc = jump_sd ops \<and> \<not> IF2DEC_EMPTY_SI i
      in if \<not> add_offset_to_pc \<and> \<not> dec2if_full_sd i then
           (if PRED_TAKEN_RI i \<and> stall_sd st \<and> \<not> (PRED_SUCCESS_RD fb \<or> PRED_FAILED_RD fb) then
              PRED_BRANCH_ADR_RI i + 4
            else if PRED_TAKEN_RI i \<and> \<not> stall_sd st then PC_IF2DEC_RI i + 4
            else pc + 4,
            True, False, PRED_TAKEN_RI i \<and> \<not> IF2DEC_EMPTY_SI i)
         else if add_offset_to_pc \<and> \<not> dec2if_full_sd i \<and> \<not> stall_sd st then
           (if PRED_TAKEN_RI i then PRED_BRANCH_ADR_RI i + 4
            else PC_IF2DEC_RI i + offset_branch_sd ops,
            True, PRED_TAKEN_RI i, False)
         else (pc, False, False, False))"

definition dec_if2dec :: "dec_in \<Rightarrow> dec_ops \<Rightarrow> dec_stall \<Rightarrow> bool \<times> bool" where
  "dec_if2dec i ops st =
     (if PRED_TAKEN_RI i then
        (if jump_sd ops \<and> \<not> stall_sd st then (True, False)
         else if \<not> jump_sd ops \<and> \<not> stall_sd st then (True, True)
         else (False, False))
      else if jump_sd ops \<and> \<not> stall_sd st then (True, True)
      else if \<not> jump_sd ops \<and> \<not> stall_sd st then (True, False)
      else (False, False))"

definition dec_pc_inc ::
  "dec_in \<Rightarrow> dec_ops \<Rightarrow> dec_stall \<Rightarrow> dec2if_out \<Rightarrow> dec_pc \<Rightarrow> dec_pc" where
  "dec_pc_inc i ops st fb s0 =
     (let s = s0\<lparr>branch_adr_sd := PC_IF2DEC_RI i + offset_branch_sd ops,
                DEC2IF_EMPTY_SD := dec2if_empty_sd i\<rparr>
      in if EXCEPTION_SM i then dec_exception_pc i s
         else
           (let (pc_out, enable, success, failed) = dec_next_pc i ops st fb;
                (pop, flush) = dec_if2dec i ops st
            in s\<lparr>WRITE_PC_ENABLE_SD := enable, dec2if_push_sd := enable,
                 pred_success_sd := success, pred_failed_sd := failed,
                 res_pc_sd := pc_out, WRITE_PC_SD := pc_out, pc_branch_value_sd := pc_out,
                 instruction_adress_missaligned_sd :=
                   (pc_out AND 0b11 \<noteq> 0 \<or> (RETURN_ADRESS_SM i AND 0b11 \<noteq> 0 \<and> EXCEPTION_SM i)),
                 instruction_access_fault_sd :=
                   (pc_out > KERNEL_ADR_SC i \<and> CURRENT_MODE_SM i \<noteq> 3),
                 IF2DEC_POP_SD := pop, IF2DEC_FLUSH_SD := flush,
                 dec2exe_push_sd := (if stall_sd st then False else True)\<rparr>))"

subsection \<open>Payloads\<close>

definition dec_payload ::
  "dec_in \<Rightarrow> instr_flags \<Rightarrow> dec_reg \<Rightarrow> dec_byp \<Rightarrow> dec_ops \<Rightarrow> dec_pc \<Rightarrow> dec2exe_out" where
  "dec_payload i f r b ops p =
     \<lparr>CSRRC_I_RD = csrrc_i_sd f, PC_BRANCH_VALUE_RD = pc_branch_value_sd p,
      MULT_INST_RD = (mul_i_sd f \<or> mulh_i_sd f \<or> mulhsu_i_sd f \<or> mulhu_i_sd f),
      EBREAK_RD = ebreak_i_sd f,
      INSTRUCTION_ACCESS_FAULT_RD = instruction_access_fault_sd p, MRET_RD = mret_i_sd f,
      BLOCK_BP_RD = block_bp_sd ops,
      EXCEPTION_RD =
        (illegal_instruction_sd ops \<or> instruction_adress_missaligned_sd p \<or>
         env_call_u_mode_sd r \<or> env_call_m_mode_sd r \<or> env_call_s_mode_sd r \<or>
         env_call_wrong_mode r \<or> mret_i_sd f \<or> instruction_access_fault_sd p \<or> ebreak_i_sd f),
      ENV_CALL_WRONG_MODE_RD = env_call_wrong_mode r, ENV_CALL_U_MODE_RD = env_call_u_mode_sd r,
      ILLEGAL_INSTRUCTION_RD = illegal_instruction_sd ops,
      ADRESS_MISSALIGNED_RD = instruction_adress_missaligned_sd p,
      ENV_CALL_M_MODE_RD = env_call_m_mode_sd r, ENV_CALL_S_MODE_RD = env_call_s_mode_sd r,
      CSR_RDATA_RD = CSR_RDATA_SC i, CSR_WENABLE_RD = csr_wenable_sd ops,
      CSR_WADR_RD = csr_radr_sd r, PC_DEC2EXE_RD = PC_IF2DEC_RI i,
      BP_R1_VALID_RD = r1_valid_sd b, BP_R2_VALID_RD = r2_valid_sd b,
      BP_RADR1_RD = RADR1_SD r, BP_RADR2_RD = RADR2_SD r, EXE_CMD_RD = exe_cmd_sd ops,
      OP1_RD = exe_op1_sd ops, OP2_RD = exe_op2_sd ops, NEG_OP2_RD = exe_neg_op2_sd ops,
      WB_RD = exe_wb_sd ops, MEM_DATA_RD = mem_data_sd ops, MEM_LOAD_RD = mem_load_sd ops,
      MEM_STORE_RD = mem_store_sd ops, MEM_SIGN_EXTEND_RD = mem_sign_extend_sd ops,
      MEM_SIZE_RD = mem_size_sd ops, SELECT_TYPE_OPERATIONS_RD = select_type_operations_sd ops,
      EXE_DEST_RD = adr_dest_sd r, SLT_RD = (slt_i_sd f \<or> slti_i_sd f),
      SLTU_RD = (sltu_i_sd f \<or> sltiu_i_sd f)\<rparr>"

definition dec_nop :: "dec_in \<Rightarrow> dec2exe_out" where
  "dec_nop i =
     \<lparr>CSRRC_I_RD = False, PC_BRANCH_VALUE_RD = 0, MULT_INST_RD = False, EBREAK_RD = False,
      INSTRUCTION_ACCESS_FAULT_RD = False, MRET_RD = False, BLOCK_BP_RD = False,
      EXCEPTION_RD = False, ENV_CALL_WRONG_MODE_RD = False, ENV_CALL_U_MODE_RD = False,
      ILLEGAL_INSTRUCTION_RD = False, ADRESS_MISSALIGNED_RD = False,
      ENV_CALL_M_MODE_RD = False, ENV_CALL_S_MODE_RD = False, CSR_RDATA_RD = 0,
      CSR_WENABLE_RD = False, CSR_WADR_RD = 0, PC_DEC2EXE_RD = PC_IF2DEC_RI i,
      BP_R1_VALID_RD = False, BP_R2_VALID_RD = False, BP_RADR1_RD = 0, BP_RADR2_RD = 0,
      EXE_CMD_RD = 0, OP1_RD = 0, OP2_RD = 0, NEG_OP2_RD = False, WB_RD = False,
      MEM_DATA_RD = 0, MEM_LOAD_RD = False, MEM_STORE_RD = False, MEM_SIGN_EXTEND_RD = False,
      MEM_SIZE_RD = 0, SELECT_TYPE_OPERATIONS_RD = 0, EXE_DEST_RD = 0, SLT_RD = False,
      SLTU_RD = False\<rparr>"

definition dec_concat_dec2exe ::
  "dec_in \<Rightarrow> instr_flags \<Rightarrow> dec_reg \<Rightarrow> dec_byp \<Rightarrow> dec_ops \<Rightarrow> dec_pc \<Rightarrow> 253 word" where
  "dec_concat_dec2exe i f r b ops p =
     (if \<not> EXCEPTION_SM i then dec2exe_pack (dec_payload i f r b ops p)
      else dec2exe_pack (dec_nop i))"

definition dec_fetch_payload ::
  "dec_in \<Rightarrow> instr_type \<Rightarrow> instr_flags \<Rightarrow> dec_reg \<Rightarrow> dec_ops \<Rightarrow> dec_pc \<Rightarrow> dec2if_out" where
  "dec_fetch_payload i t f r ops p =
     (let rd_link = (adr_dest_sd r = 1 \<or> adr_dest_sd r = 5);
          rs1_link = (RADR1_SD r = 1 \<or> RADR1_SD r = 5)
      in \<lparr>PUSH_ADR_RAS_RD = (rd_link \<and> (jal_i_sd f \<or> jalr_i_sd f)),
          POP_ADR_RAS_RD =
            (((\<not> rd_link \<and> rs1_link) \<or> (rd_link \<and> rs1_link \<and> adr_dest_sd r \<noteq> RADR1_SD r)) \<and>
             \<not> PRED_TAKEN_RI i),
          RETURN_ADR_RD = PC_IF2DEC_RI i + 4,
          RET_INST_RD = (jalr_type_inst_sd t \<and> adr_dest_sd r = 0 \<and> offset_branch_sd ops = 4 \<and>
             RADR1_SD r = 1),
          PRED_FAILED_RD = pred_failed_sd p, PRED_SUCCESS_RD = pred_success_sd p,
          INSTR_IS_BRANCH_RD = (b_type_inst_sd t \<or> j_type_inst_sd t),
          BRANCH_INST_ADR_RD = PC_IF2DEC_RI i, BRANCH_TARGET_ADR_RD = branch_adr_sd p,
          PC_RD = res_pc_sd p\<rparr>)"

definition dec_concat_dec2if ::
  "dec_in \<Rightarrow> instr_type \<Rightarrow> instr_flags \<Rightarrow> dec_reg \<Rightarrow> dec_ops \<Rightarrow> dec_pc \<Rightarrow> 134 word" where
  "dec_concat_dec2if i t f r ops p = dec2if_pack (dec_fetch_payload i t f r ops p)"

definition dec_pred_reg_data :: "dec_in \<Rightarrow> u32 \<times> bool" where
  "dec_pred_reg_data i = (PRED_BRANCH_ADR_RI i, PRED_TAKEN_RI i)"

text \<open>The counter of taken branches, a statistic.\<close>

definition dec_branch_taken_counter :: "bool \<Rightarrow> dec_ops \<Rightarrow> dec_stall \<Rightarrow> 32 word \<Rightarrow> 32 word" where
  "dec_branch_taken_counter reset_n ops st nb =
     (if \<not> reset_n then 0 else if jump_sd ops \<and> \<not> stall_sd st then nb + 1 else nb)"


subsection \<open>A settled activation\<close>

record dec =
  D_reg :: dec_reg
  D_byp :: dec_byp
  D_ops :: dec_ops
  D_stall :: dec_stall
  D_pc :: dec_pc

definition dec_settle ::
  "dec_uninit \<Rightarrow> dec_in \<Rightarrow> dec2exe_out \<Rightarrow> dec2if_out \<Rightarrow> exe2mem_out \<Rightarrow> mem2wbk_out \<Rightarrow> dec \<Rightarrow> dec"
where
  "dec_settle u i rd fb re rm s =
     (let t = decoding_instruction_type (INSTR_RI i);
          f = decoding_instruction (INSTR_RI i);
          r = dec_pre_reg_read i t f (D_reg s);
          b = dec_bypasses i f r rd re rm (D_byp s);
          ops = dec_post_reg_read u i t f b (D_ops s);
          st = dec_stall_settle i t b rd re (D_stall s);
          p = dec_pc_inc i ops st fb (D_pc s)
      in \<lparr>D_reg = r, D_byp = b, D_ops = ops, D_stall = st, D_pc = p\<rparr>)"

subsection \<open>Branch conditions\<close>

lemma dec_branch_flags:
  assumes "opcode ir = 0b1100011"
  shows "beq_i_sd (decoding_instruction ir) \<longleftrightarrow> funct3 ir = 0"
    "bne_i_sd (decoding_instruction ir) \<longleftrightarrow> funct3 ir = 1"
    "blt_i_sd (decoding_instruction ir) \<longleftrightarrow> funct3 ir = 4"
    "bge_i_sd (decoding_instruction ir) \<longleftrightarrow> funct3 ir = 5"
    "bltu_i_sd (decoding_instruction ir) \<longleftrightarrow> funct3 ir = 6"
    "bgeu_i_sd (decoding_instruction ir) \<longleftrightarrow> funct3 ir = 7"
  using assms by (simp_all add: decoding_instruction_def)

lemma dec_branch_by_funct3:
  assumes "opcode ir = 0b1100011" "funct3 ir \<noteq> 2" "funct3 ir \<noteq> 3"
  shows "dec_branch_taken (decoding_instruction ir) a b x = rv_branch (funct3 ir) a b"
proof -
  have ge: "sint b \<le> sint a \<longleftrightarrow> \<not> sint a < sint b" "uint b \<le> uint a \<longleftrightarrow> \<not> uint a < uint b"
    by auto
  show ?thesis
    using u3_cases [of "funct3 ir"] assms(2,3)
    unfolding dec_branch_taken_def Let_def difference_33 dec_branch_flags [OF assms(1)]
      rv_branch_def ge signed_less_by_sign
    by (elim disjE) simp_all
qed


subsection \<open>Formats\<close>

lemma dec_branch_format:
  "opcode ir = 0b1100011 \<Longrightarrow> decoding_instruction_type ir =
     \<lparr>r_type_inst_sd = False, i_type_inst_sd = False, s_type_inst_sd = False,
      b_type_inst_sd = True, u_type_inst_sd = False, j_type_inst_sd = False,
      jalr_type_inst_sd = False, system_type_inst_sd = False, m_type_inst_sd = False\<rparr>"
  by (simp add: decoding_instruction_type_def)

lemma dec_jalr_format:
  "opcode ir = 0b1100111 \<Longrightarrow> decoding_instruction_type ir =
     \<lparr>r_type_inst_sd = False, i_type_inst_sd = False, s_type_inst_sd = False,
      b_type_inst_sd = False, u_type_inst_sd = False, j_type_inst_sd = False,
      jalr_type_inst_sd = True, system_type_inst_sd = False, m_type_inst_sd = False\<rparr>"
  by (simp add: decoding_instruction_type_def)

lemma dec_jal_format:
  "opcode ir = 0b1101111 \<Longrightarrow> decoding_instruction_type ir =
     \<lparr>r_type_inst_sd = False, i_type_inst_sd = False, s_type_inst_sd = False,
      b_type_inst_sd = False, u_type_inst_sd = False, j_type_inst_sd = True,
      jalr_type_inst_sd = False, system_type_inst_sd = False, m_type_inst_sd = False\<rparr>"
  by (simp add: decoding_instruction_type_def)

lemma dec_settle_parts:
  "D_reg (dec_settle u i rd fb re rm s) =
     dec_pre_reg_read i (decoding_instruction_type (INSTR_RI i)) (decoding_instruction (INSTR_RI i))
       (D_reg s)"
  "D_byp (dec_settle u i rd fb re rm s) =
     dec_bypasses i (decoding_instruction (INSTR_RI i)) (D_reg (dec_settle u i rd fb re rm s))
       rd re rm (D_byp s)"
  "D_ops (dec_settle u i rd fb re rm s) =
     dec_post_reg_read u i (decoding_instruction_type (INSTR_RI i))
       (decoding_instruction (INSTR_RI i)) (D_byp (dec_settle u i rd fb re rm s)) (D_ops s)"
  "D_stall (dec_settle u i rd fb re rm s) =
     dec_stall_settle i (decoding_instruction_type (INSTR_RI i))
       (D_byp (dec_settle u i rd fb re rm s)) rd re (D_stall s)"
  "D_pc (dec_settle u i rd fb re rm s) =
     dec_pc_inc i (D_ops (dec_settle u i rd fb re rm s)) (D_stall (dec_settle u i rd fb re rm s))
       fb (D_pc s)"
  by (simp_all add: dec_settle_def Let_def)

lemma branch_adr: "branch_adr_sd (dec_pc_inc i ops st fb s) = PC_IF2DEC_RI i + offset_branch_sd ops"
  by (simp add: dec_pc_inc_def Let_def dec_exception_pc_def dec_trap_pc_def split_beta)

text \<open>
  For each of the six branches, decode jumps exactly when the instruction set says so for
  the operands read, and the target is the program counter plus the offset.
\<close>

theorem dec_branch_correct:
  assumes "opcode (INSTR_RI i) = 0b1100011" "funct3 (INSTR_RI i) \<noteq> 2" "funct3 (INSTR_RI i) \<noteq> 3"
  shows "let d = dec_settle u i rd fb re rm s in
    jump_sd (D_ops d) =
      rv_branch (funct3 (INSTR_RI i)) (rdata1_sd (D_byp d)) (rdata2_sd (D_byp d)) \<and>
    branch_adr_sd (D_pc d) = PC_IF2DEC_RI i + dec_imm_b (INSTR_RI i)"
  unfolding Let_def dec_settle_parts(3,5) branch_adr
  by (simp add: dec_post_reg_read_def Let_def dec_branch_format [OF assms(1)] dec_post_branch_def
      dec_branch_by_funct3 [OF assms])

lemma clear_bit_0: "put_bit 0 False x = x AND NOT 1" for x :: u32
  by (rule bit_word_eqI) (auto simp: bit_put_bit bit_simps)

lemma clear_bit_even:
  fixes x p :: u32
  assumes "\<not> bit p 0"
  shows "p + put_bit 0 False (x - p) = put_bit 0 False x"
proof -
  have clr: "put_bit 0 False y = y - of_bool (bit y 0)" for y :: u32
  proof (cases "bit y 0")
    case True
    then have "y = put_bit 0 False y OR 1"
      by (intro bit_word_eqI) (auto simp: bit_put_bit bit_simps)
    also have "\<dots> = put_bit 0 False y + 1"
      by (subst disjunctive_add_eq_or) (auto simp: bit_eq_iff bit_put_bit bit_simps)
    finally show ?thesis using True by (metis add_diff_cancel_right' of_bool_eq(2))
  next
    case False
    then have "put_bit 0 False y = y"
      by (intro bit_word_eqI) (auto simp: bit_put_bit)
    then show ?thesis using False by simp
  qed
  have "odd x \<longleftrightarrow> odd (x - p)"
    using assms by (metis bit_0 diff_add_cancel even_add)
  then have "bit (x - p) 0 = bit x 0"
    by (simp add: bit_0)
  then show ?thesis by (simp add: clr)
qed

text \<open>
  \<open>jal\<close> and \<open>jalr\<close> always jump, to the program counter plus the offset and to the base
  register plus the immediate with the lowest bit cleared, and pass the return address on as
  operand; for \<open>jalr\<close> this needs the program counter register to be one instruction ahead.
\<close>

theorem dec_jumps_correct:
  assumes "opcode (INSTR_RI i) = 0b1101111 \<or> opcode (INSTR_RI i) = 0b1100111"
    and "READ_PC_SR i = PC_IF2DEC_RI i + 4" "\<not> bit (PC_IF2DEC_RI i) 0"
  shows "let d = dec_settle u i rd fb re rm s in
    jump_sd (D_ops d) \<and>
    branch_adr_sd (D_pc d) =
      (if opcode (INSTR_RI i) = 0b1101111 then PC_IF2DEC_RI i + dec_imm_j (INSTR_RI i)
       else (rdata1_sd (D_byp d) + dec_imm_i (INSTR_RI i)) AND NOT 1) \<and>
    exe_op1_sd (D_ops d) = PC_IF2DEC_RI i + 4 \<and> exe_op2_sd (D_ops d) = 0 \<and>
    exe_wb_sd (D_ops d)"
proof (cases "opcode (INSTR_RI i) = 0b1101111")
  case True
  then show ?thesis
    unfolding Let_def dec_settle_parts(3,5) branch_adr
    by (simp add: dec_post_reg_read_def Let_def dec_jal_format dec_post_jump_def assms(2))
next
  case False
  then have op: "opcode (INSTR_RI i) = 0b1100111" using assms(1) by simp
  have "PC_IF2DEC_RI i + put_bit 0 False (im + (a - (PC_IF2DEC_RI i + 4) + 4)) =
      (a + im) AND - 2" for a im :: u32
  proof -
    have "im + (a - (PC_IF2DEC_RI i + 4) + 4) = (a + im) - PC_IF2DEC_RI i"
      by simp
    then show ?thesis
      using clear_bit_even [OF assms(3), of "a + im"]
      by (simp add: clear_bit_0 algebra_simps)
  qed
  then show ?thesis
    unfolding Let_def dec_settle_parts(3,5) branch_adr
    by (simp add: dec_post_reg_read_def Let_def dec_jalr_format [OF op] dec_post_jump_def assms(2)
        op)
qed

subsection \<open>The program counter\<close>

lemma three_mask: "(3 :: u32) = mask 2"
  by (simp add: mask_eq_exp_minus_1)

lemma trap_base: "put 1 0 (0 :: u2) (put 31 2 (rng 31 2 v :: 30 word) 0) = v AND NOT 3" for v :: u32
  unfolding three_mask
  by (rule bit_word_eqI)
    (auto simp: bit_put bit_rng bit_simps not_le Suc_le_eq Suc_diff_Suc numeral_2_eq_2)

lemma vector_offset: "put 1 0 (0 :: u2) (put 31 2 (rng 29 0 (v :: u32) :: 30 word) 0) = 4 * v" for v :: u32
proof -
  have "4 * v = push_bit 2 v" by (simp add: push_bit_eq_mult)
  then show ?thesis
    by (simp only:) (rule bit_word_eqI, auto simp: bit_put bit_rng bit_simps)
qed

lemma mode_field: "(rng 1 0 v :: u2) = m \<longleftrightarrow> v AND 3 = ucast m" for v :: u32 and m :: u2
proof -
  have low: "(rng 1 0 v :: u2) = ucast v"
    by (rule bit_word_eqI) (auto simp: bit_rng bit_simps)
  have "v AND 3 = ucast (ucast v :: u2)"
    unfolding three_mask by (rule bit_word_eqI) (auto simp: bit_simps)
  moreover have "(ucast (ucast x :: u32) :: u2) = x" for x :: u2
    by (rule bit_word_eqI) (simp add: bit_simps)
  ultimately show ?thesis
    unfolding low by metis
qed

lemma dec_trap_pc_eq:
  "dec_trap_pc i s =
     (let base = MTVEC_VALUE_RC i AND NOT 3 in
      if MTVEC_VALUE_RC i AND 3 = 0 then
        s\<lparr>res_pc_sd := base, WRITE_PC_SD := base, WRITE_PC_ENABLE_SD := True\<rparr>
      else if MTVEC_VALUE_RC i AND 3 = 1 then
        s\<lparr>res_pc_sd := base + 4 * MCAUSE_WDATA_SM i, WRITE_PC_SD := base + 4 * MCAUSE_WDATA_SM i,
          WRITE_PC_ENABLE_SD := True\<rparr>
      else s)"
  unfolding dec_trap_pc_def Let_def trap_base vector_offset mode_field
  by (simp add: add.commute)

text \<open>
  C21: in an exception fetch is redirected to the return address for \<open>mret\<close>, to the base of
  \<open>mtvec\<close> in direct mode and to the base plus four times the cause in vectored mode, and
  an empty instruction goes to the execute stage.
\<close>

theorem dec_trap_target:
  assumes "EXCEPTION_SM i" "MRET_SM i \<or> MTVEC_VALUE_RC i AND 3 < 2"
  shows "let d = dec_settle u i rd fb re rm s;
      base = MTVEC_VALUE_RC i AND NOT 3;
      target = (if MRET_SM i then RETURN_ADRESS_SM i
                else if MTVEC_VALUE_RC i AND 3 = 0 then base
                else base + 4 * MCAUSE_WDATA_SM i);
      f = decoding_instruction (INSTR_RI i)
    in WRITE_PC_SD (D_pc d) = target \<and> WRITE_PC_ENABLE_SD (D_pc d) \<and> dec2if_push_sd (D_pc d) \<and>
      PC_RD (unconcat_dec2if (dec_concat_dec2if i (decoding_instruction_type (INSTR_RI i)) f
        (D_reg d) (D_ops d) (D_pc d))) = target \<and>
      unconcat_dec2exe (dec_concat_dec2exe i f (D_reg d) (D_byp d) (D_ops d) (D_pc d)) = dec_nop i"
proof -
  have "w < 2 \<longleftrightarrow> w = 0 \<or> w = 1" for w :: u32
    by (auto simp: word_less_nat_alt word_unat_eq_iff)
  then have "MRET_SM i \<or> MTVEC_VALUE_RC i AND 3 = 0 \<or> MTVEC_VALUE_RC i AND 3 = 1"
    using assms(2) by auto
  then show ?thesis
    unfolding Let_def dec_settle_parts(5) dec_concat_dec2if_def dec_concat_dec2exe_def
      unconcat_dec2if_dec2if_pack unconcat_dec2exe_dec2exe_pack dec_fetch_payload_def
    using assms(1)
    by (auto simp: dec_pc_inc_def dec_exception_pc_def dec_trap_pc_eq Let_def
        unconcat_dec2exe_dec2exe_pack)
qed

text \<open>
  C9: outside exceptions an instruction leaves decode exactly when it enters the execute stage,
  which needs an instruction and room; the instructions fetched behind it are flushed exactly
  when the prediction was wrong, and then, if the FIFO to fetch has room, fetch continues at the
  target of a jump or behind an untaken branch.
\<close>

theorem dec_redirect:
  assumes "\<not> EXCEPTION_SM i"
  shows "let d = dec_settle u i rd fb re rm s; p = D_pc d; jump = jump_sd (D_ops d) in
     IF2DEC_POP_SD p = dec2exe_push_sd p \<and>
     (dec2exe_push_sd p \<longrightarrow> \<not> IF2DEC_EMPTY_SI i \<and> \<not> dec2exe_full_sd i) \<and>
     (dec2if_push_sd p \<longrightarrow> \<not> dec2if_full_sd i) \<and> WRITE_PC_ENABLE_SD p = dec2if_push_sd p \<and>
     (IF2DEC_FLUSH_SD p \<longleftrightarrow> dec2exe_push_sd p \<and> jump \<noteq> PRED_TAKEN_RI i) \<and>
     (IF2DEC_FLUSH_SD p \<and> \<not> dec2if_full_sd i \<longrightarrow> dec2if_push_sd p \<and>
        WRITE_PC_SD p = (if jump then branch_adr_sd p else PC_IF2DEC_RI i + 4))"
proof -
  define d where "d = dec_settle u i rd fb re rm s"
  have st: "\<not> stall_sd (D_stall d) \<Longrightarrow> \<not> IF2DEC_EMPTY_SI i \<and> \<not> dec2exe_full_sd i"
    by (auto simp: d_def dec_settle_parts(4) dec_stall_settle_def dec_stall_method_def)
  have pc: "D_pc d = dec_pc_inc i (D_ops d) (D_stall d) fb (D_pc s)"
    by (simp add: d_def dec_settle_parts(5))
  show ?thesis
    unfolding d_def [symmetric] Let_def pc
    using st assms by (auto simp: dec_pc_inc_def dec_next_pc_def dec_if2dec_def Let_def)
qed

subsection \<open>Operands\<close>

text \<open>
  The instructions ahead that decode can take a value from, and those whose value does not
  exist yet: any instruction in the execute stage, loads and multiplications in the memory
  stage, multiplications in the write-back stage.
\<close>

definition dec_newest :: "dec_in \<Rightarrow> exe2mem_out \<Rightarrow> mem2wbk_out \<Rightarrow> u6 \<Rightarrow> u32 option" where
  "dec_newest i re rm r =
     (if r = 0 then None
      else if r = DEST_RE re \<and> \<not> EXE2MEM_EMPTY_SE i then Some (value_re re)
      else if r = DEST_RM rm \<and> \<not> MEM2WBK_EMPTY_SM i then Some (value_rm rm)
      else None)"

definition in_exe :: "dec_in \<Rightarrow> dec2exe_out \<Rightarrow> u6 \<Rightarrow> bool" where
  "in_exe i rd r \<longleftrightarrow> r \<noteq> 0 \<and> r = EXE_DEST_RD rd \<and> \<not> DEC2EXE_EMPTY_SD i"

definition late_in_mem :: "dec_in \<Rightarrow> exe2mem_out \<Rightarrow> mem2wbk_out \<Rightarrow> u6 \<Rightarrow> bool" where
  "late_in_mem i re rm r \<longleftrightarrow> r \<noteq> 0 \<and>
     (r = DEST_RE re \<and> (MEM_LOAD_RE re \<or> MULT_INST_RE re) \<and> \<not> EXE2MEM_EMPTY_SE i \<or>
      r = DEST_RM rm \<and> MULT_INST_RM rm \<and> \<not> MEM2WBK_EMPTY_SM i)"

lemma dec_bypass_valid:
  "snd (dec_bypass i f rd re rm r v old) \<longleftrightarrow> \<not> in_exe i rd r \<and> \<not> late_in_mem i re rm r"
  by (auto simp: dec_bypass_def in_exe_def late_in_mem_def)

lemma dec_bypass_value:
  "snd (dec_bypass i f rd re rm r v old) \<Longrightarrow> \<not> csrrc_i_sd f \<Longrightarrow>
     fst (dec_bypass i f rd re rm r v old) =
       (case dec_newest i re rm r of Some x \<Rightarrow> x | None \<Rightarrow> v)"
  by (auto simp: dec_bypass_def dec_newest_def value_re_def value_rm_def split: if_splits)

lemma dec_byp_parts:
  "rdata1_sd (dec_bypasses i f r rd re rm s) =
     fst (dec_bypass i f rd re rm (RADR1_SD r) (RDATA1_SR i) (rdata1_sd s))"
  "r1_valid_sd (dec_bypasses i f r rd re rm s) =
     snd (dec_bypass i f rd re rm (RADR1_SD r) (RDATA1_SR i) (rdata1_sd s))"
  "rdata2_sd (dec_bypasses i f r rd re rm s) =
     fst (dec_bypass i f rd re rm (RADR2_SD r) (RDATA2_SR i) (rdata2_sd s))"
  "r2_valid_sd (dec_bypasses i f r rd re rm s) =
     snd (dec_bypass i f rd re rm (RADR2_SD r) (RDATA2_SR i) (rdata2_sd s))"
  by (simp_all add: dec_bypasses_def split_beta Let_def)


text \<open>
  \<open>csrrc\<close> complements its operand when it builds the command, but the bypass has already
  complemented a bypassed value for it: with the register produced by the instruction in the
  write-back stage, the command clears the bits that the register has not set.
\<close>

theorem dec_csrrc_complements_twice:
  assumes "csrrc_i_sd (decoding_instruction (INSTR_RI i))" "rng 19 15 (INSTR_RI i) \<noteq> (0 :: u6)"
    and "DEC2EXE_EMPTY_SD i" "EXE2MEM_EMPTY_SE i" "\<not> MEM2WBK_EMPTY_SM i"
    and "DEST_RM rm = rng 19 15 (INSTR_RI i)" "\<not> MULT_INST_RM rm" "\<not> CSR_WENABLE_RM rm"
  shows "exe_op1_sd (D_ops (dec_settle u i rd fb re rm s)) = MEM_RES_RM rm"
proof -
  define d where "d = dec_settle u i rd fb re rm s"
  have op: "opcode (INSTR_RI i) = 0b1110011" "funct3 (INSTR_RI i) = 0b011"
    using assms(1) by (simp_all add: decoding_instruction_def)
  have sys: "system_type_inst_sd (decoding_instruction_type (INSTR_RI i))"
    "\<not> r_type_inst_sd (decoding_instruction_type (INSTR_RI i))"
    "\<not> i_type_inst_sd (decoding_instruction_type (INSTR_RI i))"
    "\<not> s_type_inst_sd (decoding_instruction_type (INSTR_RI i))"
    "\<not> b_type_inst_sd (decoding_instruction_type (INSTR_RI i))"
    "\<not> u_type_inst_sd (decoding_instruction_type (INSTR_RI i))"
    "\<not> j_type_inst_sd (decoding_instruction_type (INSTR_RI i))"
    "\<not> jalr_type_inst_sd (decoding_instruction_type (INSTR_RI i))"
    "\<not> m_type_inst_sd (decoding_instruction_type (INSTR_RI i))"
    by (simp_all add: op decoding_instruction_type_def)
  have "RADR1_SD (D_reg d) = rng 19 15 (INSTR_RI i)"
    unfolding d_def dec_settle_parts(1)
    by (simp add: dec_pre_reg_read_def Let_def sys dec_csr_inst_def assms(1) dec_set_regs_def)
  then have "rdata1_sd (D_byp d) = NOT (MEM_RES_RM rm)"
    unfolding d_def dec_settle_parts(2)
    using assms by (simp add: d_def dec_byp_parts dec_bypass_def)
  then show ?thesis
    unfolding d_def dec_settle_parts(3)
    using assms(1)
    by (simp add: d_def dec_post_reg_read_def Let_def sys dec_post_system_def dec_csr_inst_def
        dec_csr_operands_def)
qed

subsection \<open>Instances\<close>

text \<open>An empty pipeline with one instruction at the address \<open>0x100\<close> in decode.\<close>

definition dec_in_at_100 :: "u32 \<Rightarrow> dec_in" where
  "dec_in_at_100 ir = \<lparr>INSTR_RI = ir, PC_IF2DEC_RI = 0x100, IF2DEC_EMPTY_SI = False,
     PRED_BRANCH_ADR_RI = 0, PRED_TAKEN_RI = False, RDATA1_SR = 6, RDATA2_SR = 6,
     READ_PC_SR = 0x104, CSR_RDATA_SC = 0, KERNEL_ADR_SC = 0xFFFFFFFF, CURRENT_MODE_SM = 3,
     EXCEPTION_SM = False, MTVEC_VALUE_RC = 0x80000001, MCAUSE_WDATA_SM = 8, MRET_SM = False,
     RETURN_ADRESS_SM = 0, EXE2MEM_EMPTY_SE = True, MEM2WBK_EMPTY_SM = True,
     DEC2EXE_EMPTY_SD = True, dec2exe_full_sd = False, dec2if_full_sd = False,
     dec2if_empty_sd = True\<rparr>"

lemma dec_in_at_100_sel [simp]:
  "INSTR_RI (dec_in_at_100 ir) = ir"
  "PC_IF2DEC_RI (dec_in_at_100 ir) = 0x100"
  "\<not> IF2DEC_EMPTY_SI (dec_in_at_100 ir)"
  "PRED_BRANCH_ADR_RI (dec_in_at_100 ir) = 0"
  "\<not> PRED_TAKEN_RI (dec_in_at_100 ir)"
  "RDATA1_SR (dec_in_at_100 ir) = 6"
  "RDATA2_SR (dec_in_at_100 ir) = 6"
  "READ_PC_SR (dec_in_at_100 ir) = 0x104"
  "CSR_RDATA_SC (dec_in_at_100 ir) = 0"
  "KERNEL_ADR_SC (dec_in_at_100 ir) = 0xFFFFFFFF"
  "CURRENT_MODE_SM (dec_in_at_100 ir) = 3"
  "\<not> EXCEPTION_SM (dec_in_at_100 ir)"
  "MTVEC_VALUE_RC (dec_in_at_100 ir) = 0x80000001"
  "MCAUSE_WDATA_SM (dec_in_at_100 ir) = 8"
  "\<not> MRET_SM (dec_in_at_100 ir)"
  "RETURN_ADRESS_SM (dec_in_at_100 ir) = 0"
  "EXE2MEM_EMPTY_SE (dec_in_at_100 ir)"
  "MEM2WBK_EMPTY_SM (dec_in_at_100 ir)"
  "DEC2EXE_EMPTY_SD (dec_in_at_100 ir)"
  "\<not> dec2exe_full_sd (dec_in_at_100 ir)"
  "\<not> dec2if_full_sd (dec_in_at_100 ir)"
  "dec2if_empty_sd (dec_in_at_100 ir)"
  by (simp_all add: dec_in_at_100_def)

definition dec_zero :: dec where
  "dec_zero = \<lparr>
     D_reg = \<lparr>RADR1_SD = 0, RADR2_SD = 0, adr_dest_sd = 0, CSR_RADR_SD = 0, csr_radr_sd = 0,
       env_call_u_mode_sd = False, env_call_s_mode_sd = False, env_call_m_mode_sd = False,
       env_call_wrong_mode = False\<rparr>,
     D_byp = \<lparr>rdata1_sd = 0, rdata2_sd = 0, r1_valid_sd = False, r2_valid_sd = False,
       block_in_dec = False, dependence_on_mult = False\<rparr>,
     D_ops = \<lparr>csr_wenable_sd = False, exe_cmd_sd = 0, exe_neg_op2_sd = False,
       mem_load_sd = False, mem_store_sd = False, mem_size_sd = 0, mem_sign_extend_sd = False,
       select_type_operations_sd = 0, illegal_instruction_sd = False, block_bp_sd = False,
       exe_wb_sd = False, offset_branch_sd = 0, exe_op1_sd = 0, exe_op2_sd = 0,
       mem_data_sd = 0, jump_sd = False\<rparr>,
     D_stall = \<lparr>csr_in_progress = False, stall_sd = False\<rparr>,
     D_pc = \<lparr>branch_adr_sd = 0, DEC2IF_EMPTY_SD = True, res_pc_sd = 0, WRITE_PC_SD = 0,
       WRITE_PC_ENABLE_SD = False, IF2DEC_POP_SD = False, IF2DEC_FLUSH_SD = False,
       dec2if_push_sd = False, dec2exe_push_sd = False, pred_success_sd = False,
       pred_failed_sd = False, pc_branch_value_sd = 0, instruction_adress_missaligned_sd = False,
       instruction_access_fault_sd = False\<rparr>\<rparr>"

definition dec_uninit_F :: dec_uninit where
  "dec_uninit_F = \<lparr>uninit_wb = False, uninit_not_jump = False, uninit_branch = False\<rparr>"

abbreviation "dec_alone i \<equiv> dec_settle dec_uninit_F i (unconcat_dec2exe 0) (unconcat_dec2if 0)
  (exe2mem_unconcat 0) (mem2wbk_unconcat 0) dec_zero"

lemma dec_alone_operands:
  assumes "DEC2EXE_EMPTY_SD i" "EXE2MEM_EMPTY_SE i" "MEM2WBK_EMPTY_SM i"
  shows "rdata1_sd (D_byp (dec_alone i)) = RDATA1_SR i"
    "rdata2_sd (D_byp (dec_alone i)) = RDATA2_SR i"
    "r1_valid_sd (D_byp (dec_alone i))" "r2_valid_sd (D_byp (dec_alone i))"
  by (simp_all add: dec_settle_parts(2) dec_byp_parts dec_bypass_def assms)

lemma dec_alone_runs:
  assumes "DEC2EXE_EMPTY_SD i" "EXE2MEM_EMPTY_SE i" "MEM2WBK_EMPTY_SM i"
    "\<not> IF2DEC_EMPTY_SI i" "\<not> dec2exe_full_sd i"
  shows "\<not> stall_sd (D_stall (dec_alone i))"
  by (simp add: dec_settle_parts(4) dec_stall_settle_def dec_stall_method_def
      dec_alone_operands assms)

text \<open>\<open>beq x1, x2, +8\<close> with equal operands, and \<open>jal x1, +16\<close>.\<close>

lemma beq_fields:
  "opcode 0x00208463 = 0b1100011" "funct3 0x00208463 = 0" "dec_imm_b 0x00208463 = 8"
  by code_simp+

lemma jal_fields: "opcode 0x010000EF = 0b1101111" "dec_imm_j 0x010000EF = 16"
  by code_simp+

theorem dec_branch_correct_witness:
  "jump_sd (D_ops (dec_alone (dec_in_at_100 0x00208463))) \<and>
   branch_adr_sd (D_pc (dec_alone (dec_in_at_100 0x00208463))) = 0x108"
  using dec_branch_correct [of "dec_in_at_100 0x00208463" dec_uninit_F "unconcat_dec2exe 0"
      "unconcat_dec2if 0" "exe2mem_unconcat 0" "mem2wbk_unconcat 0" dec_zero] beq_fields
  by (simp add: Let_def dec_alone_operands rv_branch_def)

theorem dec_jumps_correct_witness:
  "jump_sd (D_ops (dec_alone (dec_in_at_100 0x010000EF))) \<and>
   branch_adr_sd (D_pc (dec_alone (dec_in_at_100 0x010000EF))) = 0x110 \<and>
   exe_op1_sd (D_ops (dec_alone (dec_in_at_100 0x010000EF))) = 0x104"
  using dec_jumps_correct [of "dec_in_at_100 0x010000EF" dec_uninit_F "unconcat_dec2exe 0"
      "unconcat_dec2if 0" "exe2mem_unconcat 0" "mem2wbk_unconcat 0" dec_zero] jal_fields
  by (simp add: Let_def)

text \<open>A trap with vectored \<open>mtvec\<close> \<open>0x80000001\<close> and cause 8.\<close>

theorem dec_trap_target_witness:
  "WRITE_PC_SD (D_pc (dec_alone ((dec_in_at_100 0x00208463)\<lparr>EXCEPTION_SM := True\<rparr>))) = 0x80000020"
proof -
  have "(0x80000001 :: u32) AND 3 = 1" "(0x80000001 :: u32) AND NOT 3 = 0x80000000"
    by code_simp+
  then show ?thesis
    using dec_trap_target [of "(dec_in_at_100 0x00208463)\<lparr>EXCEPTION_SM := True\<rparr>" dec_uninit_F
        "unconcat_dec2exe 0" "unconcat_dec2if 0" "exe2mem_unconcat 0" "mem2wbk_unconcat 0" dec_zero]
    by (simp add: Let_def)
qed

lemma dec_alone_pushes:
  assumes "DEC2EXE_EMPTY_SD i" "EXE2MEM_EMPTY_SE i" "MEM2WBK_EMPTY_SM i"
    "\<not> IF2DEC_EMPTY_SI i" "\<not> dec2exe_full_sd i" "\<not> EXCEPTION_SM i"
  shows "dec2exe_push_sd (D_pc (dec_alone i))"
  using dec_alone_runs [OF assms(1-5)] assms(6)
  by (simp add: dec_settle_parts(5) dec_pc_inc_def Let_def split_beta)

theorem dec_redirect_witness:
  "IF2DEC_FLUSH_SD (D_pc (dec_alone (dec_in_at_100 0x010000EF))) \<and>
   WRITE_PC_SD (D_pc (dec_alone (dec_in_at_100 0x010000EF))) = 0x110"
proof -
  have "jump_sd (D_ops (dec_alone (dec_in_at_100 0x010000EF)))"
    by (simp add: dec_settle_parts(3) dec_post_reg_read_def Let_def jal_fields
        dec_jal_format dec_post_jump_def)
  moreover have "branch_adr_sd (D_pc (dec_alone (dec_in_at_100 0x010000EF))) = 0x110"
    unfolding dec_settle_parts(5) branch_adr
    by (simp add: dec_settle_parts(3) dec_post_reg_read_def Let_def jal_fields
        dec_jal_format dec_post_jump_def)
  moreover have "dec2exe_push_sd (D_pc (dec_alone (dec_in_at_100 0x010000EF)))"
    by (rule dec_alone_pushes) simp_all
  ultimately show ?thesis
    using dec_redirect [of "dec_in_at_100 0x010000EF" dec_uninit_F "unconcat_dec2exe 0"
        "unconcat_dec2if 0" "exe2mem_unconcat 0" "mem2wbk_unconcat 0" dec_zero]
    by (simp add: Let_def)
qed


text \<open>\<open>csrrc x0, mstatus, x1\<close> with 5 for \<open>x1\<close> in the write-back stage.\<close>

theorem dec_csrrc_complements_twice_witness:
  "exe_op1_sd (D_ops (dec_settle dec_uninit_F
     ((dec_in_at_100 0x3000B073)\<lparr>MEM2WBK_EMPTY_SM := False\<rparr>) (unconcat_dec2exe 0)
     (unconcat_dec2if 0) (exe2mem_unconcat 0)
     ((mem2wbk_unconcat 0)\<lparr>DEST_RM := 1, MEM_RES_RM := 5\<rparr>) dec_zero)) = 5"
proof -
  have "csrrc_i_sd (decoding_instruction 0x3000B073)" "rng 19 15 (0x3000B073 :: u32) = (1 :: u6)"
    by code_simp+
  then show ?thesis
    using dec_csrrc_complements_twice [of "(dec_in_at_100 0x3000B073)\<lparr>MEM2WBK_EMPTY_SM := False\<rparr>"
        "(mem2wbk_unconcat 0)\<lparr>DEST_RM := 1, MEM_RES_RM := 5\<rparr>"]
    by (simp add: mem2wbk_unconcat_def)
qed

end
