(* ===== verification/Alu.thy ===== *)
theory Alu
  imports River_Prelude
begin

text \<open>
  The arithmetic and logic unit of the execute stage (\<open>SIM/SystemC/CORE/EXE/alu.cpp\<close>).
  \<open>res_interne\<close> is zero until a branch assigns it.
\<close>

definition alu_operation :: "u32 \<Rightarrow> u32 \<Rightarrow> bool \<Rightarrow> u2 \<Rightarrow> u32" where
  "alu_operation op1 op2 cin cmd =
     (if cmd = 0 then op1 + op2 + of_bool cin
      else if cmd = 1 then op1 AND op2
      else if cmd = 2 then op1 OR op2
      else if cmd = 3 then op1 XOR op2
      else 0)"

lemma alu_add: "alu_operation op1 op2 False 0 = op1 + op2"
  by (simp add: alu_operation_def)

lemma alu_sub: "alu_operation op1 (NOT op2) True 0 = op1 - op2"
  by (simp add: alu_operation_def not_eq_complement)

end
