(* ===== verification/Shifter.thy ===== *)
theory Shifter
  imports River_Prelude
begin

text \<open>
  The barrel shifter of the execute stage (\<open>SIM/SystemC/CORE/EXE/shifter.cpp\<close>): the decoder
  of the two-bit command, the left shifter and the right shifter, each a switch over the 32
  shift amounts that copies part selects, and the selection of the result.  The lemmas show
  that the two switches are the logical and arithmetic shifts of the instruction set.
\<close>

abbreviation bits32 :: "nat \<Rightarrow> nat \<Rightarrow> u32 \<Rightarrow> u32" where
  "bits32 hi lo x \<equiv> rng hi lo x"

record shifter_kind =
  sll_se :: bool
  srl_se :: bool
  sra_se :: bool

definition shifter_decode_cmd :: "u2 \<Rightarrow> shifter_kind" where
  "shifter_decode_cmd cmd =
     (if cmd = 0 then \<lparr>sll_se = True, srl_se = False, sra_se = False\<rparr>
      else if cmd = 1 then \<lparr>sll_se = False, srl_se = True, sra_se = False\<rparr>
      else \<lparr>sll_se = False, srl_se = False, sra_se = True\<rparr>)"

text \<open>The local \<open>sll_dout\<close> starts as zero; each case writes its upper and its lower part.\<close>

definition shifter_sll :: "u32 \<Rightarrow> 5 word \<Rightarrow> u32" where
  "shifter_sll din k =
     (if k = 0 then put 31 0 (bits32 31 0 din) 0
      else if k = 1 then put 0 0 (0 :: u32) (put 31 1 (bits32 30 0 din) 0)
      else if k = 2 then put 1 0 (0 :: u32) (put 31 2 (bits32 29 0 din) 0)
      else if k = 3 then put 2 0 (0 :: u32) (put 31 3 (bits32 28 0 din) 0)
      else if k = 4 then put 3 0 (0 :: u32) (put 31 4 (bits32 27 0 din) 0)
      else if k = 5 then put 4 0 (0 :: u32) (put 31 5 (bits32 26 0 din) 0)
      else if k = 6 then put 5 0 (0 :: u32) (put 31 6 (bits32 25 0 din) 0)
      else if k = 7 then put 6 0 (0 :: u32) (put 31 7 (bits32 24 0 din) 0)
      else if k = 8 then put 7 0 (0 :: u32) (put 31 8 (bits32 23 0 din) 0)
      else if k = 9 then put 8 0 (0 :: u32) (put 31 9 (bits32 22 0 din) 0)
      else if k = 10 then put 9 0 (0 :: u32) (put 31 10 (bits32 21 0 din) 0)
      else if k = 11 then put 10 0 (0 :: u32) (put 31 11 (bits32 20 0 din) 0)
      else if k = 12 then put 11 0 (0 :: u32) (put 31 12 (bits32 19 0 din) 0)
      else if k = 13 then put 12 0 (0 :: u32) (put 31 13 (bits32 18 0 din) 0)
      else if k = 14 then put 13 0 (0 :: u32) (put 31 14 (bits32 17 0 din) 0)
      else if k = 15 then put 14 0 (0 :: u32) (put 31 15 (bits32 16 0 din) 0)
      else if k = 16 then put 15 0 (0 :: u32) (put 31 16 (bits32 15 0 din) 0)
      else if k = 17 then put 16 0 (0 :: u32) (put 31 17 (bits32 14 0 din) 0)
      else if k = 18 then put 17 0 (0 :: u32) (put 31 18 (bits32 13 0 din) 0)
      else if k = 19 then put 18 0 (0 :: u32) (put 31 19 (bits32 12 0 din) 0)
      else if k = 20 then put 19 0 (0 :: u32) (put 31 20 (bits32 11 0 din) 0)
      else if k = 21 then put 20 0 (0 :: u32) (put 31 21 (bits32 10 0 din) 0)
      else if k = 22 then put 21 0 (0 :: u32) (put 31 22 (bits32 9 0 din) 0)
      else if k = 23 then put 22 0 (0 :: u32) (put 31 23 (bits32 8 0 din) 0)
      else if k = 24 then put 23 0 (0 :: u32) (put 31 24 (bits32 7 0 din) 0)
      else if k = 25 then put 24 0 (0 :: u32) (put 31 25 (bits32 6 0 din) 0)
      else if k = 26 then put 25 0 (0 :: u32) (put 31 26 (bits32 5 0 din) 0)
      else if k = 27 then put 26 0 (0 :: u32) (put 31 27 (bits32 4 0 din) 0)
      else if k = 28 then put 27 0 (0 :: u32) (put 31 28 (bits32 3 0 din) 0)
      else if k = 29 then put 28 0 (0 :: u32) (put 31 29 (bits32 2 0 din) 0)
      else if k = 30 then put 29 0 (0 :: u32) (put 31 30 (bits32 1 0 din) 0)
      else if k = 31 then put 30 0 (0 :: u32) (put 31 31 (bits32 0 0 din) 0)
      else 0)"

definition shifter_shiftin :: "bool \<Rightarrow> u32 \<Rightarrow> u32" where
  "shifter_shiftin sra din = (if sra \<and> bit din 31 then 0xFFFFFFFF else 0x0)"

definition shifter_sr :: "bool \<Rightarrow> u32 \<Rightarrow> 5 word \<Rightarrow> u32" where
  "shifter_sr sra din k =
     (let shiftin = shifter_shiftin sra din in
      if k = 0 then put 31 0 (bits32 31 0 din) 0
      else if k = 1 then put 30 0 (bits32 31 1 din) (put 31 31 (bits32 31 31 shiftin) 0)
      else if k = 2 then put 29 0 (bits32 31 2 din) (put 31 30 (bits32 31 30 shiftin) 0)
      else if k = 3 then put 28 0 (bits32 31 3 din) (put 31 29 (bits32 31 29 shiftin) 0)
      else if k = 4 then put 27 0 (bits32 31 4 din) (put 31 28 (bits32 31 28 shiftin) 0)
      else if k = 5 then put 26 0 (bits32 31 5 din) (put 31 27 (bits32 31 27 shiftin) 0)
      else if k = 6 then put 25 0 (bits32 31 6 din) (put 31 26 (bits32 31 26 shiftin) 0)
      else if k = 7 then put 24 0 (bits32 31 7 din) (put 31 25 (bits32 31 25 shiftin) 0)
      else if k = 8 then put 23 0 (bits32 31 8 din) (put 31 24 (bits32 31 24 shiftin) 0)
      else if k = 9 then put 22 0 (bits32 31 9 din) (put 31 23 (bits32 31 23 shiftin) 0)
      else if k = 10 then put 21 0 (bits32 31 10 din) (put 31 22 (bits32 31 22 shiftin) 0)
      else if k = 11 then put 20 0 (bits32 31 11 din) (put 31 21 (bits32 31 21 shiftin) 0)
      else if k = 12 then put 19 0 (bits32 31 12 din) (put 31 20 (bits32 31 20 shiftin) 0)
      else if k = 13 then put 18 0 (bits32 31 13 din) (put 31 19 (bits32 31 19 shiftin) 0)
      else if k = 14 then put 17 0 (bits32 31 14 din) (put 31 18 (bits32 31 18 shiftin) 0)
      else if k = 15 then put 16 0 (bits32 31 15 din) (put 31 17 (bits32 31 17 shiftin) 0)
      else if k = 16 then put 15 0 (bits32 31 16 din) (put 31 16 (bits32 31 16 shiftin) 0)
      else if k = 17 then put 14 0 (bits32 31 17 din) (put 31 15 (bits32 31 15 shiftin) 0)
      else if k = 18 then put 13 0 (bits32 31 18 din) (put 31 14 (bits32 31 14 shiftin) 0)
      else if k = 19 then put 12 0 (bits32 31 19 din) (put 31 13 (bits32 31 13 shiftin) 0)
      else if k = 20 then put 11 0 (bits32 31 20 din) (put 31 12 (bits32 31 12 shiftin) 0)
      else if k = 21 then put 10 0 (bits32 31 21 din) (put 31 11 (bits32 31 11 shiftin) 0)
      else if k = 22 then put 9 0 (bits32 31 22 din) (put 31 10 (bits32 31 10 shiftin) 0)
      else if k = 23 then put 8 0 (bits32 31 23 din) (put 31 9 (bits32 31 9 shiftin) 0)
      else if k = 24 then put 7 0 (bits32 31 24 din) (put 31 8 (bits32 31 8 shiftin) 0)
      else if k = 25 then put 6 0 (bits32 31 25 din) (put 31 7 (bits32 31 7 shiftin) 0)
      else if k = 26 then put 5 0 (bits32 31 26 din) (put 31 6 (bits32 31 6 shiftin) 0)
      else if k = 27 then put 4 0 (bits32 31 27 din) (put 31 5 (bits32 31 5 shiftin) 0)
      else if k = 28 then put 3 0 (bits32 31 28 din) (put 31 4 (bits32 31 4 shiftin) 0)
      else if k = 29 then put 2 0 (bits32 31 29 din) (put 31 3 (bits32 31 3 shiftin) 0)
      else if k = 30 then put 1 0 (bits32 31 30 din) (put 31 2 (bits32 31 2 shiftin) 0)
      else if k = 31 then put 0 0 (bits32 31 31 din) (put 31 1 (bits32 31 1 shiftin) 0)
      else 0)"

definition shifter_agregate :: "shifter_kind \<Rightarrow> u32 \<Rightarrow> u32 \<Rightarrow> u32" where
  "shifter_agregate kind sll_dout sr_dout = (if sll_se kind then sll_dout else sr_dout)"

text \<open>The four methods as they are connected: the output port for given inputs.\<close>

definition shifter_DOUT :: "u32 \<Rightarrow> 5 word \<Rightarrow> u2 \<Rightarrow> u32" where
  "shifter_DOUT din shift_val cmd =
     (let kind = shifter_decode_cmd cmd
      in shifter_agregate kind (shifter_sll din shift_val) (shifter_sr (sra_se kind) din shift_val))"

subsection \<open>One case of each switch\<close>

lemma sll_case:
  "Suc a = n \<Longrightarrow> b + n = 31 \<Longrightarrow> put a 0 (0 :: u32) (put 31 n (bits32 b 0 d) 0) = push_bit n d"
  by (rule bit_word_eqI) (auto simp: bit_put bit_rng bit_simps)

lemma sll_case_0: "put 31 0 (bits32 31 0 d) 0 = d"
  by (rule bit_word_eqI) (auto simp: bit_put bit_rng)

lemma shiftin_bit: "n < 32 \<Longrightarrow> bit (shifter_shiftin sra d) n \<longleftrightarrow> sra \<and> bit d 31"
proof -
  have "\<forall>n \<in> {..<32}. bit (0xFFFFFFFF :: u32) n"
    by (simp add: lessThan_nat_numeral)
  then show "n < 32 \<Longrightarrow> bit (shifter_shiftin sra d) n \<longleftrightarrow> sra \<and> bit d 31"
    by (simp add: shifter_shiftin_def)
qed

lemma sr_case:
  "a + n = 31 \<Longrightarrow> b + n = 32 \<Longrightarrow> 0 < n \<Longrightarrow>
     put a 0 (bits32 31 n d) (put 31 b (bits32 31 b (shifter_shiftin sra d)) 0) =
       (if sra then signed_drop_bit n d else drop_bit n d)"
  by (rule bit_word_eqI)
    (auto simp: bit_put bit_rng bit_simps shiftin_bit bit_signed_drop_bit_iff
      dest: bit_imp_le_length)

subsection \<open>The switches are shifts\<close>

lemma shifter_sll_shift: "shifter_sll d k = push_bit (unat k) d"
proof -
  obtain n where n: "n < 32" "k = of_nat n" "unat k = n"
    by (rule u5_cases)
  have "\<forall>n \<in> {..<32}. shifter_sll d (of_nat n) = push_bit n d"
    by (simp add: lessThan_nat_numeral shifter_sll_def sll_case_0 sll_case)
  with n show ?thesis by simp
qed

lemma shifter_sr_shift:
  "shifter_sr sra d k = (if sra then signed_drop_bit (unat k) d else drop_bit (unat k) d)"
proof -
  obtain n where n: "n < 32" "k = of_nat n" "unat k = n"
    by (rule u5_cases)
  have "\<forall>n \<in> {..<32}. shifter_sr sra d (of_nat n) =
      (if sra then signed_drop_bit n d else drop_bit n d)"
    by (simp add: lessThan_nat_numeral shifter_sr_def sll_case_0 sr_case)
  with n show ?thesis by simp
qed

lemma shifter_DOUT_is_shift:
  "shifter_DOUT d k cmd =
     (if cmd = 0 then push_bit (unat k) d
      else if cmd = 1 then drop_bit (unat k) d
      else signed_drop_bit (unat k) d)"
  by (simp add: shifter_DOUT_def shifter_decode_cmd_def shifter_agregate_def Let_def
      shifter_sll_shift shifter_sr_shift)

text \<open>
  C18: whatever the operands, the shifter computes the RV32I shift that the command selects:
  \<open>sll\<close> for 0, \<open>srl\<close> for 1 and \<open>sra\<close> for 2 and 3, by the five-bit amount.
\<close>

theorem shifter_DOUT_shift:
  "shifter_DOUT d k cmd =
     (if cmd = 0 then push_bit (unat k) d
      else if cmd = 1 then drop_bit (unat k) d
      else signed_drop_bit (unat k) d)"
  by (simp add: shifter_DOUT_def shifter_decode_cmd_def shifter_agregate_def Let_def
      shifter_sll_shift shifter_sr_shift)

end
