(* ===== verification/Divider.thy ===== *)
theory Divider
  imports Rv32_Spec
begin

text \<open>
  The sequential divider of the execute stage (\<open>SIM/SystemC/CORE/EXE/Diviseur.cpp\<close>) with the
  start signal that \<open>exec::manage_divider\<close> drives.  A state machine loads the magnitudes of the
  operands, subtracts and shifts for 32 clock cycles and corrects the signs of quotient and
  remainder; a zero divisor takes one cycle.  The invariant of the loop is that the registers
  hold quotient and remainder of the dividend by the shifted divisor; the main theorems state
  when the divider is busy, when it is done, and that its output is the result of \<open>div\<close>,
  \<open>divu\<close>, \<open>rem\<close> or \<open>remu\<close>.
\<close>

subsection \<open>Signals\<close>

record diviseur =
  divisor_re :: u64
  quotient_re :: u32
  reminder_re :: u64
  divisor_se :: u64
  quotient_se :: u32
  reminder_se :: u64
  current_state :: "3 word"
  next_state :: "3 word"
  shift_cpt_se :: u6
  shift_cpt_re :: u6
  quotient_sign_se :: bool
  reminder_sign_se :: bool
  DIVIDER_RES_OUTPUT :: u32
  BUSY_SE :: bool
  DONE_SE :: bool

subsection \<open>Methods\<close>

definition div_new_state :: "diviseur \<Rightarrow> diviseur" where
  "div_new_state s = s\<lparr>current_state := next_state s, shift_cpt_re := shift_cpt_se s,
     divisor_re := divisor_se s, quotient_re := quotient_se s, reminder_re := reminder_se s\<rparr>"

definition div_state_transition :: "bool \<Rightarrow> u32 \<Rightarrow> diviseur \<Rightarrow> diviseur" where
  "div_state_transition start op2 s =
     (if current_state s = 0 then
        (if start \<and> op2 \<noteq> 0 then s\<lparr>next_state := 1\<rparr> else s\<lparr>next_state := 0\<rparr>)
      else if current_state s = 1 then
        (if shift_cpt_re s = 31 then s\<lparr>next_state := 0\<rparr> else s\<lparr>next_state := 1\<rparr>)
      else s)"

text \<open>The idle state of \<open>mae_output\<close>: loading the operands, or answering a zero divisor.\<close>

definition div_load :: "u32 \<Rightarrow> u32 \<Rightarrow> u2 \<Rightarrow> diviseur \<Rightarrow> diviseur" where
  "div_load OP1 OP2 cmd s =
     (let signed_inst = (cmd = 3 \<or> cmd = 1);
          op1 = (if bit OP1 31 \<and> signed_inst then NOT OP1 + 1 else OP1);
          op2 = (if bit OP2 31 \<and> signed_inst then NOT OP2 + 1 else OP2)
      in s\<lparr>quotient_sign_se := ((bit OP2 31 \<noteq> bit OP1 31) \<and> signed_inst),
           reminder_sign_se := (bit OP1 31 \<and> signed_inst),
           divisor_se := put 62 31 op2 0,
           quotient_se := 0,
           reminder_se := ucast op1,
           BUSY_SE := True,
           shift_cpt_se := 0\<rparr>)"

definition div_by_zero :: "u32 \<Rightarrow> diviseur \<Rightarrow> diviseur" where
  "div_by_zero OP1 s =
     s\<lparr>quotient_sign_se := False, reminder_sign_se := False, reminder_se := ucast OP1,
       quotient_se := 0xFFFFFFFF, BUSY_SE := True, shift_cpt_se := 32\<rparr>"

text \<open>The last write of \<open>DONE_SE\<close> in an activation is the one that counts.\<close>

definition div_idle :: "bool \<Rightarrow> u32 \<Rightarrow> u32 \<Rightarrow> u2 \<Rightarrow> diviseur \<Rightarrow> diviseur" where
  "div_idle start OP1 OP2 cmd s =
     (let s' =
        (if start then (if OP2 \<noteq> 0 then div_load OP1 OP2 cmd s else div_by_zero OP1 s)
         else s\<lparr>BUSY_SE := False, shift_cpt_se := 0\<rparr>)
      in s'\<lparr>DONE_SE := (shift_cpt_re s = 32)\<rparr>)"

definition div_calculating :: "diviseur \<Rightarrow> diviseur" where
  "div_calculating s =
     (if shift_cpt_re s \<le> 31 then
        (if divisor_re s > reminder_re s then
           s\<lparr>divisor_se := drop_bit 1 (divisor_re s),
             quotient_se := ucast (put_bit 0 False (push_bit 1 (ucast (quotient_re s) :: u64))),
             shift_cpt_se := shift_cpt_re s + 1\<rparr>
         else
           s\<lparr>reminder_se := reminder_re s - divisor_re s,
             quotient_se := ucast (put_bit 0 True (push_bit 1 (ucast (quotient_re s) :: u64))),
             divisor_se := drop_bit 1 (divisor_re s),
             shift_cpt_se := shift_cpt_re s + 1\<rparr>)
      else s)"

definition div_mae_output :: "bool \<Rightarrow> u32 \<Rightarrow> u32 \<Rightarrow> u2 \<Rightarrow> diviseur \<Rightarrow> diviseur" where
  "div_mae_output start OP1 OP2 cmd s =
     (if current_state s = 0 then div_idle start OP1 OP2 cmd s
      else if current_state s = 1 then div_calculating s
      else s)"

definition div_RET :: "u2 \<Rightarrow> diviseur \<Rightarrow> diviseur" where
  "div_RET cmd s =
     (if cmd = 3 \<or> cmd = 0 then
        (let r = (rng 31 0 (reminder_re s) :: u32)
         in s\<lparr>DIVIDER_RES_OUTPUT := (if reminder_sign_se s then NOT r + 1 else r)\<rparr>)
      else
        s\<lparr>DIVIDER_RES_OUTPUT :=
            (if quotient_sign_se s then NOT (quotient_re s) + 1 else quotient_re s)\<rparr>)"

definition exec_manage_divider :: "4 word \<Rightarrow> bool \<Rightarrow> bool \<Rightarrow> bool" where
  "exec_manage_divider select dec2exe_empty done =
     (if select = 0b1000 \<and> \<not> dec2exe_empty \<and> \<not> done then True else False)"

subsection \<open>A clock cycle\<close>

text \<open>
  The combinational methods run when the registers or the inputs have changed.  \<open>DONE_SE\<close> feeds
  back through \<open>manage_divider\<close> into \<open>START_SE\<close>, so they run once with the start signal of the
  old \<open>DONE_SE\<close> and once more with the new one; \<open>DONE_SE\<close> does not depend on the start signal,
  and the second pass is the last.
\<close>

definition div_pass :: "4 word \<Rightarrow> bool \<Rightarrow> u32 \<Rightarrow> u32 \<Rightarrow> u2 \<Rightarrow> diviseur \<Rightarrow> diviseur" where
  "div_pass select emp OP1 OP2 cmd s =
     (let start = exec_manage_divider select emp (DONE_SE s)
      in div_state_transition start OP2 (div_mae_output start OP1 OP2 cmd s))"

definition div_settle :: "4 word \<Rightarrow> bool \<Rightarrow> u32 \<Rightarrow> u32 \<Rightarrow> u2 \<Rightarrow> diviseur \<Rightarrow> diviseur" where
  "div_settle select emp OP1 OP2 cmd s =
     div_RET cmd (div_pass select emp OP1 OP2 cmd (div_pass select emp OP1 OP2 cmd s))"

definition div_cycle :: "4 word \<Rightarrow> bool \<Rightarrow> u32 \<Rightarrow> u32 \<Rightarrow> u2 \<Rightarrow> diviseur \<Rightarrow> diviseur" where
  "div_cycle select emp OP1 OP2 cmd s = div_settle select emp OP1 OP2 cmd (div_new_state s)"

text \<open>A division: the instruction arrives in an idle divider and stays for \<open>n\<close> clock cycles.\<close>

fun div_run :: "nat \<Rightarrow> u32 \<Rightarrow> u32 \<Rightarrow> u2 \<Rightarrow> diviseur \<Rightarrow> diviseur" where
  "div_run 0 OP1 OP2 cmd s = div_settle 0b1000 False OP1 OP2 cmd s"
| "div_run (Suc n) OP1 OP2 cmd s = div_cycle 0b1000 False OP1 OP2 cmd (div_run n OP1 OP2 cmd s)"

definition div_ready :: "diviseur \<Rightarrow> bool" where
  "div_ready s \<longleftrightarrow> current_state s = 0 \<and> shift_cpt_re s = 0 \<and> \<not> DONE_SE s"

lemmas div_defs =
  div_new_state_def div_state_transition_def div_idle_def div_calculating_def
  div_mae_output_def div_RET_def exec_manage_divider_def div_pass_def div_settle_def
  div_cycle_def Let_def

subsection \<open>One step of the restoring division\<close>

lemma quotient_shift:
  "(ucast (put_bit 0 b (push_bit 1 (ucast q :: u64))) :: u32) = 2 * q + of_bool b"
proof -
  have "(ucast (put_bit 0 b (push_bit 1 (ucast q :: u64))) :: u32) = 2 * q OR of_bool b"
    by (rule bit_word_eqI)
      (auto simp: bit_put_bit bit_simps bit_double_iff bit_twice bit_of_bool_iff)
  also have "\<dots> = 2 * q + of_bool b"
    by (subst disjunctive_add_eq_or) (auto simp: bit_eq_iff bit_simps bit_double_iff)
  finally show ?thesis .
qed

lemma div_double:
  fixes a d :: nat
  assumes "0 < d"
  shows "a div d = 2 * (a div (2 * d)) + of_bool (d \<le> a mod (2 * d))"
    and "a mod d = a mod (2 * d) - (if d \<le> a mod (2 * d) then d else 0)"
proof -
  let ?q = "a div (2 * d)" and ?r = "a mod (2 * d)"
  have a: "a = 2 * d * ?q + ?r" by simp
  have r: "?r < 2 * d" using assms by simp
  show "a div d = 2 * ?q + of_bool (d \<le> ?r)"
  proof (cases "d \<le> ?r")
    case True
    then have "a = d * (2 * ?q + 1) + (?r - d)" and "?r - d < d"
      using a r by (simp_all add: algebra_simps)
    then have "a div d = 2 * ?q + 1"
      by (metis add.right_neutral div_less div_mult_self4 assms bot_nat_0.not_eq_extremum)
    then show ?thesis using True by simp
  next
    case False
    then have "a = d * (2 * ?q) + ?r" and "?r < d"
      using a by (simp_all add: algebra_simps)
    then have "a div d = 2 * ?q"
      by (metis add.right_neutral div_less div_mult_self4 assms bot_nat_0.not_eq_extremum)
    then show ?thesis using False by simp
  qed
  then have "a mod d = a - d * (2 * ?q + of_bool (d \<le> ?r))"
    by (simp add: minus_mult_div_eq_mod [symmetric])
  then show "a mod d = ?r - (if d \<le> ?r then d else 0)"
    using a by (auto simp: algebra_simps split: if_splits)
qed

subsection \<open>The loop invariant\<close>

text \<open>
  Before the step with count \<open>k\<close>, the divisor has been shifted \<open>k\<close> places to the right from
  its initial position 31 places to the left, and the other registers hold quotient and
  remainder of the dividend \<open>a\<close> by the divisor of the step before.
\<close>

definition div_regs :: "nat \<Rightarrow> nat \<Rightarrow> nat \<Rightarrow> diviseur \<Rightarrow> bool" where
  "div_regs a b k s \<longleftrightarrow>
     shift_cpt_re s = of_nat k \<and>
     (k \<le> 31 \<longrightarrow> divisor_re s = of_nat (b * 2 ^ (31 - k))) \<and>
     quotient_re s = of_nat (a div (b * 2 ^ (32 - k))) \<and>
     reminder_re s = of_nat (a mod (b * 2 ^ (32 - k)))"

definition div_flags :: "bool \<Rightarrow> bool \<Rightarrow> diviseur \<Rightarrow> bool" where
  "div_flags qs rs s \<longleftrightarrow> quotient_sign_se s = qs \<and> reminder_sign_se s = rs"

definition div_busy :: "nat \<Rightarrow> nat \<Rightarrow> bool \<Rightarrow> bool \<Rightarrow> nat \<Rightarrow> diviseur \<Rightarrow> bool" where
  "div_busy a b qs rs k s \<longleftrightarrow>
     current_state s = 1 \<and> div_regs a b k s \<and> div_flags qs rs s \<and> BUSY_SE s \<and> \<not> DONE_SE s \<and>
     next_state s = (if k = 31 then 0 else 1) \<and> div_regs a b (Suc k) (div_new_state s)"

lemma unat_of_nat_u64: "x < 2 ^ 64 \<Longrightarrow> unat (of_nat x :: u64) = x"
  by (simp add: unat_of_nat)

lemma of_nat_u64_less: "x < 2 ^ 64 \<Longrightarrow> y < 2 ^ 64 \<Longrightarrow> (of_nat x :: u64) < of_nat y \<longleftrightarrow> x < y"
  by (simp add: word_less_nat_alt unat_of_nat)

lemma drop_bit_of_nat_u64: "x < 2 ^ 64 \<Longrightarrow> drop_bit 1 (of_nat x :: u64) = of_nat (x div 2)"
  by (rule word_unat_eq_iff [THEN iffD2]) (simp add: drop_bit_eq_div unat_div unat_of_nat)

lemma u6_of_nat_le: "k \<le> 31 \<Longrightarrow> (of_nat k :: u6) \<le> 31"
  by (simp add: word_le_nat_alt unat_of_nat)

lemma u6_of_nat_eq: "k < 64 \<Longrightarrow> m < 64 \<Longrightarrow> (of_nat k :: u6) = of_nat m \<longleftrightarrow> k = m"
  by (simp add: word_unat_eq_iff unat_of_nat)

lemma div_regs_new_state:
  "div_regs a b k (div_new_state s) \<longleftrightarrow>
     shift_cpt_se s = of_nat k \<and>
     (k \<le> 31 \<longrightarrow> divisor_se s = of_nat (b * 2 ^ (31 - k))) \<and>
     quotient_se s = of_nat (a div (b * 2 ^ (32 - k))) \<and>
     reminder_se s = of_nat (a mod (b * 2 ^ (32 - k)))"
  by (simp add: div_regs_def div_new_state_def)

lemma div_calculating_keep:
  "shift_cpt_re s \<le> 31 \<Longrightarrow> reminder_re s < divisor_re s \<Longrightarrow>
     div_calculating s = s\<lparr>divisor_se := drop_bit 1 (divisor_re s),
       quotient_se := 2 * quotient_re s, shift_cpt_se := shift_cpt_re s + 1\<rparr>"
  using quotient_shift [of False "quotient_re s"]
  by (simp only: div_calculating_def if_True of_bool_eq add_0_right)

lemma div_calculating_subtract:
  "shift_cpt_re s \<le> 31 \<Longrightarrow> \<not> reminder_re s < divisor_re s \<Longrightarrow>
     div_calculating s = s\<lparr>reminder_se := reminder_re s - divisor_re s,
       quotient_se := 2 * quotient_re s + 1, divisor_se := drop_bit 1 (divisor_re s),
       shift_cpt_se := shift_cpt_re s + 1\<rparr>"
  using quotient_shift [of True "quotient_re s"]
  by (simp only: div_calculating_def if_True if_False of_bool_eq)

lemma shifted_u64:
  fixes b :: nat
  assumes "b < 2 ^ 32"
  shows "b * 2 ^ (31 - k) < 2 ^ 64"
proof -
  have "(2 :: nat) ^ (31 - k) \<le> 2 ^ 31"
    by (rule power_increasing) simp_all
  then have "b * 2 ^ (31 - k) \<le> b * 2 ^ 31" by (rule mult_le_mono2)
  also have "\<dots> < 2 ^ 64" using assms by simp
  finally show ?thesis .
qed

lemma mod_u64:
  fixes a :: nat
  assumes "a < 2 ^ 32"
  shows "a mod d < 2 ^ 64"
proof -
  have "a mod d \<le> a" by (rule mod_less_eq_dividend)
  also have "\<dots> < 2 ^ 64" using assms by simp
  finally show ?thesis .
qed

lemma div_step_regs:
  assumes regs: "div_regs a b k s" and k: "k \<le> 31" and a: "a < 2 ^ 32"
    and b: "0 < b" "b < 2 ^ 32" and latch: "reminder_se s = reminder_re s"
  shows "div_regs a b (Suc k) (div_new_state (div_calculating s))"
proof -
  define d where "d = b * 2 ^ (31 - k)"
  have two: "b * 2 ^ (32 - k) = 2 * d"
  proof -
    have "32 - k = Suc (31 - k)" using k by simp
    then show ?thesis by (simp add: d_def)
  qed
  have d64: "d < 2 ^ 64"
    using b unfolding d_def by (intro shifted_u64)
  have d0: "0 < d"
    using b by (simp add: d_def)
  have r64: "a mod (2 * d) < 2 ^ 64"
    using a by (rule mod_u64)
  have cpt: "shift_cpt_re s \<le> 31" "shift_cpt_re s + 1 = of_nat (Suc k)"
    and dr: "divisor_re s = of_nat d"
    and qr: "quotient_re s = of_nat (a div (2 * d))"
    and rr: "reminder_re s = of_nat (a mod (2 * d))"
    using regs k u6_of_nat_le [OF k] unfolding div_regs_def two d_def [symmetric]
    by (simp_all only: simp_thms of_nat_Suc add.commute)
  have cmp: "reminder_re s < divisor_re s \<longleftrightarrow> \<not> d \<le> a mod (2 * d)"
    by (simp only: dr rr of_nat_u64_less [OF r64 d64] not_le)
  have dvs: "Suc k \<le> 31 \<Longrightarrow> drop_bit 1 (divisor_re s) = of_nat (b * 2 ^ (31 - Suc k))"
  proof -
    assume "Suc k \<le> 31"
    then have "31 - k = Suc (31 - Suc k)" by simp
    then have "d div 2 = b * 2 ^ (31 - Suc k)" by (simp add: d_def)
    then show ?thesis by (simp only: dr drop_bit_of_nat_u64 [OF d64])
  qed
  have idx: "b * 2 ^ (32 - Suc k) = d" by (simp add: d_def)
  show ?thesis
  proof (cases "d \<le> a mod (2 * d)")
    case True
    have "reminder_re s - divisor_re s = of_nat (a mod d)"
      using True by (simp only: dr rr div_double(2) [OF d0] if_True of_nat_diff)
    moreover have "2 * quotient_re s + 1 = of_nat (a div d)"
      using True by (simp only: qr div_double(1) [OF d0, of a]) simp
    moreover have "div_calculating s = s\<lparr>reminder_se := reminder_re s - divisor_re s,
        quotient_se := 2 * quotient_re s + 1, divisor_se := drop_bit 1 (divisor_re s),
        shift_cpt_se := shift_cpt_re s + 1\<rparr>"
      using cmp True cpt(1) by (intro div_calculating_subtract) simp_all
    ultimately show ?thesis
      using cpt(2) dvs unfolding div_regs_new_state idx by simp
  next
    case False
    have "reminder_se s = of_nat (a mod d)"
      using False by (simp add: latch rr div_double(2) [OF d0, of a])
    moreover have "2 * quotient_re s = of_nat (a div d)"
      using False by (simp only: qr div_double(1) [OF d0, of a]) simp
    moreover have "div_calculating s = s\<lparr>divisor_se := drop_bit 1 (divisor_re s),
        quotient_se := 2 * quotient_re s, shift_cpt_se := shift_cpt_re s + 1\<rparr>"
      using cmp False cpt(1) by (intro div_calculating_keep) simp_all
    ultimately show ?thesis
      using cpt(2) dvs unfolding div_regs_new_state idx by simp
  qed
qed

text \<open>In the calculating state the two passes of a settled cycle compute the same values.\<close>

lemma div_calculating_frame [simp]:
  "current_state (div_calculating s) = current_state s"
  "next_state (div_calculating s) = next_state s"
  "shift_cpt_re (div_calculating s) = shift_cpt_re s"
  "divisor_re (div_calculating s) = divisor_re s"
  "quotient_re (div_calculating s) = quotient_re s"
  "reminder_re (div_calculating s) = reminder_re s"
  "quotient_sign_se (div_calculating s) = quotient_sign_se s"
  "reminder_sign_se (div_calculating s) = reminder_sign_se s"
  "BUSY_SE (div_calculating s) = BUSY_SE s"
  "DONE_SE (div_calculating s) = DONE_SE s"
  by (simp_all add: div_calculating_def)

lemma div_settle_calculating:
  assumes "current_state s = 1"
  shows "div_settle sel e OP1 OP2 cmd s =
     div_RET cmd ((div_calculating s)\<lparr>next_state := if shift_cpt_re s = 31 then 0 else 1\<rparr>)"
  using assms
  by (simp add: div_settle_def div_pass_def div_mae_output_def div_state_transition_def Let_def)
    (simp add: div_calculating_def)

lemma div_RET_frame [simp]:
  "current_state (div_RET cmd s) = current_state s"
  "next_state (div_RET cmd s) = next_state s"
  "quotient_sign_se (div_RET cmd s) = quotient_sign_se s"
  "reminder_sign_se (div_RET cmd s) = reminder_sign_se s"
  "BUSY_SE (div_RET cmd s) = BUSY_SE s"
  "DONE_SE (div_RET cmd s) = DONE_SE s"
  "div_regs a b k (div_RET cmd s) = div_regs a b k s"
  "div_regs a b k (div_new_state (div_RET cmd s)) = div_regs a b k (div_new_state s)"
  by (simp_all add: div_RET_def Let_def div_regs_def div_new_state_def)

lemma div_regs_next_state [simp]:
  "div_regs a b k (s\<lparr>next_state := v\<rparr>) = div_regs a b k s"
  "div_regs a b k (div_calculating s) = div_regs a b k s"
  "div_regs a b k (div_new_state (s\<lparr>next_state := v\<rparr>)) = div_regs a b k (div_new_state s)"
  by (simp_all add: div_regs_def div_new_state_def)

lemma div_cycle_busy:
  assumes busy: "div_busy a b qs rs k s" and k: "k < 31"
    and ab: "a < 2 ^ 32" "0 < b" "b < 2 ^ 32"
  shows "div_busy a b qs rs (Suc k) (div_cycle sel e OP1 OP2 cmd s)"
proof -
  define n where "n = div_new_state s"
  have regs: "div_regs a b (Suc k) n"
    using busy by (simp add: div_busy_def n_def)
  have st: "current_state n = 1" and latch: "reminder_se n = reminder_re n"
    and fl: "quotient_sign_se n = qs" "reminder_sign_se n = rs" "BUSY_SE n" "\<not> DONE_SE n"
    using busy k by (simp_all add: div_busy_def n_def div_new_state_def div_flags_def)
  have "shift_cpt_re n = of_nat (Suc k)"
    using regs by (simp add: div_regs_def)
  then have cpt: "(shift_cpt_re n = 31) = (Suc k = 31)"
    using u6_of_nat_eq [of "Suc k" 31] k by (simp only: of_nat_numeral)
  have "div_regs a b (Suc (Suc k)) (div_new_state (div_calculating n))"
    using k ab by (intro div_step_regs [OF regs]) (simp_all add: latch)
  then show ?thesis
    using regs st fl cpt
    by (simp only: div_cycle_def n_def [symmetric] div_settle_calculating [OF st] div_busy_def
        div_flags_def) simp
qed


subsection \<open>A whole division\<close>

definition div_signed :: "u2 \<Rightarrow> bool" where
  "div_signed cmd \<longleftrightarrow> cmd = 3 \<or> cmd = 1"

definition div_mag :: "u2 \<Rightarrow> u32 \<Rightarrow> nat" where
  "div_mag cmd x = unat (if bit x 31 \<and> div_signed cmd then - x else x)"

definition div_qsign :: "u2 \<Rightarrow> u32 \<Rightarrow> u32 \<Rightarrow> bool" where
  "div_qsign cmd x y \<longleftrightarrow> bit y 31 \<noteq> bit x 31 \<and> div_signed cmd"

definition div_rsign :: "u2 \<Rightarrow> u32 \<Rightarrow> bool" where
  "div_rsign cmd x \<longleftrightarrow> bit x 31 \<and> div_signed cmd"

lemma div_mag_less: "div_mag cmd x < 2 ^ 32"
proof -
  have "unat y < 2 ^ 32" for y :: u32
    using unsigned_less [of y, where ?'a = nat] by simp
  then show ?thesis by (simp add: div_mag_def)
qed

lemma div_mag_pos: "x \<noteq> 0 \<Longrightarrow> 0 < div_mag cmd x"
  by (simp add: div_mag_def unat_gt_0)

lemma put_divisor: "(put 62 31 (y :: u32) 0 :: u64) = of_nat (unat y * 2 ^ 31)"
proof -
  have "(put 62 31 y 0 :: u64) = push_bit 31 (ucast y)"
    by (rule bit_word_eqI) (auto simp: bit_put bit_simps dest: bit_imp_le_length)
  also have "\<dots> = of_nat (unat y * 2 ^ 31)"
    by (simp add: push_bit_eq_mult)
  finally show ?thesis .
qed

text \<open>The first activation, in an idle divider.\<close>

lemma div_run_0:
  assumes "div_ready s" "OP2 \<noteq> 0"
  shows "BUSY_SE (div_run 0 OP1 OP2 cmd s)" "\<not> DONE_SE (div_run 0 OP1 OP2 cmd s)"
    "next_state (div_run 0 OP1 OP2 cmd s) = 1"
    "div_flags (div_qsign cmd OP1 OP2) (div_rsign cmd OP1) (div_run 0 OP1 OP2 cmd s)"
    "div_regs (div_mag cmd OP1) (div_mag cmd OP2) 0 (div_new_state (div_run 0 OP1 OP2 cmd s))"
proof -
  have st: "div_run 0 OP1 OP2 cmd s =
      div_RET cmd ((div_load OP1 OP2 cmd s)\<lparr>DONE_SE := False, next_state := 1\<rparr>)"
    using assms
    by (simp add: div_settle_def div_pass_def exec_manage_divider_def div_mae_output_def
        div_idle_def div_ready_def div_state_transition_def div_load_def Let_def)
  show "BUSY_SE (div_run 0 OP1 OP2 cmd s)" "\<not> DONE_SE (div_run 0 OP1 OP2 cmd s)"
    "next_state (div_run 0 OP1 OP2 cmd s) = 1"
    "div_flags (div_qsign cmd OP1 OP2) (div_rsign cmd OP1) (div_run 0 OP1 OP2 cmd s)"
    unfolding st by (simp_all add: div_load_def Let_def div_flags_def div_qsign_def
        div_rsign_def div_signed_def)
  have small: "div_mag cmd OP1 < div_mag cmd OP2 * 2 ^ 32"
    using div_mag_less [of cmd OP1] div_mag_pos [OF assms(2), of cmd]
    by (metis less_le_trans mult.commute nat_mult_le_cancel1 mult_le_mono2 Suc_leI
        nat_mult_1_right One_nat_def)
  have neg: "(if bit x 31 \<and> (cmd = 3 \<or> cmd = 1) then NOT x + 1 else x) =
      (if bit x 31 \<and> div_signed cmd then - x else x)" for x :: u32
    by (simp only: not_plus_one div_signed_def)
  have dv: "divisor_se (div_run 0 OP1 OP2 cmd s) = of_nat (div_mag cmd OP2 * 2 ^ 31)"
    unfolding st div_RET_def div_load_def Let_def neg put_divisor div_mag_def by simp
  have rm: "reminder_se (div_run 0 OP1 OP2 cmd s) = of_nat (div_mag cmd OP1)"
    unfolding st div_RET_def div_load_def Let_def neg div_mag_def by simp
  have qs: "quotient_se (div_run 0 OP1 OP2 cmd s) = 0"
    "shift_cpt_se (div_run 0 OP1 OP2 cmd s) = 0"
    unfolding st div_RET_def div_load_def Let_def by simp_all
  show "div_regs (div_mag cmd OP1) (div_mag cmd OP2) 0
      (div_new_state (div_run 0 OP1 OP2 cmd s))"
    unfolding div_regs_new_state dv rm qs using small by simp
qed


lemma div_run_busy:
  assumes ready: "div_ready s" and op2: "OP2 \<noteq> 0"
  shows "k \<le> 31 \<Longrightarrow> div_busy (div_mag cmd OP1) (div_mag cmd OP2) (div_qsign cmd OP1 OP2)
    (div_rsign cmd OP1) k (div_run (Suc k) OP1 OP2 cmd s)"
proof (induction k)
  case 0
  note first = div_run_0 [OF ready op2, where cmd = cmd and ?OP1.0 = OP1]
  define n where "n = div_new_state (div_run 0 OP1 OP2 cmd s)"
  have regs: "div_regs (div_mag cmd OP1) (div_mag cmd OP2) 0 n"
    using first(5) by (simp only: n_def)
  have st: "current_state n = 1" and latch: "reminder_se n = reminder_re n"
    and fl: "quotient_sign_se n = div_qsign cmd OP1 OP2"
      "reminder_sign_se n = div_rsign cmd OP1" "BUSY_SE n" "\<not> DONE_SE n"
    using first(1-4) unfolding n_def by (simp_all add: div_new_state_def div_flags_def)
  have "shift_cpt_re n = 0"
    using regs by (simp add: div_regs_def)
  moreover have "div_regs (div_mag cmd OP1) (div_mag cmd OP2) (Suc 0)
      (div_new_state (div_calculating n))"
    by (rule div_step_regs [OF regs _ div_mag_less div_mag_pos [OF op2] div_mag_less latch])
      simp
  ultimately show ?case
    using regs st fl
    by (simp only: div_run.simps(2) div_cycle_def n_def [symmetric]
        div_settle_calculating [OF st] div_busy_def div_flags_def) simp
next
  case (Suc k)
  then have "div_busy (div_mag cmd OP1) (div_mag cmd OP2) (div_qsign cmd OP1 OP2)
      (div_rsign cmd OP1) k (div_run (Suc k) OP1 OP2 cmd s)" and "k < 31"
    by simp_all
  then show ?case
    unfolding div_run.simps(2) [of "Suc k"]
    by (rule div_cycle_busy [OF _ _ div_mag_less div_mag_pos [OF op2] div_mag_less])
qed

text \<open>The activation in which the divider is done.\<close>

lemma div_done_cycle:
  assumes "current_state n = 0" "shift_cpt_re n = 32" "\<not> DONE_SE n"
    "OP2 \<noteq> 0"
  shows "div_settle 0b1000 False OP1 OP2 cmd n =
     div_RET cmd ((div_load OP1 OP2 cmd n)\<lparr>BUSY_SE := False, shift_cpt_se := 0, DONE_SE := True,
       next_state := 0\<rparr>)"
  using assms
  by (simp add: div_settle_def div_pass_def exec_manage_divider_def div_mae_output_def
      div_idle_def div_state_transition_def div_load_def Let_def)

definition div_output :: "u2 \<Rightarrow> u32 \<Rightarrow> u32 \<Rightarrow> u32" where
  "div_output cmd OP1 OP2 =
     (let a = div_mag cmd OP1; b = div_mag cmd OP2
      in if cmd = 3 \<or> cmd = 0 then (if div_rsign cmd OP1 then - of_nat (a mod b) else of_nat (a mod b))
         else (if div_qsign cmd OP1 OP2 then - of_nat (a div b) else of_nat (a div b)))"

lemma rng_low_of_nat: "(rng 31 0 (of_nat x :: u64) :: u32) = of_nat x"
proof -
  have "(rng 31 0 (word_of_int y :: u64) :: u32) = word_of_int y" for y
    by (rule bit_word_eqI) (auto simp: bit_rng bit_word_of_int_iff)
  from this [of "int x"] show ?thesis by simp
qed

lemma low_ucast: "(rng 31 0 (ucast w :: u64) :: u32) = w" for w :: u32
  by (rule bit_word_eqI) (auto simp: bit_rng bit_simps)

lemma div_run_33:
  assumes ready: "div_ready s" and op2: "OP2 \<noteq> 0"
  shows "DONE_SE (div_run 33 OP1 OP2 cmd s) \<and> \<not> BUSY_SE (div_run 33 OP1 OP2 cmd s) \<and>
    DIVIDER_RES_OUTPUT (div_run 33 OP1 OP2 cmd s) = div_output cmd OP1 OP2 \<and>
    current_state (div_new_state (div_run 33 OP1 OP2 cmd s)) = 0"
proof -
  let ?a = "div_mag cmd OP1" and ?b = "div_mag cmd OP2"
  define n where "n = div_new_state (div_run (Suc 31) OP1 OP2 cmd s)"
  have busy: "div_busy ?a ?b (div_qsign cmd OP1 OP2) (div_rsign cmd OP1) 31
      (div_run (Suc 31) OP1 OP2 cmd s)"
    by (rule div_run_busy [OF ready op2]) simp
  then have regs: "div_regs ?a ?b (Suc 31) n"
    by (simp only: div_busy_def n_def)
  have st: "current_state n = 0" "\<not> DONE_SE n"
    using busy unfolding div_busy_def n_def by (simp_all add: div_new_state_def)
  have cpt: "shift_cpt_re n = 32" and q: "quotient_re n = of_nat (?a div ?b)"
    and r: "reminder_re n = of_nat (?a mod ?b)"
    using regs unfolding div_regs_def by simp_all
  have "div_run (Suc 32) OP1 OP2 cmd s = div_settle 0b1000 False OP1 OP2 cmd n"
    using div_run.simps(2) [of "Suc 31" OP1 OP2 cmd s]
    by (simp only: n_def div_cycle_def) simp
  then have run: "div_run 33 OP1 OP2 cmd s =
     div_RET cmd ((div_load OP1 OP2 cmd n)\<lparr>BUSY_SE := False, shift_cpt_se := 0, DONE_SE := True,
       next_state := 0\<rparr>)"
    by (simp add: div_done_cycle [OF st(1) cpt st(2) op2])
  have low: "(rng 31 0 (reminder_re n) :: u32) = of_nat (?a mod ?b)"
    unfolding r by (rule rng_low_of_nat)
  show ?thesis
    unfolding run div_RET_def div_load_def Let_def div_output_def
    by (simp add: low q not_plus_one div_qsign_def div_rsign_def div_signed_def div_new_state_def)
qed


subsection \<open>The result is the architectural one\<close>

lemma int_div_mag:
  "int (div_mag cmd x) = (if div_signed cmd then \<bar>sint x\<bar> else uint x)"
proof -
  have "sint x < 0 \<longleftrightarrow> bit x 31" by (rule bit31_sint [symmetric])
  then show ?thesis
    using uint_neg_word [of x] uint_pos_word [of x]
    by (auto simp: div_mag_def simp flip: uint_nat)
qed

lemma sdiv_magnitudes:
  "l \<noteq> 0 \<Longrightarrow> k sdiv l = (if (l < 0) \<noteq> (k < 0) then - (\<bar>k\<bar> div \<bar>l\<bar>) else \<bar>k\<bar> div \<bar>l\<bar>)"
  for k l :: int
  by (cases "k = 0"; cases "k < 0"; cases "l < 0") (simp_all add: signed_divide_int_def)

lemma smod_magnitudes:
  "k smod l = (if k < 0 then - (\<bar>k\<bar> mod \<bar>l\<bar>) else \<bar>k\<bar> mod \<bar>l\<bar>)"
  for k l :: int
  by (cases "k = 0"; cases "k < 0") (simp_all add: signed_modulo_int_def)

lemma of_nat_magnitudes:
  "(of_nat (a div b) :: u32) = word_of_int (int a div int b)"
  "(of_nat (a mod b) :: u32) = word_of_int (int a mod int b)"
  by (simp_all flip: of_nat_div of_nat_mod)

lemma neg_if_word: "(if c then - (word_of_int z :: u32) else word_of_int z) =
    word_of_int (if c then - z else z)"
  by simp

lemma div_output_signed:
  assumes "OP2 \<noteq> 0"
  shows "div_output 1 OP1 OP2 = rv_div OP1 OP2" "div_output 3 OP1 OP2 = rv_rem OP1 OP2"
proof -
  have nz: "sint OP2 \<noteq> 0" using assms by (simp add: signed_eq_0_iff)
  show "div_output 1 OP1 OP2 = rv_div OP1 OP2"
    using assms
    by (simp add: div_output_def Let_def rv_div_def div_qsign_def div_signed_def int_div_mag
        of_nat_magnitudes neg_if_word bit31_sint sdiv_magnitudes [OF nz])
  show "div_output 3 OP1 OP2 = rv_rem OP1 OP2"
    using assms
    by (simp add: div_output_def Let_def rv_rem_def div_rsign_def div_signed_def int_div_mag
        of_nat_magnitudes neg_if_word bit31_sint smod_magnitudes)
qed

lemma div_output_unsigned:
  assumes "OP2 \<noteq> 0"
  shows "div_output 2 OP1 OP2 = rv_divu OP1 OP2" "div_output 0 OP1 OP2 = rv_remu OP1 OP2"
  using assms
  by (simp_all add: div_output_def Let_def rv_divu_def rv_remu_def div_qsign_def div_rsign_def
      div_signed_def int_div_mag of_nat_magnitudes)

definition rv_division :: "u2 \<Rightarrow> u32 \<Rightarrow> u32 \<Rightarrow> u32" where
  "rv_division cmd OP1 OP2 =
     (if cmd = 1 then rv_div OP1 OP2 else if cmd = 2 then rv_divu OP1 OP2
      else if cmd = 3 then rv_rem OP1 OP2 else rv_remu OP1 OP2)"

lemma div_output_spec: "OP2 \<noteq> 0 \<Longrightarrow> div_output cmd OP1 OP2 = rv_division cmd OP1 OP2"
  using u2_cases [of cmd] div_output_signed [of OP2 OP1] div_output_unsigned [of OP2 OP1]
  by (auto simp: rv_division_def)

lemma div_run_done:
  assumes "div_ready s" "OP2 \<noteq> 0"
  shows "DONE_SE (div_run 33 OP1 OP2 cmd s) \<and> \<not> BUSY_SE (div_run 33 OP1 OP2 cmd s) \<and>
    DIVIDER_RES_OUTPUT (div_run 33 OP1 OP2 cmd s) =
      (if cmd = 1 then rv_div OP1 OP2 else if cmd = 2 then rv_divu OP1 OP2
       else if cmd = 3 then rv_rem OP1 OP2 else rv_remu OP1 OP2) \<and>
    next_state (div_run 33 OP1 OP2 cmd s) = 0"
  using div_run_33 [OF assms, of OP1 cmd] div_output_spec [OF assms(2), of cmd OP1]
  by (simp add: rv_division_def div_new_state_def)

lemma div_run_waits:
  assumes "div_ready s" "OP2 \<noteq> 0" "n < 33"
  shows "BUSY_SE (div_run n OP1 OP2 cmd s) \<and> \<not> DONE_SE (div_run n OP1 OP2 cmd s)"
proof (cases n)
  case 0
  then show ?thesis using div_run_0 [OF assms(1,2)] by (simp del: div_run.simps)
next
  case (Suc k)
  then show ?thesis
    using assms(3) div_run_busy [OF assms(1,2), of k cmd OP1]
    by (simp add: div_busy_def del: div_run.simps)
qed


text \<open>A division by zero takes one cycle and returns all ones, or the dividend.\<close>

theorem div_run_zero:
  assumes "div_ready s"
  shows "BUSY_SE (div_run 0 OP1 0 cmd s) \<and> \<not> DONE_SE (div_run 0 OP1 0 cmd s) \<and>
    DONE_SE (div_run 1 OP1 0 cmd s) \<and> \<not> BUSY_SE (div_run 1 OP1 0 cmd s) \<and>
    next_state (div_run 1 OP1 0 cmd s) = 0 \<and>
    DIVIDER_RES_OUTPUT (div_run 1 OP1 0 cmd s) =
      (if cmd = 1 then rv_div OP1 0 else if cmd = 2 then rv_divu OP1 0
       else if cmd = 3 then rv_rem OP1 0 else rv_remu OP1 0)"
proof -
  have run0: "div_run 0 OP1 0 cmd s =
      div_RET cmd ((div_by_zero OP1 s)\<lparr>DONE_SE := False, next_state := 0\<rparr>)"
    using assms
    by (simp add: div_settle_def div_pass_def exec_manage_divider_def div_mae_output_def
        div_idle_def div_ready_def div_state_transition_def div_by_zero_def Let_def)
  define n where "n = div_new_state (div_run 0 OP1 0 cmd s)"
  have n: "current_state n = 0" "shift_cpt_re n = 32" "\<not> DONE_SE n"
    "quotient_re n = 0xFFFFFFFF" "(rng 31 0 (reminder_re n) :: u32) = OP1"
    using low_ucast [of OP1]
    unfolding n_def run0 by (simp_all add: div_new_state_def div_RET_def Let_def div_by_zero_def)
  have "div_run 1 OP1 0 cmd s = div_settle 0b1000 False OP1 0 cmd n"
    by (simp only: One_nat_def div_run.simps(2) div_cycle_def n_def)
  also have "\<dots> = div_RET cmd ((div_by_zero OP1 n)\<lparr>BUSY_SE := False, shift_cpt_se := 0,
      DONE_SE := True, next_state := 0\<rparr>)"
    using n(1-3)
    by (simp add: div_settle_def div_pass_def exec_manage_divider_def div_mae_output_def
        div_idle_def div_state_transition_def div_by_zero_def Let_def)
  finally have run1: "div_run 1 OP1 0 cmd s = div_RET cmd ((div_by_zero OP1 n)\<lparr>
      BUSY_SE := False, shift_cpt_se := 0, DONE_SE := True, next_state := 0\<rparr>)" .
  have "BUSY_SE (div_run 0 OP1 0 cmd s)" "\<not> DONE_SE (div_run 0 OP1 0 cmd s)"
    unfolding run0 by (simp_all add: div_by_zero_def)
  moreover have "DIVIDER_RES_OUTPUT (div_run 1 OP1 0 cmd s) = rv_division cmd OP1 0"
    using u2_cases [of cmd] unfolding run1
    by (auto simp: n div_RET_def Let_def div_by_zero_def rv_division_def rv_div_def
        rv_divu_def rv_rem_def rv_remu_def)
  moreover have "DONE_SE (div_run 1 OP1 0 cmd s)" "\<not> BUSY_SE (div_run 1 OP1 0 cmd s)"
    "next_state (div_run 1 OP1 0 cmd s) = 0"
    unfolding run1 by simp_all
  ultimately show ?thesis
    by (simp only: rv_division_def simp_thms)
qed

text \<open>A divider at rest, and the divisions of -7 by 2.\<close>

definition div_rest :: diviseur where
  "div_rest = \<lparr>divisor_re = 0, quotient_re = 0, reminder_re = 0, divisor_se = 0, quotient_se = 0,
     reminder_se = 0, current_state = 0, next_state = 0, shift_cpt_se = 0, shift_cpt_re = 0,
     quotient_sign_se = False, reminder_sign_se = False, DIVIDER_RES_OUTPUT = 0,
     BUSY_SE = False, DONE_SE = False\<rparr>"

lemma div_rest_ready: "div_ready div_rest"
  by (simp add: div_ready_def div_rest_def)


theorem div_run_zero_witness:
  "DIVIDER_RES_OUTPUT (div_run 1 7 0 1 div_rest) = - 1 \<and> DONE_SE (div_run 1 7 0 1 div_rest)"
proof -
  have "rv_div 7 0 = - 1" by (simp add: rv_div_def)
  then show ?thesis
    using div_run_zero [OF div_rest_ready, of 7 1] by (simp del: div_run.simps)
qed

end
