(* ===== verification/Exec.thy ===== *)
theory Exec
  imports Stage_Interfaces Alu Shifter Divider
begin

text \<open>
  The execute stage (\<open>SIM/SystemC/CORE/EXE/exec.cpp\<close>, \<open>exec.h\<close>): operand bypasses, the ALU and
  the shifter, selection of the result, detection of misaligned and forbidden accesses,
  suppression of the effects of a faulting instruction, and the handshake with the FIFOs on
  both sides.

  The record \<open>exec\<close> holds the internal signals and output ports.  The instruction being executed
  is the record \<open>dec2exe_out\<close>; the instructions ahead of it in the pipeline, from which operands
  are bypassed, are \<open>exe2mem_out\<close> and \<open>mem2wbk_out\<close>; \<open>exec_env\<close> holds the other input ports.
\<close>

subsection \<open>Signals\<close>

record exec_env =
  EXE2MEM_EMPTY_SE :: bool
  MEM2WBK_EMPTY_SM :: bool
  DEC2EXE_EMPTY_SD :: bool
  exe2mem_full_se :: bool
  EXCEPTION_SM :: bool
  CURRENT_MODE_SM :: u2
  KERNEL_ADR_SC :: u32
  DIVIDER_RES_OUTPUT_in :: u32
  DIV_BUSY_SE :: bool
  MACHINE_SOFTWARE_INTERRUPT_SX :: bool
  MACHINE_TIMER_INTERRUPT_SX :: bool
  MACHINE_EXTERNAL_INTERRUPT_SX :: bool

record exec =
  op1_se :: u32
  op2_se :: u32
  r1_valid_se :: bool
  r2_valid_se :: bool
  blocked :: bool
  bp_mem_data_sd :: u32
  alu_in_op2_se :: u32
  shift_val_se :: "5 word"
  OP1_SE :: u32
  OP2_SE :: u32
  alu_out_se :: u32
  shifter_out_se :: u32
  exe_res_se :: u32
  load_adress_missaligned_se :: bool
  load_access_fault_se :: bool
  store_adress_missaligned_se :: bool
  store_access_fault_se :: bool
  exception_se :: bool
  INTERRUPTION_SE :: bool
  wb_re :: bool
  mem_load_re :: bool
  mem_store_re :: bool
  exe2mem_push_se :: bool
  DEC2EXE_POP_SE :: bool
  stall_se :: bool

subsection \<open>Bypasses\<close>

text \<open>In the blocked case \<open>op1_se\<close> (or \<open>op2_se\<close>) is not written and keeps its value.\<close>

definition exec_bypass_rs1 ::
  "exec_env \<Rightarrow> dec2exe_out \<Rightarrow> exe2mem_out \<Rightarrow> mem2wbk_out \<Rightarrow> exec \<Rightarrow> exec \<times> bool" where
  "exec_bypass_rs1 env rd re rm s =
     (if BP_RADR1_RD rd = 0 \<or> BLOCK_BP_RD rd then
        (s\<lparr>op1_se := OP1_RD rd, r1_valid_se := True\<rparr>, False)
      else if DEST_RE re = BP_RADR1_RD rd \<and> CSR_WENABLE_RE re then
        (s\<lparr>op1_se := CSR_RDATA_RE re, r1_valid_se := True\<rparr>, False)
      else if DEST_RE re = BP_RADR1_RD rd \<and> \<not> MEM_LOAD_RE re then
        (s\<lparr>op1_se := (if \<not> CSRRC_I_RD rd then EXE_RES_RE re else NOT (EXE_RES_RE re)),
           r1_valid_se := (\<not> MULT_INST_RE re \<or> EXE2MEM_EMPTY_SE env)\<rparr>, False)
      else if DEST_RM rm = BP_RADR1_RD rd \<and> CSR_WENABLE_RM rm then
        (s\<lparr>op1_se := CSR_RDATA_RM rm, r1_valid_se := True\<rparr>, False)
      else if DEST_RM rm = BP_RADR1_RD rd then
        (s\<lparr>op1_se := (if \<not> CSRRC_I_RD rd then MEM_RES_RM rm else NOT (MEM_RES_RM rm)),
           r1_valid_se := (\<not> MULT_INST_RM rm \<or> MEM2WBK_EMPTY_SM env)\<rparr>, False)
      else if DEST_RE re = BP_RADR1_RD rd \<and> MEM_LOAD_RE re \<and> \<not> EXE2MEM_EMPTY_SE env then
        (s\<lparr>r1_valid_se := True\<rparr>, True)
      else (s\<lparr>op1_se := OP1_RD rd, r1_valid_se := True\<rparr>, False))"

definition exec_bypass_rs2 ::
  "exec_env \<Rightarrow> dec2exe_out \<Rightarrow> exe2mem_out \<Rightarrow> mem2wbk_out \<Rightarrow> bool \<Rightarrow> exec \<Rightarrow> exec" where
  "exec_bypass_rs2 env rd re rm blocked_var s =
     (let bp_mem_data_var = MEM_DATA_RD rd in
      if BP_RADR2_RD rd = 0 \<or> MEM_LOAD_RD rd \<or> BLOCK_BP_RD rd then
        s\<lparr>op2_se := OP2_RD rd, r2_valid_se := True, bp_mem_data_sd := bp_mem_data_var,
          blocked := blocked_var\<rparr>
      else if DEST_RE re = BP_RADR2_RD rd \<and> \<not> MEM_LOAD_RE re \<and> \<not> MULT_INST_RE re then
        (let bp_value = (if CSR_WENABLE_RE re then CSR_RDATA_RE re
                         else if CSRRC_I_RD rd then NOT (EXE_RES_RE re)
                         else EXE_RES_RE re)
         in if MEM_STORE_RD rd then
              s\<lparr>op2_se := OP2_RD rd, r2_valid_se := True, bp_mem_data_sd := bp_value,
                blocked := blocked_var\<rparr>
            else
              s\<lparr>op2_se := bp_value, r2_valid_se := True, bp_mem_data_sd := bp_mem_data_var,
                blocked := blocked_var\<rparr>)
      else if DEST_RM rm = BP_RADR2_RD rd \<and> \<not> MULT_INST_RM rm then
        (if MEM_STORE_RD rd then
           s\<lparr>op2_se := OP2_RD rd, r2_valid_se := True, bp_mem_data_sd := MEM_RES_RM rm,
             blocked := blocked_var\<rparr>
         else
           s\<lparr>op2_se := MEM_RES_RM rm, r2_valid_se := True, bp_mem_data_sd := bp_mem_data_var,
             blocked := blocked_var\<rparr>)
      else if DEST_RE re = BP_RADR2_RD rd \<and> MEM_LOAD_RE re \<and> \<not> EXE2MEM_EMPTY_SE env then
        s\<lparr>r2_valid_se := True, bp_mem_data_sd := bp_mem_data_var, blocked := True\<rparr>
      else
        s\<lparr>op2_se := OP2_RD rd, r2_valid_se := True, bp_mem_data_sd := bp_mem_data_var,
          blocked := blocked_var\<rparr>)"

definition exec_bypasses ::
  "exec_env \<Rightarrow> dec2exe_out \<Rightarrow> exe2mem_out \<Rightarrow> mem2wbk_out \<Rightarrow> exec \<Rightarrow> exec" where
  "exec_bypasses env rd re rm s =
     (let (s', blocked_var) = exec_bypass_rs1 env rd re rm s
      in exec_bypass_rs2 env rd re rm blocked_var s')"

subsection \<open>Operation\<close>

definition exec_preprocess_op :: "dec2exe_out \<Rightarrow> exec \<Rightarrow> exec" where
  "exec_preprocess_op rd s =
     s\<lparr>alu_in_op2_se := (if NEG_OP2_RD rd then NOT (op2_se s) else op2_se s),
       shift_val_se := rng 4 0 (op2_se s), OP1_SE := op1_se s, OP2_SE := op2_se s\<rparr>"

text \<open>The instances of the ALU and the shifter, as the constructor connects them.\<close>

definition exec_alu_inst :: "dec2exe_out \<Rightarrow> exec \<Rightarrow> exec" where
  "exec_alu_inst rd s =
     s\<lparr>alu_out_se := alu_operation (op1_se s) (alu_in_op2_se s) (NEG_OP2_RD rd) (EXE_CMD_RD rd)\<rparr>"

definition exec_shifter_inst :: "dec2exe_out \<Rightarrow> exec \<Rightarrow> exec" where
  "exec_shifter_inst rd s =
     s\<lparr>shifter_out_se := shifter_DOUT (op1_se s) (shift_val_se s) (EXE_CMD_RD rd)\<rparr>"

text \<open>
  \<open>select_exec_res\<close>.  For the multiplier (\<open>SELECT_TYPE_OPERATIONS_RD = 0b0100\<close>) no branch writes
  \<open>exe_res_se\<close>.
\<close>

definition exec_slt_res :: "exec \<Rightarrow> u32" where
  "exec_slt_res s =
     (if bit (op1_se s) 31 \<and> \<not> bit (op2_se s) 31 then 1
      else if \<not> bit (op1_se s) 31 \<and> bit (op2_se s) 31 then 0
      else if op1_se s = op2_se s then 0
      else of_bool (bit (alu_out_se s) 31))"

definition exec_sltu_res :: "exec \<Rightarrow> u32" where
  "exec_sltu_res s =
     (if bit (op1_se s) 31 \<and> \<not> bit (op2_se s) 31 then 0
      else if \<not> bit (op1_se s) 31 \<and> bit (op2_se s) 31 then 1
      else if op1_se s = op2_se s then 0
      else of_bool (bit (alu_out_se s) 31))"

definition exec_check_access :: "exec_env \<Rightarrow> dec2exe_out \<Rightarrow> exec \<Rightarrow> exec" where
  "exec_check_access env rd s =
     (let s1 =
        (if (alu_out_se s AND 0b11 \<noteq> 0 \<and> MEM_SIZE_RD rd = 0) \<or>
            (alu_out_se s AND 0b1 \<noteq> 0 \<and> MEM_SIZE_RD rd = 1) then
           (if MEM_LOAD_RD rd then s\<lparr>load_adress_missaligned_se := True\<rparr>
            else s\<lparr>store_adress_missaligned_se := True\<rparr>)
         else s\<lparr>load_adress_missaligned_se := False, store_adress_missaligned_se := False\<rparr>)
      in
        if CURRENT_MODE_SM env = 0 then
          (if alu_out_se s > KERNEL_ADR_SC env then
             (if MEM_LOAD_RD rd then s1\<lparr>load_access_fault_se := True\<rparr>
              else s1\<lparr>store_access_fault_se := True\<rparr>)
           else s1\<lparr>load_access_fault_se := False, store_access_fault_se := False\<rparr>)
        else s1\<lparr>load_access_fault_se := False, store_access_fault_se := False\<rparr>)"

definition exec_select_exec_res :: "exec_env \<Rightarrow> dec2exe_out \<Rightarrow> exec \<Rightarrow> exec" where
  "exec_select_exec_res env rd s0 =
     (let s = s0\<lparr>load_adress_missaligned_se := False, load_access_fault_se := False,
                store_adress_missaligned_se := False, store_access_fault_se := False\<rparr>
      in
        if SELECT_TYPE_OPERATIONS_RD rd = 0b1000 then s\<lparr>exe_res_se := DIVIDER_RES_OUTPUT_in env\<rparr>
        else if SELECT_TYPE_OPERATIONS_RD rd = 0b0010 then s\<lparr>exe_res_se := shifter_out_se s\<rparr>
        else if SELECT_TYPE_OPERATIONS_RD rd = 0b0001 then
          (if SLT_RD rd then s\<lparr>exe_res_se := exec_slt_res s\<rparr>
           else if SLTU_RD rd then s\<lparr>exe_res_se := exec_sltu_res s\<rparr>
           else
             (let s2 =
                (if MEM_LOAD_RD rd \<or> MEM_STORE_RD rd then exec_check_access env rd s
                 else s\<lparr>load_adress_missaligned_se := False, load_access_fault_se := False,
                        store_adress_missaligned_se := False, store_access_fault_se := False\<rparr>)
              in s2\<lparr>exe_res_se := alu_out_se s\<rparr>))
        else s)"

definition exec_exception :: "exec_env \<Rightarrow> dec2exe_out \<Rightarrow> exec \<Rightarrow> exec" where
  "exec_exception env rd s =
     s\<lparr>exception_se := (EXCEPTION_RD rd \<or> load_adress_missaligned_se s \<or>
          load_access_fault_se s \<or> store_access_fault_se s \<or> store_adress_missaligned_se s),
       INTERRUPTION_SE := (MACHINE_SOFTWARE_INTERRUPT_SX env \<or> MACHINE_TIMER_INTERRUPT_SX env \<or>
          MACHINE_EXTERNAL_INTERRUPT_SX env),
       wb_re := (if exception_se s then False else WB_RD rd),
       mem_load_re := (if exception_se s then False else MEM_LOAD_RD rd),
       mem_store_re := (if exception_se s then False else MEM_STORE_RD rd)\<rparr>"

subsection \<open>Handshake and payload\<close>

definition exec_manage_fifo :: "exec_env \<Rightarrow> exec \<Rightarrow> exec" where
  "exec_manage_fifo env s =
     (let stall = exe2mem_full_se env \<or> DEC2EXE_EMPTY_SD env \<or> blocked s \<or>
                  \<not> r1_valid_se s \<or> \<not> r2_valid_se s \<or> DIV_BUSY_SE env
      in if \<not> EXCEPTION_SM env then
           (if stall then s\<lparr>exe2mem_push_se := False, DEC2EXE_POP_SE := False, stall_se := stall\<rparr>
            else s\<lparr>exe2mem_push_se := True, DEC2EXE_POP_SE := True, stall_se := stall\<rparr>)
         else s\<lparr>exe2mem_push_se := True, DEC2EXE_POP_SE := True\<rparr>)"

definition exec_payload :: "dec2exe_out \<Rightarrow> exec \<Rightarrow> exe2mem_out" where
  "exec_payload rd s =
     \<lparr>EXE_RES_RE = exe_res_se s, MEM_DATA_RE = bp_mem_data_sd s, DEST_RE = EXE_DEST_RD rd,
      MEM_SIZE_RE = MEM_SIZE_RD rd, WB_RE = wb_re s, MEM_LOAD_RE = mem_load_re s,
      MEM_STORE_RE = mem_store_re s, MEM_SIGN_EXTEND_RE = MEM_SIGN_EXTEND_RD rd,
      PC_EXE2MEM_RE = PC_DEC2EXE_RD rd, CSR_WENABLE_RE = CSR_WENABLE_RD rd,
      CSR_WADR_RE = CSR_WADR_RD rd, CSR_RDATA_RE = CSR_RDATA_RD rd,
      ENV_CALL_S_MODE_RE = ENV_CALL_S_MODE_RD rd,
      ENV_CALL_WRONG_MODE_RE = ENV_CALL_WRONG_MODE_RD rd,
      ILLEGAL_INSTRUCTION_RE = ILLEGAL_INSTRUCTION_RD rd,
      INSTRUCTION_ADRESS_MISSALIGNED_RE = ADRESS_MISSALIGNED_RD rd,
      ENV_CALL_U_MODE_RE = ENV_CALL_U_MODE_RD rd, ENV_CALL_M_MODE_RE = ENV_CALL_M_MODE_RD rd,
      EXCEPTION_RE = exception_se s, LOAD_ADRESS_MISSALIGNED_RE = load_adress_missaligned_se s,
      LOAD_ACCESS_FAULT_RE = load_access_fault_se s, MRET_RE = MRET_RD rd,
      STORE_ADRESS_MISSALIGNED_RE = store_adress_missaligned_se s,
      STORE_ACCESS_FAULT_RE = store_access_fault_se s,
      INSTRUCTION_ACCESS_FAULT_RE = INSTRUCTION_ACCESS_FAULT_RD rd, EBREAK_RE = EBREAK_RD rd,
      MULT_INST_RE = MULT_INST_RD rd, PC_BRANCH_VALUE_RE = PC_BRANCH_VALUE_RD rd\<rparr>"

text \<open>When the memory stage takes an exception, an empty instruction is sent instead.\<close>

definition exec_nop :: "dec2exe_out \<Rightarrow> exe2mem_out" where
  "exec_nop rd =
     \<lparr>EXE_RES_RE = 0, MEM_DATA_RE = 0, DEST_RE = 0, MEM_SIZE_RE = 0, WB_RE = True,
      MEM_LOAD_RE = False, MEM_STORE_RE = False, MEM_SIGN_EXTEND_RE = False,
      PC_EXE2MEM_RE = PC_DEC2EXE_RD rd, CSR_WENABLE_RE = False, CSR_WADR_RE = 0,
      CSR_RDATA_RE = 0, ENV_CALL_S_MODE_RE = False, ENV_CALL_WRONG_MODE_RE = False,
      ILLEGAL_INSTRUCTION_RE = False, INSTRUCTION_ADRESS_MISSALIGNED_RE = False,
      ENV_CALL_U_MODE_RE = False, ENV_CALL_M_MODE_RE = False, EXCEPTION_RE = False,
      LOAD_ADRESS_MISSALIGNED_RE = False, LOAD_ACCESS_FAULT_RE = False, MRET_RE = False,
      STORE_ADRESS_MISSALIGNED_RE = False, STORE_ACCESS_FAULT_RE = False,
      INSTRUCTION_ACCESS_FAULT_RE = False, EBREAK_RE = False, MULT_INST_RE = False,
      PC_BRANCH_VALUE_RE = 0\<rparr>"

definition exec_fifo_concat :: "exec_env \<Rightarrow> dec2exe_out \<Rightarrow> exec \<Rightarrow> 200 word" where
  "exec_fifo_concat env rd s =
     (if \<not> EXCEPTION_SM env then exe2mem_pack (exec_payload rd s)
      else exe2mem_pack (exec_nop rd))"

subsection \<open>A settled activation\<close>

text \<open>
  The methods in the order in which their results flow; \<open>exception\<close> reads \<open>exception_se\<close>, which
  it writes itself, and runs a second time when that has changed.
\<close>

definition exec_settle ::
  "exec_env \<Rightarrow> dec2exe_out \<Rightarrow> exe2mem_out \<Rightarrow> mem2wbk_out \<Rightarrow> exec \<Rightarrow> exec" where
  "exec_settle env rd re rm s =
     exec_manage_fifo env (exec_exception env rd (exec_exception env rd
       (exec_select_exec_res env rd (exec_shifter_inst rd (exec_alu_inst rd
         (exec_preprocess_op rd (exec_bypasses env rd re rm s)))))))"

lemmas exec_defs =
  exec_preprocess_op_def exec_alu_inst_def exec_shifter_inst_def exec_select_exec_res_def
  exec_check_access_def exec_exception_def exec_manage_fifo_def exec_settle_def Let_def


subsection \<open>What each method leaves alone\<close>

lemma exec_bypasses_frame [simp]:
  "load_adress_missaligned_se (exec_bypasses env rd re rm s) = load_adress_missaligned_se s"
  "exe_res_se (exec_bypasses env rd re rm s) = exe_res_se s"
  by (simp_all add: exec_bypasses_def exec_bypass_rs1_def exec_bypass_rs2_def Let_def)

lemma exec_preprocess_op_frame [simp]:
  "op1_se (exec_preprocess_op rd s) = op1_se s"
  "op2_se (exec_preprocess_op rd s) = op2_se s"
  "r1_valid_se (exec_preprocess_op rd s) = r1_valid_se s"
  "r2_valid_se (exec_preprocess_op rd s) = r2_valid_se s"
  "blocked (exec_preprocess_op rd s) = blocked s"
  "bp_mem_data_sd (exec_preprocess_op rd s) = bp_mem_data_sd s"
  by (simp_all add: exec_preprocess_op_def)

lemma exec_alu_inst_frame [simp]:
  "op1_se (exec_alu_inst rd s) = op1_se s"
  "op2_se (exec_alu_inst rd s) = op2_se s"
  "r1_valid_se (exec_alu_inst rd s) = r1_valid_se s"
  "r2_valid_se (exec_alu_inst rd s) = r2_valid_se s"
  "blocked (exec_alu_inst rd s) = blocked s"
  "bp_mem_data_sd (exec_alu_inst rd s) = bp_mem_data_sd s"
  "alu_in_op2_se (exec_alu_inst rd s) = alu_in_op2_se s"
  "shift_val_se (exec_alu_inst rd s) = shift_val_se s"
  by (simp_all add: exec_alu_inst_def)

lemma exec_shifter_inst_frame [simp]:
  "op1_se (exec_shifter_inst rd s) = op1_se s"
  "op2_se (exec_shifter_inst rd s) = op2_se s"
  "r1_valid_se (exec_shifter_inst rd s) = r1_valid_se s"
  "r2_valid_se (exec_shifter_inst rd s) = r2_valid_se s"
  "blocked (exec_shifter_inst rd s) = blocked s"
  "bp_mem_data_sd (exec_shifter_inst rd s) = bp_mem_data_sd s"
  "alu_in_op2_se (exec_shifter_inst rd s) = alu_in_op2_se s"
  "shift_val_se (exec_shifter_inst rd s) = shift_val_se s"
  "alu_out_se (exec_shifter_inst rd s) = alu_out_se s"
  by (simp_all add: exec_shifter_inst_def)

lemma exec_check_access_frame [simp]:
  "op1_se (exec_check_access env rd s) = op1_se s"
  "op2_se (exec_check_access env rd s) = op2_se s"
  "r1_valid_se (exec_check_access env rd s) = r1_valid_se s"
  "r2_valid_se (exec_check_access env rd s) = r2_valid_se s"
  "blocked (exec_check_access env rd s) = blocked s"
  "bp_mem_data_sd (exec_check_access env rd s) = bp_mem_data_sd s"
  "alu_out_se (exec_check_access env rd s) = alu_out_se s"
  "shifter_out_se (exec_check_access env rd s) = shifter_out_se s"
  by (simp_all add: exec_check_access_def Let_def)

lemma exec_select_exec_res_frame [simp]:
  "op1_se (exec_select_exec_res env rd s) = op1_se s"
  "op2_se (exec_select_exec_res env rd s) = op2_se s"
  "r1_valid_se (exec_select_exec_res env rd s) = r1_valid_se s"
  "r2_valid_se (exec_select_exec_res env rd s) = r2_valid_se s"
  "blocked (exec_select_exec_res env rd s) = blocked s"
  "bp_mem_data_sd (exec_select_exec_res env rd s) = bp_mem_data_sd s"
  "alu_out_se (exec_select_exec_res env rd s) = alu_out_se s"
  "shifter_out_se (exec_select_exec_res env rd s) = shifter_out_se s"
  by (simp_all add: exec_select_exec_res_def Let_def)

lemma exec_exception_frame [simp]:
  "op1_se (exec_exception env rd s) = op1_se s"
  "op2_se (exec_exception env rd s) = op2_se s"
  "r1_valid_se (exec_exception env rd s) = r1_valid_se s"
  "r2_valid_se (exec_exception env rd s) = r2_valid_se s"
  "blocked (exec_exception env rd s) = blocked s"
  "bp_mem_data_sd (exec_exception env rd s) = bp_mem_data_sd s"
  "alu_out_se (exec_exception env rd s) = alu_out_se s"
  "shifter_out_se (exec_exception env rd s) = shifter_out_se s"
  "exe_res_se (exec_exception env rd s) = exe_res_se s"
  "load_adress_missaligned_se (exec_exception env rd s) = load_adress_missaligned_se s"
  "load_access_fault_se (exec_exception env rd s) = load_access_fault_se s"
  "store_adress_missaligned_se (exec_exception env rd s) = store_adress_missaligned_se s"
  "store_access_fault_se (exec_exception env rd s) = store_access_fault_se s"
  by (simp_all add: exec_exception_def)

lemma exec_manage_fifo_frame [simp]:
  "op1_se (exec_manage_fifo env s) = op1_se s"
  "op2_se (exec_manage_fifo env s) = op2_se s"
  "r1_valid_se (exec_manage_fifo env s) = r1_valid_se s"
  "r2_valid_se (exec_manage_fifo env s) = r2_valid_se s"
  "blocked (exec_manage_fifo env s) = blocked s"
  "bp_mem_data_sd (exec_manage_fifo env s) = bp_mem_data_sd s"
  "alu_out_se (exec_manage_fifo env s) = alu_out_se s"
  "exe_res_se (exec_manage_fifo env s) = exe_res_se s"
  "load_adress_missaligned_se (exec_manage_fifo env s) = load_adress_missaligned_se s"
  "load_access_fault_se (exec_manage_fifo env s) = load_access_fault_se s"
  "store_adress_missaligned_se (exec_manage_fifo env s) = store_adress_missaligned_se s"
  "store_access_fault_se (exec_manage_fifo env s) = store_access_fault_se s"
  "exception_se (exec_manage_fifo env s) = exception_se s"
  "wb_re (exec_manage_fifo env s) = wb_re s"
  "mem_load_re (exec_manage_fifo env s) = mem_load_re s"
  "mem_store_re (exec_manage_fifo env s) = mem_store_re s"
  by (simp_all add: exec_manage_fifo_def Let_def)

lemma exec_settle_operands [simp]:
  "op1_se (exec_settle env rd re rm s) = op1_se (exec_bypasses env rd re rm s)"
  "op2_se (exec_settle env rd re rm s) = op2_se (exec_bypasses env rd re rm s)"
  "r1_valid_se (exec_settle env rd re rm s) = r1_valid_se (exec_bypasses env rd re rm s)"
  "r2_valid_se (exec_settle env rd re rm s) = r2_valid_se (exec_bypasses env rd re rm s)"
  "blocked (exec_settle env rd re rm s) = blocked (exec_bypasses env rd re rm s)"
  "bp_mem_data_sd (exec_settle env rd re rm s) = bp_mem_data_sd (exec_bypasses env rd re rm s)"
  by (simp_all add: exec_settle_def)

subsection \<open>The result of the stage\<close>

text \<open>
  The operation that the decoded command asks for, on the operands after bypassing.  Decode
  always subtracts for a comparison.
\<close>

definition exec_command_ok :: "dec2exe_out \<Rightarrow> bool" where
  "exec_command_ok rd \<longleftrightarrow>
     SELECT_TYPE_OPERATIONS_RD rd \<in> {0b0001, 0b0010, 0b1000} \<and>
     (SLT_RD rd \<or> SLTU_RD rd \<longrightarrow> NEG_OP2_RD rd \<and> EXE_CMD_RD rd = 0)"

definition exec_result_spec :: "dec2exe_out \<Rightarrow> u32 \<Rightarrow> u32 \<Rightarrow> u32 \<Rightarrow> u32" where
  "exec_result_spec rd divider a b =
     (let cmd = EXE_CMD_RD rd; b' = (if NEG_OP2_RD rd then NOT b else b) in
      if SELECT_TYPE_OPERATIONS_RD rd = 0b1000 then divider
      else if SELECT_TYPE_OPERATIONS_RD rd = 0b0010 then
        (let k = unat b mod 32 in
         if cmd = 0 then push_bit k a else if cmd = 1 then drop_bit k a else signed_drop_bit k a)
      else if SLT_RD rd then rv_slt a b
      else if SLTU_RD rd then rv_sltu a b
      else if cmd = 0 then (if NEG_OP2_RD rd then a - b else a + b)
      else if cmd = 1 then a AND b' else if cmd = 2 then a OR b' else a XOR b')"

lemma exec_slt_res_spec:
  "alu_out_se s = op1_se s - op2_se s \<Longrightarrow> exec_slt_res s = rv_slt (op1_se s) (op2_se s)"
  using bit31_sint [of "op1_se s"] bit31_sint [of "op2_se s"]
    sign_of_difference(2) [of "op1_se s" "op2_se s"]
  by (auto simp: exec_slt_res_def rv_slt_def)

lemma exec_sltu_res_spec:
  "alu_out_se s = op1_se s - op2_se s \<Longrightarrow> exec_sltu_res s = rv_sltu (op1_se s) (op2_se s)"
  using u32_range [of "op1_se s"] u32_range [of "op2_se s"]
    sign_of_difference(1) [of "op1_se s" "op2_se s"]
  by (auto simp: exec_sltu_res_def rv_sltu_def)

lemma exec_alu_out:
  "alu_out_se (exec_alu_inst rd (exec_preprocess_op rd s)) =
     alu_operation (op1_se s) (if NEG_OP2_RD rd then NOT (op2_se s) else op2_se s)
       (NEG_OP2_RD rd) (EXE_CMD_RD rd)"
  by (simp add: exec_alu_inst_def exec_preprocess_op_def)

lemma exec_shifter_out:
  "shifter_out_se (exec_shifter_inst rd (exec_alu_inst rd (exec_preprocess_op rd s))) =
     shifter_DOUT (op1_se s) (rng 4 0 (op2_se s)) (EXE_CMD_RD rd)"
  by (simp add: exec_alu_inst_def exec_preprocess_op_def exec_shifter_inst_def)

lemma exec_select_result:
  "exe_res_se (exec_select_exec_res env rd s) =
     (if SELECT_TYPE_OPERATIONS_RD rd = 0b1000 then DIVIDER_RES_OUTPUT_in env
      else if SELECT_TYPE_OPERATIONS_RD rd = 0b0010 then shifter_out_se s
      else if SELECT_TYPE_OPERATIONS_RD rd = 0b0001 then
        (if SLT_RD rd then exec_slt_res s else if SLTU_RD rd then exec_sltu_res s
         else alu_out_se s)
      else exe_res_se s)"
  by (simp add: exec_select_exec_res_def Let_def exec_slt_res_def exec_sltu_res_def)

lemma alu_sub_or_add:
  "cmd = 0 \<Longrightarrow> alu_operation a (if neg then NOT b else b) neg cmd = (if neg then a - b else a + b)"
  by (simp add: alu_sub alu_add)

lemma exec_result:
  assumes "exec_command_ok rd"
  shows "exe_res_se (exec_settle env rd re rm s) =
    exec_result_spec rd (DIVIDER_RES_OUTPUT_in env)
      (op1_se (exec_settle env rd re rm s)) (op2_se (exec_settle env rd re rm s))"
proof -
  define b where "b = exec_bypasses env rd re rm s"
  define r where "r = exec_shifter_inst rd (exec_alu_inst rd (exec_preprocess_op rd b))"
  have ops: "op1_se r = op1_se b" "op2_se r = op2_se b"
    by (simp_all add: r_def)
  have alu: "alu_out_se r = alu_operation (op1_se b)
      (if NEG_OP2_RD rd then NOT (op2_se b) else op2_se b) (NEG_OP2_RD rd) (EXE_CMD_RD rd)"
    by (simp add: r_def exec_alu_out)
  have sh: "shifter_out_se r = shifter_DOUT (op1_se b) (rng 4 0 (op2_se b)) (EXE_CMD_RD rd)"
    by (simp add: r_def exec_shifter_out)
  have res: "exe_res_se (exec_settle env rd re rm s) = exe_res_se (exec_select_exec_res env rd r)"
    by (simp add: exec_settle_def r_def b_def)
  have sub: "alu_out_se r = op1_se r - op2_se r" if "SLT_RD rd \<or> SLTU_RD rd"
    using that assms by (simp add: alu ops exec_command_ok_def alu_sub)
  have shift: "shifter_out_se r = (let k = unat (op2_se b) mod 32 in
      if EXE_CMD_RD rd = 0 then push_bit k (op1_se b)
      else if EXE_CMD_RD rd = 1 then drop_bit k (op1_se b) else signed_drop_bit k (op1_se b))"
    by (simp only: sh shifter_DOUT_is_shift shift_amount Let_def)
  show ?thesis
    using assms sub shift u2_cases [of "EXE_CMD_RD rd"]
      exec_slt_res_spec [of r] exec_sltu_res_spec [of r]
    unfolding res exec_select_result exec_settle_operands b_def [symmetric]
    by (auto simp: exec_result_spec_def Let_def exec_command_ok_def alu ops alu_sub_or_add
        alu_operation_def [of _ _ _ 1] alu_operation_def [of _ _ _ 2] alu_operation_def [of _ _ _ 3])
qed

text \<open>C15: the result of the execute stage is the operation the command asks for.\<close>

theorem exec_result_correct:
  assumes "exec_command_ok rd"
  shows "exe_res_se (exec_settle env rd re rm s) =
    exec_result_spec rd (DIVIDER_RES_OUTPUT_in env)
      (op1_se (exec_settle env rd re rm s)) (op2_se (exec_settle env rd re rm s))"
  using assms by (rule exec_result)


subsection \<open>Faults and the suppression of a faulting instruction\<close>

definition mem_access :: "dec2exe_out \<Rightarrow> bool" where
  "mem_access rd \<longleftrightarrow> SELECT_TYPE_OPERATIONS_RD rd = 0b0001 \<and> \<not> SLT_RD rd \<and> \<not> SLTU_RD rd \<and>
     (MEM_LOAD_RD rd \<or> MEM_STORE_RD rd)"

text \<open>An address is aligned when it is a multiple of the size of the access in bytes.\<close>

definition access_bytes :: "u2 \<Rightarrow> nat" where
  "access_bytes sz = (if sz = 0 then 4 else if sz = 1 then 2 else 1)"

lemma low_bits_zero:
  "x AND 1 = 0 \<longleftrightarrow> 2 dvd unat x" "x AND 3 = 0 \<longleftrightarrow> 4 dvd unat x" for x :: u32
proof -
  have one: "x AND 1 = take_bit 1 x" and three: "x AND 3 = take_bit 2 x"
    by (simp_all add: take_bit_eq_mask mask_Suc_exp mask_eq_exp_minus_1)
  show "x AND 1 = 0 \<longleftrightarrow> 2 dvd unat x"
    unfolding one
    by (simp add: word_unat_eq_iff unsigned_take_bit_eq take_bit_eq_mod dvd_eq_mod_eq_0 unat_mod)
  show "x AND 3 = 0 \<longleftrightarrow> 4 dvd unat x"
    unfolding three
    by (simp add: word_unat_eq_iff unsigned_take_bit_eq take_bit_eq_mod dvd_eq_mod_eq_0 unat_mod)
qed

lemma exec_faults:
  "load_adress_missaligned_se (exec_select_exec_res env rd s) \<longleftrightarrow>
     mem_access rd \<and> MEM_LOAD_RD rd \<and> \<not> access_bytes (MEM_SIZE_RD rd) dvd unat (alu_out_se s)"
  "store_adress_missaligned_se (exec_select_exec_res env rd s) \<longleftrightarrow>
     mem_access rd \<and> \<not> MEM_LOAD_RD rd \<and> \<not> access_bytes (MEM_SIZE_RD rd) dvd unat (alu_out_se s)"
  "load_access_fault_se (exec_select_exec_res env rd s) \<longleftrightarrow>
     mem_access rd \<and> MEM_LOAD_RD rd \<and> CURRENT_MODE_SM env = 0 \<and> KERNEL_ADR_SC env < alu_out_se s"
  "store_access_fault_se (exec_select_exec_res env rd s) \<longleftrightarrow>
     mem_access rd \<and> \<not> MEM_LOAD_RD rd \<and> CURRENT_MODE_SM env = 0 \<and>
       KERNEL_ADR_SC env < alu_out_se s"
  by (auto simp: exec_select_exec_res_def exec_check_access_def Let_def mem_access_def
      access_bytes_def low_bits_zero)

lemma exec_settle_faults:
  "load_adress_missaligned_se (exec_settle env rd re rm s) \<longleftrightarrow>
     mem_access rd \<and> MEM_LOAD_RD rd \<and>
       \<not> access_bytes (MEM_SIZE_RD rd) dvd unat (alu_out_se (exec_settle env rd re rm s))"
  "store_adress_missaligned_se (exec_settle env rd re rm s) \<longleftrightarrow>
     mem_access rd \<and> \<not> MEM_LOAD_RD rd \<and>
       \<not> access_bytes (MEM_SIZE_RD rd) dvd unat (alu_out_se (exec_settle env rd re rm s))"
  "load_access_fault_se (exec_settle env rd re rm s) \<longleftrightarrow>
     mem_access rd \<and> MEM_LOAD_RD rd \<and> CURRENT_MODE_SM env = 0 \<and>
       KERNEL_ADR_SC env < alu_out_se (exec_settle env rd re rm s)"
  "store_access_fault_se (exec_settle env rd re rm s) \<longleftrightarrow>
     mem_access rd \<and> \<not> MEM_LOAD_RD rd \<and> CURRENT_MODE_SM env = 0 \<and>
       KERNEL_ADR_SC env < alu_out_se (exec_settle env rd re rm s)"
  by (simp_all add: exec_settle_def exec_faults)

lemma exec_exception_twice:
  "exception_se (exec_exception env rd (exec_exception env rd s)) =
     exception_se (exec_exception env rd s)"
  "wb_re (exec_exception env rd (exec_exception env rd s)) =
     (if exception_se (exec_exception env rd s) then False else WB_RD rd)"
  "mem_load_re (exec_exception env rd (exec_exception env rd s)) =
     (if exception_se (exec_exception env rd s) then False else MEM_LOAD_RD rd)"
  "mem_store_re (exec_exception env rd (exec_exception env rd s)) =
     (if exception_se (exec_exception env rd s) then False else MEM_STORE_RD rd)"
  by (simp_all add: exec_exception_def)

lemma exec_payload_exception:
  "let s' = exec_settle env rd re rm s; p = exec_payload rd s' in
     (EXCEPTION_RE p \<longleftrightarrow>
        EXCEPTION_RD rd \<or>
        (mem_access rd \<and>
          (\<not> access_bytes (MEM_SIZE_RD rd) dvd unat (alu_out_se s') \<or>
           (CURRENT_MODE_SM env = 0 \<and> KERNEL_ADR_SC env < alu_out_se s')))) \<and>
     WB_RE p = (WB_RD rd \<and> \<not> EXCEPTION_RE p) \<and>
     MEM_LOAD_RE p = (MEM_LOAD_RD rd \<and> \<not> EXCEPTION_RE p) \<and>
     MEM_STORE_RE p = (MEM_STORE_RD rd \<and> \<not> EXCEPTION_RE p)"
proof -
  define r where "r = exec_select_exec_res env rd (exec_shifter_inst rd (exec_alu_inst rd
      (exec_preprocess_op rd (exec_bypasses env rd re rm s))))"
  have st: "exec_settle env rd re rm s =
      exec_manage_fifo env (exec_exception env rd (exec_exception env rd r))"
    by (simp only: exec_settle_def r_def)
  have exc: "exception_se (exec_settle env rd re rm s) = exception_se (exec_exception env rd r)"
    by (simp add: st exec_exception_twice)
  have flags: "exception_se (exec_exception env rd r) \<longleftrightarrow> EXCEPTION_RD rd \<or>
      load_adress_missaligned_se (exec_settle env rd re rm s) \<or>
      load_access_fault_se (exec_settle env rd re rm s) \<or>
      store_access_fault_se (exec_settle env rd re rm s) \<or>
      store_adress_missaligned_se (exec_settle env rd re rm s)"
    unfolding st by (simp add: exec_exception_def [of _ _ r])
  have "wb_re (exec_settle env rd re rm s) = (WB_RD rd \<and> \<not> exception_se (exec_exception env rd r))"
    "mem_load_re (exec_settle env rd re rm s) =
       (MEM_LOAD_RD rd \<and> \<not> exception_se (exec_exception env rd r))"
    "mem_store_re (exec_settle env rd re rm s) =
       (MEM_STORE_RD rd \<and> \<not> exception_se (exec_exception env rd r))"
    by (simp_all add: st exec_exception_twice)
  moreover have "exception_se (exec_exception env rd r) \<longleftrightarrow> EXCEPTION_RD rd \<or>
      (mem_access rd \<and>
        (\<not> access_bytes (MEM_SIZE_RD rd) dvd
             unat (alu_out_se (exec_settle env rd re rm s)) \<or>
         (CURRENT_MODE_SM env = 0 \<and>
          KERNEL_ADR_SC env < alu_out_se (exec_settle env rd re rm s))))"
    unfolding flags exec_settle_faults by (auto simp: mem_access_def)
  ultimately show ?thesis
    by (simp add: Let_def exec_payload_def exc)
qed


text \<open>
  The memory stage unpacks what the execute stage packed, and an instruction without
  effects when an exception is being taken.
\<close>

theorem exec_payload_delivered:
  "exe2mem_unconcat (exec_fifo_concat env rd s) =
     (if EXCEPTION_SM env then exec_nop rd else exec_payload rd s)"
  by (simp add: exec_fifo_concat_def exe2mem_unconcat_exe2mem_pack)

subsection \<open>The handshake\<close>

text \<open>
  the stage takes an instruction from decode exactly when it passes one on to memory, so
  none is lost or duplicated; outside exceptions it never pushes into a full FIFO, never
  pops an empty one, and waits for its operands and the divider.
\<close>

theorem exec_handshake:
  "let s' = exec_settle env rd re rm s in
     exe2mem_push_se s' = DEC2EXE_POP_SE s' \<and>
     (\<not> EXCEPTION_SM env \<longrightarrow>
        (exe2mem_push_se s' \<longleftrightarrow> \<not> exe2mem_full_se env \<and> \<not> DEC2EXE_EMPTY_SD env \<and>
           \<not> blocked s' \<and> r1_valid_se s' \<and> r2_valid_se s' \<and> \<not> DIV_BUSY_SE env) \<and>
        stall_se s' = (\<not> exe2mem_push_se s')) \<and>
     (EXCEPTION_SM env \<longrightarrow> exe2mem_push_se s')"
proof -
  have "exe2mem_push_se (exec_manage_fifo env q) = DEC2EXE_POP_SE (exec_manage_fifo env q) \<and>
     (\<not> EXCEPTION_SM env \<longrightarrow>
        (exe2mem_push_se (exec_manage_fifo env q) \<longleftrightarrow>
           \<not> exe2mem_full_se env \<and> \<not> DEC2EXE_EMPTY_SD env \<and>
           \<not> blocked (exec_manage_fifo env q) \<and> r1_valid_se (exec_manage_fifo env q) \<and>
           r2_valid_se (exec_manage_fifo env q) \<and> \<not> DIV_BUSY_SE env) \<and>
        stall_se (exec_manage_fifo env q) = (\<not> exe2mem_push_se (exec_manage_fifo env q))) \<and>
     (EXCEPTION_SM env \<longrightarrow> exe2mem_push_se (exec_manage_fifo env q))" for q
    by (auto simp: exec_manage_fifo_def Let_def)
  then show ?thesis
    unfolding Let_def exec_settle_def .
qed


subsection \<open>Bypasses deliver the newest value\<close>

text \<open>The instructions ahead, newest first, as the register they write and its value.\<close>

definition newest_writer :: "exe2mem_out \<Rightarrow> mem2wbk_out \<Rightarrow> u6 \<Rightarrow> u32 option" where
  "newest_writer re rm r =
     (if r = 0 then None
      else map_of [(DEST_RE re, value_re re), (DEST_RM rm, value_rm rm)] r)"

text \<open>
  C17: with no load or multiplication pending on the register and outside \<open>csrrc\<close>, the first
  operand is the value of the newest instruction ahead that writes the register, or the value
  decode read, and the stage does not wait for it.
\<close>

theorem exec_rs1_newest:
  assumes "\<not> BLOCK_BP_RD rd" "\<not> CSRRC_I_RD rd"
    and "DEST_RE re = BP_RADR1_RD rd \<Longrightarrow> \<not> MEM_LOAD_RE re \<and> \<not> MULT_INST_RE re"
    and "DEST_RM rm = BP_RADR1_RD rd \<Longrightarrow> \<not> MULT_INST_RM rm"
  shows "op1_se (exec_settle env rd re rm s) =
      (case newest_writer re rm (BP_RADR1_RD rd) of Some v \<Rightarrow> v | None \<Rightarrow> OP1_RD rd) \<and>
    r1_valid_se (exec_settle env rd re rm s)"
proof -
  have "op1_se (exec_bypass_rs2 env rd re rm bl t) = op1_se t"
    "r1_valid_se (exec_bypass_rs2 env rd re rm bl t) = r1_valid_se t" for bl t
    by (simp_all add: exec_bypass_rs2_def Let_def)
  then have "op1_se (exec_settle env rd re rm s) = op1_se (fst (exec_bypass_rs1 env rd re rm s))"
    "r1_valid_se (exec_settle env rd re rm s) = r1_valid_se (fst (exec_bypass_rs1 env rd re rm s))"
    by (simp_all add: exec_bypasses_def split_beta)
  then show ?thesis
    using assms
    by (auto simp: exec_bypass_rs1_def newest_writer_def value_re_def value_rm_def)
qed

text \<open>
  the same for the second operand, provided the instruction in the write-back stage is not
  a CSR instruction; a store takes the bypassed value as its data and keeps the offset as
  operand.
\<close>

theorem exec_rs2_newest:
  assumes "\<not> BLOCK_BP_RD rd" "\<not> CSRRC_I_RD rd" "\<not> MEM_LOAD_RD rd"
    and "DEST_RE re = BP_RADR2_RD rd \<Longrightarrow> \<not> MEM_LOAD_RE re \<and> \<not> MULT_INST_RE re"
    and "DEST_RM rm = BP_RADR2_RD rd \<Longrightarrow> \<not> MULT_INST_RM rm \<and> \<not> CSR_WENABLE_RM rm"
  shows "(let s' = exec_settle env rd re rm s; w = newest_writer re rm (BP_RADR2_RD rd) in
      if MEM_STORE_RD rd then
        op2_se s' = OP2_RD rd \<and>
        bp_mem_data_sd s' = (case w of Some v \<Rightarrow> v | None \<Rightarrow> MEM_DATA_RD rd)
      else
        op2_se s' = (case w of Some v \<Rightarrow> v | None \<Rightarrow> OP2_RD rd) \<and>
        bp_mem_data_sd s' = MEM_DATA_RD rd)"
  using assms
  by (auto simp: exec_bypasses_def split_beta exec_bypass_rs2_def newest_writer_def value_re_def
      value_rm_def Let_def)

text \<open>
  The proviso on CSR instructions is needed.  An instruction whose second operand is the
  destination of a CSR instruction in the write-back stage gets the value that goes into the
  CSR (\<open>MEM_RES_RM\<close>), not the old value of the CSR that goes into the register: the value of
  the CSR is computed and then overwritten.
\<close>

theorem exec_rs2_ignores_csr:
  assumes "BP_RADR2_RD rd \<noteq> 0" "\<not> BLOCK_BP_RD rd" "\<not> CSRRC_I_RD rd" "\<not> MEM_LOAD_RD rd"
    and "\<not> MEM_STORE_RD rd" "DEST_RE re \<noteq> BP_RADR2_RD rd"
    and "DEST_RM rm = BP_RADR2_RD rd" "\<not> MULT_INST_RM rm" "CSR_WENABLE_RM rm"
  shows "op2_se (exec_settle env rd re rm s) = MEM_RES_RM rm \<and>
    newest_writer re rm (BP_RADR2_RD rd) = Some (CSR_RDATA_RM rm)"
  using assms
  by (simp add: exec_bypasses_def split_beta exec_bypass_rs2_def newest_writer_def value_rm_def
      Let_def)

text \<open>
  A pending load is only noticed when no older instruction in the write-back stage has the
  same destination.  If one has, the first operand is the older value, and the stage does not
  wait for the load.
\<close>

theorem exec_rs1_overtakes_load:
  assumes "BP_RADR1_RD rd \<noteq> 0" "\<not> BLOCK_BP_RD rd" "\<not> CSRRC_I_RD rd"
    and "DEST_RE re = BP_RADR1_RD rd" "MEM_LOAD_RE re" "\<not> CSR_WENABLE_RE re"
    and "DEST_RM rm = BP_RADR1_RD rd" "\<not> CSR_WENABLE_RM rm" "\<not> MULT_INST_RM rm"
    and "BP_RADR2_RD rd = 0"
  shows "op1_se (exec_settle env rd re rm s) = MEM_RES_RM rm \<and>
    r1_valid_se (exec_settle env rd re rm s) \<and> \<not> blocked (exec_settle env rd re rm s)"
  using assms by (simp add: exec_bypasses_def exec_bypass_rs1_def exec_bypass_rs2_def Let_def)

subsection \<open>Instances\<close>

text \<open>The stage after reset: FIFO outputs zero, FIFOs empty, machine mode.\<close>

definition exec_env_reset :: exec_env where
  "exec_env_reset = \<lparr>EXE2MEM_EMPTY_SE = True, MEM2WBK_EMPTY_SM = True, DEC2EXE_EMPTY_SD = True,
     exe2mem_full_se = False, EXCEPTION_SM = False, CURRENT_MODE_SM = 3, KERNEL_ADR_SC = - 1,
     DIVIDER_RES_OUTPUT_in = 0, DIV_BUSY_SE = False, MACHINE_SOFTWARE_INTERRUPT_SX = False,
     MACHINE_TIMER_INTERRUPT_SX = False, MACHINE_EXTERNAL_INTERRUPT_SX = False\<rparr>"

definition exec_reset :: exec where
  "exec_reset = \<lparr>op1_se = 0, op2_se = 0, r1_valid_se = False, r2_valid_se = False,
     blocked = False, bp_mem_data_sd = 0, alu_in_op2_se = 0, shift_val_se = 0, OP1_SE = 0,
     OP2_SE = 0, alu_out_se = 0, shifter_out_se = 0, exe_res_se = 0,
     load_adress_missaligned_se = False, load_access_fault_se = False,
     store_adress_missaligned_se = False, store_access_fault_se = False, exception_se = False,
     INTERRUPTION_SE = False, wb_re = False, mem_load_re = False, mem_store_re = False,
     exe2mem_push_se = False, DEC2EXE_POP_SE = False, stall_se = False\<rparr>"

text \<open>\<open>slt\<close> of the registers 1 and 2, read by decode as -1 and 1.\<close>

definition exec_slt_inst :: dec2exe_out where
  "exec_slt_inst = (unconcat_dec2exe 0)\<lparr>SELECT_TYPE_OPERATIONS_RD := 1, SLT_RD := True,
     NEG_OP2_RD := True, OP1_RD := - 1, OP2_RD := 1, BP_RADR1_RD := 1, BP_RADR2_RD := 2\<rparr>"

lemmas exec_eval =
  exec_slt_inst_def unconcat_dec2exe_def exe2mem_unconcat_def mem2wbk_unconcat_def
  exec_bypasses_def exec_bypass_rs1_def exec_bypass_rs2_def newest_writer_def value_re_def
  value_rm_def Let_def

theorem exec_result_correct_witness:
  "exe_res_se (exec_settle exec_env_reset exec_slt_inst (exe2mem_unconcat 0) (mem2wbk_unconcat 0)
     exec_reset) = 1"
proof -
  have "exec_command_ok exec_slt_inst"
    by (simp add: exec_command_ok_def exec_slt_inst_def unconcat_dec2exe_def)
  from exec_result_correct [OF this, of exec_env_reset "exe2mem_unconcat 0" "mem2wbk_unconcat 0"
      exec_reset]
  show ?thesis
    by (simp add: exec_result_spec_def exec_eval rv_slt_def)
qed

theorem exec_rs1_newest_witness:
  "op1_se (exec_settle exec_env_reset exec_slt_inst
     ((exe2mem_unconcat 0)\<lparr>DEST_RE := 1, EXE_RES_RE := 7\<rparr>)
     ((mem2wbk_unconcat 0)\<lparr>DEST_RM := 1, MEM_RES_RM := 5\<rparr>) exec_reset) = 7"
  using exec_rs1_newest [of exec_slt_inst "(exe2mem_unconcat 0)\<lparr>DEST_RE := 1, EXE_RES_RE := 7\<rparr>"
      "(mem2wbk_unconcat 0)\<lparr>DEST_RM := 1, MEM_RES_RM := 5\<rparr>" exec_env_reset exec_reset]
  by (simp add: exec_eval)

theorem exec_rs2_newest_witness:
  "op2_se (exec_settle exec_env_reset exec_slt_inst (exe2mem_unconcat 0)
     ((mem2wbk_unconcat 0)\<lparr>DEST_RM := 2, MEM_RES_RM := 5\<rparr>) exec_reset) = 5"
  using exec_rs2_newest [of exec_slt_inst "exe2mem_unconcat 0"
      "(mem2wbk_unconcat 0)\<lparr>DEST_RM := 2, MEM_RES_RM := 5\<rparr>" exec_env_reset exec_reset]
  by (simp add: exec_eval)


text \<open>A word load from the address 2.\<close>

definition exec_load_inst :: dec2exe_out where
  "exec_load_inst = (unconcat_dec2exe 0)\<lparr>SELECT_TYPE_OPERATIONS_RD := 1, MEM_LOAD_RD := True,
     WB_RD := True, OP1_RD := 2\<rparr>"


theorem exec_handshake_witness:
  "exe2mem_push_se (exec_settle (exec_env_reset\<lparr>DEC2EXE_EMPTY_SD := False\<rparr>) exec_load_inst
     (exe2mem_unconcat 0) (mem2wbk_unconcat 0) exec_reset)"
proof -
  define env where "env = exec_env_reset\<lparr>DEC2EXE_EMPTY_SD := False\<rparr>"
  have "\<not> EXCEPTION_SM env" "\<not> exe2mem_full_se env" "\<not> DEC2EXE_EMPTY_SD env" "\<not> DIV_BUSY_SE env"
    by (simp_all add: env_def exec_env_reset_def)
  moreover have "\<not> blocked (exec_settle env exec_load_inst (exe2mem_unconcat 0)
      (mem2wbk_unconcat 0) exec_reset)"
    "r1_valid_se (exec_settle env exec_load_inst (exe2mem_unconcat 0) (mem2wbk_unconcat 0)
      exec_reset)"
    "r2_valid_se (exec_settle env exec_load_inst (exe2mem_unconcat 0) (mem2wbk_unconcat 0)
      exec_reset)"
    by (simp_all add: exec_load_inst_def exec_eval)
  ultimately show ?thesis
    using exec_handshake [of env exec_load_inst "exe2mem_unconcat 0" "mem2wbk_unconcat 0"
        exec_reset]
    unfolding Let_def env_def [symmetric] by blast
qed


theorem exec_rs2_ignores_csr_witness:
  "op2_se (exec_settle exec_env_reset exec_slt_inst (exe2mem_unconcat 0)
     ((mem2wbk_unconcat 0)\<lparr>DEST_RM := 2, MEM_RES_RM := 5, CSR_WENABLE_RM := True,
        CSR_RDATA_RM := 8\<rparr>) exec_reset) = 5"
  using exec_rs2_ignores_csr [of exec_slt_inst "exe2mem_unconcat 0" "(mem2wbk_unconcat 0)\<lparr>
      DEST_RM := 2, MEM_RES_RM := 5, CSR_WENABLE_RM := True, CSR_RDATA_RM := 8\<rparr>"
      exec_env_reset exec_reset]
  by (simp add: exec_eval)

theorem exec_rs1_overtakes_load_witness:
  "op1_se (exec_settle exec_env_reset (exec_slt_inst\<lparr>BP_RADR2_RD := 0\<rparr>)
     ((exe2mem_unconcat 0)\<lparr>DEST_RE := 1, MEM_LOAD_RE := True\<rparr>)
     ((mem2wbk_unconcat 0)\<lparr>DEST_RM := 1, MEM_RES_RM := 5\<rparr>) exec_reset) = 5"
  using exec_rs1_overtakes_load [of "exec_slt_inst\<lparr>BP_RADR2_RD := 0\<rparr>"
      "(exe2mem_unconcat 0)\<lparr>DEST_RE := 1, MEM_LOAD_RE := True\<rparr>"
      "(mem2wbk_unconcat 0)\<lparr>DEST_RM := 1, MEM_RES_RM := 5\<rparr>" exec_env_reset exec_reset]
  by (simp add: exec_eval)

end
