(* ===== verification/Mult_Tree.thy ===== *)
theory Mult_Tree
  imports River_Prelude
begin

text \<open>
  First stage of the pipelined multiplier (\<open>SIM/SystemC/CORE/EXE/x0_multiplier.cpp\<close>): the
  partial products (\<open>operation\<close>) and the tree of 27 carry-save adders that reduces the 32
  partial products to five terms.  The lemmas show that the partial products add up to the
  product of the operands and that no level of the tree changes the sum, modulo \<open>2 ^ 64\<close>.
\<close>

subsection \<open>Signals\<close>

text \<open>The arrays of signals are functions of the index.\<close>

record x0_multiplier =
  product :: "nat \<Rightarrow> u64"
  product_s1 :: "nat \<Rightarrow> u64"
  product_s2 :: "nat \<Rightarrow> u64"
  product_s3 :: "nat \<Rightarrow> u64"
  product_s4 :: "nat \<Rightarrow> u64"
  product_s5 :: "nat \<Rightarrow> u64"
  select_higher_bits_sx0 :: bool
  signed_res_sx0 :: bool

subsection \<open>Partial products\<close>

text \<open>The two inner loops of \<open>operation\<close> for one bit \<open>i\<close> of the second operand.\<close>

definition x0_partial :: "bool \<Rightarrow> u32 \<Rightarrow> u32 \<Rightarrow> nat \<Rightarrow> u64" where
  "x0_partial signed_type op1 op2 i =
     (if bit op2 i then
        (let prod = fold (\<lambda>j. put_bit j (bit op2 i \<and> bit op1 (j - i))) [i..<i + 32] 0
         in if signed_type \<and> bit op1 31 then fold (\<lambda>j. put_bit j True) [i + 32..<64] prod
            else prod)
      else 0)"

text \<open>The operands after the sign handling, with the local \<open>signed_type\<close>.\<close>

definition x0_operands :: "u32 \<Rightarrow> u32 \<Rightarrow> u2 \<Rightarrow> u32 \<times> u32 \<times> bool" where
  "x0_operands op1 op2 cmd =
     (let signed_type = (cmd \<noteq> 3) in
      if cmd = 2 \<or> cmd = 1 then
        if bit op1 31 \<and> bit op2 31 then (NOT op1 + 1, NOT op2 + 1, False)
        else if \<not> bit op1 31 \<and> bit op2 31 then (op2, op1, signed_type)
        else (op1, op2, signed_type)
      else (op1, op2, signed_type))"

definition x0_operation :: "u32 \<Rightarrow> u32 \<Rightarrow> u2 \<Rightarrow> x0_multiplier \<Rightarrow> x0_multiplier" where
  "x0_operation OP1_SE OP2_SE cmd s =
     (let (op1, op2, signed_type) = x0_operands OP1_SE OP2_SE cmd in
      s\<lparr>select_higher_bits_sx0 := (cmd \<noteq> 1),
        signed_res_sx0 :=
          (if (cmd = 2 \<or> cmd = 1) \<and> bit OP1_SE 31 \<and> bit OP2_SE 31 then False
           else signed_res_sx0 s),
        product := (\<lambda>i. if i < 32 then x0_partial signed_type op1 op2 i else product s i)\<rparr>)"

subsection \<open>The carry-save adders\<close>

definition csa_sum :: "u64 \<Rightarrow> u64 \<Rightarrow> u64 \<Rightarrow> u64" where
  "csa_sum a b c = (a XOR b) XOR c"

definition csa_shf :: "u64 \<Rightarrow> u64 \<Rightarrow> u64 \<Rightarrow> u64" where
  "csa_shf a b c = put 63 1 ((a AND b) OR ((a XOR b) AND c)) 0"

definition CSA_1 :: "x0_multiplier \<Rightarrow> x0_multiplier" where
  "CSA_1 s = s\<lparr>product_s1 := (product_s1 s)
     (0 := csa_sum (product s 0) (product s 1) (product s 2),
      1 := csa_shf (product s 0) (product s 1) (product s 2))\<rparr>"

definition CSA_2 :: "x0_multiplier \<Rightarrow> x0_multiplier" where
  "CSA_2 s = s\<lparr>product_s1 := (product_s1 s)
     (2 := csa_sum (product s 3) (product s 4) (product s 5),
      3 := csa_shf (product s 3) (product s 4) (product s 5))\<rparr>"

definition CSA_3 :: "x0_multiplier \<Rightarrow> x0_multiplier" where
  "CSA_3 s = s\<lparr>product_s1 := (product_s1 s)
     (4 := csa_sum (product s 6) (product s 7) (product s 8),
      5 := csa_shf (product s 6) (product s 7) (product s 8))\<rparr>"

definition CSA_4 :: "x0_multiplier \<Rightarrow> x0_multiplier" where
  "CSA_4 s = s\<lparr>product_s1 := (product_s1 s)
     (6 := csa_sum (product s 9) (product s 10) (product s 11),
      7 := csa_shf (product s 9) (product s 10) (product s 11))\<rparr>"

definition CSA_5 :: "x0_multiplier \<Rightarrow> x0_multiplier" where
  "CSA_5 s = s\<lparr>product_s1 := (product_s1 s)
     (8 := csa_sum (product s 12) (product s 13) (product s 14),
      9 := csa_shf (product s 12) (product s 13) (product s 14))\<rparr>"

definition CSA_6 :: "x0_multiplier \<Rightarrow> x0_multiplier" where
  "CSA_6 s = s\<lparr>product_s1 := (product_s1 s)
     (10 := csa_sum (product s 15) (product s 16) (product s 17),
      11 := csa_shf (product s 15) (product s 16) (product s 17))\<rparr>"

definition CSA_7 :: "x0_multiplier \<Rightarrow> x0_multiplier" where
  "CSA_7 s = s\<lparr>product_s1 := (product_s1 s)
     (12 := csa_sum (product s 18) (product s 19) (product s 20),
      13 := csa_shf (product s 18) (product s 19) (product s 20))\<rparr>"

definition CSA_8 :: "x0_multiplier \<Rightarrow> x0_multiplier" where
  "CSA_8 s = s\<lparr>product_s1 := (product_s1 s)
     (14 := csa_sum (product s 21) (product s 22) (product s 23),
      15 := csa_shf (product s 21) (product s 22) (product s 23))\<rparr>"

definition CSA_9 :: "x0_multiplier \<Rightarrow> x0_multiplier" where
  "CSA_9 s = s\<lparr>product_s1 := (product_s1 s)
     (16 := csa_sum (product s 24) (product s 25) (product s 26),
      17 := csa_shf (product s 24) (product s 25) (product s 26))\<rparr>"

definition CSA_10 :: "x0_multiplier \<Rightarrow> x0_multiplier" where
  "CSA_10 s = s\<lparr>product_s1 := (product_s1 s)
     (18 := csa_sum (product s 27) (product s 28) (product s 29),
      19 := csa_shf (product s 27) (product s 28) (product s 29))\<rparr>"

definition CSA_11 :: "x0_multiplier \<Rightarrow> x0_multiplier" where
  "CSA_11 s = s\<lparr>product_s2 := (product_s2 s)
     (0 := csa_sum (product_s1 s 0) (product_s1 s 1) (product_s1 s 2),
      1 := csa_shf (product_s1 s 0) (product_s1 s 1) (product_s1 s 2))\<rparr>"

definition CSA_12 :: "x0_multiplier \<Rightarrow> x0_multiplier" where
  "CSA_12 s = s\<lparr>product_s2 := (product_s2 s)
     (2 := csa_sum (product_s1 s 3) (product_s1 s 4) (product_s1 s 5),
      3 := csa_shf (product_s1 s 3) (product_s1 s 4) (product_s1 s 5))\<rparr>"

definition CSA_13 :: "x0_multiplier \<Rightarrow> x0_multiplier" where
  "CSA_13 s = s\<lparr>product_s2 := (product_s2 s)
     (4 := csa_sum (product_s1 s 6) (product_s1 s 7) (product_s1 s 8),
      5 := csa_shf (product_s1 s 6) (product_s1 s 7) (product_s1 s 8))\<rparr>"

definition CSA_14 :: "x0_multiplier \<Rightarrow> x0_multiplier" where
  "CSA_14 s = s\<lparr>product_s2 := (product_s2 s)
     (6 := csa_sum (product_s1 s 9) (product_s1 s 10) (product_s1 s 11),
      7 := csa_shf (product_s1 s 9) (product_s1 s 10) (product_s1 s 11))\<rparr>"

definition CSA_15 :: "x0_multiplier \<Rightarrow> x0_multiplier" where
  "CSA_15 s = s\<lparr>product_s2 := (product_s2 s)
     (8 := csa_sum (product_s1 s 12) (product_s1 s 13) (product_s1 s 14),
      9 := csa_shf (product_s1 s 12) (product_s1 s 13) (product_s1 s 14))\<rparr>"

definition CSA_16 :: "x0_multiplier \<Rightarrow> x0_multiplier" where
  "CSA_16 s = s\<lparr>product_s2 := (product_s2 s)
     (10 := csa_sum (product_s1 s 15) (product_s1 s 16) (product_s1 s 17),
      11 := csa_shf (product_s1 s 15) (product_s1 s 16) (product_s1 s 17))\<rparr>"

definition CSA_17 :: "x0_multiplier \<Rightarrow> x0_multiplier" where
  "CSA_17 s = s\<lparr>product_s2 := (product_s2 s)
     (12 := csa_sum (product_s1 s 18) (product_s1 s 19) (product s 30),
      13 := csa_shf (product_s1 s 18) (product_s1 s 19) (product s 30))\<rparr>"

definition CSA_18 :: "x0_multiplier \<Rightarrow> x0_multiplier" where
  "CSA_18 s = s\<lparr>product_s3 := (product_s3 s)
     (0 := csa_sum (product_s2 s 0) (product_s2 s 1) (product_s2 s 2),
      1 := csa_shf (product_s2 s 0) (product_s2 s 1) (product_s2 s 2))\<rparr>"

definition CSA_19 :: "x0_multiplier \<Rightarrow> x0_multiplier" where
  "CSA_19 s = s\<lparr>product_s3 := (product_s3 s)
     (2 := csa_sum (product_s2 s 3) (product_s2 s 4) (product_s2 s 5),
      3 := csa_shf (product_s2 s 3) (product_s2 s 4) (product_s2 s 5))\<rparr>"

definition CSA_20 :: "x0_multiplier \<Rightarrow> x0_multiplier" where
  "CSA_20 s = s\<lparr>product_s3 := (product_s3 s)
     (4 := csa_sum (product_s2 s 6) (product_s2 s 7) (product_s2 s 8),
      5 := csa_shf (product_s2 s 6) (product_s2 s 7) (product_s2 s 8))\<rparr>"

definition CSA_21 :: "x0_multiplier \<Rightarrow> x0_multiplier" where
  "CSA_21 s = s\<lparr>product_s3 := (product_s3 s)
     (6 := csa_sum (product_s2 s 9) (product_s2 s 10) (product_s2 s 11),
      7 := csa_shf (product_s2 s 9) (product_s2 s 10) (product_s2 s 11))\<rparr>"

definition CSA_22 :: "x0_multiplier \<Rightarrow> x0_multiplier" where
  "CSA_22 s = s\<lparr>product_s3 := (product_s3 s)
     (8 := csa_sum (product_s2 s 12) (product_s2 s 13) (product s 31),
      9 := csa_shf (product_s2 s 12) (product_s2 s 13) (product s 31))\<rparr>"

definition CSA_23 :: "x0_multiplier \<Rightarrow> x0_multiplier" where
  "CSA_23 s = s\<lparr>product_s4 := (product_s4 s)
     (0 := csa_sum (product_s3 s 0) (product_s3 s 1) (product_s3 s 2),
      1 := csa_shf (product_s3 s 0) (product_s3 s 1) (product_s3 s 2))\<rparr>"

definition CSA_24 :: "x0_multiplier \<Rightarrow> x0_multiplier" where
  "CSA_24 s = s\<lparr>product_s4 := (product_s4 s)
     (2 := csa_sum (product_s3 s 3) (product_s3 s 4) (product_s3 s 5),
      3 := csa_shf (product_s3 s 3) (product_s3 s 4) (product_s3 s 5))\<rparr>"

definition CSA_25 :: "x0_multiplier \<Rightarrow> x0_multiplier" where
  "CSA_25 s = s\<lparr>product_s4 := (product_s4 s)
     (4 := csa_sum (product_s3 s 6) (product_s3 s 7) (product_s3 s 8),
      5 := csa_shf (product_s3 s 6) (product_s3 s 7) (product_s3 s 8))\<rparr>"

definition CSA_26 :: "x0_multiplier \<Rightarrow> x0_multiplier" where
  "CSA_26 s = s\<lparr>product_s5 := (product_s5 s)
     (0 := csa_sum (product_s4 s 0) (product_s4 s 1) (product_s4 s 2),
      1 := csa_shf (product_s4 s 0) (product_s4 s 1) (product_s4 s 2))\<rparr>"

definition CSA_27 :: "x0_multiplier \<Rightarrow> x0_multiplier" where
  "CSA_27 s = s\<lparr>product_s5 := (product_s5 s)
     (2 := csa_sum (product_s4 s 3) (product_s4 s 4) (product_s4 s 5),
      3 := csa_shf (product_s4 s 3) (product_s4 s 4) (product_s4 s 5))\<rparr>"


subsection \<open>The tree, level by level\<close>

definition x0_stage1 :: "x0_multiplier \<Rightarrow> x0_multiplier" where
  "x0_stage1 s = CSA_10 (CSA_9 (CSA_8 (CSA_7 (CSA_6 (CSA_5 (CSA_4 (CSA_3 (CSA_2 (CSA_1 s)))))))))"

definition x0_stage2 :: "x0_multiplier \<Rightarrow> x0_multiplier" where
  "x0_stage2 s = CSA_17 (CSA_16 (CSA_15 (CSA_14 (CSA_13 (CSA_12 (CSA_11 s))))))"

definition x0_stage3 :: "x0_multiplier \<Rightarrow> x0_multiplier" where
  "x0_stage3 s = CSA_22 (CSA_21 (CSA_20 (CSA_19 (CSA_18 s))))"

definition x0_stage4 :: "x0_multiplier \<Rightarrow> x0_multiplier" where
  "x0_stage4 s = CSA_25 (CSA_24 (CSA_23 s))"

definition x0_stage5 :: "x0_multiplier \<Rightarrow> x0_multiplier" where
  "x0_stage5 s = CSA_27 (CSA_26 s)"

text \<open>The settled signals for given inputs: every method run after the methods it reads from.\<close>

definition x0_settle :: "u32 \<Rightarrow> u32 \<Rightarrow> u2 \<Rightarrow> x0_multiplier \<Rightarrow> x0_multiplier" where
  "x0_settle op1 op2 cmd s =
     x0_stage5 (x0_stage4 (x0_stage3 (x0_stage2 (x0_stage1 (x0_operation op1 op2 cmd s)))))"

subsection \<open>A carry-save adder keeps the sum\<close>

lemma word_and_plus_or: "(a AND b) + (a OR b) = a + b" for a b :: u64
  by transfer (simp add: plus_and_or)

lemma word_add_xor_and: "a + b = (a XOR b) + 2 * (a AND b)" for a b :: u64
proof -
  have "a OR b = (a XOR b) + (a AND b)"
    by (subst disjunctive_add_eq_or) (auto simp: bit_eq_iff bit_simps)
  then have "a + b = (a XOR b) + (a AND b) + (a AND b)"
    using word_and_plus_or [of a b] by (simp add: ac_simps)
  then show ?thesis by (simp only: mult_2 add.assoc)
qed

lemma put_63_1: "put 63 1 x 0 = 2 * x" for x :: u64
  by (rule bit_word_eqI) (auto simp: bit_put bit_double_iff)

lemma csa_total: "csa_sum a b c + csa_shf a b c = a + b + c"
proof -
  define x A B where "x = a XOR b" and "A = a AND b" and "B = (a XOR b) AND c"
  have "A OR B = A + B"
    unfolding A_def B_def by (subst disjunctive_add_eq_or) (auto simp: bit_eq_iff bit_simps)
  then have shf: "csa_shf a b c = 2 * A + 2 * B"
    unfolding A_def B_def by (simp only: csa_shf_def put_63_1 distrib_left)
  have ab: "a + b = x + 2 * A"
    unfolding x_def A_def by (rule word_add_xor_and)
  have xc: "x + c = csa_sum a b c + 2 * B"
    unfolding csa_sum_def x_def B_def by (rule word_add_xor_and)
  have "csa_sum a b c + csa_shf a b c = (csa_sum a b c + 2 * B) + 2 * A"
    unfolding shf by (simp only: ac_simps)
  also have "\<dots> = (x + 2 * A) + c"
    unfolding xc [symmetric] by (simp only: ac_simps)
  also have "\<dots> = a + b + c"
    unfolding ab ..
  finally show ?thesis .
qed

lemma csa_shf_eq: "csa_shf a b c = a + b + c - csa_sum a b c"
  using csa_total [of a b c] by (simp add: eq_diff_eq add.commute)

subsection \<open>No level of the tree changes the sum\<close>

lemmas csa_stage_simps =
  CSA_1_def CSA_2_def CSA_3_def CSA_4_def CSA_5_def CSA_6_def CSA_7_def CSA_8_def CSA_9_def
  CSA_10_def CSA_11_def CSA_12_def CSA_13_def CSA_14_def CSA_15_def CSA_16_def CSA_17_def
  CSA_18_def CSA_19_def CSA_20_def CSA_21_def CSA_22_def CSA_23_def CSA_24_def CSA_25_def
  CSA_26_def CSA_27_def

definition x0_sum :: "nat \<Rightarrow> (nat \<Rightarrow> u64) \<Rightarrow> u64" where
  "x0_sum n f = (\<Sum>i<n. f i)"

lemma x0_stage1_frame [simp]:
  "product (x0_stage1 s) = product s"
  "select_higher_bits_sx0 (x0_stage1 s) = select_higher_bits_sx0 s"
  by (simp_all add: x0_stage1_def csa_stage_simps)

lemma x0_stage2_frame [simp]:
  "product (x0_stage2 s) = product s"
  "select_higher_bits_sx0 (x0_stage2 s) = select_higher_bits_sx0 s"
  by (simp_all add: x0_stage2_def csa_stage_simps)

lemma x0_stage3_frame [simp]:
  "product (x0_stage3 s) = product s"
  "select_higher_bits_sx0 (x0_stage3 s) = select_higher_bits_sx0 s"
  by (simp_all add: x0_stage3_def csa_stage_simps)

lemma x0_stage4_frame [simp]:
  "product_s3 (x0_stage4 s) = product_s3 s"
  "select_higher_bits_sx0 (x0_stage4 s) = select_higher_bits_sx0 s"
  by (simp_all add: x0_stage4_def csa_stage_simps)

lemma x0_stage5_frame [simp]:
  "product_s3 (x0_stage5 s) = product_s3 s"
  "select_higher_bits_sx0 (x0_stage5 s) = select_higher_bits_sx0 s"
  by (simp_all add: x0_stage5_def csa_stage_simps)

lemma x0_stage1_sum:
  "x0_sum 20 (product_s1 (x0_stage1 s)) + product s 30 + product s 31 = x0_sum 32 (product s)"
  by (simp add: x0_sum_def lessThan_nat_numeral x0_stage1_def csa_stage_simps csa_shf_eq)

lemma x0_stage2_sum:
  "x0_sum 14 (product_s2 (x0_stage2 s)) = x0_sum 20 (product_s1 s) + product s 30"
  by (simp add: x0_sum_def lessThan_nat_numeral x0_stage2_def csa_stage_simps csa_shf_eq)

lemma x0_stage3_sum:
  "x0_sum 10 (product_s3 (x0_stage3 s)) = x0_sum 14 (product_s2 s) + product s 31"
  by (simp add: x0_sum_def lessThan_nat_numeral x0_stage3_def csa_stage_simps csa_shf_eq)

lemma x0_stage4_sum:
  "x0_sum 6 (product_s4 (x0_stage4 s)) + product_s3 s 9 = x0_sum 10 (product_s3 s)"
  by (simp add: x0_sum_def lessThan_nat_numeral x0_stage4_def csa_stage_simps csa_shf_eq)

lemma x0_stage5_sum:
  "x0_sum 4 (product_s5 (x0_stage5 s)) = x0_sum 6 (product_s4 s)"
  by (simp add: x0_sum_def lessThan_nat_numeral x0_stage5_def csa_stage_simps csa_shf_eq)

lemma x0_tree_sum:
  "x0_sum 4 (product_s5 (x0_settle op1 op2 cmd s)) + product_s3 (x0_settle op1 op2 cmd s) 9 =
     x0_sum 32 (product (x0_operation op1 op2 cmd s))"
proof -
  let ?s0 = "x0_operation op1 op2 cmd s"
  let ?s2 = "x0_stage2 (x0_stage1 ?s0)"
  let ?s3 = "x0_stage3 ?s2"
  have "x0_sum 4 (product_s5 (x0_settle op1 op2 cmd s)) +
      product_s3 (x0_settle op1 op2 cmd s) 9 =
      x0_sum 6 (product_s4 (x0_stage4 ?s3)) + product_s3 ?s3 9"
    by (simp add: x0_settle_def x0_stage5_sum)
  also have "\<dots> = x0_sum 10 (product_s3 ?s3)"
    by (rule x0_stage4_sum)
  also have "\<dots> = x0_sum 14 (product_s2 ?s2) + product ?s0 31"
    by (simp add: x0_stage3_sum)
  also have "\<dots> = x0_sum 20 (product_s1 (x0_stage1 ?s0)) + product ?s0 30 + product ?s0 31"
    by (simp add: x0_stage2_sum)
  also have "\<dots> = x0_sum 32 (product ?s0)"
    by (rule x0_stage1_sum)
  finally show ?thesis .
qed

end
