(* ===== verification/Mult_Pipe.thy ===== *)
theory Mult_Pipe
  imports Mult_Tree Rv32_Spec Fifo
begin

text \<open>
  The three-stage multiplier as a whole: the packing of the terms into the \<open>x02x1\<close> FIFO
  (\<open>EXE/x0_multiplier.cpp\<close>), the second stage (\<open>MEM/x1_multiplier.cpp\<close>), which reduces the
  five terms to two, and the third (\<open>WBK/x2_multiplier.cpp\<close>), which adds them and selects a
  half.  The main theorem states that the pipeline computes \<open>mul\<close>, \<open>mulh\<close>, \<open>mulhu\<close> and
  \<open>mulhsu\<close> as the instruction set defines them.
\<close>

subsection \<open>The register between the first and the second stage\<close>

definition x0_fifo_concat :: "x0_multiplier \<Rightarrow> 322 word" where
  "x0_fifo_concat s =
     (put 63 0 (product_s5 s 0)
      (put 127 64 (product_s5 s 1)
       (put 191 128 (product_s5 s 2)
        (put 255 192 (product_s5 s 3)
         (put 319 256 (product_s3 s 9)
          (put_bit 320 (signed_res_sx0 s)
           (put_bit 321 (select_higher_bits_sx0 s) 0)))))))"

record x02x1_out =
  SELECT_HIGHER_BITS_RX0 :: bool
  SIGNED_RES_RX0 :: bool
  RES_RX0 :: "320 word"

definition x0_fifo_unconcat :: "322 word \<Rightarrow> x02x1_out" where
  "x0_fifo_unconcat ff_dout =
     \<lparr>SELECT_HIGHER_BITS_RX0 = bit ff_dout 321, SIGNED_RES_RX0 = bit ff_dout 320,
      RES_RX0 = rng 319 0 ff_dout\<rparr>"

definition x0_manage_fifo :: "bool \<Rightarrow> bool \<Rightarrow> bool" where
  "x0_manage_fifo full dec2x0_empty = (let stall = full \<or> dec2x0_empty in \<not> stall)"

subsection \<open>Second stage\<close>

record x1_multiplier =
  M :: "nat \<Rightarrow> u64"
  product_s6 :: "nat \<Rightarrow> u64"
  product_s7 :: "nat \<Rightarrow> u64"
  product_s8 :: "nat \<Rightarrow> u64"

definition x1_parse_data :: "320 word \<Rightarrow> x1_multiplier \<Rightarrow> x1_multiplier" where
  "x1_parse_data inp s = s\<lparr>M := (M s)
     (4 := rng 319 256 inp, 3 := rng 255 192 inp, 2 := rng 191 128 inp,
      1 := rng 127 64 inp, 0 := rng 63 0 inp)\<rparr>"

definition x1_CSA1 :: "x1_multiplier \<Rightarrow> x1_multiplier" where
  "x1_CSA1 s = s\<lparr>product_s6 := (product_s6 s)
     (0 := csa_sum (M s 0) (M s 1) (M s 2), 1 := csa_shf (M s 0) (M s 1) (M s 2))\<rparr>"

definition x1_CSA3 :: "x1_multiplier \<Rightarrow> x1_multiplier" where
  "x1_CSA3 s = s\<lparr>product_s7 := (product_s7 s)
     (0 := csa_sum (product_s6 s 0) (product_s6 s 1) (M s 3),
      1 := csa_shf (product_s6 s 0) (product_s6 s 1) (M s 3))\<rparr>"

definition x1_CSA4 :: "x1_multiplier \<Rightarrow> x1_multiplier" where
  "x1_CSA4 s = s\<lparr>product_s8 := (product_s8 s)
     (0 := csa_sum (product_s7 s 0) (product_s7 s 1) (M s 4),
      1 := csa_shf (product_s7 s 0) (product_s7 s 1) (M s 4))\<rparr>"

definition x1_settle :: "320 word \<Rightarrow> x1_multiplier \<Rightarrow> x1_multiplier" where
  "x1_settle inp s = x1_CSA4 (x1_CSA3 (x1_CSA1 (x1_parse_data inp s)))"

definition x1_fifo_concat :: "bool \<Rightarrow> bool \<Rightarrow> x1_multiplier \<Rightarrow> 130 word" where
  "x1_fifo_concat signed_res select s =
     put 63 0 (product_s8 s 0) (put 127 64 (product_s8 s 1)
       (put_bit 128 select (put_bit 129 signed_res 0)))"

record x12x2_out =
  SIGNED_RES_RX1 :: bool
  SELECT_HIGHER_BITS_RX1 :: bool
  RES_RX1 :: "128 word"

definition x1_fifo_unconcat :: "130 word \<Rightarrow> x12x2_out" where
  "x1_fifo_unconcat ff_dout =
     \<lparr>SIGNED_RES_RX1 = bit ff_dout 129, SELECT_HIGHER_BITS_RX1 = bit ff_dout 128,
      RES_RX1 = rng 127 0 ff_dout\<rparr>"

text \<open>The push of the second stage's FIFO and the pop of the first stage's.\<close>

definition x1_manage_fifo :: "bool \<Rightarrow> bool \<Rightarrow> bool \<times> bool" where
  "x1_manage_fifo full x02x1_empty =
     (let stall = full \<or> x02x1_empty in (\<not> stall, \<not> stall))"

subsection \<open>Third stage\<close>

definition x2_process :: "128 word \<Rightarrow> bool \<Rightarrow> u32" where
  "x2_process inp select =
     (let a = (rng 63 0 inp :: u64); b = (rng 127 64 inp :: u64); add = a + b
      in if select then rng 63 32 add else rng 31 0 add)"

definition x2_manage_fifo :: "bool \<Rightarrow> bool" where
  "x2_manage_fifo x12x2_empty = (\<not> x12x2_empty)"

text \<open>
  An instruction's way through the three stages: each stage's output register holds what the
  stage before pushed.  \<open>s0\<close> and \<open>s1\<close> are the signals left by earlier instructions.
\<close>

definition mult_result :: "u32 \<Rightarrow> u32 \<Rightarrow> u2 \<Rightarrow> x0_multiplier \<Rightarrow> x1_multiplier \<Rightarrow> u32" where
  "mult_result op1 op2 cmd s0 s1 =
     (let r0 = x0_fifo_unconcat (x0_fifo_concat (x0_settle op1 op2 cmd s0));
          r1 = x1_fifo_unconcat
                 (x1_fifo_concat (SIGNED_RES_RX0 r0) (SELECT_HIGHER_BITS_RX0 r0)
                   (x1_settle (RES_RX0 r0) s1))
      in x2_process (RES_RX1 r1) (SELECT_HIGHER_BITS_RX1 r1))"

subsection \<open>The partial products add up to the product\<close>

lemma bit_fold_put_bit:
  "bit (fold (\<lambda>j. put_bit j (f j)) js x) n \<longleftrightarrow>
     (if n \<in> set js then n < LENGTH('a) \<and> f n else bit x n)"
  for x :: "'a::len word"
  by (induction js arbitrary: x) (auto simp: bit_put_bit)

definition x0_extend :: "bool \<Rightarrow> u32 \<Rightarrow> u64" where
  "x0_extend signed_type op1 = (if signed_type then scast op1 else ucast op1)"

lemma x0_partial_shift:
  assumes "i < 32"
  shows "x0_partial signed_type op1 op2 i =
     (if bit op2 i then push_bit i (x0_extend signed_type op1) else 0)"
proof (rule bit_word_eqI)
  fix n
  assume "n < LENGTH(64)"
  then show "bit (x0_partial signed_type op1 op2 i) n =
      bit (if bit op2 i then push_bit i (x0_extend signed_type op1) else 0) n"
    using assms
    by (cases "n - i = 31")
      (auto simp: x0_partial_def x0_extend_def bit_fold_put_bit bit_simps Let_def min_def
        dest: bit_imp_le_length)
qed

lemma x0_partial_sum:
  "x0_sum 32 (x0_partial signed_type op1 op2) = x0_extend signed_type op1 * ucast op2"
proof -
  let ?v = "x0_extend signed_type op1" and ?w = "ucast op2 :: u64"
  have "x0_sum 32 (x0_partial signed_type op1 op2) = (\<Sum>i<32. ?v * push_bit i (of_bool (bit ?w i)))"
    unfolding x0_sum_def
    by (rule sum.cong) (auto simp: x0_partial_shift bit_simps push_bit_eq_mult)
  also have "\<dots> = ?v * (\<Sum>i = 0..<32. push_bit i (of_bool (bit ?w i)))"
    by (simp add: sum_distrib_left atLeast0LessThan)
  also have "\<dots> = ?v * take_bit 32 ?w"
    by (simp add: take_bit_sum)
  also have "take_bit 32 ?w = ?w"
    by (rule bit_word_eqI) (auto simp: bit_simps dest: bit_imp_le_length)
  finally show ?thesis .
qed

text \<open>The exact product, as an integer, that each command asks for.\<close>

definition mult_exact :: "u2 \<Rightarrow> u32 \<Rightarrow> u32 \<Rightarrow> int" where
  "mult_exact cmd op1 op2 =
     (if cmd = 3 then uint op1 * uint op2
      else if cmd = 0 then sint op1 * uint op2
      else sint op1 * sint op2)"

lemma x0_extend_of_int:
  "x0_extend signed_type op1 = word_of_int (if signed_type then sint op1 else uint op1)"
  by (simp add: x0_extend_def)

lemma x0_operands_exact:
  assumes "x0_operands op1 op2 cmd = (p, q, st)"
  shows "(if st then sint p else uint p) * uint q = mult_exact cmd op1 op2"
  using assms u2_cases [of cmd]
  by (auto simp: x0_operands_def mult_exact_def not_plus_one uint_neg_word uint_pos_word
      mult.commute split: if_splits)

lemma x0_product_sum:
  "x0_sum 32 (product (x0_operation op1 op2 cmd s)) = word_of_int (mult_exact cmd op1 op2)"
proof -
  obtain p q st where ops: "x0_operands op1 op2 cmd = (p, q, st)"
    by (cases "x0_operands op1 op2 cmd")
  have "x0_sum 32 (product (x0_operation op1 op2 cmd s)) = x0_sum 32 (x0_partial st p q)"
    by (simp add: x0_operation_def ops x0_sum_def)
  also have "\<dots> = x0_extend st p * ucast q"
    by (rule x0_partial_sum)
  also have "\<dots> = word_of_int ((if st then sint p else uint p) * uint q)"
    by (simp add: x0_extend_of_int)
  also have "(if st then sint p else uint p) * uint q = mult_exact cmd op1 op2"
    using ops by (rule x0_operands_exact)
  finally show ?thesis .
qed

subsection \<open>The FIFOs deliver the terms, the later stages keep the sum\<close>

lemma x0_channel:
  "M (x1_parse_data (RES_RX0 (x0_fifo_unconcat (x0_fifo_concat s))) t) =
     (M t)(0 := product_s5 s 0, 1 := product_s5 s 1, 2 := product_s5 s 2, 3 := product_s5 s 3,
       4 := product_s3 s 9)"
  by (auto simp: x0_fifo_unconcat_def x0_fifo_concat_def x1_parse_data_def range_simps)

lemma x0_channel_select:
  "SELECT_HIGHER_BITS_RX0 (x0_fifo_unconcat (x0_fifo_concat s)) = select_higher_bits_sx0 s"
  by (simp add: x0_fifo_unconcat_def x0_fifo_concat_def range_simps)

lemma x1_settle_sum:
  "product_s8 (x1_settle inp t) 0 + product_s8 (x1_settle inp t) 1 =
     M (x1_parse_data inp t) 0 + M (x1_parse_data inp t) 1 + M (x1_parse_data inp t) 2 +
     M (x1_parse_data inp t) 3 + M (x1_parse_data inp t) 4"
  by (simp add: x1_settle_def x1_CSA4_def x1_CSA3_def x1_CSA1_def csa_shf_eq)

lemma x2_process_channel:
  "x2_process (RES_RX1 (x1_fifo_unconcat (x1_fifo_concat sg sel t)))
     (SELECT_HIGHER_BITS_RX1 (x1_fifo_unconcat (x1_fifo_concat sg sel t))) =
   (if sel then rng 63 32 (product_s8 t 0 + product_s8 t 1)
    else rng 31 0 (product_s8 t 0 + product_s8 t 1))"
  by (simp add: x2_process_def x1_fifo_unconcat_def x1_fifo_concat_def range_simps)

lemma x0_settle_select: "select_higher_bits_sx0 (x0_settle op1 op2 cmd s) = (cmd \<noteq> 1)"
  by (simp add: x0_settle_def x0_operation_def split: prod.split)

lemma mult_result_halves:
  "mult_result op1 op2 cmd s0 s1 =
     (if cmd \<noteq> 1 then rng 63 32 (word_of_int (mult_exact cmd op1 op2) :: u64)
      else rng 31 0 (word_of_int (mult_exact cmd op1 op2) :: u64))"
proof -
  let ?x0 = "x0_settle op1 op2 cmd s0"
  let ?r0 = "x0_fifo_unconcat (x0_fifo_concat ?x0)"
  let ?x1 = "x1_settle (RES_RX0 ?r0) s1"
  have "product_s8 ?x1 0 + product_s8 ?x1 1 =
      x0_sum 4 (product_s5 ?x0) + product_s3 ?x0 9"
    unfolding x1_settle_sum x0_channel
    by (simp add: x0_sum_def lessThan_nat_numeral ac_simps)
  also have "\<dots> = word_of_int (mult_exact cmd op1 op2)"
    by (simp only: x0_tree_sum x0_product_sum)
  finally have total: "product_s8 ?x1 0 + product_s8 ?x1 1 =
      word_of_int (mult_exact cmd op1 op2)" .
  have "mult_result op1 op2 cmd s0 s1 =
     (if cmd \<noteq> 1 then rng 63 32 (product_s8 ?x1 0 + product_s8 ?x1 1)
      else rng 31 0 (product_s8 ?x1 0 + product_s8 ?x1 1))"
    by (simp only: mult_result_def Let_def x2_process_channel x0_channel_select
        x0_settle_select)
  then show ?thesis by (simp only: total)
qed

lemma rng_low_word_of_int: "(rng 31 0 (word_of_int k :: u64) :: u32) = word_of_int k"
  by (rule bit_word_eqI) (auto simp: bit_rng bit_simps)

lemma rng_high_word_of_int: "(rng 63 32 (word_of_int k :: u64) :: u32) = word_of_int (k div 2 ^ 32)"
proof -
  have "(rng 63 32 (word_of_int k :: u64) :: u32) = word_of_int (drop_bit 32 k)"
    by (rule bit_word_eqI) (auto simp: bit_rng bit_simps ac_simps)
  then show ?thesis by (simp add: drop_bit_eq_div)
qed

lemma mult_result_exact:
  "mult_result op1 op2 cmd s0 s1 =
     (if cmd = 1 then word_of_int (mult_exact cmd op1 op2)
      else word_of_int (mult_exact cmd op1 op2 div 2 ^ 32))"
  by (simp only: mult_result_halves rng_low_word_of_int rng_high_word_of_int if_not_P if_P
      split: if_split) simp

lemma mult_result_op:
  "mult_result op1 op2 cmd s0 s1 =
     (if cmd = 1 then rv_mul op1 op2
      else if cmd = 2 then rv_mulh op1 op2
      else if cmd = 3 then rv_mulhu op1 op2
      else rv_mulhsu op1 op2)"
  using u2_cases [of cmd]
  by (auto simp: mult_result_exact mult_exact_def rv_mul_def rv_mulh_def rv_mulhu_def
      rv_mulhsu_def)

text \<open>
  C13: the multiplier pipeline returns, for command 1, 2, 3 and 0, the results of \<open>mul\<close>,
  \<open>mulh\<close>, \<open>mulhu\<close> and \<open>mulhsu\<close> of its two operands, whatever earlier instructions left in
  the stages.
\<close>

theorem mult_result_correct:
  "mult_result op1 op2 cmd s0 s1 =
     (if cmd = 1 then rv_mul op1 op2
      else if cmd = 2 then rv_mulh op1 op2
      else if cmd = 3 then rv_mulhu op1 op2
      else rv_mulhsu op1 op2)"
  by (rule mult_result_op)

end
