(* ===== verification/Decode_Exec.thy ===== *)
theory Decode_Exec
  imports Decode Exec Mult_Pipe Divider
begin

text \<open>
  Decode and execute together: the payload that decode packs for an instruction makes the execute
  stage compute the result that the instruction set gives it (\<open>rv_result\<close>).  The lemmas give the
  command that decode issues for every class of instructions.
\<close>

subsection \<open>The command decode issues\<close>

abbreviation "ity ir \<equiv> decoding_instruction_type ir"
abbreviation "ifl ir \<equiv> decoding_instruction ir"

definition dec_issue ::
  "dec_uninit \<Rightarrow> dec_in \<Rightarrow> dec2exe_out \<Rightarrow> dec2if_out \<Rightarrow> exe2mem_out \<Rightarrow> mem2wbk_out \<Rightarrow> dec \<Rightarrow>
     dec2exe_out" where
  "dec_issue u i rd fb re rm s =
     (let d = dec_settle u i rd fb re rm s
      in dec_payload i (ifl (INSTR_RI i)) (D_reg d) (D_byp d) (D_ops d) (D_pc d))"

lemma dec_issue_delivered:
  "\<not> dec_in.EXCEPTION_SM i \<Longrightarrow>
     unconcat_dec2exe (dec_concat_dec2exe i (ifl (INSTR_RI i))
       (D_reg (dec_settle u i rd fb re rm s)) (D_byp (dec_settle u i rd fb re rm s))
       (D_ops (dec_settle u i rd fb re rm s)) (D_pc (dec_settle u i rd fb re rm s))) =
     dec_issue u i rd fb re rm s"
  by (simp add: dec_concat_dec2exe_def unconcat_dec2exe_dec2exe_pack dec_issue_def Let_def)

lemma dec_load_size_frame [simp]:
  "exe_cmd_sd (dec_load_size f s) = exe_cmd_sd s"
  "exe_neg_op2_sd (dec_load_size f s) = exe_neg_op2_sd s"
  "select_type_operations_sd (dec_load_size f s) = select_type_operations_sd s"
  "mem_store_sd (dec_load_size f s) = mem_store_sd s"
  "block_bp_sd (dec_load_size f s) = block_bp_sd s"
  by (simp_all add: dec_load_size_def Let_def)

lemma dec_load_size_load:
  "mem_load_sd (dec_load_size f s) \<longleftrightarrow>
     lw_i_sd f \<or> lh_i_sd f \<or> lhu_i_sd f \<or> lb_i_sd f \<or> lbu_i_sd f"
  by (simp add: dec_load_size_def Let_def)

lemma dec_post_reg_read_alu:
  assumes "r_type_inst_sd t \<or> i_type_inst_sd t \<or> u_type_inst_sd t \<or> m_type_inst_sd t"
  defines "l u i f b \<equiv> dec_alu_operands i t f b (dec_locals_init u)"
  shows "exe_cmd_sd (dec_post_reg_read u i t f b s) = dec_alu_cmd f"
    "exe_neg_op2_sd (dec_post_reg_read u i t f b s) = dec_alu_neg f"
    "select_type_operations_sd (dec_post_reg_read u i t f b s) = dec_alu_select f"
    "exe_op1_sd (dec_post_reg_read u i t f b s) = dec2exe_op1_var (l u i f b)"
    "exe_op2_sd (dec_post_reg_read u i t f b s) = dec2exe_op2_var (l u i f b)"
    "block_bp_sd (dec_post_reg_read u i t f b s) = jalr_type_inst_sd t"
    "\<not> mem_store_sd (dec_post_reg_read u i t f b s)"
    "mem_load_sd (dec_post_reg_read u i t f b s) =
       (lw_i_sd f \<or> lh_i_sd f \<or> lhu_i_sd f \<or> lb_i_sd f \<or> lbu_i_sd f)"
    "jump_sd (dec_post_reg_read u i t f b s) = False"
  unfolding dec_post_reg_read_def Let_def if_P [OF assms(1)]
  by (simp_all add: dec_post_alu_def l_def dec_load_size_load)

lemma dec_issue_alu:
  assumes ir: "ir = INSTR_RI i"
    and ty: "r_type_inst_sd (ity ir) \<or> i_type_inst_sd (ity ir) \<or> u_type_inst_sd (ity ir) \<or>
      m_type_inst_sd (ity ir)"
    and d: "d = dec_settle u i rd fb re rm s" and p: "p = dec_issue u i rd fb re rm s"
  shows "EXE_CMD_RD p = dec_alu_cmd (ifl ir)" "NEG_OP2_RD p = dec_alu_neg (ifl ir)"
    "SELECT_TYPE_OPERATIONS_RD p = dec_alu_select (ifl ir)"
    "OP1_RD p = dec2exe_op1_var (dec_alu_operands i (ity ir) (ifl ir) (D_byp d) (dec_locals_init u))"
    "OP2_RD p = dec2exe_op2_var (dec_alu_operands i (ity ir) (ifl ir) (D_byp d) (dec_locals_init u))"
    "BLOCK_BP_RD p = jalr_type_inst_sd (ity ir)" "\<not> MEM_STORE_RD p"
    "MEM_LOAD_RD p = (lw_i_sd (ifl ir) \<or> lh_i_sd (ifl ir) \<or> lhu_i_sd (ifl ir) \<or> lb_i_sd (ifl ir) \<or>
       lbu_i_sd (ifl ir))"
  using ty unfolding p d ir dec_issue_def Let_def
  by (simp_all add: dec_payload_def dec_settle_parts(3) dec_post_reg_read_alu)

lemma dec_issue_flags:
  assumes "d = dec_settle u i rd fb re rm s" "p = dec_issue u i rd fb re rm s"
  shows "SLT_RD p = (slt_i_sd (ifl (INSTR_RI i)) \<or> slti_i_sd (ifl (INSTR_RI i)))"
    "SLTU_RD p = (sltu_i_sd (ifl (INSTR_RI i)) \<or> sltiu_i_sd (ifl (INSTR_RI i)))"
    "BP_RADR1_RD p = RADR1_SD (D_reg d)" "BP_RADR2_RD p = RADR2_SD (D_reg d)"
  by (simp_all add: assms dec_issue_def Let_def dec_payload_def)

lemma exec_op2_direct:
  "BP_RADR2_RD p = 0 \<or> MEM_LOAD_RD p \<or> BLOCK_BP_RD p \<Longrightarrow>
     op2_se (exec_settle env p re rm s) = OP2_RD p"
  "MEM_STORE_RD p \<Longrightarrow> \<not> blocked (exec_settle env p re rm s) \<Longrightarrow>
     op2_se (exec_settle env p re rm s) = OP2_RD p"
  by (auto simp: exec_bypasses_def split_beta exec_bypass_rs2_def Let_def split: if_splits)

lemma exec_op1_direct:
  "BP_RADR1_RD p = 0 \<or> BLOCK_BP_RD p \<Longrightarrow> op1_se (exec_settle env p re rm s) = OP1_RD p"
  by (auto simp: exec_bypasses_def split_beta exec_bypass_rs1_def exec_bypass_rs2_def Let_def)

text \<open>A command of decode that makes the execute stage compute \<open>rv_op\<close>.\<close>

definition issues_op :: "dec2exe_out \<Rightarrow> 3 word \<Rightarrow> bool \<Rightarrow> bool" where
  "issues_op p f3 alt \<longleftrightarrow> exec_command_ok p \<and>
     (\<forall>dv a b. exec_result_spec p dv a b = rv_op f3 alt a b)"

lemma issues_opI:
  assumes "SELECT_TYPE_OPERATIONS_RD p = (if f3 = 1 \<or> f3 = 5 then 2 else 1)"
    and "SLT_RD p = (f3 = 2)" "SLTU_RD p = (f3 = 3)"
    and "NEG_OP2_RD p = (f3 = 2 \<or> f3 = 3 \<or> f3 = 0 \<and> alt)"
    and "EXE_CMD_RD p = (if f3 = 7 \<or> f3 = 5 \<and> \<not> alt then 1 else if f3 = 6 \<or> f3 = 5 then 2
           else if f3 = 4 then 3 else 0)"
  shows "issues_op p f3 alt"
  using u3_cases [of f3] assms
  by (elim disjE)
    (auto simp: issues_op_def exec_command_ok_def exec_result_spec_def rv_op_def Let_def)

lemma r_type_fields:
  assumes "opcode ir = 0b0110011" "funct7 ir = 0 \<or> funct7 ir = 0b0100000 \<and> (funct3 ir = 0 \<or> funct3 ir = 5)"
  shows "r_type_inst_sd (ity ir)" "\<not> i_type_inst_sd (ity ir)" "\<not> u_type_inst_sd (ity ir)"
    "\<not> jalr_type_inst_sd (ity ir)"
  using assms by (auto simp: decoding_instruction_type_def)

lemma r_type_cmd:
  assumes "opcode ir = 0b0110011"
    "funct7 ir = 0 \<or> funct7 ir = 0b0100000 \<and> (funct3 ir = 0 \<or> funct3 ir = 5)"
  shows "dec_alu_select (ifl ir) = (if funct3 ir = 1 \<or> funct3 ir = 5 then 2 else 1)"
    "dec_alu_neg (ifl ir) \<longleftrightarrow> funct3 ir = 2 \<or> funct3 ir = 3 \<or> funct3 ir = 0 \<and> funct7 ir \<noteq> 0"
    "dec_alu_cmd (ifl ir) = (if funct3 ir = 7 \<or> funct3 ir = 5 \<and> funct7 ir = 0 then 1
       else if funct3 ir = 6 \<or> funct3 ir = 5 then 2 else if funct3 ir = 4 then 3 else 0)"
    "slt_i_sd (ifl ir) \<or> slti_i_sd (ifl ir) \<longleftrightarrow> funct3 ir = 2"
    "sltu_i_sd (ifl ir) \<or> sltiu_i_sd (ifl ir) \<longleftrightarrow> funct3 ir = 3"
  unfolding dec_alu_select_def dec_alu_neg_def dec_alu_cmd_def decoding_instruction_flags assms(1)
  using assms(2) by auto

lemma i_type_cmd:
  assumes "opcode ir = 0b0010011"
    "(funct3 ir \<noteq> 1 \<and> funct3 ir \<noteq> 5) \<or> funct7 ir = 0 \<or> funct7 ir = 0b0100000 \<and> funct3 ir = 5"
  shows "dec_alu_select (ifl ir) = (if funct3 ir = 1 \<or> funct3 ir = 5 then 2 else 1)"
    "dec_alu_neg (ifl ir) \<longleftrightarrow> funct3 ir = 2 \<or> funct3 ir = 3"
    "dec_alu_cmd (ifl ir) = (if funct3 ir = 7 \<or> funct3 ir = 5 \<and> funct7 ir = 0 then 1
       else if funct3 ir = 6 \<or> funct3 ir = 5 then 2 else if funct3 ir = 4 then 3 else 0)"
    "slt_i_sd (ifl ir) \<or> slti_i_sd (ifl ir) \<longleftrightarrow> funct3 ir = 2"
    "sltu_i_sd (ifl ir) \<or> sltiu_i_sd (ifl ir) \<longleftrightarrow> funct3 ir = 3"
  unfolding dec_alu_select_def dec_alu_neg_def dec_alu_cmd_def decoding_instruction_flags assms(1)
  using assms(2) by auto

lemma add_cmd:
  assumes "opcode ir \<noteq> 0b0110011" "opcode ir \<noteq> 0b0010011"
  shows "dec_alu_select (ifl ir) = 1" "\<not> dec_alu_neg (ifl ir)" "dec_alu_cmd (ifl ir) = 0"
    "\<not> (slt_i_sd (ifl ir) \<or> slti_i_sd (ifl ir))" "\<not> (sltu_i_sd (ifl ir) \<or> sltiu_i_sd (ifl ir))"
  unfolding dec_alu_select_def dec_alu_neg_def dec_alu_cmd_def decoding_instruction_flags
  by (simp_all add: assms)

lemma issues_addI:
  assumes "SELECT_TYPE_OPERATIONS_RD p = 1" "\<not> SLT_RD p" "\<not> SLTU_RD p" "\<not> NEG_OP2_RD p"
    "EXE_CMD_RD p = 0"
  shows "issues_op p 0 False"
  by (rule issues_opI) (simp_all add: assms)

lemma issue_result:
  assumes "issues_op p f3 alt"
  shows "exe_res_se (exec_settle env p re rm s) =
    rv_op f3 alt (op1_se (exec_settle env p re rm s)) (op2_se (exec_settle env p re rm s))"
proof -
  have "exec_command_ok p" using assms by (simp add: issues_op_def)
  from exec_result [OF this] show ?thesis
    using assms by (simp add: issues_op_def)
qed

lemma issue_store:
  assumes "opcode (INSTR_RI i) = 0b0100011" "funct3 (INSTR_RI i) < 3"
    and p: "p = dec_issue u i rd fb re rm s"
  shows "issues_op p 0 False" "OP2_RD p = dec_imm_s (INSTR_RI i)" "MEM_STORE_RD p"
proof -
  have t: "s_type_inst_sd (ity (INSTR_RI i))" "\<not> r_type_inst_sd (ity (INSTR_RI i))"
    "\<not> i_type_inst_sd (ity (INSTR_RI i))" "\<not> u_type_inst_sd (ity (INSTR_RI i))"
    "\<not> m_type_inst_sd (ity (INSTR_RI i))"
    by (simp_all add: decoding_instruction_type_def assms(1))
  have f: "sw_i_sd (ifl (INSTR_RI i)) \<or> sh_i_sd (ifl (INSTR_RI i)) \<or> sb_i_sd (ifl (INSTR_RI i))"
    using u3_cases [of "funct3 (INSTR_RI i)"] assms(1,2)
    by (auto simp: decoding_instruction_flags)
  have ops: "D_ops (dec_settle u i rd fb re rm s) =
      dec_post_reg_read u i (ity (INSTR_RI i)) (ifl (INSTR_RI i))
        (D_byp (dec_settle u i rd fb re rm s)) (D_ops s)"
    by (simp add: dec_settle_parts(3))
  have st: "exe_cmd_sd (dec_post_reg_read u i (ity (INSTR_RI i)) (ifl (INSTR_RI i)) b x) = 0"
    "\<not> exe_neg_op2_sd (dec_post_reg_read u i (ity (INSTR_RI i)) (ifl (INSTR_RI i)) b x)"
    "select_type_operations_sd (dec_post_reg_read u i (ity (INSTR_RI i)) (ifl (INSTR_RI i)) b x) = 1"
    "exe_op2_sd (dec_post_reg_read u i (ity (INSTR_RI i)) (ifl (INSTR_RI i)) b x) =
       dec_imm_s (INSTR_RI i)"
    "mem_store_sd (dec_post_reg_read u i (ity (INSTR_RI i)) (ifl (INSTR_RI i)) b x)" for b x
    using f by (simp_all add: dec_post_reg_read_def Let_def t dec_post_store_def)
  note fl = add_cmd [of "INSTR_RI i"] dec_issue_flags [OF refl p]
  show "issues_op p 0 False"
    using fl assms(1)
    by (intro issues_addI) (simp_all add: p dec_issue_def Let_def dec_payload_def ops st)
  show "OP2_RD p = dec_imm_s (INSTR_RI i)" "MEM_STORE_RD p"
    by (simp_all add: p dec_issue_def Let_def dec_payload_def ops st)
qed

lemma issue_jump:
  assumes "opcode (INSTR_RI i) = 0b1101111 \<or> opcode (INSTR_RI i) = 0b1100111"
    and p: "p = dec_issue u i rd fb re rm s"
  shows "issues_op p 0 False" "OP1_RD p = READ_PC_SR i" "OP2_RD p = 0"
    "BP_RADR1_RD p = 0 \<or> BLOCK_BP_RD p" "BP_RADR2_RD p = 0"
proof -
  have t: "j_type_inst_sd (ity (INSTR_RI i)) \<or> jalr_type_inst_sd (ity (INSTR_RI i))"
    "j_type_inst_sd (ity (INSTR_RI i)) \<noteq> jalr_type_inst_sd (ity (INSTR_RI i))"
    "\<not> r_type_inst_sd (ity (INSTR_RI i))"
    "\<not> i_type_inst_sd (ity (INSTR_RI i))" "\<not> u_type_inst_sd (ity (INSTR_RI i))"
    "\<not> m_type_inst_sd (ity (INSTR_RI i))" "\<not> s_type_inst_sd (ity (INSTR_RI i))"
    "\<not> b_type_inst_sd (ity (INSTR_RI i))"
    using assms(1) by (auto simp: decoding_instruction_type_def)
  have ops: "D_ops (dec_settle u i rd fb re rm s) =
      dec_post_reg_read u i (ity (INSTR_RI i)) (ifl (INSTR_RI i))
        (D_byp (dec_settle u i rd fb re rm s)) (D_ops s)"
    by (simp add: dec_settle_parts(3))
  have st: "exe_cmd_sd (dec_post_reg_read u i (ity (INSTR_RI i)) (ifl (INSTR_RI i)) b x) = 0"
    "\<not> exe_neg_op2_sd (dec_post_reg_read u i (ity (INSTR_RI i)) (ifl (INSTR_RI i)) b x)"
    "select_type_operations_sd (dec_post_reg_read u i (ity (INSTR_RI i)) (ifl (INSTR_RI i)) b x) = 1"
    "exe_op1_sd (dec_post_reg_read u i (ity (INSTR_RI i)) (ifl (INSTR_RI i)) b x) = READ_PC_SR i"
    "exe_op2_sd (dec_post_reg_read u i (ity (INSTR_RI i)) (ifl (INSTR_RI i)) b x) = 0"
    "block_bp_sd (dec_post_reg_read u i (ity (INSTR_RI i)) (ifl (INSTR_RI i)) b x) =
       jalr_type_inst_sd (ity (INSTR_RI i))" for b x
    using t by (auto simp: dec_post_reg_read_def Let_def dec_post_jump_def)
  have adr: "RADR2_SD (D_reg (dec_settle u i rd fb re rm s)) = 0"
    "j_type_inst_sd (ity (INSTR_RI i)) \<Longrightarrow> RADR1_SD (D_reg (dec_settle u i rd fb re rm s)) = 0"
    using t by (auto simp: dec_settle_parts(1) dec_pre_reg_read_def Let_def dec_set_regs_def)
  note fl = add_cmd [of "INSTR_RI i"] dec_issue_flags [OF refl p]
  show "issues_op p 0 False"
    using fl assms(1)
    by (intro issues_addI) (auto simp: p dec_issue_def Let_def dec_payload_def ops st)
  show "OP1_RD p = READ_PC_SR i" "OP2_RD p = 0" "BP_RADR1_RD p = 0 \<or> BLOCK_BP_RD p"
    "BP_RADR2_RD p = 0"
    using t adr by (auto simp: p dec_issue_def Let_def dec_payload_def ops st)
qed

lemma r_type_result:
  assumes "opcode (INSTR_RI i) = 0b0110011"
    "funct7 (INSTR_RI i) = 0 \<or>
     funct7 (INSTR_RI i) = 0b0100000 \<and> (funct3 (INSTR_RI i) = 0 \<or> funct3 (INSTR_RI i) = 5)"
  shows "issues_op (dec_issue u i rd fb re rm s) (funct3 (INSTR_RI i)) (funct7 (INSTR_RI i) \<noteq> 0)"
  using r_type_cmd [OF assms] r_type_fields [OF assms]
  by (intro issues_opI)
    (simp_all add: dec_issue_alu [OF refl _ refl refl] dec_issue_flags [OF refl refl])

lemma i_type_fields:
  assumes "opcode ir = 0b0010011 \<or> opcode ir = 0b0000011"
  shows "i_type_inst_sd (ity ir)" "\<not> r_type_inst_sd (ity ir)" "\<not> jalr_type_inst_sd (ity ir)"
  using assms by (auto simp: decoding_instruction_type_def)

lemma i_type_operand:
  assumes "opcode (INSTR_RI i) = 0b0010011 \<or> opcode (INSTR_RI i) = 0b0000011"
    and "p = dec_issue u i rd fb re rm s"
  shows "OP2_RD p = dec_imm_i (INSTR_RI i)" "BP_RADR2_RD p = 0"
  using i_type_fields [OF assms(1)]
  by (simp_all add: assms(2) dec_issue_alu [OF refl _ refl refl] dec_issue_flags [OF refl refl]
      dec_alu_operands_def dec_settle_parts(1) dec_pre_reg_read_def Let_def dec_set_regs_def)

lemma i_type_result:
  assumes "opcode (INSTR_RI i) = 0b0010011"
    "(funct3 (INSTR_RI i) \<noteq> 1 \<and> funct3 (INSTR_RI i) \<noteq> 5) \<or> funct7 (INSTR_RI i) = 0 \<or>
     funct7 (INSTR_RI i) = 0b0100000 \<and> funct3 (INSTR_RI i) = 5"
  shows "issues_op (dec_issue u i rd fb re rm s) (funct3 (INSTR_RI i))
    (funct3 (INSTR_RI i) = 5 \<and> funct7 (INSTR_RI i) \<noteq> 0)"
  using i_type_cmd [OF assms] i_type_fields [of "INSTR_RI i"] assms(1)
  by (intro issues_opI)
    (auto simp: dec_issue_alu [OF refl _ refl refl] dec_issue_flags [OF refl refl])

lemma load_result:
  assumes "opcode (INSTR_RI i) = 0b0000011"
  shows "issues_op (dec_issue u i rd fb re rm s) 0 False"
  using add_cmd [of "INSTR_RI i"] i_type_fields [of "INSTR_RI i"] assms
  by (intro issues_addI)
    (simp_all add: dec_issue_alu [OF refl _ refl refl] dec_issue_flags [OF refl refl])

lemma u_type_result:
  assumes "opcode (INSTR_RI i) = 0b0110111 \<or> opcode (INSTR_RI i) = 0b0010111"
    and p: "p = dec_issue u i rd fb re rm s"
  shows "issues_op p 0 False" "OP1_RD p = dec_imm_u (INSTR_RI i)"
    "OP2_RD p = (if opcode (INSTR_RI i) = 0b0010111 then PC_IF2DEC_RI i else RDATA2_SR i)"
    "BP_RADR1_RD p = 0" "BP_RADR2_RD p = 0"
proof -
  have t: "u_type_inst_sd (ity (INSTR_RI i))" "\<not> r_type_inst_sd (ity (INSTR_RI i))"
    "\<not> i_type_inst_sd (ity (INSTR_RI i))" "\<not> s_type_inst_sd (ity (INSTR_RI i))"
    "\<not> b_type_inst_sd (ity (INSTR_RI i))"
    using assms(1) by (auto simp: decoding_instruction_type_def)
  have adr: "RADR1_SD (D_reg (dec_settle u i rd fb re rm s)) = 0"
    "RADR2_SD (D_reg (dec_settle u i rd fb re rm s)) = 0"
    using t by (simp_all add: dec_settle_parts(1) dec_pre_reg_read_def Let_def dec_set_regs_def)
  have r2: "rdata2_sd (D_byp (dec_settle u i rd fb re rm s)) = RDATA2_SR i"
    by (simp add: dec_settle_parts(2) dec_byp_parts adr dec_bypass_def)
  show "issues_op p 0 False"
    using add_cmd [of "INSTR_RI i"] assms(1) t(1)
    by (intro issues_addI)
      (auto simp: p dec_issue_alu [OF refl _ refl refl] dec_issue_flags [OF refl refl])
  show "OP1_RD p = dec_imm_u (INSTR_RI i)"
    "OP2_RD p = (if opcode (INSTR_RI i) = 0b0010111 then PC_IF2DEC_RI i else RDATA2_SR i)"
    using t by (simp_all add: p dec_issue_alu [OF refl _ refl refl] dec_alu_operands_def r2
        decoding_instruction_flags)
  show "BP_RADR1_RD p = 0" "BP_RADR2_RD p = 0"
    by (simp_all add: p dec_issue_flags [OF refl refl] adr)
qed

lemma issue_exec_result:
  assumes "rv_result (INSTR_RI i) (PC_IF2DEC_RI i) a b = Some v"
    and "e = exec_settle env (dec_issue u i rd fb re rm s) re' rm' x"
    and "a = op1_se e" "b = op2_se e" "\<not> blocked e"
    and "opcode (INSTR_RI i) = 0b0110111 \<Longrightarrow> RDATA2_SR i = 0"
    and "READ_PC_SR i = PC_IF2DEC_RI i + 4"
  shows "exe_res_se e = v"
proof -
  define p where "p = dec_issue u i rd fb re rm s"
  have e: "e = exec_settle env p re' rm' x" by (simp add: assms(2) p_def)
  have add0: "rv_op 0 False a b = a + b" for a b by (simp add: rv_op_def)
  show ?thesis
    using assms(1)
  proof (cases rule: rv_result_cases)
    case R
    show ?thesis
      using issue_result [OF r_type_result [OF R(1,2)], of env u rd fb re rm s re' rm' x] R(3)
      by (simp add: assms)
  next
    case I
    have "op2_se e = dec_imm_i (INSTR_RI i)"
      using i_type_operand [OF disjI1 [OF I(1)] p_def] exec_op2_direct(1) [of p] by (simp add: e)
    then show ?thesis
      using issue_result [OF i_type_result [OF I(1,2)], of env u rd fb re rm s re' rm' x] I(3)
      by (simp add: assms)
  next
    case Lui
    note ut = u_type_result [OF disjI1 [OF Lui(1)] p_def]
    have "op1_se e = dec_imm_u (INSTR_RI i)" "op2_se e = 0"
      using ut Lui(1) assms(6) exec_op1_direct [of p] exec_op2_direct(1) [of p] by (simp_all add: e)
    then show ?thesis
      using issue_result [OF ut(1), of env re' rm' x] Lui(2) by (simp add: e [symmetric] add0)
  next
    case Auipc
    note ut = u_type_result [OF disjI2 [OF Auipc(1)] p_def]
    have "op1_se e = dec_imm_u (INSTR_RI i)" "op2_se e = PC_IF2DEC_RI i"
      using ut Auipc(1) exec_op1_direct [of p] exec_op2_direct(1) [of p] by (simp_all add: e)
    then show ?thesis
      using issue_result [OF ut(1), of env re' rm' x] Auipc(2)
      by (simp add: e [symmetric] add0 add.commute)
  next
    case Load
    have "op2_se e = dec_imm_i (INSTR_RI i)"
      using i_type_operand [OF disjI2 [OF Load(1)] p_def] exec_op2_direct(1) [of p]
      by (simp add: e)
    then show ?thesis
      using issue_result [OF load_result [OF Load(1), of u rd fb re rm s, folded p_def],
          of env re' rm' x] Load(2) assms(3)
      by (simp add: e [symmetric] add0)
  next
    case Store
    note st = issue_store [OF Store(1,2) p_def]
    have "op2_se e = dec_imm_s (INSTR_RI i)"
      using st exec_op2_direct(2) [of p] assms(5) by (simp add: e)
    then show ?thesis
      using issue_result [OF st(1), of env re' rm' x] Store(3) assms(3)
      by (simp add: e [symmetric] add0)
  next
    case Jump
    note ju = issue_jump [OF Jump(1) p_def]
    have "op1_se e = PC_IF2DEC_RI i + 4" "op2_se e = 0"
      using ju assms(7) exec_op1_direct [of p] exec_op2_direct(1) [of p] by (simp_all add: e)
    then show ?thesis
      using issue_result [OF ju(1), of env re' rm' x] Jump(2) by (simp add: e [symmetric] add0)
  qed
qed

text \<open>
  C5: for every register, immediate and upper-immediate instruction, load, store and jump, the
  execute stage turns the payload of decode into the result, the address or the return address
  of the instruction set, for the first operand and the second operand that it selects (the
  value of register 0 read as 0, and the program counter register one instruction ahead).
\<close>

theorem decode_exec_result:
  assumes "rv_result (INSTR_RI i) (PC_IF2DEC_RI i) a b = Some v"
    and "e = exec_settle env (dec_issue u i rd fb re rm s) re' rm' x"
    and "a = op1_se e" "b = op2_se e" "\<not> blocked e"
    and "opcode (INSTR_RI i) = 0b0110111 \<Longrightarrow> RDATA2_SR i = 0"
    and "READ_PC_SR i = PC_IF2DEC_RI i + 4"
  shows "exe_res_se e = v"
  using assms by (rule issue_exec_result)

text \<open>The multiplications and divisions, by \<open>funct3\<close>.\<close>

definition rv_m_op :: "3 word \<Rightarrow> u32 \<Rightarrow> u32 \<Rightarrow> u32" where
  "rv_m_op f3 a b =
     (if f3 = 0 then rv_mul a b else if f3 = 1 then rv_mulh a b
      else if f3 = 2 then rv_mulhsu a b else if f3 = 3 then rv_mulhu a b
      else if f3 = 4 then rv_div a b else if f3 = 5 then rv_divu a b
      else if f3 = 6 then rv_rem a b else rv_remu a b)"

lemma m_type_cmd:
  assumes "opcode ir = 0b0110011" "funct7 ir = 1"
  shows "dec_alu_select (ifl ir) = (if funct3 ir < 4 then 4 else 8)"
    "dec_alu_cmd (ifl ir) = (if funct3 ir = 0 \<or> funct3 ir = 4 then 1
       else if funct3 ir = 1 \<or> funct3 ir = 5 then 2
       else if funct3 ir = 3 \<or> funct3 ir = 6 then 3 else 0)"
  unfolding dec_alu_select_def dec_alu_cmd_def decoding_instruction_flags assms
  using u3_cases [of "funct3 ir"] by (elim disjE; simp)+

lemma m_type_issue:
  assumes "opcode (INSTR_RI i) = 0b0110011" "funct7 (INSTR_RI i) = 1"
    and "p = dec_issue u i rd fb re rm s"
  shows "SELECT_TYPE_OPERATIONS_RD p = (if funct3 (INSTR_RI i) < 4 then 4 else 8)"
    "EXE_CMD_RD p = dec_alu_cmd (ifl (INSTR_RI i))"
    "MULT_INST_RD p \<longleftrightarrow> funct3 (INSTR_RI i) < 4"
proof -
  have t: "m_type_inst_sd (ity (INSTR_RI i))"
    using assms(1,2) by (simp add: decoding_instruction_type_def)
  show "SELECT_TYPE_OPERATIONS_RD p = (if funct3 (INSTR_RI i) < 4 then 4 else 8)"
    "EXE_CMD_RD p = dec_alu_cmd (ifl (INSTR_RI i))"
    using t m_type_cmd(1) [OF assms(1,2)]
    by (simp_all add: assms(3) dec_issue_alu [OF refl _ refl refl])
  show "MULT_INST_RD p \<longleftrightarrow> funct3 (INSTR_RI i) < 4"
    using u3_cases [of "funct3 (INSTR_RI i)"] assms(1,2)
    by (elim disjE) (simp_all add: assms(3) dec_issue_def Let_def dec_payload_def
        decoding_instruction_flags)
qed

text \<open>
  The command that decode issues for the eight instructions of the M extension makes the
  multiplier compute the four products, marked as such for the bypasses, and starts the divider,
  which has the quotient or remainder after 33 cycles.
\<close>

theorem decode_m_result:
  assumes "opcode (INSTR_RI i) = 0b0110011" "funct7 (INSTR_RI i) = 1" "b \<noteq> 0" "div_ready ds"
  shows "let p = dec_issue u i rd fb re rm s; v = rv_m_op (funct3 (INSTR_RI i)) a b in
    if funct3 (INSTR_RI i) < 4 then
      SELECT_TYPE_OPERATIONS_RD p = 0b0100 \<and> MULT_INST_RD p \<and>
      mult_result a b (EXE_CMD_RD p) s0 s1 = v
    else
      exec_manage_divider (SELECT_TYPE_OPERATIONS_RD p) False False \<and> \<not> MULT_INST_RD p \<and>
      DONE_SE (div_run 33 a b (EXE_CMD_RD p) ds) \<and>
      DIVIDER_RES_OUTPUT (div_run 33 a b (EXE_CMD_RD p) ds) = v"
proof -
  define p where "p = dec_issue u i rd fb re rm s"
  note m = m_type_issue [OF assms(1,2) p_def] m_type_cmd(2) [OF assms(1,2)]
  show ?thesis
    unfolding p_def [symmetric] Let_def m mult_result_op
    using u3_cases [of "funct3 (INSTR_RI i)"] div_run_done [OF assms(4,3), of a]
    by (elim disjE) (simp_all add: rv_m_op_def exec_manage_divider_def del: div_run.simps)
qed

subsection \<open>Instances\<close>

lemma exec_alone:
  "op1_se (exec_settle env p (exe2mem_unconcat 0) (mem2wbk_unconcat 0) x) = OP1_RD p"
  "op2_se (exec_settle env p (exe2mem_unconcat 0) (mem2wbk_unconcat 0) x) = OP2_RD p"
  "\<not> blocked (exec_settle env p (exe2mem_unconcat 0) (mem2wbk_unconcat 0) x)"
  by (simp_all add: exec_bypasses_def split_beta exec_bypass_rs1_def exec_bypass_rs2_def Let_def
      exe2mem_unconcat_def mem2wbk_unconcat_def)

abbreviation "issue_alone i \<equiv> dec_issue dec_uninit_F i (unconcat_dec2exe 0) (unconcat_dec2if 0)
  (exe2mem_unconcat 0) (mem2wbk_unconcat 0) dec_zero"

lemma add_fields: "opcode 0x002081B3 = 0b0110011" "funct7 0x002081B3 = 0" "funct3 0x002081B3 = 0"
  by code_simp+

lemma div_fields: "opcode 0x0220C1B3 = 0b0110011" "funct7 0x0220C1B3 = 1" "funct3 0x0220C1B3 = 4"
  by code_simp+

text \<open>\<open>add x3, x1, x2\<close> with 6 in both registers, and \<open>div x3, x1, x2\<close>.\<close>

theorem decode_exec_result_witness:
  "exe_res_se (exec_settle exec_env_reset (issue_alone (dec_in_at_100 0x002081B3))
     (exe2mem_unconcat 0) (mem2wbk_unconcat 0) exec_reset) = 12"
proof -
  let ?i = "dec_in_at_100 0x002081B3"
  have "r_type_inst_sd (ity (INSTR_RI ?i))"
    by (simp add: decoding_instruction_type_def add_fields)
  then have ops: "OP1_RD (issue_alone ?i) = 6" "OP2_RD (issue_alone ?i) = 6"
    by (simp_all add: dec_issue_alu [OF refl _ refl refl] dec_alu_operands_def
        decoding_instruction_type_def add_fields dec_alone_operands)
  have "rv_result (INSTR_RI ?i) (PC_IF2DEC_RI ?i) 6 6 = Some 12"
    by (simp add: rv_result_def opcode_def [symmetric] funct7_def [symmetric]
        funct3_def [symmetric] add_fields rv_op_def)
  then show ?thesis
    by (rule decode_exec_result [OF _ refl])
      (simp_all only: exec_alone ops, simp_all add: add_fields)
qed

theorem decode_m_result_witness:
  "DIVIDER_RES_OUTPUT
     (div_run 33 (- 7) 2 (EXE_CMD_RD (issue_alone (dec_in_at_100 0x0220C1B3))) div_rest) = - 3"
proof -
  have "rv_m_op 4 (- 7) 2 = - 3" by (simp add: rv_m_op_def rv_div_def)
  then show ?thesis
    using decode_m_result [OF _ _ _ div_rest_ready, of "dec_in_at_100 0x0220C1B3" 2 dec_uninit_F
        "unconcat_dec2exe 0" "unconcat_dec2if 0" "exe2mem_unconcat 0" "mem2wbk_unconcat 0"
        dec_zero "- 7"]
    by (simp add: Let_def div_fields del: div_run.simps)
qed

end
