(* ===== verification/Memory_Lanes.thy ===== *)
theory Memory_Lanes
  imports River_Prelude
begin

text \<open>
  The lanes of a memory word, as the memory stages of the core (\<open>SIM/SystemC/CORE/MEM/mem.cpp\<close>)
  and of the earlier processor (\<open>sysc_miniriscv/version1/src/mem.cpp\<close>) select them: the two
  switches that turn an address and a size into a part select, and the bytes of the instruction
  set against which both stages are proved.
\<close>

subsection \<open>Part selects\<close>

definition mem_range_start :: "nat \<Rightarrow> nat" where
  "mem_range_start a =
     (if a = 0 then 0 else if a = 1 then 8 else if a = 2 then 16 else if a = 3 then 24 else 0)"

definition mem_range_size :: "u2 \<Rightarrow> nat" where
  "mem_range_size sz = (if sz = 2 then 7 else if sz = 1 then 15 else if sz = 0 then 31 else 31)"

subsection \<open>The addressed bytes\<close>

definition lane_bytes :: "u2 \<Rightarrow> nat" where
  "lane_bytes sz = (if sz = 2 then 1 else if sz = 1 then 2 else 4)"

definition lane_extend :: "bool \<Rightarrow> u2 \<Rightarrow> nat \<Rightarrow> u32 \<Rightarrow> u32" where
  "lane_extend sgnd sz lane w =
     (if sgnd then signed_take_bit (8 * lane_bytes sz - 1) (drop_bit (8 * lane) w)
      else take_bit (8 * lane_bytes sz) (drop_bit (8 * lane) w))"

lemma all_ones: "(0xFFFFFFFF :: u32) = - 1"
  by simp

lemma word_mask: "(0xFFFFFFFC :: u32) = NOT 3"
  by simp

lemma low_two_bits: "unat (rng 1 0 x :: u2) = unat x mod 4" for x :: u32
proof -
  have "(rng 1 0 x :: u2) = ucast x"
    by (rule bit_word_eqI) (auto simp: bit_rng bit_simps)
  then show ?thesis by (simp add: unsigned_ucast_eq take_bit_eq_mod)
qed

lemma low_three_bits: "unat (rng 2 0 x :: 3 word) = unat x mod 8" for x :: u32
proof -
  have "(rng 2 0 x :: 3 word) = ucast x"
    by (rule bit_word_eqI) (auto simp: bit_rng bit_simps)
  then show ?thesis by (simp add: unsigned_ucast_eq take_bit_eq_mod)
qed

lemma range_start_lane:
  "mem_range_start (a mod 4) = 8 * (a mod 4)"
  "mem_range_start (a mod 8) = 8 * (if a mod 8 < 4 then a mod 8 else 0)"
proof -
  have "a mod 4 < 4" by simp
  then show "mem_range_start (a mod 4) = 8 * (a mod 4)"
    by (auto simp: mem_range_start_def)
  show "mem_range_start (a mod 8) = 8 * (if a mod 8 < 4 then a mod 8 else 0)"
    by (auto simp: mem_range_start_def)
qed

lemma range_size_lane: "mem_range_size sz = 8 * lane_bytes sz - 1"
  by (simp add: mem_range_size_def lane_bytes_def)

lemma lane_fits: "lane_bytes sz dvd a \<Longrightarrow> a mod 4 + lane_bytes sz \<le> 4"
proof -
  assume d: "lane_bytes sz dvd a"
  have "lane_bytes sz dvd 4" by (simp add: lane_bytes_def)
  with d have "lane_bytes sz dvd a mod 4" by (simp add: dvd_mod)
  moreover have "a mod 4 < 4" by simp
  ultimately show ?thesis
    by (auto simp: lane_bytes_def split: if_splits elim!: dvdE)
qed

lemma lane_bytes_pos: "0 < lane_bytes sz"
  by (simp add: lane_bytes_def)

text \<open>One part select moves the lane; the rest is sign or zero.\<close>

lemma load_lane:
  fixes w :: u32
  assumes "e + 1 = s + n" "e < 32" "0 < n"
  shows "put (n - 1) 0 (rng e s w :: u32) (if sgnd \<and> bit w e then 0xFFFFFFFF else 0 :: u32) =
    (if sgnd then signed_take_bit (n - 1) (drop_bit s w) else take_bit n (drop_bit s w))"
proof (rule bit_word_eqI)
  fix i :: nat assume "i < LENGTH(32)"
  then have i: "i < 32" by simp
  have e: "e = s + (n - 1)" using assms by simp
  have le: "i \<le> n - 1 \<longleftrightarrow> i < n" using assms by auto
  show "bit (put (n - 1) 0 (rng e s w :: u32) (if sgnd \<and> bit w e then 0xFFFFFFFF else 0 :: u32)) i =
      bit (if sgnd then signed_take_bit (n - 1) (drop_bit s w) else take_bit n (drop_bit s w)) i"
    unfolding all_ones
    using i assms le by (auto simp: e bit_put bit_rng bit_simps min_def ac_simps)
qed

lemma load_extended:
  assumes "lane + lane_bytes sz \<le> 4"
  shows "(let e = min 31 (8 * lane + mem_range_size sz) in
      put (mem_range_size sz) 0 (rng e (8 * lane) w :: u32)
        (if sgnd \<and> bit w e then 0xFFFFFFFF else 0 :: u32)) = lane_extend sgnd sz lane w"
proof -
  have "8 * lane + mem_range_size sz < 32"
    using assms lane_bytes_pos [of sz] by (simp add: range_size_lane)
  then have m: "min 31 (8 * lane + mem_range_size sz) = 8 * lane + mem_range_size sz"
    by simp
  show ?thesis
    unfolding Let_def m lane_extend_def range_size_lane
    using assms lane_bytes_pos [of sz]
    by (intro load_lane) simp_all
qed

text \<open>The data of a load from an aligned address, as both stages put it together.\<close>

lemma load_data:
  fixes adr w :: u32
  assumes "lane_bytes sz dvd unat adr"
  shows "(let range_start = mem_range_start (unat (rng 2 0 adr :: 3 word));
      range_size = mem_range_size sz; range_end = min 31 (range_start + range_size)
    in put range_size 0 (rng range_end range_start w :: u32)
      (if sgnd \<and> bit w range_end then 0xFFFFFFFF else 0 :: u32)) =
    lane_extend sgnd sz (if unat adr mod 8 < 4 then unat adr mod 4 else 0) w"
proof -
  let ?a = "unat adr"
  have "?a mod 8 < 4 \<Longrightarrow> ?a mod 8 = ?a mod 4"
    using mod_mod_cancel [of 4 8 ?a] by simp
  then have lane: "(if ?a mod 8 < 4 then ?a mod 8 else 0) = (if ?a mod 8 < 4 then ?a mod 4 else 0)"
    by simp
  have fits: "(if ?a mod 8 < 4 then ?a mod 4 else 0) + lane_bytes sz \<le> 4"
    using lane_fits [OF assms] by simp
  show ?thesis
    using load_extended [OF fits, of w sgnd]
    unfolding Let_def low_three_bits range_start_lane lane .
qed

text \<open>The data of a store to an aligned address are in the addressed lanes.\<close>

lemma store_data:
  fixes adr d x :: u32
  assumes "lane_bytes sz dvd unat adr" "i < 8 * lane_bytes sz"
    and "l = mem_range_start (unat (rng 1 0 adr :: u2))" "n = mem_range_size sz"
  shows "bit (put (min 31 (l + n)) l (rng n 0 d :: u32) x) (8 * (unat adr mod 4) + i) = bit d i"
proof -
  have fits: "unat adr mod 4 + lane_bytes sz \<le> 4" by (rule lane_fits [OF assms(1)])
  have l: "l = 8 * (unat adr mod 4)" and n: "n = 8 * lane_bytes sz - 1"
    by (simp_all only: assms(3,4) low_two_bits range_start_lane range_size_lane)
  have m: "min 31 (l + n) = l + n" and in_word: "l + i < 32"
    using fits lane_bytes_pos [of sz] assms(2) by (simp_all add: l n)
  show ?thesis
    unfolding m using fits assms(2) lane_bytes_pos [of sz] in_word
    by (auto simp: l [symmetric] n bit_put bit_rng)
qed

subsection \<open>The lanes of a store\<close>

text \<open>The bits that a store may change, and the addresses from which it stays within a word.\<close>

definition store_mask :: "u32 \<Rightarrow> u2 \<Rightarrow> u32" where
  "store_mask a sz =
     push_bit (8 * unat (a AND 3)) (mask (if sz = 2 then 8 else if sz = 1 then 16 else 32))"

definition store_aligned :: "u32 \<Rightarrow> u2 \<Rightarrow> bool" where
  "store_aligned a sz \<longleftrightarrow>
     (sz = 2 \<or> sz = 1 \<and> a AND 1 = 0 \<or> sz \<noteq> 1 \<and> sz \<noteq> 2 \<and> a AND 3 = 0)"

lemma low2_cases: "a AND 3 = 0 \<or> a AND 3 = 1 \<or> a AND 3 = 2 \<or> a AND 3 = 3" for a :: u32
proof -
  have "a AND 3 = take_bit 2 a" by (simp only: take_bit_eq_mask) (simp add: mask_eq_exp_minus_1)
  then have "unat (a AND 3) = unat a mod 4"
    by (simp only: unsigned_take_bit_eq) (simp add: take_bit_eq_mod)
  then have "unat (a AND 3) = 0 \<or> unat (a AND 3) = 1 \<or> unat (a AND 3) = 2 \<or> unat (a AND 3) = 3"
    by auto
  moreover have "unat (a AND 3) = unat w \<Longrightarrow> a AND 3 = w" for w by (rule unsigned_word_eqI)
  from this [of 0] this [of 1] this [of 2] this [of 3] calculation show ?thesis by auto
qed

lemma low1_low2: "a AND 1 = (a AND 3) AND 1" for a :: u32
  by (simp add: and.assoc)

end
