(* ===== verification/Mem_Stage.thy ===== *)
theory Mem_Stage
  imports Stage_Interfaces Memory_Lanes
begin

text \<open>
  The memory stage (\<open>SIM/SystemC/CORE/MEM/mem.cpp\<close>, \<open>mem.h\<close>): preparation of the address and
  the lanes of a store, selection and extension of loaded data, the handshake, and
  \<open>csr_exception\<close>, which decides between traps, exceptions and CSR writes and drives the values
  that go into the machine-mode registers.

  Lemmas: loads and stores use the lane the address selects (with the exception the code makes
  for loads), the priority of the causes, and what a trap leaves in \<open>mstatus\<close>, \<open>mepc\<close>,
  \<open>mcause\<close> and \<open>mtval\<close>.
\<close>

subsection \<open>Signals\<close>

record mem_env =
  MCACHE_RESULT_SM :: u32
  MCACHE_STALL_SM :: bool
  mem2wbk_full_sm :: bool
  EXE2MEM_EMPTY_SE :: bool
  BUS_ERROR_SX :: bool
  RESET :: bool
  MEPC_SC :: u32
  MSTATUS_RC :: u32
  MIP_VALUE_RC :: u32
  MIE_VALUE_RC :: u32

record mem =
  mem2wbk_push_sm :: bool
  EXE2MEM_POP_SM :: bool
  MEM_SIZE_SM :: u2
  wb_sm :: bool
  MCACHE_DATA_SM :: u32
  MCACHE_ADR_SM :: u32
  MCACHE_LOAD_SM :: bool
  MCACHE_STORE_SM :: bool
  MCACHE_ADR_VALID_SM :: bool
  data_sm :: u32
  save_restore_sm :: bool
  mpp_sm :: u2
  mpie_sm :: bool
  mie_sm :: bool
  CURRENT_MODE_SM :: u2
  EXCEPTION_SM :: bool
  RETURN_ADRESS_SM :: u32
  MRET_SM :: bool
  CSR_WADR_SM :: u12
  CSR_WDATA_SM :: u32
  CSR_ENABLE_SM :: bool
  MSTATUS_WDATA_RM :: u32
  MEPC_WDATA_RM :: u32
  MCAUSE_WDATA_SM :: u32
  MTVAL_WDATA_SM :: u32

subsection \<open>Data path\<close>

definition mem_payload :: "exe2mem_out \<Rightarrow> mem \<Rightarrow> mem2wbk_out" where
  "mem_payload re s =
     \<lparr>MEM_RES_RM = data_sm s, DEST_RM = DEST_RE re, WB_RM = wb_sm s,
      PC_MEM2WBK_RM = PC_EXE2MEM_RE re, CSR_WENABLE_RM = CSR_WENABLE_RE re,
      CSR_RDATA_RM = CSR_RDATA_RE re, MULT_INST_RM = MULT_INST_RE re\<rparr>"

definition mem_mem2wbk_concat :: "exe2mem_out \<Rightarrow> mem \<Rightarrow> 108 word" where
  "mem_mem2wbk_concat re s = mem2wbk_pack (mem_payload re s)"

definition mem_fifo_gestion :: "mem_env \<Rightarrow> mem \<Rightarrow> mem" where
  "mem_fifo_gestion env s =
     (let stall = MCACHE_STALL_SM env \<or> mem2wbk_full_sm env \<or> EXE2MEM_EMPTY_SE env
      in s\<lparr>mem2wbk_push_sm := \<not> stall, EXE2MEM_POP_SM := \<not> stall\<rparr>)"

definition mem_preprocess :: "mem_env \<Rightarrow> exe2mem_out \<Rightarrow> mem2wbk_out \<Rightarrow> mem \<Rightarrow> mem" where
  "mem_preprocess env re rm s =
     (let din = MEM_DATA_RE re;
          range_start = mem_range_start (unat (rng 1 0 (EXE_RES_RE re) :: u2));
          range_size = mem_range_size (MEM_SIZE_RE re);
          range_end = min 31 (range_start + range_size);
          dout0 = (if MEM_SIGN_EXTEND_RE re \<and> bit din range_end then 0xFFFFFFFF else 0) :: u32;
          dout = put range_end range_start (rng range_size 0 din :: u32) dout0
      in s\<lparr>MEM_SIZE_SM := MEM_SIZE_RE re,
           wb_sm := (WB_RE re \<or> MEM_LOAD_RE re),
           MCACHE_DATA_SM := dout,
           MCACHE_ADR_SM := (if MEM_STORE_RE re then EXE_RES_RE re
                             else EXE_RES_RE re AND 0xFFFFFFFC),
           MCACHE_LOAD_SM := MEM_LOAD_RE re,
           MCACHE_STORE_SM := MEM_STORE_RE re,
           MCACHE_ADR_VALID_SM := (\<not> EXE2MEM_EMPTY_SE env \<or> \<not> MULT_INST_RM rm)\<rparr>)"

text \<open>The lane of a load is selected by the low three bits of the address.\<close>

definition mem_sign_extend :: "mem_env \<Rightarrow> exe2mem_out \<Rightarrow> mem \<Rightarrow> mem" where
  "mem_sign_extend env re s =
     (let din = MCACHE_RESULT_SM env;
          range_start = mem_range_start (unat (rng 2 0 (EXE_RES_RE re) :: 3 word));
          range_size = mem_range_size (MEM_SIZE_RE re);
          range_end = min 31 (range_start + range_size);
          dout0 = (if MEM_SIGN_EXTEND_RE re \<and> bit din range_end then 0xFFFFFFFF else 0) :: u32;
          dout = put range_size 0 (rng range_end range_start din :: u32) dout0
      in s\<lparr>data_sm := (if MEM_LOAD_RE re then dout else EXE_RES_RE re)\<rparr>)"

subsection \<open>Traps, exceptions and CSR writes\<close>

text \<open>
  The four writes that every trap makes, and the new \<open>mstatus\<close>.  The code assigns the signals
  \<open>save_restore_sm\<close>, \<open>mpp_sm\<close>, \<open>mpie_sm\<close> and \<open>mie_sm\<close> and then reads them back; a read gives the
  value from before the activation.  \<open>mode\<close> is \<open>CURRENT_MODE_SM\<close> before the activation, which begins with
  a write of \<open>CURRENT_MODE_SM\<close> while the processor is in reset.
\<close>

definition mem_save_status :: "mem_env \<Rightarrow> u2 \<Rightarrow> bool \<Rightarrow> bool \<Rightarrow> mem \<Rightarrow> mem" where
  "mem_save_status env mode save mie s =
     (let mstatus = MSTATUS_RC env;
          mstatus_new =
            put_bit 3 (mie_sm s) (put_bit 7 (mpie_sm s)
              (put 12 11 (mpp_sm s) (put_bit 31 (save_restore_sm s) mstatus)))
      in s\<lparr>save_restore_sm := save, mpp_sm := mode, mpie_sm := bit mstatus 3,
           mie_sm := mie, MSTATUS_WDATA_RM := mstatus_new\<rparr>)"

definition mem_trap_to_handle :: "mem_env \<Rightarrow> u32" where
  "mem_trap_to_handle env = MIP_VALUE_RC env AND MIE_VALUE_RC env"

definition mem_interrupt_cause :: "u32 \<Rightarrow> u32 \<Rightarrow> u32" where
  "mem_interrupt_cause trap old =
     (if bit trap 11 then 11 AND push_bit 31 1
      else if bit trap 3 then 3 AND push_bit 31 1
      else if bit trap 7 then 7 AND push_bit 31 1
      else if bit trap 9 then 9 AND push_bit 31 1
      else if bit trap 1 then 1 AND push_bit 31 1
      else if bit trap 5 then 5 AND push_bit 31 1
      else old)"

definition mem_interrupt :: "mem_env \<Rightarrow> u2 \<Rightarrow> exe2mem_out \<Rightarrow> mem \<Rightarrow> mem" where
  "mem_interrupt env mode re s =
     (mem_save_status env mode True False s)
       \<lparr>MEPC_WDATA_RM := PC_EXE2MEM_RE re, MTVAL_WDATA_SM := 0, CURRENT_MODE_SM := 3,
        EXCEPTION_SM := True,
        MCAUSE_WDATA_SM := mem_interrupt_cause (mem_trap_to_handle env) (MCAUSE_WDATA_SM s)\<rparr>"

definition mem_csr_write :: "exe2mem_out \<Rightarrow> mem \<Rightarrow> mem" where
  "mem_csr_write re s =
     (if CSR_WENABLE_RE re then
        s\<lparr>CSR_WADR_SM := CSR_WADR_RE re, CSR_WDATA_SM := EXE_RES_RE re, CSR_ENABLE_SM := True,
          EXCEPTION_SM := False\<rparr>
      else
        s\<lparr>CSR_WADR_SM := 0, CSR_WDATA_SM := 0, CSR_ENABLE_SM := False, EXCEPTION_SM := False\<rparr>)"

definition mem_take_exception :: "mem_env \<Rightarrow> u2 \<Rightarrow> exe2mem_out \<Rightarrow> bool \<Rightarrow> u32 \<Rightarrow> u32 \<Rightarrow> mem \<Rightarrow> mem" where
  "mem_take_exception env mode re save mtval mcause s =
     (mem_save_status env mode save False s)
       \<lparr>MEPC_WDATA_RM := PC_EXE2MEM_RE re, MTVAL_WDATA_SM := mtval,
        MCAUSE_WDATA_SM := mcause, CURRENT_MODE_SM := 3\<rparr>"

definition mem_mret :: "mem_env \<Rightarrow> u2 \<Rightarrow> exe2mem_out \<Rightarrow> mem \<Rightarrow> mem" where
  "mem_mret env mode re s =
     (mem_save_status env mode False True s)
       \<lparr>CURRENT_MODE_SM := 0, RETURN_ADRESS_SM := MEPC_SC env,
        MEPC_WDATA_RM := PC_EXE2MEM_RE re, MTVAL_WDATA_SM := 0, MRET_SM := MRET_RE re\<rparr>"

definition mem_exception_branch :: "mem_env \<Rightarrow> u2 \<Rightarrow> exe2mem_out \<Rightarrow> mem \<Rightarrow> mem" where
  "mem_exception_branch env mode re s =
     (if BUS_ERROR_SX env then mem_save_status env mode False False s
      else if ENV_CALL_WRONG_MODE_RE re then mem_take_exception env mode re False 0 24 s
      else if MRET_RE re then mem_mret env mode re s
      else if STORE_ACCESS_FAULT_RE re then mem_take_exception env mode re False (EXE_RES_RE re) 7 s
      else if LOAD_ACCESS_FAULT_RE re then mem_take_exception env mode re False (EXE_RES_RE re) 5 s
      else if STORE_ADRESS_MISSALIGNED_RE re then mem_take_exception env mode re False (EXE_RES_RE re) 6 s
      else if LOAD_ADRESS_MISSALIGNED_RE re then mem_take_exception env mode re False (EXE_RES_RE re) 4 s
      else if ENV_CALL_M_MODE_RE re then mem_take_exception env mode re True 0 11 s
      else if ENV_CALL_S_MODE_RE re then mem_take_exception env mode re True 0 9 s
      else if ENV_CALL_U_MODE_RE re then mem_take_exception env mode re True 0 8 s
      else if EBREAK_RE re then mem_take_exception env mode re True (PC_EXE2MEM_RE re) 3 s
      else if INSTRUCTION_ADRESS_MISSALIGNED_RE re then mem_take_exception env mode re False (PC_BRANCH_VALUE_RE re) 0 s
      else if ILLEGAL_INSTRUCTION_RE re then mem_take_exception env mode re False 0 2 s
      else if INSTRUCTION_ACCESS_FAULT_RE re then mem_take_exception env mode re False 0 1 s
      else s)"

definition mem_csr_exception :: "mem_env \<Rightarrow> exe2mem_out \<Rightarrow> mem \<Rightarrow> mem" where
  "mem_csr_exception env re s0 =
     (let mode = CURRENT_MODE_SM s0;
          s = (if \<not> RESET env then s0\<lparr>CURRENT_MODE_SM := 3\<rparr> else s0)
      in
        if \<not> (EXCEPTION_RE re \<or> BUS_ERROR_SX env) then
          (if mem_trap_to_handle env \<noteq> 0 then mem_interrupt env mode re s
           else mem_csr_write re s)\<lparr>MRET_SM := False\<rparr>
        else
          (let s1 = mem_exception_branch env mode re
                 (s\<lparr>EXCEPTION_SM := (EXCEPTION_RE re \<or> BUS_ERROR_SX env)\<rparr>)
           in if \<not> MRET_RE re then s1\<lparr>MRET_SM := False\<rparr> else s1))"


subsection \<open>A settled activation\<close>

text \<open>
  \<open>csr_exception\<close> is sensitive to \<open>EXCEPTION_SM\<close>, which it writes: when that changes it runs
  again.
\<close>

definition mem_csr_settle :: "mem_env \<Rightarrow> exe2mem_out \<Rightarrow> mem \<Rightarrow> mem" where
  "mem_csr_settle env re s =
     (let s1 = mem_csr_exception env re s
      in if EXCEPTION_SM s1 = EXCEPTION_SM s then s1 else mem_csr_exception env re s1)"

definition mem_settle :: "mem_env \<Rightarrow> exe2mem_out \<Rightarrow> mem2wbk_out \<Rightarrow> mem \<Rightarrow> mem" where
  "mem_settle env re rm s =
     mem_csr_settle env re (mem_fifo_gestion env (mem_sign_extend env re
       (mem_preprocess env re rm s)))"

subsection \<open>Lanes\<close>

lemma mem_sign_extend_data:
  "lane_bytes (MEM_SIZE_RE re) dvd unat (EXE_RES_RE re) \<Longrightarrow> MEM_LOAD_RE re \<Longrightarrow>
     data_sm (mem_sign_extend env re s) =
       lane_extend (MEM_SIGN_EXTEND_RE re) (MEM_SIZE_RE re)
         (if unat (EXE_RES_RE re) mod 8 < 4 then unat (EXE_RES_RE re) mod 4 else 0)
         (MCACHE_RESULT_SM env)"
  by (simp add: mem_sign_extend_def load_data [unfolded Let_def] Let_def)

text \<open>The CSR part leaves the signals of the data path as they are.\<close>

definition mem_data_path :: "mem \<Rightarrow> u2 \<times> bool \<times> u32 \<times> u32 \<times> bool \<times> bool \<times> bool \<times> u32 \<times> bool \<times> bool" where
  "mem_data_path s = (MEM_SIZE_SM s, wb_sm s, MCACHE_DATA_SM s, MCACHE_ADR_SM s, MCACHE_LOAD_SM s,
     MCACHE_STORE_SM s, MCACHE_ADR_VALID_SM s, data_sm s, mem2wbk_push_sm s, EXE2MEM_POP_SM s)"

lemma mem_data_path_update [simp]:
  "mem_data_path (s\<lparr>CURRENT_MODE_SM := a\<rparr>) = mem_data_path s"
  "mem_data_path (s\<lparr>EXCEPTION_SM := b\<rparr>) = mem_data_path s"
  "mem_data_path (s\<lparr>MRET_SM := c\<rparr>) = mem_data_path s"
  by (simp_all add: mem_data_path_def)

lemma mem_data_path_save_status [simp]:
  "mem_data_path (mem_save_status env mode save mie s) = mem_data_path s"
  by (simp add: mem_data_path_def mem_save_status_def Let_def)

lemma mem_data_path_trap [simp]:
  "mem_data_path (mem_interrupt env mode re s) = mem_data_path s"
  "mem_data_path (mem_csr_write re s) = mem_data_path s"
  "mem_data_path (mem_take_exception env mode re save mtval mcause s) = mem_data_path s"
  "mem_data_path (mem_mret env mode re s) = mem_data_path s"
  by (simp_all add: mem_data_path_def mem_interrupt_def mem_csr_write_def mem_take_exception_def
      mem_mret_def mem_save_status_def Let_def)

lemma mem_data_path_csr_exception [simp]:
  "mem_data_path (mem_csr_exception env re s) = mem_data_path s"
proof -
  have "mem_data_path (mem_exception_branch env mode re s) = mem_data_path s" for mode s
    by (simp add: mem_exception_branch_def)
  then show ?thesis by (simp add: mem_csr_exception_def Let_def)
qed

lemma mem_data_path_csr_settle: "mem_data_path (mem_csr_settle env re s) = mem_data_path s"
  by (simp add: mem_csr_settle_def Let_def)

lemma mem_csr_settle_frame [simp]:
  "data_sm (mem_csr_settle env re s) = data_sm s"
  "MCACHE_DATA_SM (mem_csr_settle env re s) = MCACHE_DATA_SM s"
  "MCACHE_ADR_SM (mem_csr_settle env re s) = MCACHE_ADR_SM s"
  "wb_sm (mem_csr_settle env re s) = wb_sm s"
  "mem2wbk_push_sm (mem_csr_settle env re s) = mem2wbk_push_sm s"
  "EXE2MEM_POP_SM (mem_csr_settle env re s) = EXE2MEM_POP_SM s"
  "MEM_SIZE_SM (mem_csr_settle env re s) = MEM_SIZE_SM s"
  "MCACHE_LOAD_SM (mem_csr_settle env re s) = MCACHE_LOAD_SM s"
  "MCACHE_STORE_SM (mem_csr_settle env re s) = MCACHE_STORE_SM s"
  "MCACHE_ADR_VALID_SM (mem_csr_settle env re s) = MCACHE_ADR_VALID_SM s"
  using mem_data_path_csr_settle [of env re s] by (simp_all add: mem_data_path_def)

lemma mem_fifo_gestion_frame [simp]:
  "data_sm (mem_fifo_gestion env s) = data_sm s"
  "MCACHE_DATA_SM (mem_fifo_gestion env s) = MCACHE_DATA_SM s"
  "MCACHE_ADR_SM (mem_fifo_gestion env s) = MCACHE_ADR_SM s"
  "wb_sm (mem_fifo_gestion env s) = wb_sm s"
  by (simp_all add: mem_fifo_gestion_def Let_def)

lemma mem_settle_data [simp]:
  "data_sm (mem_settle env re rm s) = data_sm (mem_sign_extend env re (mem_preprocess env re rm s))"
  "MCACHE_DATA_SM (mem_settle env re rm s) = MCACHE_DATA_SM (mem_preprocess env re rm s)"
  "MCACHE_ADR_SM (mem_settle env re rm s) = MCACHE_ADR_SM (mem_preprocess env re rm s)"
  "wb_sm (mem_settle env re rm s) = wb_sm (mem_preprocess env re rm s)"
  by (simp_all add: mem_settle_def) (simp_all add: mem_sign_extend_def Let_def)

lemma mem_handshake:
  "mem2wbk_push_sm (mem_settle env re rm s) =
     (\<not> MCACHE_STALL_SM env \<and> \<not> mem2wbk_full_sm env \<and> \<not> EXE2MEM_EMPTY_SE env)"
  "EXE2MEM_POP_SM (mem_settle env re rm s) =
     (\<not> MCACHE_STALL_SM env \<and> \<not> mem2wbk_full_sm env \<and> \<not> EXE2MEM_EMPTY_SE env)"
  by (simp_all add: mem_settle_def) (simp_all add: mem_fifo_gestion_def Let_def)

text \<open>
  C10: a load from an aligned address in the lower word of a double word, or from a word
  boundary, delivers the addressed bytes of the memory word, extended by sign or by zero.
\<close>

theorem mem_load_correct:
  assumes "MEM_LOAD_RE re" "lane_bytes (MEM_SIZE_RE re) dvd unat (EXE_RES_RE re)"
    and "unat (EXE_RES_RE re) mod 8 < 4 \<or> unat (EXE_RES_RE re) mod 4 = 0"
  shows "data_sm (mem_settle env re rm s) =
      lane_extend (MEM_SIGN_EXTEND_RE re) (MEM_SIZE_RE re) (unat (EXE_RES_RE re) mod 4)
        (MCACHE_RESULT_SM env)"
  using assms by (auto simp: mem_sign_extend_data)

text \<open>
  In the upper word of a double word the same load delivers the lowest lane of the memory
  word instead of the addressed one, because three bits of the address select the lane.
\<close>

theorem mem_load_wrong_lane:
  assumes "MEM_LOAD_RE re" "lane_bytes (MEM_SIZE_RE re) dvd unat (EXE_RES_RE re)"
    and "4 < unat (EXE_RES_RE re) mod 8"
  shows "data_sm (mem_settle env re rm s) =
      lane_extend (MEM_SIGN_EXTEND_RE re) (MEM_SIZE_RE re) 0 (MCACHE_RESULT_SM env)"
  using assms by (simp add: mem_sign_extend_data)

text \<open>
  The data of an aligned store are in the lanes that the address selects, and the address
  goes out unchanged; a load sends the address of its word.
\<close>

theorem mem_store_lanes:
  assumes "lane_bytes (MEM_SIZE_RE re) dvd unat (EXE_RES_RE re)"
  shows "(\<forall>i < 8 * lane_bytes (MEM_SIZE_RE re).
      bit (MCACHE_DATA_SM (mem_settle env re rm s)) (8 * (unat (EXE_RES_RE re) mod 4) + i) =
      bit (MEM_DATA_RE re) i) \<and>
    MCACHE_ADR_SM (mem_settle env re rm s) =
      (if MEM_STORE_RE re then EXE_RES_RE re else EXE_RES_RE re AND NOT 3)"
proof -
  have "MCACHE_ADR_SM (mem_preprocess env re rm s) =
      (if MEM_STORE_RE re then EXE_RES_RE re else EXE_RES_RE re AND NOT 3)"
    unfolding mem_preprocess_def Let_def word_mask by simp
  then show ?thesis
    using store_data [OF assms _ refl refl] by (simp add: mem_preprocess_def Let_def)
qed

subsection \<open>Exceptions\<close>

text \<open>The flags of the payload with their cause numbers, in the order of their priority.\<close>

definition exception_causes :: "exe2mem_out \<Rightarrow> (bool \<times> u32 \<times> u32) list" where
  "exception_causes re =
     [(ENV_CALL_WRONG_MODE_RE re, 24, 0),
      (STORE_ACCESS_FAULT_RE re, 7, EXE_RES_RE re),
      (LOAD_ACCESS_FAULT_RE re, 5, EXE_RES_RE re),
      (STORE_ADRESS_MISSALIGNED_RE re, 6, EXE_RES_RE re),
      (LOAD_ADRESS_MISSALIGNED_RE re, 4, EXE_RES_RE re),
      (ENV_CALL_M_MODE_RE re, 11, 0),
      (ENV_CALL_S_MODE_RE re, 9, 0),
      (ENV_CALL_U_MODE_RE re, 8, 0),
      (EBREAK_RE re, 3, PC_EXE2MEM_RE re),
      (INSTRUCTION_ADRESS_MISSALIGNED_RE re, 0, PC_BRANCH_VALUE_RE re),
      (ILLEGAL_INSTRUCTION_RE re, 2, 0),
      (INSTRUCTION_ACCESS_FAULT_RE re, 1, 0)]"

definition exception_of :: "exe2mem_out \<Rightarrow> (u32 \<times> u32) option" where
  "exception_of re = map_option snd (List.find fst (exception_causes re))"

definition exception_saves :: "exe2mem_out \<Rightarrow> bool" where
  "exception_saves re \<longleftrightarrow> \<not> ENV_CALL_WRONG_MODE_RE re \<and> \<not> STORE_ACCESS_FAULT_RE re \<and>
     \<not> LOAD_ACCESS_FAULT_RE re \<and> \<not> STORE_ADRESS_MISSALIGNED_RE re \<and>
     \<not> LOAD_ADRESS_MISSALIGNED_RE re \<and>
     (ENV_CALL_M_MODE_RE re \<or> ENV_CALL_S_MODE_RE re \<or> ENV_CALL_U_MODE_RE re \<or> EBREAK_RE re)"

lemma find_chain:
  "(case map_option snd (List.find fst ((b, x) # xs)) of None \<Rightarrow> d | Some y \<Rightarrow> f y) =
     (if b then f x else case map_option snd (List.find fst xs) of None \<Rightarrow> d | Some y \<Rightarrow> f y)"
  by simp

lemma find_end: "(case map_option snd (List.find fst []) of None \<Rightarrow> d | Some y \<Rightarrow> f y) = d"
  by simp

lemma mem_exception_branch_eq:
  assumes "\<not> MRET_RE re" "\<not> BUS_ERROR_SX env"
  shows "mem_exception_branch env mode re s =
    (case exception_of re of None \<Rightarrow> s
     | Some y \<Rightarrow> mem_take_exception env mode re (exception_saves re) (snd y) (fst y) s)"
  unfolding exception_of_def exception_causes_def find_chain find_end mem_exception_branch_def
  by (simp add: assms exception_saves_def cong: if_cong)

lemma mem_exception_branch_take:
  "exception_of re = Some (c, v) \<Longrightarrow> \<not> MRET_RE re \<Longrightarrow> \<not> BUS_ERROR_SX env \<Longrightarrow>
     mem_exception_branch env mode re s =
       mem_take_exception env mode re (exception_saves re) v c s"
  by (simp add: mem_exception_branch_eq)

lemma mem_csr_exception_take:
  assumes "exception_of re = Some (c, v)" "\<not> MRET_RE re" "\<not> BUS_ERROR_SX env"
    and "EXCEPTION_RE re" "RESET env"
  shows "mem_csr_exception env re s =
    (mem_take_exception env (CURRENT_MODE_SM s) re (exception_saves re) v c
      (s\<lparr>EXCEPTION_SM := True\<rparr>))\<lparr>MRET_SM := False\<rparr>"
  using assms by (simp add: mem_csr_exception_def Let_def mem_exception_branch_take)


text \<open>The new \<open>mstatus\<close>: the saved mode and interrupt enable, and the enable for the handler.\<close>

definition status_saved :: "u32 \<Rightarrow> bool \<Rightarrow> u2 \<Rightarrow> bool \<Rightarrow> u32" where
  "status_saved mstatus save mode mie =
     put_bit 3 mie (put_bit 7 (bit mstatus 3) (put 12 11 mode (put_bit 31 save mstatus)))"

lemma status_saved_bits:
  "bit (status_saved m save mode mie) 3 = mie"
  "bit (status_saved m save mode mie) 7 = bit m 3"
  "(rng 12 11 (status_saved m save mode mie) :: u2) = mode"
  by (simp_all add: status_saved_def range_simps)

lemma mem_csr_settle_twice:
  "EXCEPTION_SM (mem_csr_exception env re s) \<Longrightarrow> \<not> EXCEPTION_SM s \<Longrightarrow>
     mem_csr_settle env re s = mem_csr_exception env re (mem_csr_exception env re s)"
  by (simp add: mem_csr_settle_def Let_def)

text \<open>
  C12: when an exception reaches the memory stage, the settled outputs enter machine mode with
  the program counter of the instruction, the cause of highest priority and its value, and the
  new \<open>mstatus\<close> holds the mode and the interrupt enable from before, with interrupts disabled.
\<close>

theorem mem_exception_entry:
  assumes "exception_of re = Some (c, v)" "EXCEPTION_RE re" "\<not> MRET_RE re"
    and "\<not> BUS_ERROR_SX env" "RESET env" "\<not> EXCEPTION_SM s"
  shows "let s' = mem_csr_settle env re s in
    EXCEPTION_SM s' \<and> CURRENT_MODE_SM s' = 3 \<and> MEPC_WDATA_RM s' = PC_EXE2MEM_RE re \<and>
    MCAUSE_WDATA_SM s' = c \<and> MTVAL_WDATA_SM s' = v \<and> \<not> MRET_SM s' \<and>
    MSTATUS_WDATA_RM s' =
      status_saved (MSTATUS_RC env) (exception_saves re) (CURRENT_MODE_SM s) False"
proof -
  note step = mem_csr_exception_take [OF assms(1,3,4,2,5)]
  have "mem_csr_settle env re s = mem_csr_exception env re (mem_csr_exception env re s)"
    using assms(6) by (intro mem_csr_settle_twice)
      (simp_all add: step mem_take_exception_def mem_save_status_def Let_def)
  then show ?thesis
    by (simp add: step Let_def) (simp add: mem_take_exception_def mem_save_status_def Let_def
        status_saved_def)
qed

text \<open>
  \<open>mret\<close> sends the program counter back to \<open>mepc\<close> and always returns to user mode with
  interrupts enabled, whatever \<open>mstatus\<close> says about the mode and the enable before the trap.
\<close>

theorem mem_mret_returns:
  assumes "MRET_RE re" "EXCEPTION_RE re" "\<not> ENV_CALL_WRONG_MODE_RE re"
    and "\<not> BUS_ERROR_SX env" "RESET env" "\<not> EXCEPTION_SM s"
  shows "let s' = mem_csr_settle env re s in
    EXCEPTION_SM s' \<and> MRET_SM s' \<and> RETURN_ADRESS_SM s' = MEPC_SC env \<and> CURRENT_MODE_SM s' = 0 \<and>
    MSTATUS_WDATA_RM s' = status_saved (MSTATUS_RC env) False (CURRENT_MODE_SM s) True"
proof -
  have step: "mem_csr_exception env re q =
      mem_mret env (CURRENT_MODE_SM q) re (q\<lparr>EXCEPTION_SM := True\<rparr>)" for q
    using assms by (simp add: mem_csr_exception_def Let_def mem_exception_branch_def)
  have "mem_csr_settle env re s = mem_csr_exception env re (mem_csr_exception env re s)"
    using assms(6) by (intro mem_csr_settle_twice)
      (simp_all add: step mem_mret_def mem_save_status_def Let_def)
  then show ?thesis
    using assms(1)
    by (simp add: step Let_def) (simp add: mem_mret_def mem_save_status_def Let_def
        status_saved_def)
qed

text \<open>
  C25: a pending and enabled interrupt is taken whenever no exception is, whatever the global
  enable bit of \<open>mstatus\<close>; its cause is always 0, and the instruction in the stage, to which
  \<open>mepc\<close> points, is still passed on with its register write.
\<close>

theorem mem_interrupt_entry:
  assumes "mem_trap_to_handle env = trap" "bit trap 11 \<or> bit trap 3 \<or> bit trap 7"
    and "\<not> EXCEPTION_RE re" "\<not> BUS_ERROR_SX env" "RESET env" "\<not> EXCEPTION_SM s"
  shows "let s' = mem_csr_settle env re s in
    EXCEPTION_SM s' \<and> CURRENT_MODE_SM s' = 3 \<and> MEPC_WDATA_RM s' = PC_EXE2MEM_RE re \<and>
    MCAUSE_WDATA_SM s' = 0 \<and> WB_RM (mem_payload re s') = wb_sm s \<and>
    MSTATUS_WDATA_RM s' = status_saved (MSTATUS_RC env) True (CURRENT_MODE_SM s) False"
proof -
  have nz: "trap \<noteq> 0" using assms(2) by auto
  have step: "mem_csr_exception env re q =
      (mem_interrupt env (CURRENT_MODE_SM q) re q)\<lparr>MRET_SM := False\<rparr>" for q
    using assms nz by (simp add: mem_csr_exception_def Let_def)
  have "mem_interrupt_cause trap old = 0" for old
    using assms(2) by (auto simp: mem_interrupt_cause_def)
  moreover have "mem_csr_settle env re s = mem_csr_exception env re (mem_csr_exception env re s)"
    using assms(6) by (intro mem_csr_settle_twice) (simp_all add: step mem_interrupt_def)
  ultimately show ?thesis
    by (simp add: step Let_def mem_payload_def)
      (simp add: mem_interrupt_def mem_save_status_def Let_def status_saved_def assms(1))
qed

text \<open>
  Without exception and without a pending interrupt the stage drives a CSR write exactly
  for a CSR instruction, and the mode stays.
\<close>

theorem mem_csr_write_only:
  assumes "mem_trap_to_handle env = 0" "\<not> EXCEPTION_RE re" "\<not> BUS_ERROR_SX env" "RESET env"
  shows "let s' = mem_csr_settle env re s in
    CSR_ENABLE_SM s' = CSR_WENABLE_RE re \<and>
    (CSR_WENABLE_RE re \<longrightarrow> CSR_WADR_SM s' = CSR_WADR_RE re \<and> CSR_WDATA_SM s' = EXE_RES_RE re) \<and>
    \<not> EXCEPTION_SM s' \<and> \<not> MRET_SM s' \<and> CURRENT_MODE_SM s' = CURRENT_MODE_SM s"
proof -
  have "mem_csr_exception env re q = (mem_csr_write re q)\<lparr>MRET_SM := False\<rparr>" for q
    using assms by (simp add: mem_csr_exception_def Let_def)
  then show ?thesis
    by (simp add: mem_csr_settle_def Let_def mem_csr_write_def)
qed


subsection \<open>Instances\<close>

definition mem_env_idle :: mem_env where
  "mem_env_idle = \<lparr>MCACHE_RESULT_SM = 0xCAFE8180, MCACHE_STALL_SM = False,
     mem2wbk_full_sm = False, EXE2MEM_EMPTY_SE = False, BUS_ERROR_SX = False, RESET = True,
     MEPC_SC = 0x80, MSTATUS_RC = 8, MIP_VALUE_RC = 0, MIE_VALUE_RC = 0x80\<rparr>"

definition mem_user :: mem where
  "mem_user = \<lparr>mem2wbk_push_sm = False, EXE2MEM_POP_SM = False, MEM_SIZE_SM = 0, wb_sm = False,
     MCACHE_DATA_SM = 0, MCACHE_ADR_SM = 0, MCACHE_LOAD_SM = False, MCACHE_STORE_SM = False,
     MCACHE_ADR_VALID_SM = False, data_sm = 0, save_restore_sm = False, mpp_sm = 0,
     mpie_sm = False, mie_sm = False, CURRENT_MODE_SM = 0, EXCEPTION_SM = False,
     RETURN_ADRESS_SM = 0, MRET_SM = False, CSR_WADR_SM = 0, CSR_WDATA_SM = 0,
     CSR_ENABLE_SM = False, MSTATUS_WDATA_RM = 0, MEPC_WDATA_RM = 0, MCAUSE_WDATA_SM = 0,
     MTVAL_WDATA_SM = 0\<rparr>"

text \<open>A sign-extended byte access to an address.\<close>

definition byte_access :: "u32 \<Rightarrow> exe2mem_out" where
  "byte_access a = (exe2mem_unconcat 0)\<lparr>EXE_RES_RE := a, MEM_SIZE_RE := 2,
     MEM_SIGN_EXTEND_RE := True\<rparr>"

lemmas mem_eval = byte_access_def exe2mem_unconcat_def lane_bytes_def

theorem mem_load_correct_witness:
  "data_sm (mem_settle mem_env_idle ((byte_access 1)\<lparr>MEM_LOAD_RE := True\<rparr>) (mem2wbk_unconcat 0)
     mem_user) = lane_extend True 2 1 0xCAFE8180"
  using mem_load_correct [of "(byte_access 1)\<lparr>MEM_LOAD_RE := True\<rparr>" mem_env_idle
      "mem2wbk_unconcat 0" mem_user]
  by (simp add: mem_eval mem_env_idle_def)

theorem mem_load_wrong_lane_witness:
  "data_sm (mem_settle mem_env_idle ((byte_access 5)\<lparr>MEM_LOAD_RE := True\<rparr>) (mem2wbk_unconcat 0)
     mem_user) = lane_extend True 2 0 0xCAFE8180"
  using mem_load_wrong_lane [of "(byte_access 5)\<lparr>MEM_LOAD_RE := True\<rparr>" mem_env_idle
      "mem2wbk_unconcat 0" mem_user]
  by (simp add: mem_eval mem_env_idle_def)

theorem mem_store_lanes_witness:
  "MCACHE_ADR_SM (mem_settle mem_env_idle ((byte_access 7)\<lparr>MEM_STORE_RE := True\<rparr>)
     (mem2wbk_unconcat 0) mem_user) = 7"
  using mem_store_lanes [of "(byte_access 7)\<lparr>MEM_STORE_RE := True\<rparr>" mem_env_idle
      "mem2wbk_unconcat 0" mem_user]
  by (simp add: mem_eval del: mem_settle_data)

definition ecall_payload :: exe2mem_out where
  "ecall_payload = (exe2mem_unconcat 0)\<lparr>ENV_CALL_U_MODE_RE := True, EXCEPTION_RE := True,
     PC_EXE2MEM_RE := 0x1000\<rparr>"

theorem mem_exception_entry_witness:
  "let s' = mem_csr_settle mem_env_idle ecall_payload mem_user in
     CURRENT_MODE_SM s' = 3 \<and> MCAUSE_WDATA_SM s' = 8 \<and> MEPC_WDATA_RM s' = 0x1000"
proof -
  have "exception_of ecall_payload = Some (8, 0)" "EXCEPTION_RE ecall_payload"
    "\<not> MRET_RE ecall_payload" "PC_EXE2MEM_RE ecall_payload = 0x1000"
    by (simp_all add: exception_of_def exception_causes_def ecall_payload_def mem_eval)
  then show ?thesis
    using mem_exception_entry [of ecall_payload 8 0 mem_env_idle mem_user]
    by (simp add: mem_env_idle_def mem_user_def Let_def)
qed

theorem mem_mret_returns_witness:
  "let s' = mem_csr_settle mem_env_idle
      ((exe2mem_unconcat 0)\<lparr>MRET_RE := True, EXCEPTION_RE := True\<rparr>) mem_user in
     RETURN_ADRESS_SM s' = 0x80 \<and> CURRENT_MODE_SM s' = 0"
  using mem_mret_returns [of "(exe2mem_unconcat 0)\<lparr>MRET_RE := True, EXCEPTION_RE := True\<rparr>"
      mem_env_idle mem_user]
  by (simp add: mem_env_idle_def mem_user_def Let_def mem_eval)

theorem mem_interrupt_entry_witness:
  "let s' = mem_csr_settle (mem_env_idle\<lparr>MIP_VALUE_RC := 0x80\<rparr>) (exe2mem_unconcat 0) mem_user in
     EXCEPTION_SM s' \<and> MCAUSE_WDATA_SM s' = 0"
proof -
  have "mem_trap_to_handle (mem_env_idle\<lparr>MIP_VALUE_RC := 0x80\<rparr>) = 0x80"
    by (simp add: mem_trap_to_handle_def mem_env_idle_def)
  then show ?thesis
    using mem_interrupt_entry [of "mem_env_idle\<lparr>MIP_VALUE_RC := 0x80\<rparr>" "0x80"
        "exe2mem_unconcat 0" mem_user]
    by (simp add: mem_env_idle_def mem_user_def Let_def mem_eval)
qed

theorem mem_csr_write_only_witness:
  "CSR_ENABLE_SM (mem_csr_settle mem_env_idle
     ((exe2mem_unconcat 0)\<lparr>CSR_WENABLE_RE := True\<rparr>) mem_user)"
  using mem_csr_write_only [of mem_env_idle "(exe2mem_unconcat 0)\<lparr>CSR_WENABLE_RE := True\<rparr>"
      mem_user]
  by (simp add: mem_trap_to_handle_def mem_env_idle_def Let_def mem_eval)

end
