(* ===== verification/Register_File.thy ===== *)
theory Register_File
  imports Stage_Interfaces
begin

text \<open>
  The write-back stage (\<open>SIM/SystemC/CORE/WBK/wbk.cpp\<close>) and the register file
  (\<open>REG/reg.cpp\<close>): 32 general registers and the program counter as register 32.

  The register array has 33 entries and the addresses have six bits; an access outside the
  array, which C++ leaves undefined, is \<open>None\<close>.  Lemmas: what a clock edge leaves in every
  register, that register 0 is always 0, and that the write-back stage retires the result of
  its instruction.
\<close>

subsection \<open>Write-back\<close>

record wbk_ports =
  WADR_SW :: u6
  WDATA_SW :: u32
  WENABLE_SW :: bool
  MEM2WBK_POP_SW :: bool

definition wbk_method :: "mem2wbk_out \<Rightarrow> bool \<Rightarrow> u32 \<Rightarrow> wbk_ports" where
  "wbk_method rm mem2wbk_empty x2_res =
     \<lparr>WADR_SW = DEST_RM rm,
      WDATA_SW = (if CSR_WENABLE_RM rm then CSR_RDATA_RM rm
                  else if MULT_INST_RM rm then x2_res
                  else MEM_RES_RM rm),
      WENABLE_SW = (WB_RM rm \<and> \<not> mem2wbk_empty),
      MEM2WBK_POP_SW = (\<not> mem2wbk_empty)\<rparr>"

subsection \<open>Registers\<close>

record reg_in =
  WRITE_PC_SD :: u32
  WRITE_PC_ENABLE_SD :: bool
  PC_INIT :: u32
  RESET_N :: bool

definition reg_reset :: "u32 \<Rightarrow> u32 list" where
  "reg_reset pc_init = (replicate 33 0)[32 := pc_init]"

definition reg_write :: "u6 \<Rightarrow> u32 \<Rightarrow> u32 list \<Rightarrow> u32 list option" where
  "reg_write a v regs = (if unat a < 33 then Some (regs[unat a := v]) else None)"

definition reg_writing_adresse :: "wbk_ports \<Rightarrow> reg_in \<Rightarrow> u32 list \<Rightarrow> u32 list option" where
  "reg_writing_adresse w i regs =
     (if \<not> RESET_N i then Some (reg_reset (PC_INIT i))
      else
        (let regs' = (if WRITE_PC_ENABLE_SD i then regs[32 := WRITE_PC_SD i] else regs) in
         if \<not> (WADR_SW w = 32 \<and> WRITE_PC_ENABLE_SD i) then
           (if WADR_SW w \<noteq> 0 then
              (if WENABLE_SW w then reg_write (WADR_SW w) (WDATA_SW w) regs' else Some regs')
            else Some regs')
         else Some regs'))"

definition reg_read :: "u6 \<Rightarrow> u32 list \<Rightarrow> u32 option" where
  "reg_read a regs = (if unat a < 33 then Some (regs ! unat a) else None)"

text \<open>The three read ports: \<open>RDATA1_SR\<close>, \<open>RDATA2_SR\<close> and \<open>READ_PC_SR\<close>.\<close>

definition reg_reading_adresses ::
  "u6 \<Rightarrow> u6 \<Rightarrow> reg_in \<Rightarrow> u32 list \<Rightarrow> u32 option \<times> u32 option \<times> u32" where
  "reg_reading_adresses radr1 radr2 i regs =
     (reg_read radr1 regs, reg_read radr2 regs, if RESET_N i then regs ! 32 else PC_INIT i)"

text \<open>A sequence of clock edges.\<close>

fun reg_run :: "(wbk_ports \<times> reg_in) list \<Rightarrow> u32 list \<Rightarrow> u32 list option" where
  "reg_run [] regs = Some regs"
| "reg_run ((w, i) # cs) regs =
     (case reg_writing_adresse w i regs of None \<Rightarrow> None | Some regs' \<Rightarrow> reg_run cs regs')"

subsection \<open>The effect of a clock edge\<close>

definition reg_after :: "wbk_ports \<Rightarrow> reg_in \<Rightarrow> u32 list \<Rightarrow> nat \<Rightarrow> u32" where
  "reg_after w i regs r =
     (if \<not> RESET_N i then (if r = 32 then PC_INIT i else 0)
      else if r = 32 \<and> WRITE_PC_ENABLE_SD i then WRITE_PC_SD i
      else if r = unat (WADR_SW w) \<and> r \<noteq> 0 \<and> WENABLE_SW w then WDATA_SW w
      else regs ! r)"

lemma unat_u6_0: "unat (a :: u6) = 0 \<longleftrightarrow> a = 0"
  by (simp add: unat_eq_0)

lemma unat_u6_32: "unat (a :: u6) = 32 \<longleftrightarrow> a = 32"
  by (simp add: word_unat_eq_iff)

lemma reg_step_ok:
  assumes "length regs = 33" "unat (WADR_SW w) < 33"
  shows "\<exists>regs'. reg_writing_adresse w i regs = Some regs' \<and> length regs' = 33 \<and>
    (\<forall>r < 33. regs' ! r = reg_after w i regs r)"
proof (cases "RESET_N i")
  case False
  then show ?thesis
    by (auto simp: reg_writing_adresse_def reg_reset_def reg_after_def nth_list_update)
next
  case True
  have "unat (WADR_SW w) = 32 \<longleftrightarrow> WADR_SW w = 32" by (rule unat_u6_32)
  then show ?thesis
    using True assms
    by (auto simp: reg_writing_adresse_def reg_write_def reg_after_def nth_list_update Let_def
        unat_u6_0)
qed

text \<open>
  A clock edge, for an address inside the array, writes the program counter (decode wins
  over write-back), the addressed register unless it is register 0, and nothing else.
\<close>

theorem reg_edge:
  assumes "length regs = 33" "unat (WADR_SW w) < 33" "reg_writing_adresse w i regs = Some regs'"
    and "unat a < 33"
  shows "reg_read a regs' = Some (reg_after w i regs (unat a))"
  using reg_step_ok [OF assms(1,2), of i] assms(3,4) by (auto simp: reg_read_def)

definition reg_inv :: "u32 list \<Rightarrow> bool" where
  "reg_inv regs \<longleftrightarrow> length regs = 33 \<and> regs ! 0 = 0"

lemma reg_inv_reset: "reg_inv (reg_reset pc)"
  by (simp add: reg_inv_def reg_reset_def)

lemma reg_inv_step:
  "reg_inv regs \<Longrightarrow> unat (WADR_SW w) < 33 \<Longrightarrow>
     \<exists>regs'. reg_writing_adresse w i regs = Some regs' \<and> reg_inv regs'"
  using reg_step_ok [of regs w i] by (auto simp: reg_inv_def reg_after_def)

text \<open>
  from reset, over any sequence of clock edges with addresses inside the array, the
  register file never leaves its bounds and register 0 reads as 0.
\<close>

theorem reg_zero_invariant:
  assumes "\<forall>(w, i) \<in> set cs. unat (WADR_SW w) < 33"
  shows "\<exists>regs. reg_run cs (reg_reset pc) = Some regs \<and> reg_read 0 regs = Some 0"
proof -
  have "reg_inv regs \<Longrightarrow> \<forall>(w, i) \<in> set cs. unat (WADR_SW w) < 33 \<Longrightarrow>
      \<exists>regs'. reg_run cs regs = Some regs' \<and> reg_inv regs'" for regs
  proof (induction cs arbitrary: regs)
    case Nil
    then show ?case by simp
  next
    case (Cons c cs)
    obtain w i where c: "c = (w, i)" by (cases c)
    obtain regs' where "reg_writing_adresse w i regs = Some regs'" "reg_inv regs'"
      using reg_inv_step [of regs w i] Cons.prems by (auto simp: c)
    then show ?case
      using Cons.IH [of regs'] Cons.prems(2) by (simp add: c)
  qed
  from this [OF reg_inv_reset assms] show ?thesis
    by (auto simp: reg_inv_def reg_read_def)
qed

text \<open>
  when the write-back stage holds an instruction that writes a register, the register has
  the value of the instruction after the clock edge: the old CSR value for a CSR instruction,
  the product for a multiplication, the result of the memory stage otherwise; and the
  instruction leaves the stage.
\<close>

theorem wbk_retires:
  assumes "length regs = 33" "RESET_N i" "WB_RM rm" "DEST_RM rm \<noteq> 0" "unat (DEST_RM rm) < 32"
    and "reg_writing_adresse (wbk_method rm False x2) i regs = Some regs'"
  shows "reg_read (DEST_RM rm) regs' =
      Some (if CSR_WENABLE_RM rm then CSR_RDATA_RM rm
            else if MULT_INST_RM rm then x2 else MEM_RES_RM rm) \<and>
    MEM2WBK_POP_SW (wbk_method rm False x2)"
proof -
  let ?w = "wbk_method rm False x2"
  have a: "WADR_SW ?w = DEST_RM rm" "WENABLE_SW ?w"
    using assms(3) by (simp_all add: wbk_method_def)
  have lt: "unat (WADR_SW ?w) < 33"
    using assms(5) by (simp add: a)
  obtain regs'' where "reg_writing_adresse ?w i regs = Some regs''" and
    "\<forall>r < 33. regs'' ! r = reg_after ?w i regs r"
    using reg_step_ok [OF assms(1) lt, of i] by auto
  then have "reg_read (DEST_RM rm) regs' = Some (reg_after ?w i regs (unat (DEST_RM rm)))"
    using assms(5,6) by (simp add: reg_read_def)
  moreover have "unat (DEST_RM rm) \<noteq> 0"
    using assms(4) by (simp add: unat_u6_0)
  ultimately show ?thesis
    using assms(2,5) a by (simp add: reg_after_def) (simp add: wbk_method_def)
qed

subsection \<open>Instances\<close>

definition reg_in_run :: reg_in where
  "reg_in_run = \<lparr>WRITE_PC_SD = 4, WRITE_PC_ENABLE_SD = True, PC_INIT = 0, RESET_N = True\<rparr>"

definition wbk_write_5 :: wbk_ports where
  "wbk_write_5 = \<lparr>WADR_SW = 5, WDATA_SW = 7, WENABLE_SW = True, MEM2WBK_POP_SW = True\<rparr>"

definition mem2wbk_write_5 :: mem2wbk_out where
  "mem2wbk_write_5 = \<lparr>MEM_RES_RM = 7, DEST_RM = 5, WB_RM = True, PC_MEM2WBK_RM = 0,
     CSR_WENABLE_RM = False, CSR_RDATA_RM = 0, MULT_INST_RM = False\<rparr>"

theorem reg_edge_witness:
  "\<exists>regs'. reg_writing_adresse wbk_write_5 reg_in_run (reg_reset 0) = Some regs' \<and>
     reg_read 5 regs' = Some 7"
proof -
  have len: "length (reg_reset 0) = 33" by (simp add: reg_reset_def)
  have adr: "unat (WADR_SW wbk_write_5) < 33" by (simp add: wbk_write_5_def)
  obtain regs' where step: "reg_writing_adresse wbk_write_5 reg_in_run (reg_reset 0) = Some regs'"
    using reg_step_ok [OF len adr, of reg_in_run] by auto
  from reg_edge [OF len adr step, of 5] show ?thesis
    using step by (simp add: reg_after_def reg_in_run_def wbk_write_5_def)
qed

theorem reg_zero_invariant_witness:
  "\<exists>regs. reg_run [(wbk_write_5, reg_in_run)] (reg_reset 0) = Some regs \<and> reg_read 0 regs = Some 0"
  by (rule reg_zero_invariant) (simp add: wbk_write_5_def)

theorem wbk_retires_witness:
  "\<exists>regs'. reg_writing_adresse (wbk_method mem2wbk_write_5 False 0) reg_in_run (reg_reset 0) =
     Some regs' \<and> reg_read 5 regs' = Some 7"
proof -
  let ?w = "wbk_method mem2wbk_write_5 False 0"
  have len: "length (reg_reset 0) = 33" by (simp add: reg_reset_def)
  have adr: "unat (WADR_SW ?w) < 33" by (simp add: wbk_method_def mem2wbk_write_5_def)
  obtain regs' where step: "reg_writing_adresse ?w reg_in_run (reg_reset 0) = Some regs'"
    using reg_step_ok [OF len adr, of reg_in_run] by auto
  have "RESET_N reg_in_run" "WB_RM mem2wbk_write_5" "DEST_RM mem2wbk_write_5 = 5"
    "\<not> CSR_WENABLE_RM mem2wbk_write_5" "\<not> MULT_INST_RM mem2wbk_write_5"
    "MEM_RES_RM mem2wbk_write_5 = 7"
    by (simp_all add: reg_in_run_def mem2wbk_write_5_def)
  then show ?thesis
    using wbk_retires [OF len _ _ _ _ step] step by simp
qed

end
