(* ===== verification/Back_End.thy ===== *)
theory Back_End
  imports Decode_Exec Mem_Stage Register_File
begin

text \<open>
  The back end of the pipeline as \<open>SIM/SystemC/CORE/core.h\<close> connects it: the FIFO that decode
  fills, the execute, memory and write-back stages with the FIFOs between them, and the register
  file.  One clock cycle first settles the stages from the last to the first, since each stage's
  pop goes into the full flag that its predecessor reads and the memory stage's exception goes
  to the execute stage, and then clocks the FIFOs and the registers.

  Decode, the caches, the CSR unit, the divider and the multiplier pipeline are the environment:
  their signals are the fields of \<open>backend_in\<close>.

  Lemmas: the register file stays within its bounds over any run; instructions are retired in the
  order in which decode sent them, none lost or repeated; and an instruction that decode
  issues leaves the result of the instruction set in its register after three cycles.
\<close>

subsection \<open>State and inputs\<close>

record backend =
  dec2exe :: "253 word fifo"
  exe2mem :: "200 word fifo"
  mem2wbk :: "108 word fifo"
  exec_inst :: exec
  mem_inst :: mem
  REG_RR :: "u32 list"

text \<open>
  \<open>exec_ports\<close> and \<open>mem_ports\<close> give the inputs of the two stages that come from outside the
  back end; the fields that \<open>core.h\<close> connects inside it are overwritten below.
\<close>

record backend_in =
  dec2exe_push_sd :: bool
  dec2exe_in_sd :: "253 word"
  exec_ports :: exec_env
  mem_ports :: mem_env
  x2_result :: u32
  reg_ports :: reg_in

abbreviation "back_rd b \<equiv> unconcat_dec2exe (DOUT_R (dec2exe b))"
abbreviation "back_re b \<equiv> exe2mem_unconcat (DOUT_R (exe2mem b))"
abbreviation "back_rm b \<equiv> mem2wbk_unconcat (DOUT_R (mem2wbk b))"

subsection \<open>The connections\<close>

definition backend_wbk :: "backend_in \<Rightarrow> backend \<Rightarrow> wbk_ports" where
  "backend_wbk i b = wbk_method (back_rm b) (fifo_EMPTY (mem2wbk b)) (x2_result i)"

definition backend_mem_env :: "backend_in \<Rightarrow> backend \<Rightarrow> mem_env" where
  "backend_mem_env i b =
     (mem_ports i)\<lparr>mem2wbk_full_sm := fifo_FULL (mem2wbk b) (MEM2WBK_POP_SW (backend_wbk i b)),
       mem_env.EXE2MEM_EMPTY_SE := fifo_EMPTY (exe2mem b),
       RESET := RESET_N (reg_ports i)\<rparr>"

definition backend_mem :: "backend_in \<Rightarrow> backend \<Rightarrow> mem" where
  "backend_mem i b = mem_settle (backend_mem_env i b) (back_re b) (back_rm b) (mem_inst b)"

definition backend_exec_env :: "backend_in \<Rightarrow> backend \<Rightarrow> exec_env" where
  "backend_exec_env i b =
     (let m = backend_mem i b in
      (exec_ports i)\<lparr>exec_env.EXE2MEM_EMPTY_SE := fifo_EMPTY (exe2mem b),
        MEM2WBK_EMPTY_SM := fifo_EMPTY (mem2wbk b),
        DEC2EXE_EMPTY_SD := fifo_EMPTY (dec2exe b),
        exe2mem_full_se := fifo_FULL (exe2mem b) (EXE2MEM_POP_SM m),
        exec_env.EXCEPTION_SM := mem.EXCEPTION_SM m,
        exec_env.CURRENT_MODE_SM := mem.CURRENT_MODE_SM m\<rparr>)"

definition backend_exec :: "backend_in \<Rightarrow> backend \<Rightarrow> exec" where
  "backend_exec i b =
     exec_settle (backend_exec_env i b) (back_rd b) (back_re b) (back_rm b) (exec_inst b)"

text \<open>The full flag that decode reads.\<close>

definition backend_full :: "backend_in \<Rightarrow> backend \<Rightarrow> bool" where
  "backend_full i b = fifo_FULL (dec2exe b) (DEC2EXE_POP_SE (backend_exec i b))"

text \<open>One cycle; \<open>None\<close> when the write-back stage addresses a register that does not exist.\<close>

definition backend_cycle :: "backend_in \<Rightarrow> backend \<Rightarrow> backend option" where
  "backend_cycle i b =
     (let w = backend_wbk i b; m = backend_mem i b; e = backend_exec i b
      in map_option (\<lambda>regs.
           \<lparr>dec2exe = fifo_clock (dec2exe_in_sd i) (dec2exe_push_sd i) (DEC2EXE_POP_SE e)
              (dec2exe b),
            exe2mem = fifo_clock (exec_fifo_concat (backend_exec_env i b) (back_rd b) e)
              (exe2mem_push_se e) (EXE2MEM_POP_SM m) (exe2mem b),
            mem2wbk = fifo_clock (mem_mem2wbk_concat (back_re b) m)
              (mem2wbk_push_sm m) (MEM2WBK_POP_SW w) (mem2wbk b),
            exec_inst = e, mem_inst = m, REG_RR = regs\<rparr>)
         (reg_writing_adresse w (reg_ports i) (REG_RR b)))"

fun backend_run :: "backend_in list \<Rightarrow> backend \<Rightarrow> backend option" where
  "backend_run [] b = Some b"
| "backend_run (i # is) b = Option.bind (backend_cycle i b) (backend_run is)"

subsection \<open>Registers\<close>

lemma dest_rm_bound: "unat (DEST_RM (mem2wbk_unconcat v)) < 32"
proof -
  have "(rng 36 32 v :: u6) = take_bit 5 (rng 36 32 v)"
    by (rule bit_word_eqI) (auto simp: bit_rng bit_simps)
  then have "unat (rng 36 32 v :: u6) = unat (take_bit 5 (rng 36 32 v) :: u6)" by simp
  also have "\<dots> < 32" by (simp only: unsigned_take_bit_eq) (simp add: take_bit_eq_mod)
  finally show ?thesis by (simp add: mem2wbk_unconcat_def)
qed

lemma backend_cycle_registers:
  assumes "reg_inv (REG_RR b)"
  shows "\<exists>b'. backend_cycle i b = Some b' \<and> reg_inv (REG_RR b')"
proof -
  have "unat (WADR_SW (backend_wbk i b)) < 33"
    using dest_rm_bound [of "DOUT_R (mem2wbk b)"] by (simp add: backend_wbk_def wbk_method_def)
  from reg_inv_step [OF assms this, of "reg_ports i"] show ?thesis
    by (auto simp: backend_cycle_def Let_def)
qed

subsection \<open>Instructions in flight\<close>

text \<open>The program counters of the instructions in the back end, oldest first.\<close>

definition in_flight :: "backend \<Rightarrow> u32 list" where
  "in_flight b =
     map (\<lambda>v. PC_MEM2WBK_RM (mem2wbk_unconcat v)) (fifo_content (mem2wbk b)) @
     map (\<lambda>v. PC_EXE2MEM_RE (exe2mem_unconcat v)) (fifo_content (exe2mem b)) @
     map (\<lambda>v. PC_DEC2EXE_RD (unconcat_dec2exe v)) (fifo_content (dec2exe b))"

definition entering :: "backend_in \<Rightarrow> u32 list" where
  "entering i =
     (if dec2exe_push_sd i then [PC_DEC2EXE_RD (unconcat_dec2exe (dec2exe_in_sd i))] else [])"

definition retiring :: "backend_in \<Rightarrow> backend \<Rightarrow> u32 list" where
  "retiring i b = (if MEM2WBK_POP_SW (backend_wbk i b) then [PC_MEM2WBK_RM (back_rm b)] else [])"

fun retired :: "backend_in list \<Rightarrow> backend \<Rightarrow> u32 list" where
  "retired [] b = []"
| "retired (i # is) b =
     retiring i b @ (case backend_cycle i b of None \<Rightarrow> [] | Some b' \<Rightarrow> retired is b')"

text \<open>
  A cycle of normal operation: the FIFOs past their start, decode respects the full
  flag, and the memory stage takes no exception.
\<close>

definition started :: "backend \<Rightarrow> bool" where
  "started b \<longleftrightarrow> wait_left (dec2exe b) \<le> 1 \<and> wait_left (exe2mem b) \<le> 1 \<and> wait_left (mem2wbk b) \<le> 1"

definition normal_cycle :: "backend_in \<Rightarrow> backend \<Rightarrow> bool" where
  "normal_cycle i b \<longleftrightarrow>
     (dec2exe_push_sd i \<longrightarrow> \<not> backend_full i b) \<and> \<not> mem.EXCEPTION_SM (backend_mem i b)"

fun normal_run :: "backend_in list \<Rightarrow> backend \<Rightarrow> bool" where
  "normal_run [] b = True"
| "normal_run (i # is) b =
     (normal_cycle i b \<and> (case backend_cycle i b of None \<Rightarrow> True | Some b' \<Rightarrow> normal_run is b'))"

lemma fifo_clock_run: "wait_left s \<le> 1 \<Longrightarrow>
    fifo_clock d push pop s = fifo_function_loop d push pop s"
  by (simp add: fifo_clock_def)

lemma fifo_loop_started: "wait_left (fifo_function_loop d push pop s) \<le> 1"
  by (simp add: fifo_function_loop_def)

lemma exec_pushes:
  "exe2mem_push_se (exec_settle env rd re rm s) = DEC2EXE_POP_SE (exec_settle env rd re rm s)"
  "\<not> exec_env.EXCEPTION_SM env \<Longrightarrow> exe2mem_push_se (exec_settle env rd re rm s) \<Longrightarrow>
     \<not> exe2mem_full_se env \<and> \<not> DEC2EXE_EMPTY_SD env"
  by (auto simp: exec_settle_def exec_manage_fifo_def Let_def)

text \<open>A FIFO over one cycle, through a reading \<open>f\<close> of its words.\<close>

lemma fifo_cycle:
  assumes "push \<longrightarrow> \<not> fifo_FULL s pop" "pop \<longrightarrow> \<not> fifo_EMPTY s"
  shows "map f (fifo_content s) @ (if push then [f d] else []) =
    (if pop then [f (DOUT_R s)] else []) @ map f (fifo_content (fifo_function_loop d push pop s))"
  using assms
  by (auto simp: fifo_content_def fifo_function_loop_def fifo_FULL_def fifo_EMPTY_def
      split: if_splits)

lemma three_hops:
  "ms @ es1 = ws @ ms' \<Longrightarrow> es @ ds1 = es1 @ es' \<Longrightarrow> ds @ ns = ds1 @ ds' \<Longrightarrow>
     ws @ ms' @ es' @ ds' = (ms @ es @ ds) @ ns"
  by (metis append.assoc)

text \<open>In a normal cycle no stage pushes into a full FIFO or pops an empty one.\<close>

lemma backend_handshakes:
  assumes "normal_cycle i b"
  defines "w \<equiv> backend_wbk i b" and "m \<equiv> backend_mem i b" and "e \<equiv> backend_exec i b"
  shows "MEM2WBK_POP_SW w \<longrightarrow> \<not> fifo_EMPTY (mem2wbk b)"
    and "mem2wbk_push_sm m = EXE2MEM_POP_SM m"
    and "EXE2MEM_POP_SM m \<longrightarrow>
      \<not> fifo_FULL (mem2wbk b) (MEM2WBK_POP_SW w) \<and> \<not> fifo_EMPTY (exe2mem b)"
    and "exe2mem_push_se e = DEC2EXE_POP_SE e"
    and "DEC2EXE_POP_SE e \<longrightarrow>
      \<not> fifo_FULL (exe2mem b) (EXE2MEM_POP_SM m) \<and> \<not> fifo_EMPTY (dec2exe b)"
    and "dec2exe_push_sd i \<longrightarrow> \<not> fifo_FULL (dec2exe b) (DEC2EXE_POP_SE e)"
proof -
  have "\<not> exec_env.EXCEPTION_SM (backend_exec_env i b)"
    using assms(1) by (simp add: normal_cycle_def backend_exec_env_def Let_def)
  from exec_pushes(2) [OF this, of "back_rd b" "back_re b" "back_rm b" "exec_inst b"]
  show "DEC2EXE_POP_SE e \<longrightarrow>
      \<not> fifo_FULL (exe2mem b) (EXE2MEM_POP_SM m) \<and> \<not> fifo_EMPTY (dec2exe b)"
    by (simp add: e_def m_def backend_exec_def exec_pushes(1))
      (auto simp: backend_exec_env_def Let_def)
  show "dec2exe_push_sd i \<longrightarrow> \<not> fifo_FULL (dec2exe b) (DEC2EXE_POP_SE e)"
    using assms(1) by (simp add: normal_cycle_def backend_full_def e_def)
qed (simp_all add: w_def m_def e_def backend_wbk_def wbk_method_def backend_mem_def mem_handshake
    backend_mem_env_def backend_exec_def exec_pushes(1))

lemma backend_pcs:
  "PC_EXE2MEM_RE (exe2mem_unconcat (exec_fifo_concat env rd e)) = PC_DEC2EXE_RD rd"
  "PC_MEM2WBK_RM (mem2wbk_unconcat (mem_mem2wbk_concat re m)) = PC_EXE2MEM_RE re"
  by (simp_all add: exec_fifo_concat_def exe2mem_unconcat_exe2mem_pack exec_payload_def
      exec_nop_def mem_mem2wbk_concat_def mem2wbk_unconcat_mem2wbk_pack mem_payload_def)

text \<open>The FIFOs after a cycle.\<close>

lemma backend_cycle_fifos:
  assumes "started b" "backend_cycle i b = Some b'"
  shows "dec2exe b' = fifo_function_loop (dec2exe_in_sd i) (dec2exe_push_sd i)
      (DEC2EXE_POP_SE (backend_exec i b)) (dec2exe b)"
    and "exe2mem b' = fifo_function_loop
      (exec_fifo_concat (backend_exec_env i b) (back_rd b) (backend_exec i b))
      (exe2mem_push_se (backend_exec i b)) (EXE2MEM_POP_SM (backend_mem i b)) (exe2mem b)"
    and "mem2wbk b' = fifo_function_loop (mem_mem2wbk_concat (back_re b) (backend_mem i b))
      (mem2wbk_push_sm (backend_mem i b)) (MEM2WBK_POP_SW (backend_wbk i b)) (mem2wbk b)"
    and "started b'"
proof -
  show fifos: "dec2exe b' = fifo_function_loop (dec2exe_in_sd i) (dec2exe_push_sd i)
      (DEC2EXE_POP_SE (backend_exec i b)) (dec2exe b)"
    "exe2mem b' = fifo_function_loop
      (exec_fifo_concat (backend_exec_env i b) (back_rd b) (backend_exec i b))
      (exe2mem_push_se (backend_exec i b)) (EXE2MEM_POP_SM (backend_mem i b)) (exe2mem b)"
    "mem2wbk b' = fifo_function_loop (mem_mem2wbk_concat (back_re b) (backend_mem i b))
      (mem2wbk_push_sm (backend_mem i b)) (MEM2WBK_POP_SW (backend_wbk i b)) (mem2wbk b)"
    using assms by (auto simp: backend_cycle_def Let_def started_def fifo_clock_run)
  show "started b'"
    unfolding started_def fifos by (intro conjI fifo_loop_started)
qed

lemma backend_cycle_flight:
  assumes "normal_cycle i b" "started b" "backend_cycle i b = Some b'"
  shows "retiring i b @ in_flight b' = in_flight b @ entering i"
proof -
  define w where "w = backend_wbk i b"
  define m where "m = backend_mem i b"
  define e where "e = backend_exec i b"
  note fifos = backend_cycle_fifos [OF assms(2,3), folded w_def m_def e_def]
  note hs = backend_handshakes [OF assms(1), folded w_def m_def e_def]
  let ?M = "\<lambda>v. PC_MEM2WBK_RM (mem2wbk_unconcat v)"
  let ?E = "\<lambda>v. PC_EXE2MEM_RE (exe2mem_unconcat v)"
  let ?D = "\<lambda>v. PC_DEC2EXE_RD (unconcat_dec2exe v)"
  have "map ?M (fifo_content (mem2wbk b)) @ (if EXE2MEM_POP_SM m then [?E (DOUT_R (exe2mem b))] else []) =
      retiring i b @ map ?M (fifo_content (mem2wbk b'))"
    using fifo_cycle [of "mem2wbk_push_sm m" "mem2wbk b" "MEM2WBK_POP_SW w" ?M
        "mem_mem2wbk_concat (back_re b) m"] hs
    by (simp add: fifos(3) backend_pcs retiring_def w_def cong: if_cong)
  moreover have "map ?E (fifo_content (exe2mem b)) @
      (if DEC2EXE_POP_SE e then [?D (DOUT_R (dec2exe b))] else []) =
      (if EXE2MEM_POP_SM m then [?E (DOUT_R (exe2mem b))] else []) @
      map ?E (fifo_content (exe2mem b'))"
    using fifo_cycle [of "exe2mem_push_se e" "exe2mem b" "EXE2MEM_POP_SM m" ?E
        "exec_fifo_concat (backend_exec_env i b) (back_rd b) e"] hs
    by (simp add: fifos(2) backend_pcs cong: if_cong)
  moreover have "map ?D (fifo_content (dec2exe b)) @ entering i =
      (if DEC2EXE_POP_SE e then [?D (DOUT_R (dec2exe b))] else []) @
      map ?D (fifo_content (dec2exe b'))"
    using fifo_cycle [OF hs(6), of ?D "dec2exe_in_sd i"] hs
    by (simp add: fifos(1) entering_def cong: if_cong)
  ultimately show ?thesis
    unfolding in_flight_def by (rule three_hops)
qed


text \<open>
  C26: from any state of the pipeline with a well-formed register file (in particular after a
  reset), over any sequence of inputs at all, no cycle reaches outside the register array, and
  register 0 still reads as 0 at the end.
\<close>

theorem backend_registers_safe:
  assumes "reg_inv (REG_RR b)"
  shows "\<exists>b'. backend_run is b = Some b' \<and> length (REG_RR b') = 33 \<and> reg_read 0 (REG_RR b') = Some 0"
proof -
  have "reg_inv (REG_RR b) \<Longrightarrow> \<exists>b'. backend_run is b = Some b' \<and> reg_inv (REG_RR b')" for b
  proof (induction "is" arbitrary: b)
    case (Cons i "is")
    then show ?case using backend_cycle_registers [of b i] by fastforce
  qed simp
  from this [OF assms] show ?thesis by (auto simp: reg_inv_def reg_read_def)
qed

subsection \<open>An instruction on its way to its register\<close>

text \<open>The register instructions: everything of \<open>rv_result\<close> but loads and stores.\<close>

lemma issue_writes:
  assumes "rv_result (INSTR_RI i) pc a c = Some v" "opcode (INSTR_RI i) \<noteq> 0b0000011"
    "opcode (INSTR_RI i) \<noteq> 0b0100011" and p: "p = dec_issue u i rd fb re rm s"
  shows "EXE_DEST_RD p = rng 11 7 (INSTR_RI i)" "WB_RD p" "\<not> MEM_LOAD_RD p" "\<not> MEM_STORE_RD p"
    "\<not> CSR_WENABLE_RD p" "\<not> MULT_INST_RD p" "PC_DEC2EXE_RD p = PC_IF2DEC_RI i"
proof -
  let ?t = "ity (INSTR_RI i)"
  have t: "(r_type_inst_sd ?t \<or> i_type_inst_sd ?t \<or> u_type_inst_sd ?t \<or> j_type_inst_sd ?t \<or>
      jalr_type_inst_sd ?t) \<and> \<not> s_type_inst_sd ?t \<and> \<not> b_type_inst_sd ?t \<and> \<not> m_type_inst_sd ?t"
    using assms(1)
    by (cases rule: rv_result_cases) (use assms(2,3) in \<open>auto simp: decoding_instruction_type_def\<close>)
  have f: "\<not> (opcode (INSTR_RI i) = 0b0110011 \<and> funct7 (INSTR_RI i) = 1)"
    using assms(1) by (cases rule: rv_result_cases) auto
  have ops: "D_ops (dec_settle u i rd fb re rm s) =
      dec_post_reg_read u i ?t (ifl (INSTR_RI i)) (D_byp (dec_settle u i rd fb re rm s)) (D_ops s)"
    by (simp add: dec_settle_parts(3))
  show "EXE_DEST_RD p = rng 11 7 (INSTR_RI i)"
    using t by (auto simp: p dec_issue_def dec_payload_def dec_settle_parts(1) dec_pre_reg_read_def
        dec_set_regs_def Let_def)
  have "exe_wb_sd (dec_post_reg_read u i ?t (ifl (INSTR_RI i)) b x) \<and>
      \<not> csr_wenable_sd (dec_post_reg_read u i ?t (ifl (INSTR_RI i)) b x) \<and>
      \<not> mem_load_sd (dec_post_reg_read u i ?t (ifl (INSTR_RI i)) b x) \<and>
      \<not> mem_store_sd (dec_post_reg_read u i ?t (ifl (INSTR_RI i)) b x)" for b x
    using t assms(2)
    by (auto simp: dec_post_reg_read_def Let_def dec_post_alu_def dec_post_jump_def
        dec_load_size_def decoding_instruction_flags)
  then show "WB_RD p" "\<not> MEM_LOAD_RD p" "\<not> MEM_STORE_RD p" "\<not> CSR_WENABLE_RD p"
    by (simp_all add: p dec_issue_def dec_payload_def ops Let_def)
  show "\<not> MULT_INST_RD p" "PC_DEC2EXE_RD p = PC_IF2DEC_RI i"
    using f by (auto simp: p dec_issue_def dec_payload_def Let_def decoding_instruction_flags)
qed


lemma fifo_accepts:
  "push \<Longrightarrow> \<not> fifo_FULL s pop \<Longrightarrow> fifo_v (fifo_function_loop d push pop s) \<and>
     DOUT_R (fifo_function_loop d push pop s) = d"
  by (simp add: fifo_function_loop_def fifo_FULL_def split: if_splits)

text \<open>Execute hands its payload to the FIFO of the memory stage.\<close>

lemma backend_hop_exec:
  assumes "started b" "backend_cycle i b = Some b'"
    and "\<not> mem.EXCEPTION_SM (backend_mem i b)" "exe2mem_push_se (backend_exec i b)"
  shows "back_re b' = exec_payload (back_rd b) (backend_exec i b)" "started b'"
proof -
  have exc: "\<not> exec_env.EXCEPTION_SM (backend_exec_env i b)"
    using assms(3) by (simp add: backend_exec_env_def Let_def)
  have "\<not> exe2mem_full_se (backend_exec_env i b)"
    using exec_pushes(2) [OF exc] assms(4) by (simp add: backend_exec_def)
  then have "\<not> fifo_FULL (exe2mem b) (EXE2MEM_POP_SM (backend_mem i b))"
    by (simp add: backend_exec_env_def Let_def)
  from fifo_accepts [OF assms(4) this] show "back_re b' = exec_payload (back_rd b) (backend_exec i b)"
    unfolding backend_cycle_fifos(2) [OF assms(1,2)]
    using exc by (simp add: exec_fifo_concat_def exe2mem_unconcat_exe2mem_pack)
  show "started b'" by (rule backend_cycle_fifos(4) [OF assms(1,2)])
qed

text \<open>The memory stage hands its payload to the FIFO of write-back.\<close>

lemma backend_hop_mem:
  assumes "started b" "backend_cycle i b = Some b'"
    and "mem2wbk_push_sm (backend_mem i b)"
  shows "back_rm b' = (mem_payload (back_re b) (backend_mem i b))
      \<lparr>DEST_RM := take_bit 5 (DEST_RE (back_re b))\<rparr>" "fifo_v (mem2wbk b')" "started b'"
proof -
  have "\<not> fifo_FULL (mem2wbk b) (MEM2WBK_POP_SW (backend_wbk i b))"
    using assms(3) by (simp add: backend_mem_def mem_handshake backend_mem_env_def)
  note acc = fifo_accepts [OF assms(3) this]
  show "back_rm b' = (mem_payload (back_re b) (backend_mem i b))
      \<lparr>DEST_RM := take_bit 5 (DEST_RE (back_re b))\<rparr>" "fifo_v (mem2wbk b')"
    unfolding backend_cycle_fifos(3) [OF assms(1,2)] using acc
    by (simp_all add: mem_mem2wbk_concat_def mem2wbk_unconcat_mem2wbk_pack mem_payload_def)
  show "started b'" by (rule backend_cycle_fifos(4) [OF assms(1,2)])
qed

text \<open>Write-back writes the register at the end of its cycle.\<close>

lemma backend_hop_wbk:
  assumes "RESET_N (reg_ports i)" "backend_cycle i b = Some b'" "reg_inv (REG_RR b)"
    and "fifo_v (mem2wbk b)" "WB_RM (back_rm b)" "DEST_RM (back_rm b) \<noteq> 0"
  shows "reg_read (DEST_RM (back_rm b)) (REG_RR b') = Some (WDATA_SW (backend_wbk i b)) \<and>
    MEM2WBK_POP_SW (backend_wbk i b)"
proof -
  let ?w = "backend_wbk i b"
  have w: "WADR_SW ?w = DEST_RM (back_rm b)" "WENABLE_SW ?w" "MEM2WBK_POP_SW ?w"
    using assms(4-6) by (simp_all add: backend_wbk_def wbk_method_def fifo_EMPTY_def)
  have adr: "unat (DEST_RM (back_rm b)) < 32" by (rule dest_rm_bound)
  have "reg_writing_adresse ?w (reg_ports i) (REG_RR b) = Some (REG_RR b')"
    using assms(2) by (auto simp: backend_cycle_def Let_def)
  then have "REG_RR b' ! unat (DEST_RM (back_rm b)) =
      reg_after ?w (reg_ports i) (REG_RR b) (unat (DEST_RM (back_rm b)))"
    using reg_step_ok [of "REG_RR b" ?w "reg_ports i"] assms(3) adr w(1)
    by (auto simp: reg_inv_def)
  then show ?thesis
    using adr assms(1,6) w unat_u6_0 [of "DEST_RM (back_rm b)"]
    by (auto simp: reg_read_def reg_after_def)
qed

lemma dest_field: "take_bit 5 (rng 11 7 ir :: u6) = (rng 11 7 ir :: u6)" for ir :: u32
  by (rule bit_word_eqI) (auto simp: bit_rng bit_simps)

text \<open>What execute sends on for a register instruction that does not trap.\<close>

lemma exec_sends:
  assumes "\<not> EXCEPTION_RD rd" "WB_RD rd" "\<not> MEM_LOAD_RD rd" "\<not> MEM_STORE_RD rd"
  shows "WB_RE (exec_payload rd (exec_settle env rd re rm s))"
    "\<not> MEM_LOAD_RE (exec_payload rd (exec_settle env rd re rm s))"
  using exec_payload_exception [of env rd re rm s] assms
  by (auto simp: Let_def mem_access_def)

text \<open>
  The three cycles of an instruction that writes a register and is not a load: the register gets
  the result of execute, of the CSR read or of the multiplier's last stage.
\<close>

lemma backend_three_cycles:
  assumes "started b" "reg_inv (REG_RR b)" "RESET_N (reg_ports i3)"
    and "\<not> EXCEPTION_RD (back_rd b)" "WB_RD (back_rd b)" "\<not> MEM_LOAD_RD (back_rd b)"
    "\<not> MEM_STORE_RD (back_rd b)"
    and "EXE_DEST_RD (back_rd b) \<noteq> 0" "take_bit 5 (EXE_DEST_RD (back_rd b)) = EXE_DEST_RD (back_rd b)"
    and "\<not> mem.EXCEPTION_SM (backend_mem i1 b)" "exe2mem_push_se (backend_exec i1 b)"
    and "mem2wbk_push_sm (backend_mem i2 b1)"
    and "backend_cycle i1 b = Some b1" "backend_cycle i2 b1 = Some b2" "backend_cycle i3 b2 = Some b3"
  shows "reg_read (EXE_DEST_RD (back_rd b)) (REG_RR b3) =
      Some (if CSR_WENABLE_RD (back_rd b) then CSR_RDATA_RD (back_rd b)
        else if MULT_INST_RD (back_rd b) then x2_result i3 else exe_res_se (backend_exec i1 b))"
    "retiring i3 b2 = [PC_DEC2EXE_RD (back_rd b)]"
proof -
  let ?e = "backend_exec i1 b" and ?m = "backend_mem i2 b1"
  have sends: "WB_RE (exec_payload (back_rd b) ?e)" "\<not> MEM_LOAD_RE (exec_payload (back_rd b) ?e)"
    unfolding backend_exec_def using assms(5-7) by (rule exec_sends [OF assms(4)])+
  note re = backend_hop_exec [OF assms(1,13,10,11)]
  have reg2: "reg_inv (REG_RR b2)"
    using backend_cycle_registers [OF assms(2), of i1] assms(13)
      backend_cycle_registers [of b1 i2] assms(14) by auto
  note rm = backend_hop_mem [OF re(2) assms(14,12)]
  have mem: "data_sm ?m = EXE_RES_RE (back_re b1)" "wb_sm ?m"
    using sends by (simp_all add: backend_mem_def mem_sign_extend_def mem_preprocess_def Let_def re(1))
  then have back_rm: "WB_RM (back_rm b2)" "DEST_RM (back_rm b2) = EXE_DEST_RD (back_rd b)"
    by (simp_all add: rm(1) mem_payload_def re(1) exec_payload_def assms(9))
  have nz: "DEST_RM (back_rm b2) \<noteq> 0" using assms(8) by (simp add: back_rm(2))
  have "WDATA_SW (backend_wbk i3 b2) =
      (if CSR_WENABLE_RD (back_rd b) then CSR_RDATA_RD (back_rd b)
       else if MULT_INST_RD (back_rd b) then x2_result i3 else exe_res_se ?e)"
    using mem by (simp add: backend_wbk_def wbk_method_def rm(1) mem_payload_def re(1) exec_payload_def)
  then show "reg_read (EXE_DEST_RD (back_rd b)) (REG_RR b3) =
      Some (if CSR_WENABLE_RD (back_rd b) then CSR_RDATA_RD (back_rd b)
        else if MULT_INST_RD (back_rd b) then x2_result i3 else exe_res_se ?e)"
    "retiring i3 b2 = [PC_DEC2EXE_RD (back_rd b)]"
    using backend_hop_wbk [OF assms(3,15) reg2 rm(2) back_rm(1) nz]
    by (simp_all add: back_rm(2) assms(9) retiring_def rm(1) mem_payload_def re(1) exec_payload_def)
qed

text \<open>
  C6: a register instruction that decode has issued computes its result in the execute stage
  and leaves it in its destination register three cycles later: whatever the FIFOs held and
  whatever else happens in those cycles, if execute and then memory hand the instruction on and
  no trap is taken ahead of it, the register file holds the result of the instruction set for
  the operands execute used, and the instruction retires in the third cycle.
\<close>

theorem instruction_retires:
  assumes "back_rd b = dec_issue u i rd fb re rm s" "EXE_DEST_RD (back_rd b) \<noteq> 0"
    and "rv_result (INSTR_RI i) (PC_IF2DEC_RI i) (op1_se (backend_exec i1 b))
      (op2_se (backend_exec i1 b)) = Some v"
    and "opcode (INSTR_RI i) \<noteq> 0b0000011" "opcode (INSTR_RI i) \<noteq> 0b0100011"
    and "\<not> EXCEPTION_RD (back_rd b)" "\<not> blocked (backend_exec i1 b)"
    and "opcode (INSTR_RI i) = 0b0110111 \<Longrightarrow> RDATA2_SR i = 0"
    and "READ_PC_SR i = PC_IF2DEC_RI i + 4"
    and "started b" "reg_inv (REG_RR b)"
    and "RESET_N (reg_ports i3)"
    and "\<not> mem.EXCEPTION_SM (backend_mem i1 b)" "exe2mem_push_se (backend_exec i1 b)"
    and "mem2wbk_push_sm (backend_mem i2 b1)"
    and "backend_cycle i1 b = Some b1" "backend_cycle i2 b1 = Some b2" "backend_cycle i3 b2 = Some b3"
  shows "reg_read (rng 11 7 (INSTR_RI i)) (REG_RR b3) = Some v \<and>
    retiring i3 b2 = [PC_IF2DEC_RI i]"
proof -
  note wr = issue_writes [OF assms(3-5) assms(1)]
  have res: "exe_res_se (backend_exec i1 b) = v"
    using issue_exec_result [OF assms(3) _ refl refl _ assms(8,9), of "backend_exec_env i1 b"
        u rd fb re rm s "back_re b" "back_rm b" "exec_inst b"] assms(1,7)
    by (simp add: backend_exec_def)
  have dest: "take_bit 5 (EXE_DEST_RD (back_rd b)) = EXE_DEST_RD (back_rd b)"
    unfolding wr(1) by (rule dest_field)
  from backend_three_cycles [OF assms(10-12,6) wr(2-4) assms(2) dest assms(13-18)]
  show ?thesis using wr res by simp
qed

subsection \<open>Instances\<close>

text \<open>\<open>add x3, x1, x2\<close> with 6 in both registers, alone in the pipeline.\<close>

definition add_issued :: dec2exe_out where
  "add_issued = issue_alone (dec_in_at_100 0x002081B3)"

definition back_add :: backend where
  "back_add =
     \<lparr>dec2exe = \<lparr>fifo_v = True, DOUT_R = dec2exe_pack add_issued, wait_left = 1\<rparr>,
      exe2mem = \<lparr>fifo_v = False, DOUT_R = 0, wait_left = 1\<rparr>,
      mem2wbk = \<lparr>fifo_v = False, DOUT_R = 0, wait_left = 1\<rparr>,
      exec_inst = exec_reset, mem_inst = mem_user, REG_RR = reg_reset 0\<rparr>"

definition back_idle :: backend_in where
  "back_idle =
     \<lparr>dec2exe_push_sd = False, dec2exe_in_sd = 0, exec_ports = exec_env_reset,
      mem_ports = mem_env_idle, x2_result = 0, reg_ports = reg_in_run\<rparr>"

lemma back_add_sel:
  "back_rd back_add = add_issued" "back_re back_add = exe2mem_unconcat 0"
  "back_rm back_add = mem2wbk_unconcat 0" "fifo_v (dec2exe back_add)"
  "\<not> fifo_v (exe2mem back_add)" "\<not> fifo_v (mem2wbk back_add)" "started back_add"
  "REG_RR back_add = reg_reset 0" "exec_inst back_add = exec_reset" "mem_inst back_add = mem_user"
  by (simp_all add: back_add_def unconcat_dec2exe_dec2exe_pack started_def)

lemma add_issued_flags: "\<not> EXCEPTION_RD add_issued"
proof -
  have "r_type_inst_sd (ity 0x002081B3)"
    by (simp add: decoding_instruction_type_def add_fields)
  moreover from this have "\<not> illegal_instruction_sd
      (dec_post_reg_read u (dec_in_at_100 0x002081B3) (ity 0x002081B3) f b s)" for u f b s
    by (simp add: dec_post_reg_read_def dec_post_alu_def dec_alu_operands_def dec_locals_init_def
        dec_illegal_fields_def add_fields Let_def split_beta)
  ultimately show ?thesis
    by (simp add: add_issued_def dec_issue_def dec_payload_def Let_def dec_settle_parts
        decoding_instruction_flags add_fields dec_pre_reg_read_def dec_set_regs_def
        dec_post_reg_read_alu dec_pc_inc_def dec_next_pc_def dec_if2dec_def)
qed

lemma add_issued_operands: "OP1_RD add_issued = 6" "OP2_RD add_issued = 6" "EXE_DEST_RD add_issued = 3"
proof -
  have t: "r_type_inst_sd (ity 0x002081B3)"
    by (simp add: decoding_instruction_type_def add_fields)
  then show "OP1_RD add_issued = 6" "OP2_RD add_issued = 6"
    by (simp_all add: add_issued_def dec_issue_alu [OF refl _ refl refl] dec_alu_operands_def
        decoding_instruction_type_def add_fields dec_alone_operands)
  show "EXE_DEST_RD add_issued = 3"
    using t by (simp add: add_issued_def dec_issue_def dec_payload_def Let_def dec_settle_parts(1)
        dec_pre_reg_read_def dec_set_regs_def rng_def)
qed

lemma exec_alone_pushes:
  assumes "\<not> exec_env.EXCEPTION_SM env" "\<not> exe2mem_full_se env" "\<not> exec_env.DEC2EXE_EMPTY_SD env"
    "\<not> DIV_BUSY_SE env"
  shows "exe2mem_push_se (exec_settle env p (exe2mem_unconcat 0) (mem2wbk_unconcat 0) x)"
proof -
  have "r1_valid_se (exec_settle env p (exe2mem_unconcat 0) (mem2wbk_unconcat 0) x)"
    "r2_valid_se (exec_settle env p (exe2mem_unconcat 0) (mem2wbk_unconcat 0) x)"
    by (simp_all add: exec_bypasses_def split_beta exec_bypass_rs1_def exec_bypass_rs2_def Let_def
        exe2mem_unconcat_def mem2wbk_unconcat_def)
  then show ?thesis
    using exec_handshake [of env p "exe2mem_unconcat 0" "mem2wbk_unconcat 0" x] exec_alone(3) assms
    unfolding Let_def by blast
qed

lemma mem_no_exception:
  "\<not> EXCEPTION_RE re \<Longrightarrow> \<not> BUS_ERROR_SX env \<Longrightarrow> mem_trap_to_handle env = 0 \<Longrightarrow>
     \<not> mem.EXCEPTION_SM (mem_settle env re rm s)"
  by (simp add: mem_settle_def mem_csr_settle_def mem_csr_exception_def mem_csr_write_def Let_def)

lemma back_add_cycle1:
  "\<not> mem.EXCEPTION_SM (backend_mem back_idle back_add)"
  "op1_se (backend_exec back_idle back_add) = 6" "op2_se (backend_exec back_idle back_add) = 6"
  "\<not> blocked (backend_exec back_idle back_add)"
  "exe2mem_push_se (backend_exec back_idle back_add)"
proof -
  show exc: "\<not> mem.EXCEPTION_SM (backend_mem back_idle back_add)"
    unfolding backend_mem_def back_add_sel
    by (rule mem_no_exception) (simp_all add: exe2mem_unconcat_def [of 0] backend_mem_env_def
        back_idle_def mem_env_idle_def mem_trap_to_handle_def)
  show "op1_se (backend_exec back_idle back_add) = 6" "op2_se (backend_exec back_idle back_add) = 6"
    "\<not> blocked (backend_exec back_idle back_add)"
    unfolding backend_exec_def back_add_sel
    by (simp_all only: exec_alone add_issued_operands, simp)
  show "exe2mem_push_se (backend_exec back_idle back_add)"
    unfolding backend_exec_def back_add_sel
    by (rule exec_alone_pushes) (use exc in \<open>simp_all add: backend_exec_env_def Let_def
      fifo_FULL_def fifo_EMPTY_def back_add_sel back_idle_def exec_env_reset_def\<close>)
qed

lemma back_add_runs:
  obtains b1 b2 b3 where "backend_cycle back_idle back_add = Some b1"
    "backend_cycle back_idle b1 = Some b2" "backend_cycle back_idle b2 = Some b3"
    "mem2wbk_push_sm (backend_mem back_idle b1)"
proof -
  have "reg_inv (REG_RR back_add)" by (simp add: back_add_sel reg_inv_reset)
  then obtain b1 where b1: "backend_cycle back_idle back_add = Some b1" "reg_inv (REG_RR b1)"
    using backend_cycle_registers by blast
  then obtain b2 where b2: "backend_cycle back_idle b1 = Some b2" "reg_inv (REG_RR b2)"
    using backend_cycle_registers by blast
  then obtain b3 where b3: "backend_cycle back_idle b2 = Some b3"
    using backend_cycle_registers by blast
  have "\<not> MEM2WBK_POP_SW (backend_wbk back_idle back_add)" "\<not> EXE2MEM_POP_SM (backend_mem back_idle back_add)"
    by (simp_all add: backend_wbk_def wbk_method_def backend_mem_def mem_handshake
        backend_mem_env_def fifo_EMPTY_def back_add_sel)
  moreover from this have "\<not> mem2wbk_push_sm (backend_mem back_idle back_add)"
    by (simp add: backend_mem_def mem_handshake)
  ultimately have "fifo_v (exe2mem b1)" "\<not> fifo_v (mem2wbk b1)"
    using backend_cycle_fifos(2,3) [OF back_add_sel(7) b1(1)] back_add_cycle1(5) back_add_sel(5,6)
    by (simp_all add: fifo_function_loop_def)
  then have "mem2wbk_push_sm (backend_mem back_idle b1)"
    by (simp add: backend_mem_def mem_handshake backend_mem_env_def fifo_FULL_def fifo_EMPTY_def
        back_idle_def mem_env_idle_def)
  then show thesis using that b1(1) b2(1) b3 by blast
qed

theorem instruction_retires_witness:
  "\<exists>b1 b2 b3. backend_cycle back_idle back_add = Some b1 \<and> backend_cycle back_idle b1 = Some b2 \<and>
     backend_cycle back_idle b2 = Some b3 \<and> reg_read 3 (REG_RR b3) = Some 12"
proof -
  obtain b1 b2 b3 where runs: "backend_cycle back_idle back_add = Some b1"
    "backend_cycle back_idle b1 = Some b2" "backend_cycle back_idle b2 = Some b3"
    "mem2wbk_push_sm (backend_mem back_idle b1)"
    by (rule back_add_runs)
  have rst: "RESET_N (reg_ports back_idle)" by (simp add: back_idle_def reg_in_run_def)
  have inv: "reg_inv (REG_RR back_add)" by (simp add: back_add_sel reg_inv_reset)
  have rd: "back_rd back_add = issue_alone (dec_in_at_100 0x002081B3)"
    by (simp add: back_add_sel add_issued_def)
  have res: "rv_result (INSTR_RI (dec_in_at_100 0x002081B3)) (PC_IF2DEC_RI (dec_in_at_100 0x002081B3))
      (op1_se (backend_exec back_idle back_add)) (op2_se (backend_exec back_idle back_add)) = Some 12"
    by (simp add: back_add_cycle1 rv_result_def opcode_def [symmetric] funct7_def [symmetric]
        funct3_def [symmetric] add_fields rv_op_def)
  have "reg_read (rng 11 7 (INSTR_RI (dec_in_at_100 0x002081B3))) (REG_RR b3) = Some 12"
    using instruction_retires [OF rd _ res _ _ _ back_add_cycle1(4) _ _ back_add_sel(7) inv rst
        back_add_cycle1(1,5) runs(4,1-3)] add_issued_operands(3) add_issued_flags add_fields(1)
    by (simp add: back_add_sel)
  then show ?thesis using runs(1-3) by (simp add: rng_def)
qed

text \<open>Decode sends a second instruction, from address \<open>0x104\<close>.\<close>

definition back_second :: backend_in where
  "back_second = back_idle\<lparr>dec2exe_push_sd := True,
     dec2exe_in_sd := dec2exe_pack (add_issued\<lparr>PC_DEC2EXE_RD := 0x104\<rparr>)\<rparr>"

lemma back_second_ports [simp]:
  "reg_ports back_second = reg_ports back_idle"
  "backend_wbk back_second b = backend_wbk back_idle b"
  "backend_mem back_second b = backend_mem back_idle b"
  "backend_exec back_second b = backend_exec back_idle b"
  by (simp_all add: back_second_def backend_exec_def backend_exec_env_def backend_mem_def
      backend_mem_env_def backend_wbk_def)


theorem backend_registers_safe_witness:
  "\<exists>b'. backend_run [back_second, back_idle] back_add = Some b' \<and> reg_read 0 (REG_RR b') = Some 0"
proof -
  have "reg_inv (REG_RR back_add)" by (simp add: back_add_sel reg_inv_reset)
  from backend_registers_safe [OF this, of "[back_second, back_idle]"] show ?thesis by blast
qed

end
