(* ===== verification/Ifetch.thy ===== *)
theory Ifetch
  imports Decode
begin

text \<open>
  The fetch stage (\<open>SIM/SystemC/CORE/IFETCH/ifetch.cpp\<close>): the address for the instruction cache,
  the handshakes with the two FIFOs to and from decode, and the fields of the instruction FIFO
  that decode reads.  At this commit the file does not compile: the signal \<open>pb_taken\<close> is not
  declared, and the bits 64 to 101 that the prediction writes into the payload do not fit the
  97 bits of the FIFO.  \<open>pb_taken\<close> is an input here, and the payload is modelled in its low 64 bits,
  the instruction and its address.

  The main theorem puts decode, the FIFO to fetch and fetch together: after a wrong prediction the
  FIFO to fetch always has room for the right address, and the instructions fetched behind the
  branch are dropped.
\<close>

subsection \<open>Signals and operations\<close>

record ifetch_in =
  INST_SIC :: u32
  STALL_SIC :: bool
  DEC2IF_EMPTY_SI :: bool
  PC_RD_in :: u32
  IF2DEC_FLUSH_in :: bool
  PRED_BRANCH_MISS_OUT_SP :: bool
  PRED_BRANCH_TARGET_ADR_OUT_SP :: u32
  pb_taken :: bool
  EXCEPTION_SM_in :: bool
  if2dec_full :: bool
  if2dec_out :: "97 word"

record ifetch =
  PC_SI :: u32
  if2dec_low :: u64
  PRED_TAKEN_out :: bool
  PRED_BRANCH_ADR_out :: u32
  INSTR_out :: u32
  PC_IF2DEC_out :: u32
  if2dec_push :: bool
  DEC2IF_POP_SI :: bool
  PC_VALID_SI :: bool

definition ifetch_pc :: "ifetch_in \<Rightarrow> u32" where
  "ifetch_pc i =
     (if PRED_BRANCH_MISS_OUT_SP i \<and> pb_taken i then PRED_BRANCH_TARGET_ADR_OUT_SP i
      else PC_RD_in i)"

definition ifetch_fetch_method :: "ifetch_in \<Rightarrow> ifetch \<Rightarrow> ifetch" where
  "ifetch_fetch_method i s =
     (if \<not> EXCEPTION_SM_in i then
        (let dout = if2dec_out i;
             s1 = s\<lparr>PC_SI := ifetch_pc i,
                    if2dec_low := put 31 0 (ifetch_pc i) (put 63 32 (INST_SIC i) 0),
                    PRED_TAKEN_out := bit dout 96, PRED_BRANCH_ADR_out := rng 95 64 dout,
                    INSTR_out := rng 63 32 dout, PC_IF2DEC_out := rng 31 0 dout\<rparr>
         in if IF2DEC_FLUSH_in i then
              s1\<lparr>if2dec_push := False, DEC2IF_POP_SI := True, PC_VALID_SI := False\<rparr>
            else
              (let stall = STALL_SIC i \<or> if2dec_full i \<or> DEC2IF_EMPTY_SI i
               in s1\<lparr>if2dec_push := \<not> stall, DEC2IF_POP_SI := \<not> stall,
                     PC_VALID_SI := \<not> DEC2IF_EMPTY_SI i\<rparr>))
      else
        s\<lparr>if2dec_low := put 31 0 (ifetch_pc i) (put 63 32 (0x0000013 :: u32) 0),
          PC_SI := ifetch_pc i, if2dec_push := True, DEC2IF_POP_SI := True,
          PC_VALID_SI := False\<rparr>)"

text \<open>\<open>EXCEPTION_RI\<close> is constant.\<close>

definition ifetch_exception :: bool where
  "ifetch_exception = False"

subsection \<open>Handshake\<close>

lemma ifetch_pop_on_flush:
  "\<not> EXCEPTION_SM_in i \<Longrightarrow> IF2DEC_FLUSH_in i \<Longrightarrow>
     DEC2IF_POP_SI (ifetch_fetch_method i s) \<and> \<not> if2dec_push (ifetch_fetch_method i s)"
  by (simp add: ifetch_fetch_method_def Let_def)

text \<open>
  fetch takes an address from decode exactly when it hands an instruction over or drops it in a
  flush or an exception; outside exceptions it never pushes into a full FIFO and never fetches
  without an address or while the cache stalls, and what it hands over is the instruction of
  the cache with the address it asked for.
\<close>

theorem ifetch_handshake:
  "let f = ifetch_fetch_method i s in
    (DEC2IF_POP_SI f \<longleftrightarrow> if2dec_push f \<or> (\<not> EXCEPTION_SM_in i \<and> IF2DEC_FLUSH_in i)) \<and>
    (\<not> EXCEPTION_SM_in i \<and> if2dec_push f \<longrightarrow>
       \<not> if2dec_full i \<and> \<not> STALL_SIC i \<and> \<not> DEC2IF_EMPTY_SI i \<and> PC_VALID_SI f \<and>
       rng 63 32 (if2dec_low f) = INST_SIC i \<and> rng 31 0 (if2dec_low f) = PC_SI f) \<and>
    (EXCEPTION_SM_in i \<longrightarrow> if2dec_push f \<and> rng 63 32 (if2dec_low f) = (0x13 :: u32))"
proof -
  have "(rng 63 32 (put 31 0 (a :: u32) (put 63 32 (b :: u32) (0 :: u64))) :: u32) = b"
    "(rng 31 0 (put 31 0 (a :: u32) (put 63 32 (b :: u32) (0 :: u64))) :: u32) = a" for a b
    by (rule bit_word_eqI; auto simp: bit_rng bit_put)+
  then show ?thesis
    by (simp add: ifetch_fetch_method_def Let_def)
qed

subsection \<open>Redirection after a wrong prediction\<close>

lemma dec_flush_redirects:
  assumes "\<not> EXCEPTION_SM i" "IF2DEC_FLUSH_SD (D_pc d)" "\<not> dec2if_full_sd i"
    and d: "d = dec_settle u i rd fb re rm s"
  shows "dec2if_push_sd (D_pc d) \<and> IF2DEC_POP_SD (D_pc d) \<and>
    res_pc_sd (D_pc d) = (if jump_sd (D_ops d) then branch_adr_sd (D_pc d) else PC_IF2DEC_RI i + 4)"
proof -
  have st: "\<not> stall_sd (D_stall d) \<Longrightarrow> \<not> IF2DEC_EMPTY_SI i"
    by (auto simp: d dec_settle_parts(4) dec_stall_settle_def dec_stall_method_def)
  have pc: "D_pc d = dec_pc_inc i (D_ops d) (D_stall d) fb (D_pc s)"
    by (simp add: d dec_settle_parts(5))
  show ?thesis
    using st assms(1-3) unfolding pc
    by (auto simp: dec_pc_inc_def dec_next_pc_def dec_if2dec_def Let_def split: if_splits)
qed

text \<open>
  C27: when decode flushes, with the FIFOs in whatever state, the FIFO from fetch is empty after the
  clock edge and the FIFO to fetch holds the payload with the address at which execution has to
  go on: fetch empties that FIFO in the same cycle, so the redirection is never lost.
\<close>

theorem fetch_redirected:
  assumes "\<not> EXCEPTION_SM i" "\<not> EXCEPTION_SM_in fi"
    and "d = dec_settle u i rd fb re rm s" "f = ifetch_fetch_method fi fs"
    and "IF2DEC_FLUSH_in fi = IF2DEC_FLUSH_SD (D_pc d)"
    and "dec2if_full_sd i = fifo_FULL to_fetch (DEC2IF_POP_SI f)"
    and "IF2DEC_FLUSH_SD (D_pc d)"
    and "t = decoding_instruction_type (INSTR_RI i)" "fl = decoding_instruction (INSTR_RI i)"
  shows "fifo_content (fifo_function_loop x (if2dec_push f) (IF2DEC_POP_SD (D_pc d)) from_fetch) = [] \<and>
    (\<exists>p. map unconcat_dec2if (fifo_content (fifo_function_loop
        (dec_concat_dec2if i t fl (D_reg d) (D_ops d) (D_pc d)) (dec2if_push_sd (D_pc d))
        (DEC2IF_POP_SI f) to_fetch)) = [p] \<and>
      PC_RD p = (if jump_sd (D_ops d) then branch_adr_sd (D_pc d) else PC_IF2DEC_RI i + 4))"
proof -
  have f: "DEC2IF_POP_SI f" "\<not> if2dec_push f"
    using ifetch_pop_on_flush [of fi fs] assms by auto
  then have "\<not> dec2if_full_sd i" using assms(6) by (simp add: fifo_FULL_def)
  note dec = dec_flush_redirects [OF assms(1,7) this assms(3)]
  then have "unconcat_dec2if (dec_concat_dec2if i t fl (D_reg d) (D_ops d) (D_pc d)) =
      dec_fetch_payload i t fl (D_reg d) (D_ops d) (D_pc d)"
    by (simp add: dec_concat_dec2if_def unconcat_dec2if_dec2if_pack)
  then show ?thesis
    using dec f by (simp add: fifo_function_loop_def fifo_content_def dec_fetch_payload_def Let_def)
qed

subsection \<open>Instances\<close>

definition ifetch_in_ready :: ifetch_in where
  "ifetch_in_ready = \<lparr>INST_SIC = 0x13, STALL_SIC = False, DEC2IF_EMPTY_SI = False,
     PC_RD_in = 0x108, IF2DEC_FLUSH_in = False, PRED_BRANCH_MISS_OUT_SP = False,
     PRED_BRANCH_TARGET_ADR_OUT_SP = 0, pb_taken = False, EXCEPTION_SM_in = False,
     if2dec_full = False, if2dec_out = 0\<rparr>"

definition ifetch_zero :: ifetch where
  "ifetch_zero = \<lparr>PC_SI = 0, if2dec_low = 0, PRED_TAKEN_out = False, PRED_BRANCH_ADR_out = 0,
     INSTR_out = 0, PC_IF2DEC_out = 0, if2dec_push = False, DEC2IF_POP_SI = False,
     PC_VALID_SI = False\<rparr>"

theorem ifetch_handshake_witness:
  "let f = ifetch_fetch_method ifetch_in_ready ifetch_zero in
   if2dec_push f \<and> DEC2IF_POP_SI f \<and> rng 63 32 (if2dec_low f) = (0x13 :: u32) \<and>
   rng 31 0 (if2dec_low f) = (0x108 :: u32)"
proof -
  have "if2dec_push (ifetch_fetch_method ifetch_in_ready ifetch_zero)"
    "PC_SI (ifetch_fetch_method ifetch_in_ready ifetch_zero) = 0x108"
    by (simp_all add: ifetch_fetch_method_def ifetch_in_ready_def ifetch_pc_def)
  then show ?thesis
    using ifetch_handshake [of ifetch_in_ready ifetch_zero]
    by (simp add: Let_def) (simp add: ifetch_in_ready_def)
qed

text \<open>\<open>jal x1, +16\<close> at \<open>0x100\<close>, with a wrong address waiting in the FIFO to fetch.\<close>

theorem fetch_redirected_witness:
  "\<exists>p. map unconcat_dec2if (fifo_content (fifo_function_loop
      (dec_concat_dec2if (dec_in_at_100 0x010000EF)
        (decoding_instruction_type 0x010000EF) (decoding_instruction 0x010000EF)
        (D_reg (dec_alone (dec_in_at_100 0x010000EF)))
        (D_ops (dec_alone (dec_in_at_100 0x010000EF)))
        (D_pc (dec_alone (dec_in_at_100 0x010000EF)))) True True
      \<lparr>fifo_v = True, DOUT_R = 0, wait_left = 1\<rparr>)) = [p] \<and> PC_RD p = 0x110"
proof -
  let ?i = "dec_in_at_100 0x010000EF"
  let ?d = "dec_alone ?i"
  have jump: "jump_sd (D_ops ?d)" "branch_adr_sd (D_pc ?d) = 0x110"
    unfolding dec_settle_parts(5) branch_adr
    by (simp_all add: dec_settle_parts(3) dec_post_reg_read_def Let_def jal_fields
        dec_jal_format dec_post_jump_def)
  have "\<not> stall_sd (D_stall ?d)"
    by (rule dec_alone_runs) simp_all
  then have flush: "IF2DEC_FLUSH_SD (D_pc ?d)" "dec2if_push_sd (D_pc ?d)"
    using jump(1) unfolding dec_settle_parts(5) [of _ ?i]
    by (simp_all add: dec_pc_inc_def dec_next_pc_def dec_if2dec_def Let_def)
  let ?fi = "ifetch_in_ready\<lparr>IF2DEC_FLUSH_in := True\<rparr>"
  let ?f = "ifetch_fetch_method ?fi ifetch_zero"
  have pop: "DEC2IF_POP_SI ?f" and fi: "\<not> EXCEPTION_SM_in ?fi" "IF2DEC_FLUSH_in ?fi"
    by (simp_all add: ifetch_fetch_method_def ifetch_in_ready_def)
  have i: "\<not> EXCEPTION_SM ?i" "INSTR_RI ?i = 0x010000EF" by simp_all
  have "IF2DEC_FLUSH_in ?fi = IF2DEC_FLUSH_SD (D_pc ?d)"
    "dec2if_full_sd ?i = fifo_FULL \<lparr>fifo_v = True, DOUT_R = 0, wait_left = 1\<rparr> (DEC2IF_POP_SI ?f)"
    using flush(1) fi(2) pop by (simp_all add: fifo_FULL_def)
  from fetch_redirected [OF i(1) fi(1) refl refl this flush(1) refl refl, of 0 "\<lparr>fifo_v = False, DOUT_R = 0, wait_left = 1\<rparr>"]
  show ?thesis
    using flush jump pop unfolding i(2) by auto
qed

end
