(* ===== verification/Core.thy ===== *)
theory Core
  imports Back_End Ifetch
begin

text \<open>
  The core (\<open>SIM/SystemC/CORE/core.h\<close>): fetch and decode with the FIFOs between them, put in
  front of the back end of \<open>Back_End\<close>, as the constructor of \<open>core\<close> connects them.

  One clock cycle settles the stages in the order in which their results flow and clocks the
  FIFOs and the registers (\<open>core_cycle\<close>).  Decode and fetch depend on each other both ways: what
  decode pops and flushes goes to fetch, what fetch pops decides whether decode finds the FIFO
  to fetch full.  Decode's pop and flush do not depend on that flag (\<open>core_dec_settled\<close>), so
  decode is evaluated once for them, then fetch, then decode again with the flag.

  The caches, the CSR unit, the divider, the multiplier pipeline and the branch prediction cache
  are the environment: their signals are the fields of \<open>core_in\<close>.  The FIFO from fetch carries
  97 bits, of which the prediction writes the bits from 64 on; these are an input, too, for the
  reason given in \<open>Ifetch\<close>.
\<close>

subsection \<open>State and inputs\<close>

record core =
  if2dec :: "97 word fifo"
  dec2if :: "134 word fifo"
  ifetch_inst :: ifetch
  dec_inst :: dec
  back_end :: backend

text \<open>
  The fields of \<open>fetch_ports\<close>, \<open>dec_ports\<close> and \<open>back_ports\<close> that \<open>core.h\<close> connects inside the
  core are overwritten below.
\<close>

record core_in =
  fetch_ports :: ifetch_in
  if2dec_high :: "33 word"
  dec_ports :: dec_in
  dec_uninits :: dec_uninit
  back_ports :: backend_in

subsection \<open>The connections\<close>

definition core_mem :: "core_in \<Rightarrow> core \<Rightarrow> mem" where
  "core_mem i c = backend_mem (back_ports i) (back_end c)"

definition core_fetch_in :: "core_in \<Rightarrow> core \<Rightarrow> bool \<Rightarrow> bool \<Rightarrow> ifetch_in" where
  "core_fetch_in i c flush pop =
     (fetch_ports i)\<lparr>DEC2IF_EMPTY_SI := fifo_EMPTY (dec2if c),
       PC_RD_in := PC_RD (unconcat_dec2if (DOUT_R (dec2if c))),
       IF2DEC_FLUSH_in := flush,
       EXCEPTION_SM_in := mem.EXCEPTION_SM (core_mem i c),
       if2dec_full := fifo_FULL (if2dec c) pop,
       if2dec_out := DOUT_R (if2dec c)\<rparr>"

definition core_fetch_at :: "core_in \<Rightarrow> core \<Rightarrow> bool \<Rightarrow> bool \<Rightarrow> ifetch" where
  "core_fetch_at i c flush pop = ifetch_fetch_method (core_fetch_in i c flush pop) (ifetch_inst c)"

text \<open>
  The inputs of decode, first without those that are answers to its own outputs.  The register
  file answers the addresses that \<open>pre_reg_read_decoding\<close> puts out; they have five significant
  bits, so that both reads are defined (\<open>core_reads_defined\<close>).
\<close>

definition core_dec_fixed :: "core_in \<Rightarrow> core \<Rightarrow> dec_in" where
  "core_dec_fixed i c =
     (let b = back_end c; m = core_mem i c; f = core_fetch_at i c False False
      in (dec_ports i)\<lparr>INSTR_RI := INSTR_out f, PC_IF2DEC_RI := PC_IF2DEC_out f,
           IF2DEC_EMPTY_SI := fifo_EMPTY (if2dec c),
           PRED_BRANCH_ADR_RI := PRED_BRANCH_ADR_out f, PRED_TAKEN_RI := PRED_TAKEN_out f,
           dec_in.CURRENT_MODE_SM := mem.CURRENT_MODE_SM m,
           dec_in.EXCEPTION_SM := mem.EXCEPTION_SM m,
           dec_in.MCAUSE_WDATA_SM := mem.MCAUSE_WDATA_SM m,
           dec_in.MRET_SM := mem.MRET_SM m,
           dec_in.RETURN_ADRESS_SM := mem.RETURN_ADRESS_SM m,
           dec_in.EXE2MEM_EMPTY_SE := fifo_EMPTY (exe2mem b),
           dec_in.MEM2WBK_EMPTY_SM := fifo_EMPTY (mem2wbk b),
           dec_in.DEC2EXE_EMPTY_SD := fifo_EMPTY (dec2exe b),
           dec2exe_full_sd := backend_full (back_ports i) b,
           dec2if_empty_sd := fifo_EMPTY (dec2if c)\<rparr>)"

definition core_reads :: "core_in \<Rightarrow> core \<Rightarrow> u32 option \<times> u32 option \<times> u32" where
  "core_reads i c =
     (let x = core_dec_fixed i c;
          r = dec_pre_reg_read x (decoding_instruction_type (INSTR_RI x))
                (decoding_instruction (INSTR_RI x)) (D_reg (dec_inst c))
      in reg_reading_adresses (RADR1_SD r) (RADR2_SD r) (reg_ports (back_ports i))
           (REG_RR (back_end c)))"

definition core_dec_in :: "core_in \<Rightarrow> core \<Rightarrow> bool \<Rightarrow> dec_in" where
  "core_dec_in i c full =
     (let (r1, r2, pc) = core_reads i c
      in (core_dec_fixed i c)\<lparr>dec2if_full_sd := full, RDATA1_SR := the r1, RDATA2_SR := the r2,
           READ_PC_SR := pc\<rparr>)"

abbreviation "core_fb c \<equiv> unconcat_dec2if (DOUT_R (dec2if c))"

definition core_dec_at :: "core_in \<Rightarrow> core \<Rightarrow> bool \<Rightarrow> dec" where
  "core_dec_at i c full =
     dec_settle (dec_uninits i) (core_dec_in i c full) (back_rd (back_end c)) (core_fb c)
       (back_re (back_end c)) (back_rm (back_end c)) (dec_inst c)"

definition core_fetch :: "core_in \<Rightarrow> core \<Rightarrow> ifetch" where
  "core_fetch i c =
     (let p = D_pc (core_dec_at i c False)
      in core_fetch_at i c (IF2DEC_FLUSH_SD p) (IF2DEC_POP_SD p))"

definition core_full :: "core_in \<Rightarrow> core \<Rightarrow> bool" where
  "core_full i c = fifo_FULL (dec2if c) (DEC2IF_POP_SI (core_fetch i c))"

abbreviation "core_dec_ports i c \<equiv> core_dec_in i c (core_full i c)"

definition core_dec :: "core_in \<Rightarrow> core \<Rightarrow> dec" where
  "core_dec i c = core_dec_at i c (core_full i c)"

text \<open>What decode sends to the execute stage, and the program counter it writes.\<close>

definition core_back_in :: "core_in \<Rightarrow> core \<Rightarrow> backend_in" where
  "core_back_in i c =
     (let d = core_dec i c; x = core_dec_ports i c
      in (back_ports i)\<lparr>dec2exe_push_sd := dec_pc.dec2exe_push_sd (D_pc d),
           dec2exe_in_sd := dec_concat_dec2exe x (decoding_instruction (INSTR_RI x))
             (D_reg d) (D_byp d) (D_ops d) (D_pc d),
           reg_ports := (reg_ports (back_ports i))
             \<lparr>reg_in.WRITE_PC_SD := dec_pc.WRITE_PC_SD (D_pc d),
              reg_in.WRITE_PC_ENABLE_SD := dec_pc.WRITE_PC_ENABLE_SD (D_pc d)\<rparr>\<rparr>)"

definition core_cycle :: "core_in \<Rightarrow> core \<Rightarrow> core option" where
  "core_cycle i c =
     (let f = core_fetch i c; d = core_dec i c; x = core_dec_ports i c;
          t = decoding_instruction_type (INSTR_RI x); fl = decoding_instruction (INSTR_RI x)
      in map_option (\<lambda>b.
           \<lparr>if2dec = fifo_clock (word_cat (if2dec_high i) (if2dec_low f)) (if2dec_push f)
              (IF2DEC_POP_SD (D_pc d)) (if2dec c),
            dec2if = fifo_clock (dec_concat_dec2if x t fl (D_reg d) (D_ops d) (D_pc d))
              (dec2if_push_sd (D_pc d)) (DEC2IF_POP_SI f) (dec2if c),
            ifetch_inst = f, dec_inst = d, back_end = b\<rparr>)
         (backend_cycle (core_back_in i c) (back_end c)))"

fun core_run :: "core_in list \<Rightarrow> core \<Rightarrow> core option" where
  "core_run [] c = Some c"
| "core_run (i # is) c = Option.bind (core_cycle i c) (core_run is)"

subsection \<open>The settled signals\<close>

lemma core_back_same [simp]:
  "backend_wbk (core_back_in i c) b = backend_wbk (back_ports i) b"
  "backend_mem (core_back_in i c) b = backend_mem (back_ports i) b"
  "backend_exec (core_back_in i c) b = backend_exec (back_ports i) b"
  "backend_exec_env (core_back_in i c) b = backend_exec_env (back_ports i) b"
  "backend_full (core_back_in i c) b = backend_full (back_ports i) b"
  "RESET_N (reg_ports (core_back_in i c)) = RESET_N (reg_ports (back_ports i))"
  by (simp_all add: core_back_in_def Let_def backend_full_def backend_exec_def
      backend_exec_env_def backend_mem_def backend_mem_env_def backend_wbk_def)

lemma core_dec_in_sel:
  "core_dec_in i c full = (core_dec_in i c False)\<lparr>dec2if_full_sd := full\<rparr>"
  "INSTR_RI (core_dec_in i c full) = INSTR_RI (core_dec_fixed i c)"
  by (simp_all add: core_dec_in_def split_beta)

text \<open>Only the program counter part of decode looks at the FIFO to fetch.\<close>

lemma dec_full_sel:
  "INSTR_RI (i\<lparr>dec2if_full_sd := full\<rparr>) = INSTR_RI i"
  "PC_IF2DEC_RI (i\<lparr>dec2if_full_sd := full\<rparr>) = PC_IF2DEC_RI i"
  "IF2DEC_EMPTY_SI (i\<lparr>dec2if_full_sd := full\<rparr>) = IF2DEC_EMPTY_SI i"
  "PRED_BRANCH_ADR_RI (i\<lparr>dec2if_full_sd := full\<rparr>) = PRED_BRANCH_ADR_RI i"
  "PRED_TAKEN_RI (i\<lparr>dec2if_full_sd := full\<rparr>) = PRED_TAKEN_RI i"
  "RDATA1_SR (i\<lparr>dec2if_full_sd := full\<rparr>) = RDATA1_SR i"
  "RDATA2_SR (i\<lparr>dec2if_full_sd := full\<rparr>) = RDATA2_SR i"
  "READ_PC_SR (i\<lparr>dec2if_full_sd := full\<rparr>) = READ_PC_SR i"
  "CSR_RDATA_SC (i\<lparr>dec2if_full_sd := full\<rparr>) = CSR_RDATA_SC i"
  "dec_in.KERNEL_ADR_SC (i\<lparr>dec2if_full_sd := full\<rparr>) = dec_in.KERNEL_ADR_SC i"
  "dec_in.CURRENT_MODE_SM (i\<lparr>dec2if_full_sd := full\<rparr>) = dec_in.CURRENT_MODE_SM i"
  "dec_in.EXCEPTION_SM (i\<lparr>dec2if_full_sd := full\<rparr>) = dec_in.EXCEPTION_SM i"
  "dec_in.EXE2MEM_EMPTY_SE (i\<lparr>dec2if_full_sd := full\<rparr>) = dec_in.EXE2MEM_EMPTY_SE i"
  "dec_in.MEM2WBK_EMPTY_SM (i\<lparr>dec2if_full_sd := full\<rparr>) = dec_in.MEM2WBK_EMPTY_SM i"
  "dec_in.DEC2EXE_EMPTY_SD (i\<lparr>dec2if_full_sd := full\<rparr>) = dec_in.DEC2EXE_EMPTY_SD i"
  "dec2exe_full_sd (i\<lparr>dec2if_full_sd := full\<rparr>) = dec2exe_full_sd i"
  by simp_all

lemma dec_full_parts:
  "dec_env_call (i\<lparr>dec2if_full_sd := full\<rparr>) = dec_env_call i"
  "dec_xret (i\<lparr>dec2if_full_sd := full\<rparr>) = dec_xret i"
  "dec_alu_operands (i\<lparr>dec2if_full_sd := full\<rparr>) = dec_alu_operands i"
  "dec_csr_operands (i\<lparr>dec2if_full_sd := full\<rparr>) = dec_csr_operands i"
  unfolding fun_eq_iff dec_env_call_def dec_xret_def dec_alu_operands_def dec_csr_operands_def
    dec_full_sel
  by (intro allI refl)+

lemma dec_full_branches:
  "dec_post_alu (i\<lparr>dec2if_full_sd := full\<rparr>) = dec_post_alu i"
  "dec_post_store (i\<lparr>dec2if_full_sd := full\<rparr>) = dec_post_store i"
  "dec_post_branch (i\<lparr>dec2if_full_sd := full\<rparr>) = dec_post_branch i"
  "dec_post_jump (i\<lparr>dec2if_full_sd := full\<rparr>) = dec_post_jump i"
  "dec_post_system (i\<lparr>dec2if_full_sd := full\<rparr>) = dec_post_system i"
  unfolding fun_eq_iff dec_post_alu_def dec_post_store_def dec_post_branch_def dec_post_jump_def
    dec_post_system_def dec_full_parts dec_full_sel
  by (intro allI refl)+

lemma dec_pre_reg_read_full:
  "dec_pre_reg_read (i\<lparr>dec2if_full_sd := full\<rparr>) t f s = dec_pre_reg_read i t f s"
  unfolding dec_pre_reg_read_def dec_full_parts dec_full_sel by (rule refl)

lemma dec_bypass_full:
  "dec_bypass (i\<lparr>dec2if_full_sd := full\<rparr>) f rd re rm = dec_bypass i f rd re rm"
  unfolding fun_eq_iff dec_bypass_def dec_full_sel by (intro allI refl)

lemma dec_bypasses_full:
  "dec_bypasses (i\<lparr>dec2if_full_sd := full\<rparr>) f r rd re rm s = dec_bypasses i f r rd re rm s"
  unfolding dec_bypasses_def dec_bypass_full dec_full_sel by (rule refl)

lemma dec_stall_full:
  "dec_stall_settle (i\<lparr>dec2if_full_sd := full\<rparr>) t b rd re s = dec_stall_settle i t b rd re s"
  unfolding dec_stall_settle_def dec_stall_method_def dec_full_sel by (rule refl)

lemma dec_post_reg_read_full:
  "dec_post_reg_read u (i\<lparr>dec2if_full_sd := full\<rparr>) t f b s = dec_post_reg_read u i t f b s"
  unfolding dec_post_reg_read_def dec_full_branches dec_full_sel by (rule refl)

lemma core_dec_settled:
  "D_reg (core_dec_at i c full) = D_reg (core_dec_at i c False)"
  "D_byp (core_dec_at i c full) = D_byp (core_dec_at i c False)"
  "D_ops (core_dec_at i c full) = D_ops (core_dec_at i c False)"
  "D_stall (core_dec_at i c full) = D_stall (core_dec_at i c False)"
proof -
  note full = core_dec_in_sel(1) [of i c full]
  show reg: "D_reg (core_dec_at i c full) = D_reg (core_dec_at i c False)"
    unfolding core_dec_at_def dec_settle_parts(1) full dec_full_sel dec_pre_reg_read_full ..
  show byp: "D_byp (core_dec_at i c full) = D_byp (core_dec_at i c False)"
    using reg unfolding core_dec_at_def dec_settle_parts(2) full dec_full_sel dec_bypasses_full
    by simp
  show "D_ops (core_dec_at i c full) = D_ops (core_dec_at i c False)"
    using byp unfolding core_dec_at_def dec_settle_parts(3) full dec_full_sel dec_post_reg_read_full
    by simp
  show "D_stall (core_dec_at i c full) = D_stall (core_dec_at i c False)"
    using byp unfolding core_dec_at_def dec_settle_parts(4) full dec_full_sel dec_stall_full
    by simp
qed

lemma dec_pc_inc_full:
  "IF2DEC_POP_SD (dec_pc_inc (i\<lparr>dec2if_full_sd := full\<rparr>) ops st fb s) =
     IF2DEC_POP_SD (dec_pc_inc i ops st fb s)"
  "IF2DEC_FLUSH_SD (dec_pc_inc (i\<lparr>dec2if_full_sd := full\<rparr>) ops st fb s) =
     IF2DEC_FLUSH_SD (dec_pc_inc i ops st fb s)"
  by (simp_all add: dec_pc_inc_def Let_def split_beta dec_if2dec_def dec_exception_pc_def)

lemma core_dec_flags:
  "IF2DEC_POP_SD (D_pc (core_dec_at i c full)) = IF2DEC_POP_SD (D_pc (core_dec_at i c False))"
  "IF2DEC_FLUSH_SD (D_pc (core_dec_at i c full)) = IF2DEC_FLUSH_SD (D_pc (core_dec_at i c False))"
  using core_dec_settled(3,4) [of i c full] core_dec_in_sel(1) [of i c full]
  unfolding core_dec_at_def dec_settle_parts(5) by (simp_all add: dec_pc_inc_full)

lemma core_fetch_settled:
  "core_fetch i c = core_fetch_at i c (IF2DEC_FLUSH_SD (D_pc (core_dec i c)))
     (IF2DEC_POP_SD (D_pc (core_dec i c)))"
  by (simp add: core_fetch_def core_dec_def core_dec_flags [of i c "core_full i c"] Let_def)

lemma core_dec_eq:
  "core_dec i c = dec_settle (dec_uninits i) (core_dec_ports i c) (back_rd (back_end c)) (core_fb c)
     (back_re (back_end c)) (back_rm (back_end c)) (dec_inst c)"
  by (simp add: core_dec_def core_dec_at_def)

lemma dec_read_address:
  "unat (RADR1_SD (dec_pre_reg_read i t f s)) < 32" "unat (RADR2_SD (dec_pre_reg_read i t f s)) < 32"
proof -
  have "unat (rng (n + 4) n ir :: u6) < 32" for n and ir :: u32
  proof -
    have "(rng (n + 4) n ir :: u6) = take_bit 5 (rng (n + 4) n ir)"
      by (rule bit_word_eqI) (auto simp: bit_rng bit_simps)
    then have "unat (rng (n + 4) n ir :: u6) = unat (take_bit 5 (rng (n + 4) n ir) :: u6)" by simp
    also have "\<dots> < 32" by (simp only: unsigned_take_bit_eq) (simp add: take_bit_eq_mod)
    finally show ?thesis .
  qed
  from this [of 15] this [of 20]
  have "unat (rng 19 15 (INSTR_RI i) :: u6) < 32" "unat (rng 24 20 (INSTR_RI i) :: u6) < 32"
    by simp_all
  then show "unat (RADR1_SD (dec_pre_reg_read i t f s)) < 32"
    "unat (RADR2_SD (dec_pre_reg_read i t f s)) < 32"
    by (simp_all add: dec_pre_reg_read_def dec_set_regs_def Let_def)
qed

lemma dec_pre_reg_read_cong:
  assumes "INSTR_RI i = INSTR_RI j" "dec_in.CURRENT_MODE_SM i = dec_in.CURRENT_MODE_SM j"
  shows "dec_pre_reg_read i t f s = dec_pre_reg_read j t f s"
proof -
  have "dec_env_call i = dec_env_call j" "dec_xret i = dec_xret j"
    by (simp_all only: fun_eq_iff dec_env_call_def dec_xret_def assms(2) simp_thms)
  then show ?thesis
    by (simp only: dec_pre_reg_read_def assms(1))
qed

lemma core_reads_defined:
  "RDATA1_SR (core_dec_in i c full) =
     REG_RR (back_end c) ! unat (RADR1_SD (D_reg (core_dec_at i c full)))"
  "RDATA2_SR (core_dec_in i c full) =
     REG_RR (back_end c) ! unat (RADR2_SD (D_reg (core_dec_at i c full)))"
  "READ_PC_SR (core_dec_in i c full) =
     (if RESET_N (reg_ports (back_ports i)) then REG_RR (back_end c) ! 32
      else PC_INIT (reg_ports (back_ports i)))"
proof -
  let ?x = "core_dec_fixed i c"
  have same: "dec_pre_reg_read (core_dec_in i c full) t f s = dec_pre_reg_read ?x t f s" for t f s
    by (rule dec_pre_reg_read_cong) (simp_all add: core_dec_in_def split_beta)
  show "RDATA1_SR (core_dec_in i c full) =
     REG_RR (back_end c) ! unat (RADR1_SD (D_reg (core_dec_at i c full)))"
    "RDATA2_SR (core_dec_in i c full) =
     REG_RR (back_end c) ! unat (RADR2_SD (D_reg (core_dec_at i c full)))"
    unfolding core_dec_at_def dec_settle_parts(1) same core_dec_in_sel(2)
    using dec_read_address [of ?x "ity (INSTR_RI ?x)" "ifl (INSTR_RI ?x)" "D_reg (dec_inst c)"]
    by (simp_all add: core_dec_in_def core_reads_def reg_reading_adresses_def reg_read_def Let_def)
  show "READ_PC_SR (core_dec_in i c full) =
     (if RESET_N (reg_ports (back_ports i)) then REG_RR (back_end c) ! 32
      else PC_INIT (reg_ports (back_ports i)))"
    by (simp add: core_dec_in_def core_reads_def reg_reading_adresses_def Let_def)
qed

end
