(* ===== verification/Core_Isa.thy ===== *)
theory Core_Isa
  imports Core
begin

text \<open>
  The core executes programs: a refinement of the sequential machine of the instruction set by
  the pipeline of \<open>Core\<close>, for the register, immediate, upper-immediate, jump, branch, load and
  store instructions (\<open>rv_plain\<close>).

  The abstract state of the pipeline is the program counter and the registers after the
  instructions that have left the execute stage (\<open>core_abs\<close>).  The invariant \<open>core_inv\<close> says
  that the registers of the abstract state are what the bypasses deliver, and that decode and
  fetch hold the instructions that come next.  Each cycle either leaves the abstract state as it
  is or is one step of the sequential machine, exactly when the execute stage takes an
  instruction.
\<close>

subsection \<open>The sequential machine\<close>

definition rv_rs1 :: "u32 \<Rightarrow> u6" where "rv_rs1 ir = rng 19 15 ir"
definition rv_rs2 :: "u32 \<Rightarrow> u6" where "rv_rs2 ir = rng 24 20 ir"
definition rv_rd :: "u32 \<Rightarrow> u6" where "rv_rd ir = rng 11 7 ir"

definition rv_offset_i :: "u32 \<Rightarrow> u32" where
  "rv_offset_i ir = scast (rng 31 20 ir :: 12 word)"

definition rv_offset_s :: "u32 \<Rightarrow> u32" where
  "rv_offset_s ir = scast (word_cat (rng 31 25 ir :: 7 word) (rng 11 7 ir :: 5 word) :: 12 word)"

definition rv_offset_b :: "u32 \<Rightarrow> u32" where
  "rv_offset_b ir =
     scast (push_bit 1 (word_cat (word_cat (rng 31 31 ir :: 1 word) (rng 7 7 ir :: 1 word) :: 2 word)
       (word_cat (rng 30 25 ir :: 6 word) (rng 11 8 ir :: 4 word) :: 10 word)) :: 13 word)"

definition rv_offset_j :: "u32 \<Rightarrow> u32" where
  "rv_offset_j ir =
     scast (push_bit 1 (word_cat (word_cat (rng 31 31 ir :: 1 word) (rng 19 12 ir :: 8 word) :: 9 word)
       (word_cat (rng 20 20 ir :: 1 word) (rng 30 21 ir :: 10 word) :: 11 word)) :: 21 word)"

definition rv_next :: "u32 \<Rightarrow> u32 \<Rightarrow> u32 \<Rightarrow> u32 \<Rightarrow> u32" where
  "rv_next ir pc a b =
     (if opcode ir = 0b1100011 \<and> rv_branch (funct3 ir) a b then pc + rv_offset_b ir
      else if opcode ir = 0b1101111 then pc + rv_offset_j ir
      else if opcode ir = 0b1100111 then (a + rv_offset_i ir) AND NOT 1
      else pc + 4)"

text \<open>A machine state is a program counter and the registers; register 0 stays as it is.\<close>

type_synonym rv_state = "u32 \<times> (u6 \<Rightarrow> u32)"

definition rv_write :: "u32 \<Rightarrow> u32 option \<Rightarrow> (u6 \<Rightarrow> u32) \<Rightarrow> u6 \<Rightarrow> u32" where
  "rv_write ir v x =
     (case v of None \<Rightarrow> x | Some y \<Rightarrow> if rv_rd ir = 0 then x else x(rv_rd ir := y))"

text \<open>Loads and stores: the bytes, and the address, which is a multiple of their number.\<close>

definition rv_stores :: "u32 \<Rightarrow> bool" where
  "rv_stores ir \<longleftrightarrow> opcode ir = 0b0100011"

definition rv_loads :: "u32 \<Rightarrow> bool" where
  "rv_loads ir \<longleftrightarrow> opcode ir = 0b0000011"

definition rv_bytes :: "u32 \<Rightarrow> nat" where
  "rv_bytes ir = 2 ^ (unat (funct3 ir) mod 4)"

definition rv_adr :: "u32 \<Rightarrow> u32 \<Rightarrow> u32" where
  "rv_adr ir a = a + (if rv_stores ir then rv_offset_s ir else rv_offset_i ir)"

definition rv_load :: "u32 \<Rightarrow> u32 \<Rightarrow> (u32 \<Rightarrow> u32) \<Rightarrow> u32" where
  "rv_load ir adr m =
     (let w = drop_bit (8 * (unat adr mod 4)) (m (adr AND 0xFFFFFFFC)); n = 8 * rv_bytes ir
      in if funct3 ir < 4 then signed_take_bit (n - 1) w else take_bit n w)"

text \<open>The register value of an instruction; branches and stores have none.\<close>

definition rv_value :: "(u32 \<Rightarrow> u32) \<Rightarrow> u32 \<Rightarrow> u32 \<Rightarrow> u32 \<Rightarrow> u32 \<Rightarrow> u32 option" where
  "rv_value m ir pc a b =
     (if rv_loads ir then Some (rv_load ir (rv_adr ir a) m)
      else if rv_stores ir then None else rv_result ir pc a b)"

text \<open>
  The step of program counter and registers, with the memory \<open>m\<close> that holds instructions and data.
  What a store does to the memory is defined in \<open>Core_Memory\<close>.
\<close>

definition rv_step :: "(u32 \<Rightarrow> u32) \<Rightarrow> rv_state \<Rightarrow> rv_state" where
  "rv_step m = (\<lambda>(pc, x).
     (let ir = m pc; a = x (rv_rs1 ir); b = x (rv_rs2 ir)
      in (rv_next ir pc a b, rv_write ir (rv_value m ir pc a b) x)))"

text \<open>
  The addresses the theorem allows: aligned, and for a byte or half word not loaded from an odd lane
  of the upper word of a double word, where the memory stage delivers the wrong lane
  (\<open>mem_load_wrong_lane\<close>).
\<close>

definition rv_aligned :: "u32 \<Rightarrow> (u6 \<Rightarrow> u32) \<Rightarrow> bool" where
  "rv_aligned ir x \<longleftrightarrow>
     (rv_stores ir \<or> rv_loads ir \<longrightarrow> rv_bytes ir dvd unat (rv_adr ir (x (rv_rs1 ir)))) \<and>
     (rv_loads ir \<longrightarrow> unat (rv_adr ir (x (rv_rs1 ir))) mod 8 < 4 \<or>
        unat (rv_adr ir (x (rv_rs1 ir))) mod 4 = 0)"

text \<open>The instructions the theorem is about: no system or M instructions.\<close>

definition rv_plain :: "u32 \<Rightarrow> bool" where
  "rv_plain ir \<longleftrightarrow>
     (opcode ir = 0b1100011 \<and> funct3 ir \<noteq> 2 \<and> funct3 ir \<noteq> 3) \<or>
     (rv_loads ir \<and> funct3 ir \<noteq> 3 \<and> funct3 ir < 6) \<or>
     (\<not> rv_loads ir \<and> rv_result ir 0 0 0 \<noteq> None)"

lemma rv_result_defined: "rv_result ir pc a b \<noteq> None \<longleftrightarrow> rv_result ir 0 0 0 \<noteq> None"
  by (simp add: rv_result_def Let_def)

text \<open>The instructions that read their first and their second operand in the execute stage.\<close>

definition rv_uses1 :: "u32 \<Rightarrow> bool" where
  "rv_uses1 ir \<longleftrightarrow> opcode ir = 0b0110011 \<or> opcode ir = 0b0010011 \<or> rv_stores ir \<or> rv_loads ir"

definition rv_uses2 :: "u32 \<Rightarrow> bool" where
  "rv_uses2 ir \<longleftrightarrow> opcode ir = 0b0110011"

lemma rv_result_cong:
  assumes "rv_uses1 ir \<Longrightarrow> a = a'" "rv_uses2 ir \<Longrightarrow> b = b'"
  shows "rv_result ir pc a b = rv_result ir pc a' b'"
  using assms unfolding rv_uses1_def rv_uses2_def rv_stores_def rv_loads_def
  by (cases "opcode ir = 0b0110011"; cases "opcode ir = 0b0010011"; cases "opcode ir = 0b0100011";
      cases "opcode ir = 0b0000011") (simp_all add: rv_result_def Let_def opcode_def)

text \<open>The sources that execute reads, and all that it bypasses.\<close>

definition rv_source :: "u32 \<Rightarrow> u6 \<Rightarrow> bool" where
  "rv_source ir r \<longleftrightarrow> r \<noteq> 0 \<and>
     (rv_uses1 ir \<and> r = rv_rs1 ir \<or> (rv_uses2 ir \<or> rv_stores ir) \<and> r = rv_rs2 ir)"

subsection \<open>The registers that the bypasses stand for\<close>

definition regs_wb :: "backend \<Rightarrow> u6 \<Rightarrow> u32" where
  "regs_wb b r =
     (if r = 0 \<or> 32 \<le> unat r then 0
      else if fifo_v (mem2wbk b) \<and> DEST_RM (back_rm b) = r then MEM_RES_RM (back_rm b)
      else REG_RR b ! unat r)"

text \<open>The value that an instruction in front of the memory stage will write.\<close>

definition re_value :: "(u32 \<Rightarrow> u32) \<Rightarrow> exe2mem_out \<Rightarrow> u32" where
  "re_value m re =
     (if MEM_LOAD_RE re then
        lane_extend (MEM_SIGN_EXTEND_RE re) (MEM_SIZE_RE re) (unat (EXE_RES_RE re) mod 4)
          (m (EXE_RES_RE re AND 0xFFFFFFFC))
      else EXE_RES_RE re)"

definition regs_mem :: "(u32 \<Rightarrow> u32) \<Rightarrow> backend \<Rightarrow> u6 \<Rightarrow> u32" where
  "regs_mem m b r =
     (if r = 0 \<or> 32 \<le> unat r then 0
      else if fifo_v (exe2mem b) \<and> DEST_RE (back_re b) = r then re_value m (back_re b)
      else regs_wb b r)"

text \<open>
  The instructions ahead are plain ones, and loads have addresses for which the memory stage selects
  the right lane; what the FIFOs show, also after their word has been taken out, is the newest
  value of its register, where for a load it is write-back that shows it.
\<close>

definition load_ok :: "exe2mem_out \<Rightarrow> bool" where
  "load_ok re \<longleftrightarrow> (MEM_LOAD_RE re \<longrightarrow> \<not> MEM_STORE_RE re \<and>
     lane_bytes (MEM_SIZE_RE re) dvd unat (EXE_RES_RE re) \<and>
     (unat (EXE_RES_RE re) mod 8 < 4 \<or> unat (EXE_RES_RE re) mod 4 = 0))"

definition plain_re :: "exe2mem_out \<Rightarrow> bool" where
  "plain_re re \<longleftrightarrow> unat (DEST_RE re) < 32 \<and> load_ok re \<and>
     \<not> CSR_WENABLE_RE re \<and> \<not> MULT_INST_RE re \<and> \<not> EXCEPTION_RE re \<and>
     (DEST_RE re \<noteq> 0 \<longrightarrow> WB_RE re \<or> MEM_LOAD_RE re)"

definition plain_rm :: "mem2wbk_out \<Rightarrow> bool" where
  "plain_rm rm \<longleftrightarrow> \<not> CSR_WENABLE_RM rm \<and> \<not> MULT_INST_RM rm \<and> (DEST_RM rm \<noteq> 0 \<longrightarrow> WB_RM rm)"

definition shows_newest :: "backend \<Rightarrow> bool" where
  "shows_newest b \<longleftrightarrow>
     (DEST_RM (back_rm b) \<noteq> 0 \<longrightarrow> regs_wb b (DEST_RM (back_rm b)) = MEM_RES_RM (back_rm b)) \<and>
     (DEST_RE (back_re b) \<noteq> 0 \<and> \<not> fifo_v (exe2mem b) \<longrightarrow>
        (if MEM_LOAD_RE (back_re b) then DEST_RM (back_rm b) = DEST_RE (back_re b)
         else regs_wb b (DEST_RE (back_re b)) = EXE_RES_RE (back_re b)))"

definition back_inv :: "backend \<Rightarrow> bool" where
  "back_inv b \<longleftrightarrow> started b \<and> reg_inv (REG_RR b) \<and> mem.CURRENT_MODE_SM (mem_inst b) = 3 \<and>
     plain_re (back_re b) \<and> plain_rm (back_rm b) \<and> shows_newest b"

text \<open>A load that has left execute and not the memory stage; it depends on the memory.\<close>

definition loading :: "backend \<Rightarrow> bool" where
  "loading b \<longleftrightarrow> fifo_v (exe2mem b) \<and> MEM_LOAD_RE (back_re b)"

lemma regs_mem_loading: "\<not> loading b \<Longrightarrow> regs_mem m b = regs_mem m' b"
  by (auto simp: loading_def regs_mem_def re_value_def fun_eq_iff)

text \<open>
  A cycle of the back end: what write-back retires goes to the register file, what memory and
  execute hand on moves up, and the registers of the abstract state change only by the result
  of an instruction that leaves the execute stage.
\<close>

lemma mem_quiet:
  assumes "\<not> EXCEPTION_RE re" "\<not> BUS_ERROR_SX env" "mem_trap_to_handle env = 0" "RESET env"
  shows "\<not> mem.EXCEPTION_SM (mem_settle env re rm s)"
    "mem.CURRENT_MODE_SM (mem_settle env re rm s) = mem.CURRENT_MODE_SM s"
  using assms
  by (simp_all add: mem_settle_def mem_csr_settle_def mem_csr_exception_def mem_csr_write_def Let_def)
    (simp_all add: mem_fifo_gestion_def mem_sign_extend_def mem_preprocess_def Let_def)

text \<open>Without interrupts and bus errors the memory stage takes no trap and stays in machine mode.\<close>

definition back_quiet :: "backend_in \<Rightarrow> bool" where
  "back_quiet i \<longleftrightarrow> RESET_N (reg_ports i) \<and> \<not> BUS_ERROR_SX (mem_ports i) \<and>
     mem_trap_to_handle (mem_ports i) = 0 \<and> \<not> DIV_BUSY_SE (exec_ports i)"

lemma back_no_trap:
  assumes "back_inv b" "back_quiet i"
  shows "\<not> mem.EXCEPTION_SM (backend_mem i b)" "mem.CURRENT_MODE_SM (backend_mem i b) = 3"
proof -
  have "\<not> EXCEPTION_RE (back_re b)" "mem.CURRENT_MODE_SM (mem_inst b) = 3"
    using assms(1) by (simp_all add: back_inv_def plain_re_def)
  moreover have "\<not> BUS_ERROR_SX (backend_mem_env i b)" "mem_trap_to_handle (backend_mem_env i b) = 0"
    "RESET (backend_mem_env i b)"
    using assms(2) by (simp_all add: back_quiet_def backend_mem_env_def mem_trap_to_handle_def)
  ultimately show "\<not> mem.EXCEPTION_SM (backend_mem i b)" "mem.CURRENT_MODE_SM (backend_mem i b) = 3"
    unfolding backend_mem_def by (simp_all add: mem_quiet)
qed

lemma u6_eq_0: "unat (r :: u6) = 0 \<longleftrightarrow> r = 0"
  by (simp add: unat_eq_0)

text \<open>The cache answers a load that it does not stall with the word of the memory.\<close>

definition back_answers :: "(u32 \<Rightarrow> u32) \<Rightarrow> backend_in \<Rightarrow> backend \<Rightarrow> bool" where
  "back_answers m i b \<longleftrightarrow>
     (loading b \<and> \<not> MCACHE_STALL_SM (mem_ports i) \<longrightarrow>
        MCACHE_RESULT_SM (mem_ports i) = m (EXE_RES_RE (back_re b) AND 0xFFFFFFFC))"

lemma mem_load_data:
  assumes "load_ok re" "MEM_LOAD_RE re \<longrightarrow> MCACHE_RESULT_SM env = m (EXE_RES_RE re AND 0xFFFFFFFC)"
  shows "data_sm (mem_settle env re rm s) = re_value m re"
    "wb_sm (mem_settle env re rm s) = (WB_RE re \<or> MEM_LOAD_RE re)"
proof -
  have "data_sm (mem_sign_extend env re s') = re_value m re" for s'
  proof (cases "MEM_LOAD_RE re")
    case True
    then have "unat (EXE_RES_RE re) mod 8 < 4 \<or> unat (EXE_RES_RE re) mod 4 = 0"
      using assms(1) by (simp add: load_ok_def)
    then have "(if unat (EXE_RES_RE re) mod 8 < 4 then unat (EXE_RES_RE re) mod 4 else 0) =
        unat (EXE_RES_RE re) mod 4" by auto
    then show ?thesis
      using True assms mem_sign_extend_data [of re env s'] by (simp add: load_ok_def re_value_def)
  qed (simp add: mem_sign_extend_def Let_def re_value_def)
  then show "data_sm (mem_settle env re rm s) = re_value m re" by simp
  show "wb_sm (mem_settle env re rm s) = (WB_RE re \<or> MEM_LOAD_RE re)"
    by (simp add: mem_sign_extend_def mem_preprocess_def Let_def)
qed

lemma back_wbk_step:
  assumes "back_inv b" "RESET_N (reg_ports i)" "backend_cycle i b = Some b'" "unat r < 32" "r \<noteq> 0"
  shows "REG_RR b' ! unat r = regs_wb b r"
proof -
  let ?w = "backend_wbk i b"
  have inv: "reg_inv (REG_RR b)" "plain_rm (back_rm b)"
    using assms(1) by (simp_all add: back_inv_def)
  have w: "WADR_SW ?w = DEST_RM (back_rm b)" "WENABLE_SW ?w = (WB_RM (back_rm b) \<and> fifo_v (mem2wbk b))"
    "WDATA_SW ?w = MEM_RES_RM (back_rm b)"
    using inv(2) by (simp_all add: backend_wbk_def wbk_method_def fifo_EMPTY_def plain_rm_def)
  have "reg_writing_adresse ?w (reg_ports i) (REG_RR b) = Some (REG_RR b')"
    using assms(3) by (auto simp: backend_cycle_def Let_def)
  then have "REG_RR b' ! unat r = reg_after ?w (reg_ports i) (REG_RR b) (unat r)"
    using reg_step_ok [of "REG_RR b" ?w "reg_ports i"] inv(1) assms(4) w(1)
      dest_rm_bound [of "DOUT_R (mem2wbk b)"] by (auto simp: reg_inv_def)
  also have "\<dots> = regs_wb b r"
    using assms(2,4,5) inv(2) w word_unat_eq_iff [of r "DEST_RM (back_rm b)"]
    by (auto simp: reg_after_def regs_wb_def plain_rm_def u6_eq_0)
  finally show ?thesis .
qed

text \<open>The FIFOs of the back end after a cycle.\<close>

lemma back_fifo_step:
  assumes inv: "back_inv b" and quiet: "back_quiet i" and cyc: "backend_cycle i b = Some b'"
  defines "e \<equiv> backend_exec i b" and "mpop \<equiv> EXE2MEM_POP_SM (backend_mem i b)"
  shows "mpop \<Longrightarrow> fifo_v (exe2mem b)"
    and "fifo_v (mem2wbk b') = mpop"
    and "back_rm b' = (if mpop then (mem_payload (back_re b) (backend_mem i b))
           \<lparr>DEST_RM := take_bit 5 (DEST_RE (back_re b))\<rparr> else back_rm b)"
    and "exe2mem_push_se e \<Longrightarrow> fifo_v (exe2mem b) \<Longrightarrow> mpop"
    and "fifo_v (exe2mem b') = (exe2mem_push_se e \<or> fifo_v (exe2mem b) \<and> \<not> mpop)"
    and "back_re b' = (if exe2mem_push_se e then exec_payload (back_rd b) e else back_re b)"
    and "started b'"
proof -
  have st: "started b" using inv by (simp add: back_inv_def)
  note fifos = backend_cycle_fifos [OF st cyc]
  have exc': "\<not> exec_env.EXCEPTION_SM (backend_exec_env i b)"
    using back_no_trap(1) [OF inv quiet] by (simp add: backend_exec_env_def Let_def)
  have wpop: "MEM2WBK_POP_SW (backend_wbk i b) = fifo_v (mem2wbk b)"
    by (simp add: backend_wbk_def wbk_method_def fifo_EMPTY_def)
  have mpush: "mem2wbk_push_sm (backend_mem i b) = mpop"
    by (simp add: mpop_def backend_mem_def mem_handshake)
  show mv: "mpop \<Longrightarrow> fifo_v (exe2mem b)"
    by (simp add: mpop_def backend_mem_def mem_handshake backend_mem_env_def fifo_EMPTY_def
        split: if_splits)
  show "fifo_v (mem2wbk b') = mpop"
    by (simp add: fifos(3) mpush wpop fifo_function_loop_def)
  show "back_rm b' = (if mpop then (mem_payload (back_re b) (backend_mem i b))
           \<lparr>DEST_RM := take_bit 5 (DEST_RE (back_re b))\<rparr> else back_rm b)"
    by (simp add: fifos(3) mpush wpop fifo_function_loop_def mem_mem2wbk_concat_def
        mem2wbk_unconcat_mem2wbk_pack mem_payload_def)
  show push: "mpop" if "exe2mem_push_se e" "fifo_v (exe2mem b)"
    using that exec_pushes(2) [OF exc', of "back_rd b" "back_re b" "back_rm b" "exec_inst b"]
    by (simp add: e_def backend_exec_def) (simp add: backend_exec_env_def Let_def fifo_FULL_def
        mpop_def split: if_splits)
  show "fifo_v (exe2mem b') = (exe2mem_push_se e \<or> fifo_v (exe2mem b) \<and> \<not> mpop)"
    using push by (auto simp: fifos(2) e_def [symmetric] mpop_def [symmetric] fifo_function_loop_def)
  show "back_re b' = (if exe2mem_push_se e then exec_payload (back_rd b) e else back_re b)"
    using push exc' by (auto simp: fifos(2) e_def [symmetric] mpop_def [symmetric]
        fifo_function_loop_def exec_fifo_concat_def exe2mem_unconcat_exe2mem_pack)
  show "started b'" by (rule fifos(4))
qed

lemma take_bit_small: "unat r < 32 \<Longrightarrow> take_bit 5 r = r" for r :: u6
  by (simp only: word_unat_eq_iff unsigned_take_bit_eq) (simp add: take_bit_eq_mod)

lemma back_step:
  assumes inv: "back_inv b" and quiet: "back_quiet i" and ans: "back_answers m i b"
    and cyc: "backend_cycle i b = Some b'"
    and plain: "exe2mem_push_se (backend_exec i b) \<Longrightarrow>
      plain_re (exec_payload (back_rd b) (backend_exec i b))"
  defines "p \<equiv> exec_payload (back_rd b) (backend_exec i b)"
  shows "back_inv b' \<and>
    (\<forall>r. regs_mem m b' r =
      (if exe2mem_push_se (backend_exec i b) \<and> r \<noteq> 0 \<and> r = DEST_RE p then re_value m p
       else regs_mem m b r))"
proof -
  let ?push = "exe2mem_push_se (backend_exec i b)" and ?mpop = "EXE2MEM_POP_SM (backend_mem i b)"
  note step = back_fifo_step [OF inv quiet cyc]
  have rst: "RESET_N (reg_ports i)" using quiet by (simp add: back_quiet_def)
  have re: "plain_re (back_re b)" and rm: "plain_rm (back_rm b)" and new: "shows_newest b"
    using inv by (simp_all add: back_inv_def)
  have reg: "reg_inv (REG_RR b')"
    using backend_cycle_registers [of b i] inv cyc by (auto simp: back_inv_def)
  have env: "MCACHE_RESULT_SM (backend_mem_env i b) = MCACHE_RESULT_SM (mem_ports i)"
    by (simp add: backend_mem_env_def)
  have popped: "\<not> MCACHE_STALL_SM (mem_ports i)" if ?mpop
    using that by (auto simp: backend_mem_def mem_handshake backend_mem_env_def split: if_splits)
  have data: "data_sm (backend_mem i b) = re_value m (back_re b)"
    "wb_sm (backend_mem i b) = (WB_RE (back_re b) \<or> MEM_LOAD_RE (back_re b))" if ?mpop
    unfolding backend_mem_def
    by (rule mem_load_data; use that re ans popped step(1) in \<open>auto simp: plain_re_def env back_answers_def
        loading_def\<close>)+
  have wb_fields: "MEM_RES_RM (back_rm b') = re_value m (back_re b)"
    "DEST_RM (back_rm b') = DEST_RE (back_re b)" "plain_rm (back_rm b')" if ?mpop
    using that re data [OF that] by (simp_all add: step(3) mem_payload_def plain_re_def plain_rm_def
        take_bit_small)
  have wb: "regs_wb b' r = (if ?mpop then regs_mem m b r else regs_wb b r)" for r
    using back_wbk_step [OF inv rst cyc, of r] wb_fields step(1,2)
    by (auto simp: regs_wb_def [of b'] regs_mem_def regs_wb_def [of b] not_le)
  have mem: "regs_mem m b' r = (if ?push \<and> r \<noteq> 0 \<and> r = DEST_RE p then re_value m p
      else regs_mem m b r)" for r
    using plain step(4) by (auto simp: regs_mem_def [of m b'] step(5,6) wb p_def [symmetric]
        plain_re_def regs_mem_def [of m b])
  have "plain_rm (back_rm b')" using wb_fields(3) step(3) rm by (cases ?mpop) auto
  moreover have "plain_re (back_re b')" using plain step(6) re by auto
  moreover have "shows_newest b'"
  proof -
    have "regs_wb b' (DEST_RM (back_rm b')) = MEM_RES_RM (back_rm b')" if "DEST_RM (back_rm b') \<noteq> 0"
    proof (cases ?mpop)
      case True
      then show ?thesis
        using that re step(1) by (simp add: wb wb_fields regs_mem_def plain_re_def)
    next
      case False
      then show ?thesis using that new step(3) by (simp add: wb shows_newest_def)
    qed
    moreover have "if MEM_LOAD_RE (back_re b') then DEST_RM (back_rm b') = DEST_RE (back_re b')
        else regs_wb b' (DEST_RE (back_re b')) = EXE_RES_RE (back_re b')"
      if "DEST_RE (back_re b') \<noteq> 0" "\<not> fifo_v (exe2mem b')"
    proof -
      have np: "\<not> ?push" "fifo_v (exe2mem b) \<longrightarrow> ?mpop" using that(2) step(5) by auto
      show ?thesis
      proof (cases ?mpop)
        case True
        then show ?thesis
          using that(1) np step(1,6) re by (simp add: wb wb_fields regs_mem_def plain_re_def re_value_def)
      next
        case False
        then show ?thesis using that(1) np new step(3,6) by (simp add: wb shows_newest_def)
      qed
    qed
    ultimately show ?thesis by (simp add: shows_newest_def)
  qed
  moreover have "mem.CURRENT_MODE_SM (mem_inst b') = 3"
    using cyc back_no_trap(2) [OF inv quiet] by (auto simp: backend_cycle_def Let_def)
  ultimately show ?thesis
    using mem reg step(7) by (simp add: back_inv_def)
qed

text \<open>While an instruction waits in front of the execute stage, the bypasses do not change.\<close>

lemma back_wait:
  assumes "back_inv b" "back_quiet i" "backend_cycle i b = Some b'"
    "\<not> exe2mem_push_se (backend_exec i b)" "fifo_v (exe2mem b)" "\<not> EXE2MEM_POP_SM (backend_mem i b)"
  shows "back_re b' = back_re b" "back_rm b' = back_rm b"
  using back_fifo_step [OF assms(1-3)] assms(4-6) by simp_all

subsection \<open>What decode issues\<close>

definition issued :: "dec2exe_out \<Rightarrow> u32 \<Rightarrow> u32 \<Rightarrow> bool" where
  "issued p ir pc \<longleftrightarrow> (\<exists>u i rd fb re rm s. p = dec_issue u i rd fb re rm s \<and> INSTR_RI i = ir \<and>
     PC_IF2DEC_RI i = pc \<and> READ_PC_SR i = pc + 4 \<and> (opcode ir = 0b0110111 \<longrightarrow> RDATA2_SR i = 0))"

lemma rv_plain_cases:
  assumes "rv_plain ir"
  obtains
    (Branch) "opcode ir = 0b1100011" "funct3 ir \<noteq> 2" "funct3 ir \<noteq> 3" "\<And>pc a b. rv_result ir pc a b = None"
  | (Result) v where "rv_result ir 0 0 0 = Some v" "opcode ir \<noteq> 0b0000011"
      "opcode ir \<noteq> 0b0100011" "opcode ir \<noteq> 0b1100011"
  | (Store) "opcode ir = 0b0100011" "funct3 ir < 3"
      "\<And>pc a b. rv_result ir pc a b = Some (rv_adr ir a)"
  | (Load) "opcode ir = 0b0000011" "funct3 ir \<noteq> 3" "funct3 ir < 6"
      "\<And>pc a b. rv_result ir pc a b = Some (rv_adr ir a)"
proof -
  consider (b) "opcode ir = 0b1100011" | (s) "opcode ir = 0b0100011" | (l) "opcode ir = 0b0000011"
    | (r) "opcode ir \<noteq> 0b1100011" "opcode ir \<noteq> 0b0100011" "opcode ir \<noteq> 0b0000011" by blast
  then show thesis
  proof cases
    case b
    then have "rv_result ir pc a b = None" for pc a b by (simp add: rv_result_def Let_def opcode_def)
    then show thesis using b assms Branch by (auto simp: rv_plain_def rv_loads_def)
  next
    case s
    then have "funct3 ir < 3"
      using assms by (auto simp: rv_plain_def rv_loads_def elim: rv_result_cases)
    then show thesis
      using s Store
      by (auto simp: rv_result_def Let_def opcode_def funct3_def rv_offset_s_def rv_adr_def rv_stores_def)
  next
    case l
    then show thesis
      using assms Load
      by (auto simp: rv_plain_def rv_loads_def rv_result_def Let_def opcode_def rv_offset_i_def rv_adr_def
          rv_stores_def)
  next
    case r
    then show thesis using assms Result by (auto simp: rv_plain_def rv_loads_def)
  qed
qed

text \<open>What a store sends: no register, the first operand as it is read, and the data.\<close>

lemma store_format:
  assumes "opcode ir = 0b0100011"
  shows "s_type_inst_sd (ity ir)" "\<not> r_type_inst_sd (ity ir)" "\<not> i_type_inst_sd (ity ir)"
    "\<not> u_type_inst_sd (ity ir)" "\<not> m_type_inst_sd (ity ir)" "\<not> jalr_type_inst_sd (ity ir)"
  using assms by (simp_all add: decoding_instruction_type_def)

lemma issue_store_fields:
  assumes "opcode (INSTR_RI i) = 0b0100011" "funct3 (INSTR_RI i) < 3" and p: "p = dec_issue u i rd fb re rm s"
  shows "EXE_DEST_RD p = 0" "\<not> MEM_LOAD_RD p" "\<not> CSR_WENABLE_RD p"
    "\<not> MULT_INST_RD p" "PC_DEC2EXE_RD p = PC_IF2DEC_RI i"
    "BP_RADR1_RD p = rv_rs1 (INSTR_RI i)" "BP_RADR2_RD p = rv_rs2 (INSTR_RI i)"
    "MEM_SIZE_RD p = (if funct3 (INSTR_RI i) = 0 then 2 else if funct3 (INSTR_RI i) = 1 then 1 else 0)"
    "OP1_RD p = rdata1_sd (D_byp (dec_settle u i rd fb re rm s))"
    "MEM_DATA_RD p = rdata2_sd (D_byp (dec_settle u i rd fb re rm s))"
    "\<not> jump_sd (D_ops (dec_settle u i rd fb re rm s))"
proof -
  note t = store_format [OF assms(1)]
  have f: "sw_i_sd (ifl (INSTR_RI i)) = (funct3 (INSTR_RI i) = 2)"
    "sh_i_sd (ifl (INSTR_RI i)) = (funct3 (INSTR_RI i) = 1)"
    "sb_i_sd (ifl (INSTR_RI i)) = (funct3 (INSTR_RI i) = 0)"
    using assms(1) by (simp_all add: decoding_instruction_flags)
  have f3: "funct3 (INSTR_RI i) = 0 \<or> funct3 (INSTR_RI i) = 1 \<or> funct3 (INSTR_RI i) = 2"
    using u3_cases [of "funct3 (INSTR_RI i)"] assms(2) by auto
  show "EXE_DEST_RD p = 0" "\<not> MEM_LOAD_RD p" "\<not> CSR_WENABLE_RD p"
    "\<not> MULT_INST_RD p" "PC_DEC2EXE_RD p = PC_IF2DEC_RI i"
    "BP_RADR1_RD p = rv_rs1 (INSTR_RI i)" "BP_RADR2_RD p = rv_rs2 (INSTR_RI i)"
    "MEM_SIZE_RD p = (if funct3 (INSTR_RI i) = 0 then 2 else if funct3 (INSTR_RI i) = 1 then 1 else 0)"
    "OP1_RD p = rdata1_sd (D_byp (dec_settle u i rd fb re rm s))"
    "MEM_DATA_RD p = rdata2_sd (D_byp (dec_settle u i rd fb re rm s))"
    "\<not> jump_sd (D_ops (dec_settle u i rd fb re rm s))"
    using f3 assms(1)
    by (auto simp: p dec_issue_def dec_payload_def Let_def dec_settle_parts(1,3)
        dec_pre_reg_read_def dec_set_regs_def t f dec_post_reg_read_def dec_post_store_def
        decoding_instruction_flags rv_rs1_def rv_rs2_def)
qed

lemma load_format:
  assumes "opcode ir = 0b0000011"
  shows "i_type_inst_sd (ity ir)" "\<not> r_type_inst_sd (ity ir)" "\<not> s_type_inst_sd (ity ir)"
    "\<not> u_type_inst_sd (ity ir)" "\<not> m_type_inst_sd (ity ir)" "\<not> jalr_type_inst_sd (ity ir)"
  using assms by (simp_all add: decoding_instruction_type_def)

lemma issue_load_fields:
  assumes "opcode (INSTR_RI i) = 0b0000011" "funct3 (INSTR_RI i) \<noteq> 3" "funct3 (INSTR_RI i) < 6"
    and p: "p = dec_issue u i rd fb re rm s"
  shows "EXE_DEST_RD p = rv_rd (INSTR_RI i)" "MEM_LOAD_RD p" "\<not> MEM_STORE_RD p" "\<not> CSR_WENABLE_RD p"
    "\<not> MULT_INST_RD p" "PC_DEC2EXE_RD p = PC_IF2DEC_RI i" "WB_RD p"
    "BP_RADR1_RD p = rv_rs1 (INSTR_RI i)"
    "lane_bytes (MEM_SIZE_RD p) = rv_bytes (INSTR_RI i)"
    "access_bytes (MEM_SIZE_RD p) = rv_bytes (INSTR_RI i)"
    "MEM_SIGN_EXTEND_RD p = (funct3 (INSTR_RI i) < 2)"
    "OP1_RD p = rdata1_sd (D_byp (dec_settle u i rd fb re rm s))"
    "\<not> jump_sd (D_ops (dec_settle u i rd fb re rm s))"
proof -
  note t = load_format [OF assms(1)]
  have f: "lw_i_sd (ifl (INSTR_RI i)) = (funct3 (INSTR_RI i) = 2)"
    "lh_i_sd (ifl (INSTR_RI i)) = (funct3 (INSTR_RI i) = 1)"
    "lhu_i_sd (ifl (INSTR_RI i)) = (funct3 (INSTR_RI i) = 5)"
    "lb_i_sd (ifl (INSTR_RI i)) = (funct3 (INSTR_RI i) = 0)"
    "lbu_i_sd (ifl (INSTR_RI i)) = (funct3 (INSTR_RI i) = 4)"
    using assms(1) by (simp_all add: decoding_instruction_flags)
  have f3: "funct3 (INSTR_RI i) = 0 \<or> funct3 (INSTR_RI i) = 1 \<or> funct3 (INSTR_RI i) = 2 \<or>
      funct3 (INSTR_RI i) = 4 \<or> funct3 (INSTR_RI i) = 5"
    using u3_cases [of "funct3 (INSTR_RI i)"] assms(2,3) by auto
  have sz: "MEM_LOAD_RD p" "\<not> MEM_STORE_RD p" "MEM_SIZE_RD p = (if funct3 (INSTR_RI i) = 2 then 0
      else if funct3 (INSTR_RI i) = 1 \<or> funct3 (INSTR_RI i) = 5 then 1 else 2)"
    "MEM_SIGN_EXTEND_RD p = (funct3 (INSTR_RI i) = 0 \<or> funct3 (INSTR_RI i) = 1)"
    using f3 by (auto simp: p dec_issue_def dec_payload_def Let_def dec_settle_parts(3) t f
        dec_post_reg_read_def dec_post_alu_def dec_load_size_def)
  show "MEM_LOAD_RD p" "\<not> MEM_STORE_RD p" "lane_bytes (MEM_SIZE_RD p) = rv_bytes (INSTR_RI i)"
    "access_bytes (MEM_SIZE_RD p) = rv_bytes (INSTR_RI i)"
    "MEM_SIGN_EXTEND_RD p = (funct3 (INSTR_RI i) < 2)"
    using f3 sz by (auto simp: lane_bytes_def access_bytes_def rv_bytes_def)
  show "EXE_DEST_RD p = rv_rd (INSTR_RI i)" "\<not> CSR_WENABLE_RD p"
    "\<not> MULT_INST_RD p" "PC_DEC2EXE_RD p = PC_IF2DEC_RI i" "WB_RD p"
    "BP_RADR1_RD p = rv_rs1 (INSTR_RI i)"
    "OP1_RD p = rdata1_sd (D_byp (dec_settle u i rd fb re rm s))"
    "\<not> jump_sd (D_ops (dec_settle u i rd fb re rm s))"
    using f3 assms(1)
    by (auto simp: p dec_issue_def dec_payload_def Let_def dec_settle_parts(1,3)
        dec_pre_reg_read_def dec_set_regs_def t f dec_post_reg_read_def dec_post_alu_def
        dec_load_size_def dec_alu_operands_def decoding_instruction_flags rv_rs1_def rv_rd_def)
qed

lemma issue_branch:
  assumes "opcode (INSTR_RI i) = 0b1100011" and p: "p = dec_issue u i rd fb re rm s"
  shows "EXE_DEST_RD p = 0" "\<not> MEM_LOAD_RD p" "\<not> MEM_STORE_RD p" "\<not> CSR_WENABLE_RD p"
    "\<not> MULT_INST_RD p" "PC_DEC2EXE_RD p = PC_IF2DEC_RI i"
  using assms(1)
  by (simp_all add: p dec_issue_def dec_payload_def Let_def dec_settle_parts(1,3)
      dec_pre_reg_read_def dec_set_regs_def dec_branch_format dec_post_reg_read_def
      dec_post_branch_def decoding_instruction_flags)

lemma issue_sources:
  assumes p: "p = dec_issue u i rd fb re rm s"
  shows "CSRRC_I_RD p \<Longrightarrow> opcode (INSTR_RI i) = 0b1110011"
    "BLOCK_BP_RD p \<Longrightarrow> opcode (INSTR_RI i) = 0b1100111"
    "rv_uses1 (INSTR_RI i) \<Longrightarrow> rv_plain (INSTR_RI i) \<Longrightarrow> BP_RADR1_RD p = rv_rs1 (INSTR_RI i)"
    "rv_uses2 (INSTR_RI i) \<or> rv_stores (INSTR_RI i) \<Longrightarrow> rv_plain (INSTR_RI i) \<Longrightarrow>
      BP_RADR2_RD p = rv_rs2 (INSTR_RI i)"
proof -
  show "CSRRC_I_RD p \<Longrightarrow> opcode (INSTR_RI i) = 0b1110011"
    by (simp add: p dec_issue_def dec_payload_def Let_def decoding_instruction_flags)
  show "BLOCK_BP_RD p \<Longrightarrow> opcode (INSTR_RI i) = 0b1100111"
    by (simp add: p dec_issue_def dec_payload_def Let_def dec_settle_parts(3)
        dec_post_reg_read_def split_beta decoding_instruction_type_def)
  have adr: "BP_RADR1_RD p = RADR1_SD (D_reg (dec_settle u i rd fb re rm s))"
    "BP_RADR2_RD p = RADR2_SD (D_reg (dec_settle u i rd fb re rm s))"
    by (simp_all add: p dec_issue_flags [OF refl refl])
  have f7: "funct7 (INSTR_RI i) = 0 \<or> funct7 (INSTR_RI i) = 0b0100000 \<and>
      (funct3 (INSTR_RI i) = 0 \<or> funct3 (INSTR_RI i) = 5)"
    if "opcode (INSTR_RI i) = 0b0110011" "rv_plain (INSTR_RI i)"
    using that(2) that(1) by (cases rule: rv_plain_cases) (auto elim: rv_result_cases)
  have r: "RADR1_SD (D_reg (dec_settle u i rd fb re rm s)) = rv_rs1 (INSTR_RI i)"
    "RADR2_SD (D_reg (dec_settle u i rd fb re rm s)) = rv_rs2 (INSTR_RI i)"
    if "opcode (INSTR_RI i) = 0b0110011" "rv_plain (INSTR_RI i)"
    using r_type_fields(1) [OF that(1) f7 [OF that]]
    by (simp_all add: dec_settle_parts(1) dec_pre_reg_read_def Let_def dec_set_regs_def
        rv_rs1_def rv_rs2_def)
  have "RADR1_SD (D_reg (dec_settle u i rd fb re rm s)) = rv_rs1 (INSTR_RI i)"
    if "opcode (INSTR_RI i) = 0b0010011"
    using i_type_fields(1,2) [OF disjI1 [OF that]]
    by (simp add: dec_settle_parts(1) dec_pre_reg_read_def Let_def dec_set_regs_def rv_rs1_def)
  moreover have "RADR1_SD (D_reg (dec_settle u i rd fb re rm s)) = rv_rs1 (INSTR_RI i)"
    if "rv_loads (INSTR_RI i)"
    using load_format that
    by (simp add: rv_loads_def dec_settle_parts(1) dec_pre_reg_read_def Let_def dec_set_regs_def rv_rs1_def)
  moreover have "RADR1_SD (D_reg (dec_settle u i rd fb re rm s)) = rv_rs1 (INSTR_RI i)"
    "RADR2_SD (D_reg (dec_settle u i rd fb re rm s)) = rv_rs2 (INSTR_RI i)"
    if "rv_stores (INSTR_RI i)"
    using store_format that
    by (simp_all add: rv_stores_def dec_settle_parts(1) dec_pre_reg_read_def Let_def dec_set_regs_def
        rv_rs1_def rv_rs2_def)
  ultimately show "rv_uses1 (INSTR_RI i) \<Longrightarrow> rv_plain (INSTR_RI i) \<Longrightarrow> BP_RADR1_RD p = rv_rs1 (INSTR_RI i)"
    "rv_uses2 (INSTR_RI i) \<or> rv_stores (INSTR_RI i) \<Longrightarrow> rv_plain (INSTR_RI i) \<Longrightarrow>
      BP_RADR2_RD p = rv_rs2 (INSTR_RI i)"
    unfolding adr rv_uses1_def rv_uses2_def using r by blast+
qed

definition rv_dest :: "u32 \<Rightarrow> u6" where
  "rv_dest ir = (if opcode ir = 0b1100011 \<or> rv_stores ir then 0 else rv_rd ir)"

lemma issued_fields:
  assumes "issued p ir pc" "rv_plain ir"
  shows "EXE_DEST_RD p = rv_dest ir"
    "MEM_LOAD_RD p = rv_loads ir" "MEM_STORE_RD p = rv_stores ir" "\<not> CSR_WENABLE_RD p" "\<not> MULT_INST_RD p"
    "EXE_DEST_RD p \<noteq> 0 \<Longrightarrow> WB_RD p" "PC_DEC2EXE_RD p = pc" "\<not> CSRRC_I_RD p"
    "rv_uses1 ir \<Longrightarrow> BP_RADR1_RD p = rv_rs1 ir \<and> \<not> BLOCK_BP_RD p"
    "rv_uses2 ir \<or> rv_stores ir \<Longrightarrow> BP_RADR2_RD p = rv_rs2 ir \<and> \<not> BLOCK_BP_RD p"
    "rv_loads ir \<or> rv_stores ir \<Longrightarrow>
       lane_bytes (MEM_SIZE_RD p) = rv_bytes ir \<and> access_bytes (MEM_SIZE_RD p) = rv_bytes ir"
    "rv_loads ir \<Longrightarrow> MEM_SIGN_EXTEND_RD p = (funct3 ir < 2)"
proof -
  obtain u i rd fb re rm s where p: "p = dec_issue u i rd fb re rm s" and ir: "INSTR_RI i = ir"
    and pc: "PC_IF2DEC_RI i = pc" using assms(1) by (auto simp: issued_def)
  have all: "EXE_DEST_RD p = rv_dest ir \<and>
    MEM_LOAD_RD p = rv_loads ir \<and> MEM_STORE_RD p = rv_stores ir \<and> \<not> CSR_WENABLE_RD p \<and>
    \<not> MULT_INST_RD p \<and> (EXE_DEST_RD p \<noteq> 0 \<longrightarrow> WB_RD p) \<and> PC_DEC2EXE_RD p = pc \<and>
    opcode ir \<noteq> 0b1110011 \<and>
    (rv_loads ir \<or> rv_stores ir \<longrightarrow>
       lane_bytes (MEM_SIZE_RD p) = rv_bytes ir \<and> access_bytes (MEM_SIZE_RD p) = rv_bytes ir) \<and>
    (rv_loads ir \<longrightarrow> MEM_SIGN_EXTEND_RD p = (funct3 ir < 2))"
    using assms(2)
  proof (cases rule: rv_plain_cases)
    case Branch
    then show ?thesis using issue_branch [OF _ p] ir pc
      by (simp add: rv_dest_def rv_stores_def rv_loads_def)
  next
    case (Result v)
    then have "opcode ir \<noteq> 0b1110011" by (auto elim: rv_result_cases)
    then show ?thesis using issue_writes [of i 0 0 0 v, OF _ _ _ p] Result ir pc
      by (simp add: rv_rd_def rv_dest_def rv_stores_def rv_loads_def)
  next
    case Store
    then have "funct3 ir = 0 \<or> funct3 ir = 1 \<or> funct3 ir = 2" using u3_cases [of "funct3 ir"] by auto
    then have "lane_bytes (MEM_SIZE_RD p) = rv_bytes ir \<and> access_bytes (MEM_SIZE_RD p) = rv_bytes ir"
      using issue_store_fields(8) [OF _ _ p] Store(1,2) ir
      by (auto simp: lane_bytes_def access_bytes_def rv_bytes_def)
    then show ?thesis
      using Store issue_store_fields(1-5) [OF _ _ p] issue_store(3) [OF _ _ p] ir pc
      by (simp add: rv_dest_def rv_stores_def rv_loads_def)
  next
    case Load
    then show ?thesis using issue_load_fields [OF _ _ _ p] ir pc
      by (simp add: rv_dest_def rv_stores_def rv_loads_def)
  qed
  then show "EXE_DEST_RD p = rv_dest ir"
    "MEM_LOAD_RD p = rv_loads ir" "MEM_STORE_RD p = rv_stores ir" "\<not> CSR_WENABLE_RD p" "\<not> MULT_INST_RD p"
    "EXE_DEST_RD p \<noteq> 0 \<Longrightarrow> WB_RD p" "PC_DEC2EXE_RD p = pc" "\<not> CSRRC_I_RD p"
    "rv_loads ir \<or> rv_stores ir \<Longrightarrow>
       lane_bytes (MEM_SIZE_RD p) = rv_bytes ir \<and> access_bytes (MEM_SIZE_RD p) = rv_bytes ir"
    "rv_loads ir \<Longrightarrow> MEM_SIGN_EXTEND_RD p = (funct3 ir < 2)"
    using issue_sources(1) [OF p] ir by auto
  show "rv_uses1 ir \<Longrightarrow> BP_RADR1_RD p = rv_rs1 ir \<and> \<not> BLOCK_BP_RD p"
    "rv_uses2 ir \<or> rv_stores ir \<Longrightarrow> BP_RADR2_RD p = rv_rs2 ir \<and> \<not> BLOCK_BP_RD p"
    using issue_sources(2-4) [OF p] ir assms(2)
    by (auto simp: rv_uses1_def rv_uses2_def rv_stores_def rv_loads_def)
qed

subsection \<open>The execute stage\<close>

text \<open>
  A load in the memory stage on which the instruction in front of the execute stage waits: the
  bypass names its register.
\<close>

definition waits :: "backend \<Rightarrow> dec2exe_out \<Rightarrow> bool" where
  "waits b p \<longleftrightarrow> loading b \<and> DEST_RE (back_re b) \<noteq> 0 \<and>
     (BP_RADR1_RD p = DEST_RE (back_re b) \<or> BP_RADR2_RD p = DEST_RE (back_re b))"

text \<open>
  The operands of the payload in front of the execute stage: the value of the abstract state,
  unless the bypasses will deliver it.  While the instruction waits, write-back must not show an
  older value of the register, which the stage would take (\<open>exec_rs1_overtakes_load\<close>).
\<close>

definition supplied :: "(u32 \<Rightarrow> u32) \<Rightarrow> backend \<Rightarrow> dec2exe_out \<Rightarrow> u6 \<Rightarrow> u32 \<Rightarrow> bool" where
  "supplied m b p r v \<longleftrightarrow> v = regs_mem m b r \<or>
     r \<noteq> 0 \<and> (DEST_RE (back_re b) = r \<or> DEST_RM (back_rm b) = r \<and> \<not> waits b p)"

definition ready :: "(u32 \<Rightarrow> u32) \<Rightarrow> backend \<Rightarrow> dec2exe_out \<Rightarrow> u32 \<Rightarrow> bool" where
  "ready m b p ir \<longleftrightarrow>
     (waits b p \<longrightarrow> DEST_RM (back_rm b) \<noteq> DEST_RE (back_re b)) \<and>
     (rv_uses1 ir \<longrightarrow> supplied m b p (rv_rs1 ir) (OP1_RD p)) \<and>
     (rv_uses2 ir \<longrightarrow> supplied m b p (rv_rs2 ir) (OP2_RD p)) \<and>
     (rv_stores ir \<longrightarrow> supplied m b p (rv_rs2 ir) (MEM_DATA_RD p))"

lemma rv_regs_bound: "unat (rv_rs1 ir) < 32" "unat (rv_rs2 ir) < 32" "unat (rv_rd ir) < 32"
proof -
  have "unat x < 32" if "take_bit 5 x = x" for x :: u6
  proof -
    have "unat x = unat (take_bit 5 x)" using that by simp
    also have "\<dots> < 32" by (simp only: unsigned_take_bit_eq) (simp add: take_bit_eq_mod)
    finally show ?thesis .
  qed
  moreover have "take_bit 5 (rng 19 15 ir :: u6) = rng 19 15 ir"
    "take_bit 5 (rng 24 20 ir :: u6) = rng 24 20 ir" "take_bit 5 (rng 11 7 ir :: u6) = rng 11 7 ir"
    by (rule bit_word_eqI; auto simp: bit_rng bit_simps)+
  ultimately show "unat (rv_rs1 ir) < 32" "unat (rv_rs2 ir) < 32" "unat (rv_rd ir) < 32"
    unfolding rv_rs1_def rv_rs2_def rv_rd_def by blast+
qed

lemma plain_exec_valid:
  assumes "back_inv b"
  shows "r1_valid_se (exec_bypasses env p (back_re b) (back_rm b) x)"
    "r2_valid_se (exec_bypasses env p (back_re b) (back_rm b) x)"
  using assms
  by (simp_all add: back_inv_def plain_re_def plain_rm_def exec_bypasses_def split_beta
      exec_bypass_rs1_def exec_bypass_rs2_def Let_def)

lemma blocked_waits:
  assumes "exec_env.EXE2MEM_EMPTY_SE env = (\<not> fifo_v (exe2mem b))"
    and "blocked (exec_bypasses env p (back_re b) (back_rm b) x)"
  shows "waits b p"
  using assms
  by (auto simp: waits_def loading_def exec_bypasses_def split_beta exec_bypass_rs1_def
      exec_bypass_rs2_def Let_def split: if_splits)

text \<open>What a bypass selects behind plain instructions.\<close>

definition newest :: "backend \<Rightarrow> u6 \<Rightarrow> u32 \<Rightarrow> u32" where
  "newest b r v =
     (if r = 0 then v
      else if DEST_RE (back_re b) = r \<and> \<not> MEM_LOAD_RE (back_re b) then EXE_RES_RE (back_re b)
      else if DEST_RM (back_rm b) = r then MEM_RES_RM (back_rm b) else v)"

definition held :: "backend \<Rightarrow> u6 \<Rightarrow> bool" where
  "held b r \<longleftrightarrow> r \<noteq> 0 \<and> loading b \<and> DEST_RE (back_re b) = r"

lemma newest_regs:
  assumes "back_inv b" "unat r < 32" "supplied m b p r v" "\<not> held b r"
  shows "newest b r v = regs_mem m b r"
proof -
  have new: "shows_newest b" using assms(1) by (simp add: back_inv_def)
  consider "r = 0" | "r \<noteq> 0" "DEST_RE (back_re b) = r" "\<not> MEM_LOAD_RE (back_re b)"
    | "r \<noteq> 0" "DEST_RE (back_re b) = r" "MEM_LOAD_RE (back_re b)" "\<not> fifo_v (exe2mem b)"
    | "r \<noteq> 0" "DEST_RE (back_re b) \<noteq> r"
    using assms(4) by (auto simp: held_def loading_def)
  then show ?thesis
    using new assms(2,3)
    by cases (auto simp: newest_def supplied_def shows_newest_def regs_mem_def re_value_def)
qed

lemma plain_exec_selects:
  fixes env x
  assumes "back_inv b" "\<not> CSRRC_I_RD p" "\<not> BLOCK_BP_RD p"
    and "exec_env.EXE2MEM_EMPTY_SE env = (\<not> fifo_v (exe2mem b))"
    and "waits b p \<Longrightarrow> DEST_RM (back_rm b) \<noteq> DEST_RE (back_re b)"
  defines "e \<equiv> exec_bypasses env p (back_re b) (back_rm b) x"
  assumes "\<not> blocked e"
  shows "op1_se e = newest b (BP_RADR1_RD p) (OP1_RD p) \<and> \<not> held b (BP_RADR1_RD p)"
    and "\<not> MEM_LOAD_RD p \<Longrightarrow> \<not> MEM_STORE_RD p \<Longrightarrow>
      op2_se e = newest b (BP_RADR2_RD p) (OP2_RD p) \<and> \<not> held b (BP_RADR2_RD p)"
    and "\<not> MEM_LOAD_RD p \<Longrightarrow> MEM_STORE_RD p \<Longrightarrow>
      bp_mem_data_sd e = newest b (BP_RADR2_RD p) (MEM_DATA_RD p) \<and> \<not> held b (BP_RADR2_RD p)"
proof -
  have re: "\<not> CSR_WENABLE_RE (back_re b)" "\<not> MULT_INST_RE (back_re b)"
    "\<not> CSR_WENABLE_RM (back_rm b)" "\<not> MULT_INST_RM (back_rm b)"
    using assms(1) by (simp_all add: back_inv_def plain_re_def plain_rm_def)
  have w: "DEST_RM (back_rm b) \<noteq> DEST_RE (back_re b)" if "held b (BP_RADR1_RD p) \<or> held b (BP_RADR2_RD p)"
    using that assms(5) by (auto simp: held_def waits_def)
  have one: "\<not> held b (BP_RADR1_RD p)"
  proof
    assume "held b (BP_RADR1_RD p)"
    then have "snd (exec_bypass_rs1 env p (back_re b) (back_rm b) x)"
      using re w assms(3,4) by (auto simp: held_def loading_def exec_bypass_rs1_def)
    then have "blocked e"
      unfolding e_def exec_bypasses_def split_beta by (simp add: exec_bypass_rs2_def Let_def)
    then show False using assms(7) by simp
  qed
  moreover have two: "\<not> held b (BP_RADR2_RD p)" if "\<not> MEM_LOAD_RD p"
  proof
    assume "held b (BP_RADR2_RD p)"
    then have "blocked e"
      using re w assms(3,4) that
      unfolding e_def exec_bypasses_def split_beta by (auto simp: held_def loading_def exec_bypass_rs2_def)
    then show False using assms(7) by simp
  qed
  ultimately show "op1_se e = newest b (BP_RADR1_RD p) (OP1_RD p) \<and> \<not> held b (BP_RADR1_RD p)"
    using re assms(2-4) by (auto simp: e_def exec_bypasses_def split_beta exec_bypass_rs2_def
        exec_bypass_rs1_def Let_def newest_def held_def loading_def)
  show "op2_se e = newest b (BP_RADR2_RD p) (OP2_RD p) \<and> \<not> held b (BP_RADR2_RD p)"
    if "\<not> MEM_LOAD_RD p" "\<not> MEM_STORE_RD p"
    using re assms(2-4) that two by (auto simp: e_def exec_bypasses_def split_beta exec_bypass_rs2_def
        Let_def newest_def held_def loading_def)
  show "bp_mem_data_sd e = newest b (BP_RADR2_RD p) (MEM_DATA_RD p) \<and> \<not> held b (BP_RADR2_RD p)"
    if "\<not> MEM_LOAD_RD p" "MEM_STORE_RD p"
    using re assms(2-4) that two by (auto simp: e_def exec_bypasses_def split_beta exec_bypass_rs2_def
        Let_def newest_def held_def loading_def)
qed

lemma plain_exec_operands:
  fixes env x
  assumes inv: "back_inv b" and iss: "issued p ir pc" "rv_plain ir" and rdy: "ready m b p ir"
    and env: "exec_env.EXE2MEM_EMPTY_SE env = (\<not> fifo_v (exe2mem b))"
  defines "e \<equiv> exec_bypasses env p (back_re b) (back_rm b) x"
  assumes go: "\<not> blocked e"
  shows "rv_uses1 ir \<Longrightarrow> op1_se e = regs_mem m b (rv_rs1 ir)"
    and "rv_uses2 ir \<Longrightarrow> op2_se e = regs_mem m b (rv_rs2 ir)"
    and "rv_stores ir \<Longrightarrow> bp_mem_data_sd e = regs_mem m b (rv_rs2 ir)"
proof -
  note f = issued_fields [OF iss]
  have w: "waits b p \<Longrightarrow> DEST_RM (back_rm b) \<noteq> DEST_RE (back_re b)"
    using rdy by (simp add: ready_def)
  note sel = plain_exec_selects [OF inv f(8) _ env w go [unfolded e_def], folded e_def]
    and new = newest_regs [OF inv]
  have "rv_uses2 ir \<Longrightarrow> \<not> rv_stores ir" "rv_uses2 ir \<Longrightarrow> \<not> rv_loads ir" "rv_stores ir \<Longrightarrow> \<not> rv_loads ir"
    by (simp_all add: rv_uses2_def rv_stores_def rv_loads_def)
  then show "rv_uses1 ir \<Longrightarrow> op1_se e = regs_mem m b (rv_rs1 ir)"
    "rv_uses2 ir \<Longrightarrow> op2_se e = regs_mem m b (rv_rs2 ir)"
    "rv_stores ir \<Longrightarrow> bp_mem_data_sd e = regs_mem m b (rv_rs2 ir)"
    using f(2,3,9,10) rdy sel new [OF rv_regs_bound(1)] new [OF rv_regs_bound(2)]
    by (auto simp: ready_def)
qed

text \<open>
  The payload for memory of an instruction that leaves the execute stage: the result for its
  register, or the address of a load or store and the data of a store.
\<close>

lemma exec_access_address:
  "mem_access rd \<Longrightarrow> alu_out_se (exec_settle env rd re rm s) = exe_res_se (exec_settle env rd re rm s)"
  by (simp add: exec_settle_def mem_access_def exec_manage_fifo_def exec_exception_def Let_def)
    (simp add: exec_select_exec_res_def exec_check_access_def Let_def)

lemma rv_load_lane:
  assumes "rv_loads ir" "rv_plain ir" "lane_bytes sz = rv_bytes ir"
    and "rv_bytes ir dvd unat adr"
  shows "lane_extend (funct3 ir < 2) sz (unat adr mod 4) (m (adr AND 0xFFFFFFFC)) = rv_load ir adr m"
proof -
  have f3: "funct3 ir = 0 \<or> funct3 ir = 1 \<or> funct3 ir = 2 \<or> funct3 ir = 4 \<or> funct3 ir = 5"
    using u3_cases [of "funct3 ir"] assms(1,2) by (auto simp: rv_plain_def rv_loads_def)
  have word: "signed_take_bit 31 w = w" "take_bit 32 w = w" for w :: u32
  proof -
    show "take_bit 32 w = w" by (rule bit_word_eqI) (simp add: bit_simps)
    have "bit (signed_take_bit 31 w) n = bit w n" if "n < 32" for n
      using that by (cases "n = 31") (auto simp: bit_simps min_def)
    then show "signed_take_bit 31 w = w" by (intro bit_word_eqI) simp
  qed
  show ?thesis
    using f3 assms(3,4) by (auto simp: lane_extend_def rv_load_def Let_def rv_bytes_def word)
qed

lemma plain_exec_result:
  fixes i :: backend_in
  assumes inv: "back_inv b" and iss: "issued (back_rd b) ir pc" "rv_plain ir"
    and rdy: "ready m b (back_rd b) ir" and go: "\<not> blocked (backend_exec i b)"
    and v: "rv_result ir pc (regs_mem m b (rv_rs1 ir)) (regs_mem m b (rv_rs2 ir)) = Some v"
  shows "exe_res_se (backend_exec i b) = v"
proof -
  let ?e = "backend_exec i b"
  have e: "?e = exec_settle (backend_exec_env i b) (back_rd b) (back_re b) (back_rm b) (exec_inst b)"
    by (simp add: backend_exec_def)
  have env: "exec_env.EXE2MEM_EMPTY_SE (backend_exec_env i b) = (\<not> fifo_v (exe2mem b))"
    by (simp add: backend_exec_env_def Let_def fifo_EMPTY_def)
  note ops = plain_exec_operands [OF inv iss rdy env go [unfolded e exec_settle_operands]]
  have v': "rv_result ir pc (op1_se ?e) (op2_se ?e) = Some v"
    unfolding v [symmetric]
    by (rule rv_result_cong) (simp_all add: e ops)
  obtain u di rd fb re rm s where d: "back_rd b = dec_issue u di rd fb re rm s"
    "INSTR_RI di = ir" "PC_IF2DEC_RI di = pc" "READ_PC_SR di = pc + 4"
    "opcode ir = 0b0110111 \<Longrightarrow> RDATA2_SR di = 0"
    using iss(1) by (auto simp: issued_def)
  show ?thesis
    by (rule issue_exec_result [where i = di, OF _ _ refl refl])
      (use v' d go in \<open>simp_all add: e\<close>)
qed

lemma plain_exec_payload:
  fixes i :: backend_in
  assumes inv: "back_inv b" and quiet: "back_quiet i"
    and iss: "issued (back_rd b) ir pc" "rv_plain ir"
    and rdy: "ready m b (back_rd b) ir" and exc: "\<not> EXCEPTION_RD (back_rd b)"
    and al: "rv_aligned ir (regs_mem m b)" and go: "\<not> blocked (backend_exec i b)"
  defines "p \<equiv> exec_payload (back_rd b) (backend_exec i b)"
  shows "plain_re p"
    and "(\<lambda>r. if r \<noteq> 0 \<and> r = DEST_RE p then re_value m p else regs_mem m b r) =
      rv_write ir (rv_value m ir pc (regs_mem m b (rv_rs1 ir)) (regs_mem m b (rv_rs2 ir))) (regs_mem m b)"
    and "MEM_STORE_RE p = rv_stores ir" "MEM_LOAD_RE p = rv_loads ir"
    and "rv_stores ir \<Longrightarrow> EXE_RES_RE p = rv_adr ir (regs_mem m b (rv_rs1 ir)) \<and>
      MEM_DATA_RE p = regs_mem m b (rv_rs2 ir) \<and> lane_bytes (MEM_SIZE_RE p) = rv_bytes ir"
proof -
  let ?e = "backend_exec i b"
  note f = issued_fields [OF iss] and result = plain_exec_result [OF inv iss rdy go]
  have e: "?e = exec_settle (backend_exec_env i b) (back_rd b) (back_re b) (back_rm b) (exec_inst b)"
    by (simp add: backend_exec_def)
  have env: "exec_env.EXE2MEM_EMPTY_SE (backend_exec_env i b) = (\<not> fifo_v (exe2mem b))"
    by (simp add: backend_exec_env_def Let_def fifo_EMPTY_def)
  have p: "DEST_RE p = EXE_DEST_RD (back_rd b)" "EXE_RES_RE p = exe_res_se ?e"
    "CSR_WENABLE_RE p = CSR_WENABLE_RD (back_rd b)" "MULT_INST_RE p = MULT_INST_RD (back_rd b)"
    "MEM_DATA_RE p = bp_mem_data_sd ?e" "MEM_SIZE_RE p = MEM_SIZE_RD (back_rd b)"
    "MEM_SIGN_EXTEND_RE p = MEM_SIGN_EXTEND_RD (back_rd b)"
    by (simp_all add: p_def exec_payload_def)
  have adr: "exe_res_se ?e = rv_adr ir (regs_mem m b (rv_rs1 ir))" if "rv_stores ir \<or> rv_loads ir"
    using iss(2) that
    by (cases rule: rv_plain_cases) (auto simp: rv_stores_def rv_loads_def intro!: result)
  have mode: "exec_env.CURRENT_MODE_SM (backend_exec_env i b) = 3"
    using back_no_trap(2) [OF inv quiet] by (simp add: backend_exec_env_def Let_def)
  have "access_bytes (MEM_SIZE_RD (back_rd b)) dvd unat (alu_out_se ?e)" if "mem_access (back_rd b)"
  proof -
    have "rv_stores ir \<or> rv_loads ir" using that f(2,3) by (auto simp: mem_access_def)
    then show ?thesis
      using al adr f(11) that by (auto simp: e exec_access_address rv_aligned_def)
  qed
  then have sends: "WB_RD (back_rd b) \<Longrightarrow> WB_RE p" "MEM_LOAD_RE p = rv_loads ir" "MEM_STORE_RE p = rv_stores ir"
    "\<not> EXCEPTION_RE p"
    using exec_payload_exception [of "backend_exec_env i b" "back_rd b" "back_re b" "back_rm b"
        "exec_inst b"] exc f(2,3) mode by (auto simp: p_def e Let_def)
  then show "MEM_STORE_RE p = rv_stores ir" "MEM_LOAD_RE p = rv_loads ir" by simp_all
  have excl: "rv_stores ir \<Longrightarrow> \<not> rv_loads ir" by (simp add: rv_stores_def rv_loads_def)
  show "EXE_RES_RE p = rv_adr ir (regs_mem m b (rv_rs1 ir)) \<and> MEM_DATA_RE p = regs_mem m b (rv_rs2 ir) \<and>
      lane_bytes (MEM_SIZE_RE p) = rv_bytes ir" if "rv_stores ir"
    using that adr f(11) go plain_exec_operands(3) [OF inv iss rdy env]
    by (simp add: p) (simp add: e)
  have "unat (EXE_DEST_RD (back_rd b)) < 32"
    unfolding f(1) rv_dest_def using rv_regs_bound(3) [of ir] by simp
  moreover have "load_ok p"
    using al adr f(11) excl by (auto simp: load_ok_def sends(2,3) p rv_aligned_def)
  ultimately show "plain_re p"
    using f(4-6) sends by (auto simp: plain_re_def p)
  show "(\<lambda>r. if r \<noteq> 0 \<and> r = DEST_RE p then re_value m p else regs_mem m b r) =
      rv_write ir (rv_value m ir pc (regs_mem m b (rv_rs1 ir)) (regs_mem m b (rv_rs2 ir))) (regs_mem m b)"
    using iss(2)
  proof (cases rule: rv_plain_cases)
    case (Result v0)
    define v where "v = the (rv_result ir pc (regs_mem m b (rv_rs1 ir)) (regs_mem m b (rv_rs2 ir)))"
    have v: "rv_result ir pc (regs_mem m b (rv_rs1 ir)) (regs_mem m b (rv_rs2 ir)) = Some v"
      using Result(1) rv_result_defined [of ir pc] by (auto simp: v_def)
    show ?thesis
      using v result [OF v] Result(2-4) sends(2)
      by (auto simp: p f(1) rv_dest_def rv_stores_def rv_loads_def rv_value_def rv_write_def fun_eq_iff
          re_value_def)
  next
    case Load
    then have l: "rv_loads ir" by (simp add: rv_loads_def)
    then have "re_value m p = rv_load ir (rv_adr ir (regs_mem m b (rv_rs1 ir))) m"
      using rv_load_lane [OF l iss(2), of "MEM_SIZE_RE p" "EXE_RES_RE p" m] adr al f(11,12) sends(2)
      by (simp add: re_value_def p rv_aligned_def)
    then show ?thesis
      using l Load(1) by (auto simp: p f(1) rv_dest_def rv_stores_def rv_value_def rv_write_def fun_eq_iff)
  qed (simp_all add: p f(1) rv_value_def rv_write_def fun_eq_iff rv_dest_def rv_stores_def rv_loads_def)
qed

lemma plain_exec_push:
  assumes "back_inv b" "back_quiet i"
  shows "exe2mem_push_se (backend_exec i b) \<longleftrightarrow>
      fifo_v (dec2exe b) \<and> (fifo_v (exe2mem b) \<longrightarrow> EXE2MEM_POP_SM (backend_mem i b)) \<and>
      \<not> blocked (backend_exec i b)"
    and "blocked (backend_exec i b) \<Longrightarrow> waits b (back_rd b)"
proof -
  have "\<not> exec_env.EXCEPTION_SM (backend_exec_env i b)" "\<not> DIV_BUSY_SE (backend_exec_env i b)"
    "exe2mem_full_se (backend_exec_env i b) = (fifo_v (exe2mem b) \<and> \<not> EXE2MEM_POP_SM (backend_mem i b))"
    "exec_env.DEC2EXE_EMPTY_SD (backend_exec_env i b) = (\<not> fifo_v (dec2exe b))"
    using back_no_trap(1) [OF assms] assms(2)
    by (auto simp: back_quiet_def backend_exec_env_def Let_def fifo_FULL_def fifo_EMPTY_def)
  then show "exe2mem_push_se (backend_exec i b) \<longleftrightarrow>
      fifo_v (dec2exe b) \<and> (fifo_v (exe2mem b) \<longrightarrow> EXE2MEM_POP_SM (backend_mem i b)) \<and>
      \<not> blocked (backend_exec i b)"
    using exec_handshake [of "backend_exec_env i b" "back_rd b" "back_re b" "back_rm b" "exec_inst b"]
      plain_exec_valid [OF assms(1)]
    unfolding Let_def backend_exec_def by (auto simp del: exec_settle_operands simp add: exec_settle_operands)
  have "exec_env.EXE2MEM_EMPTY_SE (backend_exec_env i b) = (\<not> fifo_v (exe2mem b))"
    by (simp add: backend_exec_env_def Let_def fifo_EMPTY_def)
  then show "blocked (backend_exec i b) \<Longrightarrow> waits b (back_rd b)"
    using blocked_waits by (simp add: backend_exec_def)
qed

end
