(* ===== verification/Core_Refines.thy ===== *)
theory Core_Refines
  imports Core_Isa
begin

text \<open>
  The front end of the refinement of \<open>Core_Isa\<close>: fetch and decode hold the instructions that
  come next, a branch or jump sends fetch to its target and drops what was fetched behind it,
  and each instruction enters the execute stage with its operands or behind the instruction
  that produces them.  Together with the back end: a cycle makes one step of the sequential
  machine or none (\<open>core_quiet_step\<close>), and it makes progress whenever the caches answer
  (\<open>core_flow_step\<close>).
\<close>

subsection \<open>The invariant\<close>

text \<open>The address of the next instruction that decode has not handed over.\<close>

definition fetch_pc :: "core \<Rightarrow> u32" where
  "fetch_pc c =
     (if fifo_v (if2dec c) then rng 31 0 (DOUT_R (if2dec c))
      else if fifo_v (dec2if c) then PC_RD (core_fb c)
      else REG_RR (back_end c) ! 32 + 4)"

definition front_inv :: "(u32 \<Rightarrow> u32) \<Rightarrow> core \<Rightarrow> bool" where
  "front_inv prog c \<longleftrightarrow>
     wait_left (if2dec c) \<le> 1 \<and> wait_left (dec2if c) \<le> 1 \<and> \<not> bit (fetch_pc c) 0 \<and>
     \<not> bit (DOUT_R (if2dec c)) 96 \<and>
     (fifo_v (if2dec c) \<longrightarrow> rng 63 32 (DOUT_R (if2dec c)) = prog (fetch_pc c) \<and>
        fifo_v (dec2if c) \<and> PC_RD (core_fb c) = fetch_pc c + 4 \<and>
        REG_RR (back_end c) ! 32 = fetch_pc c + 4) \<and>
     (\<not> fifo_v (if2dec c) \<and> fifo_v (dec2if c) \<longrightarrow> REG_RR (back_end c) ! 32 = fetch_pc c)"

definition exe_inv :: "(u32 \<Rightarrow> u32) \<Rightarrow> core \<Rightarrow> bool" where
  "exe_inv prog c \<longleftrightarrow> fifo_v (dec2exe (back_end c)) \<longrightarrow>
     (let b = back_end c; p = back_rd b; pc = PC_DEC2EXE_RD p in
      issued p (prog pc) pc \<and> rv_plain (prog pc) \<and> \<not> EXCEPTION_RD p \<and> ready prog b p (prog pc) \<and>
      rv_aligned (prog pc) (regs_mem prog b) \<and>
      fetch_pc c = fst (rv_step prog (pc, regs_mem prog b)))"

definition core_inv :: "(u32 \<Rightarrow> u32) \<Rightarrow> core \<Rightarrow> bool" where
  "core_inv prog c \<longleftrightarrow> back_inv (back_end c) \<and> front_inv prog c \<and> exe_inv prog c"

text \<open>
  The abstract state: program counter and registers after what has left the execute stage, with the
  value of a load that the memory stage has not answered yet.
\<close>

definition core_abs :: "(u32 \<Rightarrow> u32) \<Rightarrow> core \<Rightarrow> rv_state" where
  "core_abs prog c =
     (if fifo_v (dec2exe (back_end c)) then PC_DEC2EXE_RD (back_rd (back_end c)) else fetch_pc c,
      regs_mem prog (back_end c))"

definition core_push :: "core_in \<Rightarrow> core \<Rightarrow> bool" where
  "core_push i c = dec_pc.dec2exe_push_sd (D_pc (core_dec i c))"

definition core_issue :: "core_in \<Rightarrow> core \<Rightarrow> dec2exe_out" where
  "core_issue i c = dec_issue (dec_uninits i) (core_dec_ports i c) (back_rd (back_end c)) (core_fb c)
     (back_re (back_end c)) (back_rm (back_end c)) (dec_inst c)"

text \<open>
  What the theorem asks of the environment in a cycle: no reset, interrupt, bus error or
  predicted branch, the divider at rest, and each cache answers with the word of the memory
  \<open>prog\<close> when it does not stall.  The data cache does not stall a load whose register write-back
  still shows with an older value: the execute stage would hand on the older value
  (\<open>exec_rs1_overtakes_load\<close>).
\<close>

definition load_in_time :: "backend_in \<Rightarrow> backend \<Rightarrow> bool" where
  "load_in_time i b \<longleftrightarrow>
     (loading b \<and> MCACHE_STALL_SM (mem_ports i) \<longrightarrow>
        DEST_RE (back_re b) = 0 \<or> DEST_RM (back_rm b) \<noteq> DEST_RE (back_re b))"

definition core_quiet :: "(u32 \<Rightarrow> u32) \<Rightarrow> core_in \<Rightarrow> core \<Rightarrow> bool" where
  "core_quiet prog i c \<longleftrightarrow>
     back_quiet (back_ports i) \<and>
     \<not> (PRED_BRANCH_MISS_OUT_SP (fetch_ports i) \<and> pb_taken (fetch_ports i)) \<and>
     \<not> bit (if2dec_high i) 32 \<and>
     (\<not> STALL_SIC (fetch_ports i) \<longrightarrow>
        INST_SIC (fetch_ports i) = prog (PC_SI (core_fetch i c))) \<and>
     back_answers prog (back_ports i) (back_end c) \<and> load_in_time (back_ports i) (back_end c)"

text \<open>Such a cycle without a trap, in which decode hands over none but plain instructions.\<close>

definition core_normal :: "(u32 \<Rightarrow> u32) \<Rightarrow> core_in \<Rightarrow> core \<Rightarrow> bool" where
  "core_normal prog i c \<longleftrightarrow> core_quiet prog i c \<and> \<not> mem.EXCEPTION_SM (core_mem i c) \<and>
     (core_push i c \<longrightarrow> rv_plain (INSTR_RI (core_dec_ports i c)))"

text \<open>The execute stage takes an instruction.\<close>

definition core_executes :: "core_in \<Rightarrow> core \<Rightarrow> bool" where
  "core_executes i c = exe2mem_push_se (backend_exec (back_ports i) (back_end c))"

subsection \<open>The inputs of decode\<close>

lemma core_dec_ports_sel:
  assumes "\<not> mem.EXCEPTION_SM (core_mem i c)"
  shows "INSTR_RI (core_dec_in i c full) = rng 63 32 (DOUT_R (if2dec c))"
    "PC_IF2DEC_RI (core_dec_in i c full) = rng 31 0 (DOUT_R (if2dec c))"
    "IF2DEC_EMPTY_SI (core_dec_in i c full) = (\<not> fifo_v (if2dec c))"
    "PRED_TAKEN_RI (core_dec_in i c full) = bit (DOUT_R (if2dec c)) 96"
    "\<not> dec_in.EXCEPTION_SM (core_dec_in i c full)"
    "dec_in.EXE2MEM_EMPTY_SE (core_dec_in i c full) = (\<not> fifo_v (exe2mem (back_end c)))"
    "dec_in.MEM2WBK_EMPTY_SM (core_dec_in i c full) = (\<not> fifo_v (mem2wbk (back_end c)))"
    "dec_in.DEC2EXE_EMPTY_SD (core_dec_in i c full) = (\<not> fifo_v (dec2exe (back_end c)))"
    "dec2exe_full_sd (core_dec_in i c full) = backend_full (back_ports i) (back_end c)"
    "dec2if_full_sd (core_dec_in i c full) = full"
  using assms
  by (simp_all add: core_dec_in_def split_beta core_dec_fixed_def Let_def core_fetch_at_def
      core_fetch_in_def ifetch_fetch_method_def fifo_EMPTY_def)

text \<open>Decode hands over exactly when it does not stall, and redirects fetch as it should.\<close>

lemma dec_pc_run:
  assumes "\<not> dec_in.EXCEPTION_SM i" "\<not> PRED_TAKEN_RI i" "p = dec_pc_inc i ops st fb s"
  shows "dec_pc.dec2exe_push_sd p = (\<not> stall_sd st)" "IF2DEC_POP_SD p = (\<not> stall_sd st)"
    "IF2DEC_FLUSH_SD p = (\<not> stall_sd st \<and> jump_sd ops)"
    "dec2if_push_sd p = (\<not> dec2if_full_sd i \<and> (jump_sd ops \<and> \<not> IF2DEC_EMPTY_SI i \<longrightarrow> \<not> stall_sd st))"
    "dec_pc.WRITE_PC_ENABLE_SD p = dec2if_push_sd p"
    "dec2if_push_sd p \<Longrightarrow> dec_pc.WRITE_PC_SD p =
       (if jump_sd ops \<and> \<not> IF2DEC_EMPTY_SI i then PC_IF2DEC_RI i + offset_branch_sd ops
        else READ_PC_SR i + 4)"
    "res_pc_sd p = dec_pc.WRITE_PC_SD p"
    "\<not> dec2if_push_sd p \<Longrightarrow> dec_pc.WRITE_PC_SD p = READ_PC_SR i"
  using assms
  by (auto simp: dec_pc_inc_def dec_next_pc_def dec_if2dec_def Let_def split: if_splits)

abbreviation "core_jump i c \<equiv> jump_sd (D_ops (core_dec i c))"

lemma core_dec_run:
  assumes "core_normal prog i c" "front_inv prog c"
  defines "p \<equiv> D_pc (core_dec i c)" and "jump \<equiv> core_jump i c \<and> fifo_v (if2dec c)"
  shows "core_push i c = (\<not> stall_sd (D_stall (core_dec i c)))" "IF2DEC_POP_SD p = core_push i c"
    "IF2DEC_FLUSH_SD p = (core_push i c \<and> core_jump i c)"
    "dec2if_push_sd p = (\<not> core_full i c \<and> (jump \<longrightarrow> core_push i c))"
    "dec_pc.WRITE_PC_ENABLE_SD p = dec2if_push_sd p"
    "dec2if_push_sd p \<Longrightarrow> dec_pc.WRITE_PC_SD p =
       (if jump then branch_adr_sd p else REG_RR (back_end c) ! 32 + 4)"
    "res_pc_sd p = dec_pc.WRITE_PC_SD p"
    "core_push i c \<Longrightarrow> fifo_v (if2dec c) \<and> \<not> backend_full (back_ports i) (back_end c)"
proof -
  have n: "\<not> mem.EXCEPTION_SM (core_mem i c)" "RESET_N (reg_ports (back_ports i))"
    using assms(1) by (simp_all add: core_normal_def core_quiet_def back_quiet_def)
  note sel = core_dec_ports_sel [OF n(1)] and reads = core_reads_defined [of i c "core_full i c"]
  have taken: "\<not> PRED_TAKEN_RI (core_dec_ports i c)" using assms(2) by (simp add: sel front_inv_def)
  have p: "p = dec_pc_inc (core_dec_ports i c) (D_ops (core_dec i c)) (D_stall (core_dec i c))
      (core_fb c) (D_pc (dec_inst c))"
    unfolding p_def core_dec_eq dec_settle_parts(5) ..
  note run = dec_pc_run [OF sel(5) taken p]
  show "core_push i c = (\<not> stall_sd (D_stall (core_dec i c)))" "IF2DEC_POP_SD p = core_push i c"
    "IF2DEC_FLUSH_SD p = (core_push i c \<and> core_jump i c)"
    "dec2if_push_sd p = (\<not> core_full i c \<and> (jump \<longrightarrow> core_push i c))"
    "dec_pc.WRITE_PC_ENABLE_SD p = dec2if_push_sd p"
    "res_pc_sd p = dec_pc.WRITE_PC_SD p"
    using run(1-5,7) by (auto simp: core_push_def p_def [symmetric] sel jump_def)
  show "dec2if_push_sd p \<Longrightarrow> dec_pc.WRITE_PC_SD p =
       (if jump then branch_adr_sd p else REG_RR (back_end c) ! 32 + 4)"
    using run(6) n(2) by (simp add: sel reads jump_def p branch_adr)
  have "\<not> stall_sd (D_stall (core_dec i c)) \<Longrightarrow>
      \<not> IF2DEC_EMPTY_SI (core_dec_ports i c) \<and> \<not> dec2exe_full_sd (core_dec_ports i c)"
    by (auto simp: core_dec_eq dec_settle_parts(4) dec_stall_settle_def dec_stall_method_def)
  then show "core_push i c \<Longrightarrow> fifo_v (if2dec c) \<and> \<not> backend_full (back_ports i) (back_end c)"
    using run(1) by (simp add: core_push_def p_def [symmetric] sel)
qed

lemma word_cat_33_64:
  "rng 31 0 (word_cat (h :: 33 word) (put 31 0 (a :: u32) (put 63 32 (b :: u32) (0 :: u64))) :: 97 word) = a"
  "rng 63 32 (word_cat (h :: 33 word) (put 31 0 (a :: u32) (put 63 32 (b :: u32) (0 :: u64))) :: 97 word) = b"
  "bit (word_cat (h :: 33 word) (l :: u64) :: 97 word) 96 = bit h 32"
  by (rule bit_word_eqI; auto simp: bit_rng bit_put bit_word_cat_iff)+
    (simp add: bit_word_cat_iff)

lemma core_fetch_run:
  assumes n: "core_normal prog i c" and "front_inv prog c"
  defines "f \<equiv> core_fetch i c" and "flush \<equiv> core_push i c \<and> core_jump i c"
    and "w \<equiv> (word_cat (if2dec_high i) (if2dec_low (core_fetch i c)) :: 97 word)"
  shows "DEC2IF_POP_SI f = (flush \<or> if2dec_push f)"
    "if2dec_push f = (\<not> flush \<and> \<not> STALL_SIC (fetch_ports i) \<and>
       (fifo_v (if2dec c) \<longrightarrow> core_push i c) \<and> fifo_v (dec2if c))"
    "rng 31 0 w = PC_RD (core_fb c)" "\<not> bit w 96"
    "if2dec_push f \<Longrightarrow> rng 63 32 w = prog (PC_RD (core_fb c))"
proof -
  have exc: "\<not> EXCEPTION_SM_in (core_fetch_in i c a b)" for a b
    using n by (simp add: core_normal_def core_fetch_in_def)
  have f: "f = ifetch_fetch_method (core_fetch_in i c flush (core_push i c)) (ifetch_inst c)"
    unfolding f_def core_fetch_settled core_dec_run(2,3) [OF n assms(2)] core_fetch_at_def
      flush_def ..
  have pc: "ifetch_pc (core_fetch_in i c a b) = PC_RD (core_fb c)" for a b
    using n by (auto simp: ifetch_pc_def core_fetch_in_def core_normal_def core_quiet_def)
  show pushes: "DEC2IF_POP_SI f = (flush \<or> if2dec_push f)"
    "if2dec_push f = (\<not> flush \<and> \<not> STALL_SIC (fetch_ports i) \<and>
       (fifo_v (if2dec c) \<longrightarrow> core_push i c) \<and> fifo_v (dec2if c))"
    using exc [of flush "core_push i c"]
    by (auto simp: f ifetch_fetch_method_def Let_def core_fetch_in_def fifo_FULL_def fifo_EMPTY_def)
  have low: "if2dec_low f = put 31 0 (PC_RD (core_fb c)) (put 63 32 (INST_SIC (fetch_ports i)) 0)"
    "PC_SI f = PC_RD (core_fb c)"
    using exc [of flush "core_push i c"]
    by (simp_all add: f ifetch_fetch_method_def Let_def pc) (simp add: core_fetch_in_def)
  have w: "w = word_cat (if2dec_high i) (if2dec_low f)" by (simp add: w_def f_def)
  show "rng 31 0 w = PC_RD (core_fb c)" "\<not> bit w 96"
    using n by (simp_all add: w low word_cat_33_64 core_normal_def core_quiet_def)
  have "INST_SIC (fetch_ports i) = prog (PC_SI f)" if "if2dec_push f"
    using that n pushes(2) by (auto simp: core_normal_def core_quiet_def f_def [symmetric])
  then show "if2dec_push f \<Longrightarrow> rng 63 32 w = prog (PC_RD (core_fb c))"
    by (simp add: w low word_cat_33_64)
qed

text \<open>The FIFOs and the program counter register of the front end after a cycle.\<close>

lemma core_pc_register:
  assumes "back_inv (back_end c)" "RESET_N (reg_ports (back_ports i))"
    "backend_cycle (core_back_in i c) (back_end c) = Some b'"
  shows "REG_RR b' ! 32 =
    (if dec_pc.WRITE_PC_ENABLE_SD (D_pc (core_dec i c)) then dec_pc.WRITE_PC_SD (D_pc (core_dec i c))
     else REG_RR (back_end c) ! 32)"
proof -
  let ?w = "backend_wbk (back_ports i) (back_end c)" and ?r = "reg_ports (core_back_in i c)"
  have w: "unat (WADR_SW ?w) < 32"
    using dest_rm_bound [of "DOUT_R (mem2wbk (back_end c))"]
    by (simp add: backend_wbk_def wbk_method_def)
  have "reg_writing_adresse ?w ?r (REG_RR (back_end c)) = Some (REG_RR b')"
    using assms(3) by (auto simp: backend_cycle_def Let_def)
  then have "REG_RR b' ! 32 = reg_after ?w ?r (REG_RR (back_end c)) 32"
    using reg_step_ok [of "REG_RR (back_end c)" ?w ?r] assms(1) w
    by (auto simp: back_inv_def reg_inv_def)
  then show ?thesis
    using assms(2) w by (simp add: reg_after_def) (simp add: core_back_in_def Let_def)
qed

lemma core_front_fifos:
  assumes n: "core_normal prog i c" and inv: "core_inv prog c" and cyc: "core_cycle i c = Some c'"
  defines "f \<equiv> core_fetch i c" and "p \<equiv> D_pc (core_dec i c)"
  shows "backend_cycle (core_back_in i c) (back_end c) = Some (back_end c')"
    and "wait_left (if2dec c') \<le> 1 \<and> wait_left (dec2if c') \<le> 1"
    and "fifo_v (if2dec c') = (if2dec_push f \<or> fifo_v (if2dec c) \<and> \<not> core_push i c)"
    and "DOUT_R (if2dec c') = (if if2dec_push f then word_cat (if2dec_high i) (if2dec_low f)
           else DOUT_R (if2dec c))"
    and "fifo_v (dec2if c') = (dec2if_push_sd p \<or> fifo_v (dec2if c) \<and> \<not> DEC2IF_POP_SI f)"
    and "PC_RD (core_fb c') = (if dec2if_push_sd p then dec_pc.WRITE_PC_SD p
           else PC_RD (core_fb c))"
    and "REG_RR (back_end c') ! 32 = (if dec2if_push_sd p then dec_pc.WRITE_PC_SD p
           else REG_RR (back_end c) ! 32)"
proof -
  have front: "front_inv prog c" using inv by (simp add: core_inv_def)
  have rst: "RESET_N (reg_ports (back_ports i))"
    using n by (simp add: core_normal_def core_quiet_def back_quiet_def)
  have w: "wait_left (if2dec c) \<le> 1" "wait_left (dec2if c) \<le> 1"
    using front by (simp_all add: front_inv_def)
  show bcyc: "backend_cycle (core_back_in i c) (back_end c) = Some (back_end c')"
    using cyc by (auto simp: core_cycle_def Let_def)
  have fifos: "if2dec c' = fifo_function_loop (word_cat (if2dec_high i) (if2dec_low f)) (if2dec_push f)
      (core_push i c) (if2dec c)"
    "\<exists>d. dec2if c' = fifo_function_loop d (dec2if_push_sd p) (DEC2IF_POP_SI f) (dec2if c) \<and>
      PC_RD (unconcat_dec2if d) = res_pc_sd p"
    using cyc rst w core_dec_run(2) [OF n front]
    by (auto simp: core_cycle_def Let_def fifo_clock_run f_def p_def dec_concat_dec2if_def
        unconcat_dec2if_dec2if_pack dec_fetch_payload_def)
  then obtain d where d: "dec2if c' = fifo_function_loop d (dec2if_push_sd p) (DEC2IF_POP_SI f) (dec2if c)"
    "PC_RD (unconcat_dec2if d) = res_pc_sd p" by blast
  show "wait_left (if2dec c') \<le> 1 \<and> wait_left (dec2if c') \<le> 1"
    unfolding fifos(1) d(1) by (intro conjI fifo_loop_started)
  show "fifo_v (if2dec c') = (if2dec_push f \<or> fifo_v (if2dec c) \<and> \<not> core_push i c)"
    "DOUT_R (if2dec c') = (if if2dec_push f then word_cat (if2dec_high i) (if2dec_low f)
           else DOUT_R (if2dec c))"
    using core_fetch_run(2) [OF n front] unfolding fifos(1) f_def
    by (auto simp: fifo_function_loop_def)
  have full: "dec2if_push_sd p \<Longrightarrow> fifo_v (dec2if c) \<Longrightarrow> DEC2IF_POP_SI f"
    using core_dec_run(4) [OF n front] by (auto simp: p_def f_def core_full_def fifo_FULL_def
        split: if_splits)
  then show "fifo_v (dec2if c') = (dec2if_push_sd p \<or> fifo_v (dec2if c) \<and> \<not> DEC2IF_POP_SI f)"
    "PC_RD (core_fb c') = (if dec2if_push_sd p then dec_pc.WRITE_PC_SD p else PC_RD (core_fb c))"
    using d core_dec_run(7) [OF n front] unfolding d(1) p_def [symmetric]
    by (auto simp: fifo_function_loop_def)
  show "REG_RR (back_end c') ! 32 = (if dec2if_push_sd p then dec_pc.WRITE_PC_SD p
           else REG_RR (back_end c) ! 32)"
    using core_pc_register [OF _ rst bcyc] inv core_dec_run(5) [OF n front]
    by (simp add: core_inv_def p_def)
qed

text \<open>
  Fetch goes on where decode sends it: the next instruction is the same while decode stalls, and
  the target of the jump or the instruction behind after that.
\<close>

definition core_target :: "core_in \<Rightarrow> core \<Rightarrow> u32" where
  "core_target i c =
     (if core_jump i c then branch_adr_sd (D_pc (core_dec i c)) else fetch_pc c + 4)"

lemma core_front_step:
  assumes n: "core_normal prog i c" and inv: "core_inv prog c" and cyc: "core_cycle i c = Some c'"
    and even: "core_push i c \<Longrightarrow> \<not> bit (core_target i c) 0"
  shows "fetch_pc c' = (if core_push i c then core_target i c else fetch_pc c)" "front_inv prog c'"
proof -
  have front: "front_inv prog c" using inv by (simp add: core_inv_def)
  note st = core_front_fifos [OF n inv cyc] and dec = core_dec_run [OF n front]
    and fetch = core_fetch_run [OF n front]
  have full: "core_full i c = (fifo_v (dec2if c) \<and> \<not> DEC2IF_POP_SI (core_fetch i c))"
    by (simp add: core_full_def fifo_FULL_def)
  define P where "P = core_push i c"
  define J where "J = core_jump i c"
  define V1 where "V1 = fifo_v (if2dec c)"
  define V2 where "V2 = fifo_v (dec2if c)"
  define S where "S = STALL_SIC (fetch_ports i)"
  define R where "R = REG_RR (back_end c) ! 32"
  note names = P_def [symmetric] J_def [symmetric] V1_def [symmetric] V2_def [symmetric]
    S_def [symmetric] R_def [symmetric]
  have fp: "if2dec_push (core_fetch i c) = (\<not> (P \<and> J) \<and> \<not> S \<and> (V1 \<longrightarrow> P) \<and> V2)"
    "DEC2IF_POP_SI (core_fetch i c) = (P \<and> J \<or> if2dec_push (core_fetch i c))"
    using fetch(1,2) by (simp_all add: names)
  have dp: "dec2if_push_sd (D_pc (core_dec i c)) = (\<not> (V2 \<and> \<not> DEC2IF_POP_SI (core_fetch i c)) \<and>
      (J \<and> V1 \<longrightarrow> P))" using dec(4) full by (simp add: names)
  have pv: "P \<Longrightarrow> V1" using dec(8) by (simp add: names)
  have wpc: "dec2if_push_sd (D_pc (core_dec i c)) \<Longrightarrow> dec_pc.WRITE_PC_SD (D_pc (core_dec i c)) =
      (if J \<and> V1 then branch_adr_sd (D_pc (core_dec i c)) else R + 4)"
    using dec(6) by (simp add: names)
  have tgt: "core_target i c = (if J then branch_adr_sd (D_pc (core_dec i c)) else fetch_pc c + 4)"
    by (simp add: core_target_def names)
  have fr: "V1 \<Longrightarrow> V2" "V1 \<Longrightarrow> PC_RD (core_fb c) = fetch_pc c + 4" "V1 \<Longrightarrow> R = fetch_pc c + 4"
    "\<not> V1 \<Longrightarrow> V2 \<Longrightarrow> R = fetch_pc c" "\<not> bit (fetch_pc c) 0" "\<not> bit (DOUT_R (if2dec c)) 96"
    "V1 \<Longrightarrow> rng 63 32 (DOUT_R (if2dec c)) = prog (fetch_pc c)"
    using front by (simp_all add: front_inv_def names)
  have fpc: "fetch_pc c = (if V1 then rng 31 0 (DOUT_R (if2dec c)) else if V2 then PC_RD (core_fb c) else R + 4)"
    by (simp add: fetch_pc_def names)
  have "wait_left (if2dec c') \<le> Suc 0" "wait_left (dec2if c') \<le> Suc 0"
    using st(2) by simp_all
  note facts = this st(3-) fp dp fetch(3-5)
  consider (jump) "P" "J" "V1" "V2" | (next_fetched) "P" "\<not> J" "V1" "V2" "\<not> S"
    | (next_missed) "P" "\<not> J" "V1" "V2" "S" | (wait) "\<not> P" "V1" "V2"
    | (fetched) "\<not> P" "\<not> V1" "V2" "\<not> S" | (missed) "\<not> P" "\<not> V1" "V2" "S"
    | (start) "\<not> P" "\<not> V1" "\<not> V2"
    using pv fr(1) by blast
  then have "fetch_pc c' = (if P then core_target i c else fetch_pc c) \<and> front_inv prog c'"
  proof cases
    case jump
    then show ?thesis
      using fr even wpc tgt unfolding front_inv_def fetch_pc_def [of c']
      by (simp add: facts names)
  next
    case next_fetched
    then show ?thesis
      using fr even wpc tgt fpc unfolding front_inv_def fetch_pc_def [of c']
      by (simp add: facts names)
  next
    case next_missed
    then show ?thesis
      using fr even wpc tgt fpc unfolding front_inv_def fetch_pc_def [of c']
      by (simp add: facts names)
  next
    case wait
    then show ?thesis
      using fr even wpc tgt fpc unfolding front_inv_def fetch_pc_def [of c']
      by (simp add: facts names)
  next
    case fetched
    then show ?thesis
      using fr even wpc tgt fpc unfolding front_inv_def fetch_pc_def [of c']
      by (simp add: facts names)
  next
    case missed
    then show ?thesis
      using fr even wpc tgt fpc unfolding front_inv_def fetch_pc_def [of c']
      by (simp add: facts names)
  next
    case start
    then have "fetch_pc c = R + 4" using fpc by simp
    moreover have "fetch_pc c' = R + 4" "fifo_v (dec2if c')" "\<not> fifo_v (if2dec c')"
      "REG_RR (back_end c') ! 32 = R + 4" "DOUT_R (if2dec c') = DOUT_R (if2dec c)"
      using start wpc by (simp_all add: fetch_pc_def facts names)
    ultimately show ?thesis
      using start fr(5,6) facts(1,2) by (simp add: front_inv_def)
  qed
  then show "fetch_pc c' = (if core_push i c then core_target i c else fetch_pc c)" "front_inv prog c'"
    by (simp_all add: P_def)
qed

subsection \<open>The back end in a cycle of the core\<close>

lemma core_normal_back:
  assumes "core_normal prog i c"
  shows "RESET_N (reg_ports (back_ports i))" "\<not> mem.EXCEPTION_SM (core_mem i c)"
    "back_quiet (back_ports i)" "back_quiet (core_back_in i c)"
    "back_answers prog (core_back_in i c) (back_end c)" "load_in_time (back_ports i) (back_end c)"
  using assms
  by (simp_all add: core_normal_def core_quiet_def back_quiet_def back_answers_def)
    (simp_all add: core_back_in_def Let_def)

lemma core_executes_iff:
  assumes "core_normal prog i c" "core_inv prog c"
  defines "b \<equiv> back_end c"
  shows "core_executes i c \<longleftrightarrow> fifo_v (dec2exe b) \<and>
      (fifo_v (exe2mem b) \<longrightarrow> EXE2MEM_POP_SM (backend_mem (back_ports i) b)) \<and>
      \<not> blocked (backend_exec (back_ports i) b)"
    and "blocked (backend_exec (back_ports i) b) \<Longrightarrow> waits b (back_rd b)"
  using plain_exec_push [of b "back_ports i"] assms(2) core_normal_back(3) [OF assms(1)]
  by (simp_all add: core_executes_def core_inv_def b_def)

lemma core_mem_pop:
  "EXE2MEM_POP_SM (backend_mem (core_back_in i c) b) = EXE2MEM_POP_SM (backend_mem (back_ports i) b)"
  by (simp add: backend_mem_def mem_handshake backend_mem_env_def)
    (simp add: core_back_in_def Let_def backend_wbk_def wbk_method_def)

text \<open>A load that the memory stage does not hand on is stalled by the cache.\<close>

lemma core_load_stalled:
  assumes "loading b" "\<not> EXE2MEM_POP_SM (backend_mem i b)"
  shows "MCACHE_STALL_SM (mem_ports i)"
  using assms
  by (auto simp: backend_mem_def mem_handshake backend_mem_env_def fifo_FULL_def fifo_EMPTY_def
      backend_wbk_def wbk_method_def loading_def split: if_splits)

text \<open>The FIFO in front of the execute stage.\<close>

lemma core_dec2exe_step:
  assumes n: "core_normal prog i c" and inv: "core_inv prog c" and cyc: "core_cycle i c = Some c'"
  shows "core_push i c \<Longrightarrow> fifo_v (dec2exe (back_end c)) \<Longrightarrow> core_executes i c"
    and "fifo_v (dec2exe (back_end c')) \<longleftrightarrow>
      core_push i c \<or> fifo_v (dec2exe (back_end c)) \<and> \<not> core_executes i c"
    and "back_rd (back_end c') = (if core_push i c then core_issue i c else back_rd (back_end c))"
proof -
  have front: "front_inv prog c" and st: "started (back_end c)"
    using inv by (simp_all add: core_inv_def back_inv_def)
  have pop: "DEC2EXE_POP_SE (backend_exec (back_ports i) (back_end c)) = core_executes i c"
    by (simp add: core_executes_def backend_exec_def exec_pushes(1))
  have d: "dec2exe (back_end c') = fifo_function_loop (dec2exe_in_sd (core_back_in i c)) (core_push i c)
      (core_executes i c) (dec2exe (back_end c))"
    using backend_cycle_fifos(1) [OF st core_front_fifos(1) [OF n inv cyc]]
    by (simp add: pop) (simp add: core_back_in_def Let_def core_push_def)
  show room: "core_push i c \<Longrightarrow> fifo_v (dec2exe (back_end c)) \<Longrightarrow> core_executes i c"
    using core_dec_run(8) [OF n front] by (auto simp: backend_full_def fifo_FULL_def pop split: if_splits)
  have sent: "unconcat_dec2exe (dec2exe_in_sd (core_back_in i c)) = core_issue i c"
    using dec_issue_delivered [of "core_dec_ports i c"] core_dec_ports_sel(5) [OF core_normal_back(2) [OF n]]
    by (simp add: core_back_in_def Let_def core_issue_def core_dec_eq)
  show "fifo_v (dec2exe (back_end c')) \<longleftrightarrow>
      core_push i c \<or> fifo_v (dec2exe (back_end c)) \<and> \<not> core_executes i c"
    "back_rd (back_end c') = (if core_push i c then core_issue i c else back_rd (back_end c))"
    using room sent unfolding d by (auto simp: fifo_function_loop_def)
qed

lemma core_back_step:
  assumes n: "core_normal prog i c" and inv: "core_inv prog c" and cyc: "core_cycle i c = Some c'"
  defines "b \<equiv> back_end c" and "b' \<equiv> back_end c'"
  shows "back_inv b'"
    and "regs_mem prog b' = (if core_executes i c
           then snd (rv_step prog (PC_DEC2EXE_RD (back_rd b), regs_mem prog b)) else regs_mem prog b)"
    and "r = 0 \<or> \<not> fifo_v (dec2exe b) \<or> r \<noteq> EXE_DEST_RD (back_rd b) \<Longrightarrow>
      regs_mem prog b' r = regs_mem prog b r"
    and "core_executes i c \<Longrightarrow> DEST_RE (back_re b') = EXE_DEST_RD (back_rd b) \<and>
      MEM_LOAD_RE (back_re b') = MEM_LOAD_RD (back_rd b)"
    and "\<not> core_executes i c \<Longrightarrow> back_re b' = back_re b"
proof -
  let ?bi = "core_back_in i c" and ?p = "exec_payload (back_rd b) (backend_exec (back_ports i) b)"
  have bi: "back_inv b" and exe: "exe_inv prog c" using inv by (simp_all add: core_inv_def b_def)
  note nb = core_normal_back [OF n, folded b_def]
  have v: "core_executes i c \<Longrightarrow> fifo_v (dec2exe b) \<and> \<not> blocked (backend_exec (back_ports i) b)"
    using core_executes_iff(1) [OF n inv] by (simp add: b_def)
  have e: "issued (back_rd b) (prog (PC_DEC2EXE_RD (back_rd b))) (PC_DEC2EXE_RD (back_rd b))"
    "rv_plain (prog (PC_DEC2EXE_RD (back_rd b)))" "ready prog b (back_rd b) (prog (PC_DEC2EXE_RD (back_rd b)))"
    "\<not> EXCEPTION_RD (back_rd b)" "rv_aligned (prog (PC_DEC2EXE_RD (back_rd b))) (regs_mem prog b)"
    if "core_executes i c"
    using exe v [OF that] by (simp_all add: exe_inv_def Let_def b_def)
  have pay: "plain_re ?p \<and> MEM_LOAD_RE ?p = MEM_LOAD_RD (back_rd b) \<and>
      (\<lambda>r. if r \<noteq> 0 \<and> r = DEST_RE ?p then re_value prog ?p else regs_mem prog b r) =
      snd (rv_step prog (PC_DEC2EXE_RD (back_rd b), regs_mem prog b))" if "core_executes i c"
    using plain_exec_payload(1,2,4) [OF bi nb(3) e [OF that]] v [OF that] issued_fields(2) [OF e(1,2) [OF that]]
    by (simp add: rv_step_def Let_def)
  have cyc': "backend_cycle ?bi b = Some b'"
    using core_front_fifos(1) [OF n inv cyc] by (simp add: b_def b'_def)
  have st: "back_inv b' \<and> (\<forall>r. regs_mem prog b' r = (if core_executes i c \<and> r \<noteq> 0 \<and> r = DEST_RE ?p
      then re_value prog ?p else regs_mem prog b r))"
    using back_step [OF bi nb(4,5) cyc'] pay by (simp add: core_executes_def b_def [symmetric])
  then show "back_inv b'" by simp
  show "regs_mem prog b' = (if core_executes i c
           then snd (rv_step prog (PC_DEC2EXE_RD (back_rd b), regs_mem prog b)) else regs_mem prog b)"
    using st pay by (auto simp: fun_eq_iff)
  have dest: "DEST_RE ?p = EXE_DEST_RD (back_rd b)" by (simp add: exec_payload_def)
  show "regs_mem prog b' r = regs_mem prog b r"
    if "r = 0 \<or> \<not> fifo_v (dec2exe b) \<or> r \<noteq> EXE_DEST_RD (back_rd b)"
    using that st v dest by auto
  note re' = back_fifo_step(6) [OF bi nb(4) cyc']
  show "DEST_RE (back_re b') = EXE_DEST_RD (back_rd b) \<and>
      MEM_LOAD_RE (back_re b') = MEM_LOAD_RD (back_rd b)" if "core_executes i c"
    using that re' dest pay by (simp add: core_executes_def b_def [symmetric])
  show "back_re b' = back_re b" if "\<not> core_executes i c"
    using that re' by (simp add: core_executes_def b_def [symmetric])
qed

subsection \<open>The operands of decode\<close>

lemma dec_bypass_regs:
  assumes "back_inv b" "\<not> csrrc_i_sd f" "unat r < 32" "v = REG_RR b ! unat r"
    and "dec_in.EXE2MEM_EMPTY_SE x = (\<not> fifo_v (exe2mem b))"
      "dec_in.MEM2WBK_EMPTY_SM x = (\<not> fifo_v (mem2wbk b))"
      "dec_in.DEC2EXE_EMPTY_SD x = (\<not> fifo_v (dec2exe b))"
  shows "snd (dec_bypass x f (back_rd b) (back_re b) (back_rm b) r v old) \<longleftrightarrow>
      r = 0 \<or> (r \<noteq> EXE_DEST_RD (back_rd b) \<or> \<not> fifo_v (dec2exe b)) \<and> \<not> held b r"
    and "snd (dec_bypass x f (back_rd b) (back_re b) (back_rm b) r v old) \<Longrightarrow>
      fst (dec_bypass x f (back_rd b) (back_re b) (back_rm b) r v old) = regs_mem m b r"
proof -
  have re: "\<not> MULT_INST_RE (back_re b)" "\<not> CSR_WENABLE_RE (back_re b)"
    "\<not> MULT_INST_RM (back_rm b)" "\<not> CSR_WENABLE_RM (back_rm b)" "REG_RR b ! 0 = 0"
    using assms(1) by (simp_all add: back_inv_def plain_re_def plain_rm_def reg_inv_def)
  show "snd (dec_bypass x f (back_rd b) (back_re b) (back_rm b) r v old) \<longleftrightarrow>
      r = 0 \<or> (r \<noteq> EXE_DEST_RD (back_rd b) \<or> \<not> fifo_v (dec2exe b)) \<and> \<not> held b r"
    using assms(5,7) re unfolding dec_bypass_valid in_exe_def late_in_mem_def held_def loading_def by auto
  then show "snd (dec_bypass x f (back_rd b) (back_re b) (back_rm b) r v old) \<Longrightarrow>
      fst (dec_bypass x f (back_rd b) (back_re b) (back_rm b) r v old) = regs_mem m b r"
    using assms re by (auto simp: dec_bypass_def regs_mem_def regs_wb_def held_def loading_def re_value_def)
qed

lemma core_byp_eq:
  fixes i :: core_in and c :: core
  defines "d \<equiv> core_dec i c" and "b \<equiv> back_end c"
  shows "D_byp d = dec_bypasses (core_dec_ports i c) (ifl (INSTR_RI (core_dec_ports i c)))
    (D_reg d) (back_rd b) (back_re b) (back_rm b) (D_byp (dec_inst c))"
  by (simp add: d_def b_def core_dec_eq dec_settle_parts(2))

text \<open>
  Decode holds an instruction back that reads what a load in front of the execute stage will write.
  So one that waits behind execute waits for a load that the cache has stalled.
\<close>

lemma core_no_wait:
  assumes n: "core_normal prog i c" and inv: "core_inv prog c" and cyc: "core_cycle i c = Some c'"
    and push: "core_push i c"
  defines "d \<equiv> core_dec i c" and "b \<equiv> back_end c" and "b' \<equiv> back_end c'"
  assumes adr: "BP_RADR1_RD p = RADR1_SD (D_reg d)" "BP_RADR2_RD p = RADR2_SD (D_reg d)"
    and w: "waits b' p"
  shows "\<not> core_executes i c" "loading b" "\<not> EXE2MEM_POP_SM (backend_mem (back_ports i) b)"
    "DEST_RM (back_rm b') \<noteq> DEST_RE (back_re b')"
proof -
  have bi: "back_inv b" and front: "front_inv prog c" using inv by (simp_all add: core_inv_def b_def)
  note sel = core_dec_ports_sel(6-8) [OF core_normal_back(2) [OF n], of "core_full i c", folded b_def]
  note byp = core_byp_eq [of i c, folded d_def b_def]
  have reads: "DEST_RE (back_re b') \<noteq> 0"
    "RADR1_SD (D_reg d) = DEST_RE (back_re b') \<or> RADR2_SD (D_reg d) = DEST_RE (back_re b')"
    using w adr by (auto simp: waits_def)
  show ne: "\<not> core_executes i c"
  proof
    assume e: "core_executes i c"
    then have v: "fifo_v (dec2exe b)" using core_executes_iff(1) [OF n inv] by (simp add: b_def)
    have dest: "DEST_RE (back_re b') = EXE_DEST_RD (back_rd b)" "MEM_LOAD_RD (back_rd b)"
      using core_back_step(4) [OF n inv cyc e] w by (simp_all add: b_def b'_def waits_def loading_def)
    then have "block_in_dec (D_byp d)"
      using reads(2) v sel by (auto simp: byp dec_bypasses_def split_beta Let_def)
    moreover have "\<not> r1_valid_sd (D_byp d) \<or> \<not> r2_valid_sd (D_byp d)"
      using reads dest v sel by (auto simp: byp dec_byp_parts dec_bypass_valid in_exe_def)
    ultimately have "stall_sd (D_stall d)"
      by (auto simp: d_def core_dec_eq dec_settle_parts(4) dec_stall_settle_def dec_stall_method_def)
    then show False using push core_dec_run(1) [OF n front] by (simp add: d_def)
  qed
  note step = back_fifo_step [OF bi core_normal_back(4) [OF n, folded b_def]
      core_front_fifos(1) [OF n inv cyc, folded b_def b'_def]]
  note mem = core_mem_pop [of i c b]
  have push': "\<not> exe2mem_push_se (backend_exec (core_back_in i c) b)"
    using ne by (simp add: core_executes_def b_def)
  have "fifo_v (exe2mem b')" "MEM_LOAD_RE (back_re b')" using w by (simp_all add: waits_def loading_def)
  then show l: "loading b" and pop: "\<not> EXE2MEM_POP_SM (backend_mem (back_ports i) b)"
    using step(5,6) push' by (simp_all add: mem loading_def)
  then have "back_re b' = back_re b" "back_rm b' = back_rm b"
    using step(3,6) push' by (simp_all add: mem)
  then show "DEST_RM (back_rm b') \<noteq> DEST_RE (back_re b')"
    using core_load_stalled [OF l pop] core_normal_back(6) [OF n] l reads(1)
    by (simp add: load_in_time_def b_def [symmetric])
qed

text \<open>
  The value decode reads for a register: the one of the abstract state when the instruction
  enters the execute stage, or an instruction ahead will deliver it.
\<close>

lemma core_operands:
  assumes n: "core_normal prog i c" and inv: "core_inv prog c" and cyc: "core_cycle i c = Some c'"
    and push: "core_push i c" and f: "\<not> csrrc_i_sd (ifl (INSTR_RI (core_dec_ports i c)))"
  defines "d \<equiv> core_dec i c" and "b' \<equiv> back_end c'"
  assumes adr: "BP_RADR1_RD p = RADR1_SD (D_reg d)" "BP_RADR2_RD p = RADR2_SD (D_reg d)"
  shows "supplied prog b' p (RADR1_SD (D_reg d)) (rdata1_sd (D_byp d))"
    and "supplied prog b' p (RADR2_SD (D_reg d)) (rdata2_sd (D_byp d))"
    and "r1_valid_sd (D_byp d) \<Longrightarrow> rdata1_sd (D_byp d) = regs_mem prog b' (RADR1_SD (D_reg d))"
    and "r2_valid_sd (D_byp d) \<Longrightarrow> rdata2_sd (D_byp d) = regs_mem prog b' (RADR2_SD (D_reg d))"
proof -
  let ?b = "back_end c"
  have bi: "back_inv ?b" using inv by (simp add: core_inv_def)
  note sel = core_dec_ports_sel(6-8) [OF core_normal_back(2) [OF n], of "core_full i c"]
  note d = core_byp_eq [of i c, folded d_def]
  have bound: "unat (RADR1_SD (D_reg d)) < 32" "unat (RADR2_SD (D_reg d)) < 32"
    by (simp_all add: d_def core_dec_eq dec_settle_parts(1) dec_read_address)
  have rd: "RDATA1_SR (core_dec_ports i c) = REG_RR ?b ! unat (RADR1_SD (D_reg d))"
    "RDATA2_SR (core_dec_ports i c) = REG_RR ?b ! unat (RADR2_SD (D_reg d))"
    by (simp_all add: core_reads_defined d_def core_dec_def)
  note st = core_back_step [OF n inv cyc, folded b'_def]
  have exe: "core_executes i c" if "fifo_v (dec2exe ?b)"
    using that core_dec2exe_step(1) [OF n inv cyc push] by simp
  note nw = core_no_wait [OF n inv cyc push adr [unfolded d_def], folded b'_def]
  have same: "regs_mem prog b' r = regs_mem prog ?b r"
    if "r = 0 \<or> (r \<noteq> EXE_DEST_RD (back_rd ?b) \<or> \<not> fifo_v (dec2exe ?b)) \<and> \<not> held ?b r" for r
    using st(3) [of r] that by auto
  have popped: "DEST_RM (back_rm b') = DEST_RE (back_re ?b)"
    if "EXE2MEM_POP_SM (backend_mem (back_ports i) ?b)"
    using that back_fifo_step(3) [OF bi core_normal_back(4) [OF n] core_front_fifos(1) [OF n inv cyc]] bi
    by (simp add: b'_def core_mem_pop back_inv_def plain_re_def take_bit_small)
  have late: "r \<noteq> 0 \<and> (DEST_RE (back_re b') = r \<or> DEST_RM (back_rm b') = r \<and> \<not> waits b' p)"
    if r: "\<not> (r = 0 \<or> (r \<noteq> EXE_DEST_RD (back_rd ?b) \<or> \<not> fifo_v (dec2exe ?b)) \<and> \<not> held ?b r)" for r
  proof (cases "r = EXE_DEST_RD (back_rd ?b) \<and> fifo_v (dec2exe ?b)")
    case True
    then show ?thesis using r exe st(4) by auto
  next
    case False
    then have h: "held ?b r" using r by auto
    then have dest: "DEST_RE (back_re ?b) = r" and v: "fifo_v (exe2mem ?b)" by (simp_all add: held_def loading_def)
    show ?thesis
    proof (cases "EXE2MEM_POP_SM (backend_mem (back_ports i) ?b)")
      case True
      then show ?thesis using popped nw(3) dest r by auto
    next
      case False
      then have "\<not> core_executes i c" using core_executes_iff(1) [OF n inv] v by auto
      then show ?thesis using st(5) dest r by auto
    qed
  qed
  note byp = dec_bypass_regs(1) [OF bi f _ _ sel] dec_bypass_regs(2) [OF bi f _ _ sel, where m = prog]
  have one: "supplied prog b' p r x \<and> (ok \<longrightarrow> x = regs_mem prog b' r)"
    if "ok \<longleftrightarrow> r = 0 \<or> (r \<noteq> EXE_DEST_RD (back_rd ?b) \<or> \<not> fifo_v (dec2exe ?b)) \<and> \<not> held ?b r"
      "ok \<Longrightarrow> x = regs_mem prog ?b r" for ok x r
    using that late [of r] same [of r] unfolding supplied_def by (cases ok) auto
  show "supplied prog b' p (RADR1_SD (D_reg d)) (rdata1_sd (D_byp d))"
    "r1_valid_sd (D_byp d) \<Longrightarrow> rdata1_sd (D_byp d) = regs_mem prog b' (RADR1_SD (D_reg d))"
    using one [OF byp(1) [OF bound(1) rd(1)] byp(2) [OF bound(1) rd(1)]] unfolding d dec_byp_parts by blast+
  show "supplied prog b' p (RADR2_SD (D_reg d)) (rdata2_sd (D_byp d))"
    "r2_valid_sd (D_byp d) \<Longrightarrow> rdata2_sd (D_byp d) = regs_mem prog b' (RADR2_SD (D_reg d))"
    using one [OF byp(1) [OF bound(2) rd(2)] byp(2) [OF bound(2) rd(2)]] unfolding d dec_byp_parts by blast+
qed

lemma issue_operands:
  assumes p: "p = dec_issue u i rd fb re rm s" and d: "d = dec_settle u i rd fb re rm s"
    and plain: "rv_plain (INSTR_RI i)"
  shows "rv_uses1 (INSTR_RI i) \<Longrightarrow> OP1_RD p = rdata1_sd (D_byp d)"
    "rv_uses2 (INSTR_RI i) \<Longrightarrow> OP2_RD p = rdata2_sd (D_byp d)"
    "rv_stores (INSTR_RI i) \<Longrightarrow> MEM_DATA_RD p = rdata2_sd (D_byp d)"
proof -
  have f7: "funct7 (INSTR_RI i) = 0 \<or> funct7 (INSTR_RI i) = 0b0100000 \<and>
      (funct3 (INSTR_RI i) = 0 \<or> funct3 (INSTR_RI i) = 5)" if "opcode (INSTR_RI i) = 0b0110011"
    using plain that by (cases rule: rv_plain_cases) (auto elim: rv_result_cases)
  have r: "OP1_RD p = rdata1_sd (D_byp d)" "OP2_RD p = rdata2_sd (D_byp d)"
    if "opcode (INSTR_RI i) = 0b0110011"
    using r_type_fields [OF that f7 [OF that]]
    by (simp_all add: p dec_issue_alu [OF refl _ d refl] dec_alu_operands_def)
  have "OP1_RD p = rdata1_sd (D_byp d)" if "opcode (INSTR_RI i) = 0b0010011"
    using i_type_fields [OF disjI1 [OF that]]
    by (simp add: p dec_issue_alu [OF refl _ d refl] dec_alu_operands_def)
  moreover have "OP1_RD p = rdata1_sd (D_byp d)" if "rv_loads (INSTR_RI i)"
  proof -
    have "opcode (INSTR_RI i) = 0b0000011" "funct3 (INSTR_RI i) \<noteq> 3" "funct3 (INSTR_RI i) < 6"
      using plain that by (auto simp: rv_loads_def elim: rv_plain_cases)
    then show "OP1_RD p = rdata1_sd (D_byp d)" using issue_load_fields(12) [OF _ _ _ p] by (simp add: d)
  qed
  moreover have st: "OP1_RD p = rdata1_sd (D_byp d)" "MEM_DATA_RD p = rdata2_sd (D_byp d)"
    if "rv_stores (INSTR_RI i)"
  proof -
    have "opcode (INSTR_RI i) = 0b0100011" "funct3 (INSTR_RI i) < 3"
      using plain that by (auto simp: rv_stores_def elim: rv_plain_cases)
    then show "OP1_RD p = rdata1_sd (D_byp d)" "MEM_DATA_RD p = rdata2_sd (D_byp d)"
      using issue_store_fields(9,10) [OF _ _ p] by (simp_all add: d)
  qed
  ultimately show "rv_uses1 (INSTR_RI i) \<Longrightarrow> OP1_RD p = rdata1_sd (D_byp d)"
    "rv_uses2 (INSTR_RI i) \<Longrightarrow> OP2_RD p = rdata2_sd (D_byp d)"
    "rv_stores (INSTR_RI i) \<Longrightarrow> MEM_DATA_RD p = rdata2_sd (D_byp d)"
    unfolding rv_uses1_def rv_uses2_def using r by blast+
qed

lemma core_issue_parts:
  assumes n: "core_normal prog i c" and inv: "core_inv prog c" and cyc: "core_cycle i c = Some c'"
    and push: "core_push i c"
  defines "ir \<equiv> prog (fetch_pc c)"
  shows "INSTR_RI (core_dec_ports i c) = ir" "PC_IF2DEC_RI (core_dec_ports i c) = fetch_pc c"
    "READ_PC_SR (core_dec_ports i c) = fetch_pc c + 4" "rv_plain ir"
    "issued (core_issue i c) ir (fetch_pc c)" "ready prog (back_end c') (core_issue i c) ir"
proof -
  have front: "front_inv prog c" using inv by (simp add: core_inv_def)
  note nb = core_normal_back [OF n] and sel = core_dec_ports_sel [OF core_normal_back(2) [OF n]]
  have v: "fifo_v (if2dec c)" using core_dec_run(8) [OF n front push] by simp
  show ir: "INSTR_RI (core_dec_ports i c) = ir" "PC_IF2DEC_RI (core_dec_ports i c) = fetch_pc c"
    using v front by (simp_all add: sel ir_def front_inv_def) (simp add: fetch_pc_def)
  show pc: "READ_PC_SR (core_dec_ports i c) = fetch_pc c + 4"
    using v front nb(1) by (simp add: core_reads_defined front_inv_def)
  show plain: "rv_plain ir" using n push ir by (simp add: core_normal_def)
  have p: "core_issue i c = dec_issue (dec_uninits i) (core_dec_ports i c) (back_rd (back_end c))
      (core_fb c) (back_re (back_end c)) (back_rm (back_end c)) (dec_inst c)"
    by (simp add: core_issue_def)
  have d: "BP_RADR1_RD (core_issue i c) = RADR1_SD (D_reg (core_dec i c))"
    "BP_RADR2_RD (core_issue i c) = RADR2_SD (D_reg (core_dec i c))"
    by (simp_all add: p dec_issue_flags [OF refl refl] core_dec_eq)
  have "RDATA2_SR (core_dec_ports i c) = 0" if "opcode ir = 0b0110111"
    using u_type_result(5) [OF disjI1 p] that ir inv
    by (simp add: d core_reads_defined core_dec_def core_inv_def back_inv_def reg_inv_def)
  then show iss: "issued (core_issue i c) ir (fetch_pc c)"
    unfolding issued_def using p ir pc by blast
  have "opcode ir \<noteq> 0b1110011" using plain
    by (cases rule: rv_plain_cases) (auto elim: rv_result_cases)
  then have "\<not> csrrc_i_sd (ifl (INSTR_RI (core_dec_ports i c)))"
    by (simp add: ir decoding_instruction_flags)
  note ops = core_operands [OF n inv cyc push this d]
  have "rv_uses1 ir \<Longrightarrow> OP1_RD (core_issue i c) = rdata1_sd (D_byp (core_dec i c)) \<and>
      RADR1_SD (D_reg (core_dec i c)) = rv_rs1 ir"
    "rv_uses2 ir \<Longrightarrow> OP2_RD (core_issue i c) = rdata2_sd (D_byp (core_dec i c)) \<and>
      RADR2_SD (D_reg (core_dec i c)) = rv_rs2 ir"
    "rv_stores ir \<Longrightarrow> MEM_DATA_RD (core_issue i c) = rdata2_sd (D_byp (core_dec i c)) \<and>
      RADR2_SD (D_reg (core_dec i c)) = rv_rs2 ir"
    using issue_operands [OF p core_dec_eq] plain issued_fields(9,10) [OF iss plain]
    by (auto simp: ir d)
  then show "ready prog (back_end c') (core_issue i c) ir"
    using ops(1,2) core_no_wait(4) [OF n inv cyc push d] unfolding ready_def by auto
qed

subsection \<open>The target of a branch or jump\<close>

lemma rv_offsets:
  "rv_offset_i ir = dec_imm_i ir" "rv_offset_b ir = dec_imm_b ir" "rv_offset_j ir = dec_imm_j ir"
  by (simp_all only: rv_offset_i_def rv_offset_b_def rv_offset_j_def dec_imm_i_spec dec_imm_b_spec
      dec_imm_j_spec)

lemma rv_next_even: "\<not> bit pc 0 \<Longrightarrow> \<not> bit (rv_next ir pc a b) 0"
proof -
  assume "\<not> bit pc 0"
  then have pc: "even pc" by (simp add: bit_0)
  have "\<not> bit (dec_imm_b ir) 0" "\<not> bit (dec_imm_j ir) 0"
    by (simp_all add: dec_imm_b_def dec_imm_j_def bit_put)
  then have "even (dec_imm_b ir)" "even (dec_imm_j ir)" by (simp_all add: bit_0)
  moreover have "even (x AND NOT 1)" for x :: u32
    by (simp add: even_and_iff)
  ultimately have "even (rv_next ir pc a b)"
    using pc by (simp add: rv_next_def rv_offsets)
  then show ?thesis by (simp add: bit_0)
qed

text \<open>A branch or jump leaves decode with valid operands only.\<close>

lemma dec_jump_valid:
  assumes "\<not> stall_sd (D_stall (dec_settle u i rd fb re rm s))"
    "opcode (INSTR_RI i) = 0b1100011 \<or> opcode (INSTR_RI i) = 0b1100111 \<or> opcode (INSTR_RI i) = 0b1101111"
  shows "r1_valid_sd (D_byp (dec_settle u i rd fb re rm s))"
    "r2_valid_sd (D_byp (dec_settle u i rd fb re rm s))"
proof -
  have "b_type_inst_sd (ity (INSTR_RI i)) \<or> jalr_type_inst_sd (ity (INSTR_RI i)) \<or>
      j_type_inst_sd (ity (INSTR_RI i))"
    using assms(2) by (auto simp: decoding_instruction_type_def)
  then show "r1_valid_sd (D_byp (dec_settle u i rd fb re rm s))"
    "r2_valid_sd (D_byp (dec_settle u i rd fb re rm s))"
    using assms(1) by (auto simp: dec_settle_parts(4) dec_stall_settle_def dec_stall_method_def)
qed

lemma dec_no_jump:
  assumes "rv_result (INSTR_RI i) pc a b = Some v"
    "opcode (INSTR_RI i) \<noteq> 0b0100011" "opcode (INSTR_RI i) \<noteq> 0b1101111" "opcode (INSTR_RI i) \<noteq> 0b1100111"
  shows "\<not> jump_sd (D_ops (dec_settle u i rd fb re rm s))"
proof -
  have "r_type_inst_sd (ity (INSTR_RI i)) \<or> i_type_inst_sd (ity (INSTR_RI i)) \<or>
      u_type_inst_sd (ity (INSTR_RI i)) \<or> m_type_inst_sd (ity (INSTR_RI i))"
    using assms(1)
    by (cases rule: rv_result_cases) (use assms in \<open>auto simp: decoding_instruction_type_def\<close>)
  then show ?thesis by (simp add: dec_settle_parts(3) dec_post_reg_read_alu)
qed

lemma dec_branch_sources:
  "opcode (INSTR_RI i) = 0b1100011 \<Longrightarrow> RADR1_SD (D_reg (dec_settle u i rd fb re rm s)) = rv_rs1 (INSTR_RI i)"
  "opcode (INSTR_RI i) = 0b1100011 \<Longrightarrow> RADR2_SD (D_reg (dec_settle u i rd fb re rm s)) = rv_rs2 (INSTR_RI i)"
  "opcode (INSTR_RI i) = 0b1100111 \<Longrightarrow> RADR1_SD (D_reg (dec_settle u i rd fb re rm s)) = rv_rs1 (INSTR_RI i)"
  by (simp_all add: dec_settle_parts(1) dec_pre_reg_read_def Let_def dec_set_regs_def
      dec_branch_format dec_jalr_format rv_rs1_def rv_rs2_def)

lemma core_target_next:
  assumes n: "core_normal prog i c" and inv: "core_inv prog c" and cyc: "core_cycle i c = Some c'"
    and push: "core_push i c"
  shows "core_target i c = fst (rv_step prog (fetch_pc c, regs_mem prog (back_end c')))"
proof -
  let ?x = "core_dec_ports i c" and ?d = "core_dec i c" and ?ir = "prog (fetch_pc c)"
  let ?r = "regs_mem prog (back_end c')"
  have front: "front_inv prog c" using inv by (simp add: core_inv_def)
  note iss = core_issue_parts [OF n inv cyc push]
  have stall: "\<not> stall_sd (D_stall ?d)" using push core_dec_run(1) [OF n front] by simp
  have next_eq: "fst (rv_step prog (fetch_pc c, ?r)) = rv_next ?ir (fetch_pc c) (?r (rv_rs1 ?ir)) (?r (rv_rs2 ?ir))"
    by (simp add: rv_step_def Let_def)
  have even: "\<not> bit (fetch_pc c) 0" using front by (simp add: front_inv_def)
  have "opcode ?ir \<noteq> 0b1110011" using iss(4)
    by (cases rule: rv_plain_cases) (auto elim: rv_result_cases)
  then have "\<not> csrrc_i_sd (ifl (INSTR_RI ?x))" by (simp add: iss decoding_instruction_flags)
  have adr: "BP_RADR1_RD (core_issue i c) = RADR1_SD (D_reg (core_dec i c))"
    "BP_RADR2_RD (core_issue i c) = RADR2_SD (D_reg (core_dec i c))"
    by (simp_all add: core_issue_def dec_issue_flags [OF refl refl] core_dec_eq)
  note ops = core_operands(3,4) [OF n inv cyc push \<open>\<not> csrrc_i_sd _\<close> adr]
  have one: "rdata1_sd (D_byp ?d) = ?r (rv_rs1 ?ir)" if "opcode ?ir = 0b1100011 \<or> opcode ?ir = 0b1100111"
    using that ops(1) dec_jump_valid(1) [OF stall [unfolded core_dec_eq]] dec_branch_sources(1,3) [of ?x]
    by (auto simp: core_dec_eq iss(1))
  have two: "rdata2_sd (D_byp ?d) = ?r (rv_rs2 ?ir)" if "opcode ?ir = 0b1100011"
    using that ops(2) dec_jump_valid(2) [OF stall [unfolded core_dec_eq]] dec_branch_sources(2) [of ?x]
    by (auto simp: core_dec_eq iss(1))
  show ?thesis
    using iss(4)
  proof (cases rule: rv_plain_cases)
    case Branch
    then show ?thesis
      using dec_branch_correct [of ?x] one two
      by (simp add: next_eq core_target_def rv_next_def rv_offsets iss(1,2) core_dec_eq Let_def)
  next
    case (Result v)
    show ?thesis
    proof (cases "opcode ?ir = 0b1101111 \<or> opcode ?ir = 0b1100111")
      case True
      then show ?thesis
        using dec_jumps_correct [of ?x] one even
        by (auto simp: next_eq core_target_def rv_next_def rv_offsets iss(1-3) core_dec_eq Let_def)
    next
      case False
      then have "\<not> core_jump i c"
        using dec_no_jump [of ?x 0 0 0 v] Result iss(1) by (simp add: core_dec_eq)
      then show ?thesis using False Result(4) by (simp add: next_eq core_target_def rv_next_def)
    qed
  next
    case Store
    then have "\<not> core_jump i c"
      using issue_store_fields(11) [of ?x, OF _ _ refl] iss(1) by (simp add: core_dec_eq)
    then show ?thesis using Store(1) by (simp add: next_eq core_target_def rv_next_def)
  next
    case Load
    then have "\<not> core_jump i c"
      using issue_load_fields(13) [of ?x, OF _ _ _ refl] iss(1) by (simp add: core_dec_eq)
    then show ?thesis using Load(1) by (simp add: next_eq core_target_def rv_next_def)
  qed
qed

subsection \<open>The refinement\<close>

lemma core_issue_pc:
  assumes "core_normal prog i c" "core_inv prog c" "core_cycle i c = Some c'" "core_push i c"
  shows "PC_DEC2EXE_RD (core_issue i c) = fetch_pc c"
  using issued_fields(7) [OF core_issue_parts(5,4) [OF assms]] .

lemma core_fetch_step:
  assumes n: "core_normal prog i c" and inv: "core_inv prog c" and cyc: "core_cycle i c = Some c'"
  shows "fetch_pc c' = (if core_push i c then core_target i c else fetch_pc c)" "front_inv prog c'"
proof -
  have "\<not> bit (core_target i c) 0" if "core_push i c"
    using core_target_next [OF n inv cyc that] rv_next_even inv
    by (simp add: rv_step_def Let_def core_inv_def front_inv_def)
  then show "fetch_pc c' = (if core_push i c then core_target i c else fetch_pc c)"
    "front_inv prog c'"
    using core_front_step [OF n inv cyc] by blast+
qed

text \<open>The abstract state makes a step exactly when the execute stage takes an instruction.\<close>

lemma core_abs_step:
  assumes n: "core_normal prog i c" and inv: "core_inv prog c" and cyc: "core_cycle i c = Some c'"
  shows "core_abs prog c' = (if core_executes i c then rv_step prog (core_abs prog c) else core_abs prog c)"
proof -
  let ?b = "back_end c" and ?b' = "back_end c'"
  have exe: "exe_inv prog c" using inv by (simp add: core_inv_def)
  note st = core_back_step [OF n inv cyc] and d2e = core_dec2exe_step [OF n inv cyc]
  have v: "core_executes i c \<Longrightarrow> fifo_v (dec2exe ?b)" using core_executes_iff [OF n inv] by simp
  have pc: "fst (core_abs prog c') = (if core_push i c then fetch_pc c
      else if fifo_v (dec2exe ?b) \<and> \<not> core_executes i c then PC_DEC2EXE_RD (back_rd ?b) else fetch_pc c)"
    using d2e(2,3) core_fetch_step(1) [OF n inv cyc] core_issue_pc [OF n inv cyc]
    by (auto simp: core_abs_def)
  have regs: "snd (core_abs prog c') = regs_mem prog ?b'" by (simp add: core_abs_def)
  show ?thesis
  proof (cases "core_executes i c")
    case True
    then have "fst (core_abs prog c') = fetch_pc c" using pc by simp
    moreover have abs: "core_abs prog c = (PC_DEC2EXE_RD (back_rd ?b), regs_mem prog ?b)"
      and "fetch_pc c = fst (rv_step prog (PC_DEC2EXE_RD (back_rd ?b), regs_mem prog ?b))"
      using v [OF True] exe by (simp_all add: core_abs_def exe_inv_def Let_def)
    ultimately have "core_abs prog c' = rv_step prog (PC_DEC2EXE_RD (back_rd ?b), regs_mem prog ?b)"
      using True st(2) regs by (intro prod_eqI) simp_all
    then show ?thesis using True abs by simp
  next
    case False
    then have "fst (core_abs prog c') = fst (core_abs prog c)"
      using pc d2e(1) by (auto simp: core_abs_def)
    then show ?thesis using False st(2) regs by (simp add: prod_eq_iff core_abs_def)
  qed
qed

text \<open>
  An instruction that the execute stage does not take keeps its operands: either the memory stage is
  stalled, or the load it waits for moves on to write-back, which shows the value from then on.
\<close>

lemma core_ready_wait:
  assumes n: "core_normal prog i c" and inv: "core_inv prog c" and cyc: "core_cycle i c = Some c'"
    and w: "fifo_v (dec2exe (back_end c))" "\<not> core_executes i c"
    and rdy: "ready prog (back_end c) (back_rd (back_end c)) ir"
  shows "ready prog (back_end c') (back_rd (back_end c)) ir"
proof -
  let ?b = "back_end c" and ?b' = "back_end c'"
  let ?p = "back_rd ?b" and ?pop = "EXE2MEM_POP_SM (backend_mem (back_ports i) ?b)"
  have bi: "back_inv ?b" using inv by (simp add: core_inv_def)
  note st = core_back_step [OF n inv cyc]
  have ne: "\<not> exe2mem_push_se (backend_exec (core_back_in i c) ?b)"
    using w(2) by (simp add: core_executes_def)
  note step = back_fifo_step [OF bi core_normal_back(4) [OF n] core_front_fifos(1) [OF n inv cyc]]
  have regs: "regs_mem prog ?b' = regs_mem prog ?b" and re: "back_re ?b' = back_re ?b"
    using st(2,5) w(2) by simp_all
  show ?thesis
  proof (cases ?pop)
    case False
    then have rm: "back_rm ?b' = back_rm ?b" and "fifo_v (exe2mem ?b') = fifo_v (exe2mem ?b)"
      using step(3,5) ne by (simp_all add: core_mem_pop)
    then have "waits ?b' ?p = waits ?b ?p" using re by (simp add: waits_def loading_def)
    then show ?thesis using rdy by (simp add: ready_def supplied_def regs re rm)
  next
    case True
    then have "waits ?b ?p"
      using core_executes_iff [OF n inv] w by blast
    moreover have "\<not> waits ?b' ?p" "DEST_RM (back_rm ?b') = DEST_RE (back_re ?b)"
      using True step(3,5) ne bi
      by (simp_all add: core_mem_pop waits_def loading_def back_inv_def plain_re_def take_bit_small)
    ultimately show ?thesis using rdy by (auto simp: ready_def supplied_def regs re)
  qed
qed

lemma core_inv_step:
  assumes n: "core_normal prog i c" and inv: "core_inv prog c" and cyc: "core_cycle i c = Some c'"
    and ok: "core_push i c \<Longrightarrow> \<not> EXCEPTION_RD (core_issue i c)"
      "core_push i c \<Longrightarrow> rv_aligned (prog (fetch_pc c)) (regs_mem prog (back_end c'))"
  shows "core_inv prog c'"
proof -
  let ?b = "back_end c" and ?b' = "back_end c'"
  have exe: "exe_inv prog c" and bi: "back_inv ?b" using inv by (simp_all add: core_inv_def)
  note st = core_back_step [OF n inv cyc] and d2e = core_dec2exe_step [OF n inv cyc]
    and pc = core_fetch_step [OF n inv cyc]
  have "exe_inv prog c'"
  proof (cases "core_push i c")
    case True
    then show ?thesis
      using core_issue_parts [OF n inv cyc True] core_target_next [OF n inv cyc True] pc(1)
        core_issue_pc [OF n inv cyc True] d2e(3) ok
      by (simp add: exe_inv_def Let_def)
  next
    case False
    show ?thesis
    proof (cases "fifo_v (dec2exe ?b')")
      case True
      then have w: "fifo_v (dec2exe ?b)" "\<not> core_executes i c" using False d2e(2) by auto
      let ?p = "back_rd ?b" and ?ir = "prog (PC_DEC2EXE_RD (back_rd ?b))"
      have "ready prog ?b ?p ?ir" using exe w(1) by (simp add: exe_inv_def Let_def)
      then have "ready prog ?b' ?p ?ir"
        by (rule core_ready_wait [OF n inv cyc w])
      then show ?thesis
        using exe w False st(2) pc(1) d2e(3) by (simp add: exe_inv_def Let_def)
    qed (simp add: exe_inv_def)
  qed
  then show "core_inv prog c'" using st(1) pc(2) by (simp add: core_inv_def)
qed

subsection \<open>No traps\<close>

text \<open>Decode finds no exception in a plain instruction but a bad address of its successor.\<close>

lemma plain_formats:
  assumes "rv_plain ir"
  shows "r_type_inst_sd (ity ir) \<or> i_type_inst_sd (ity ir) \<or> u_type_inst_sd (ity ir) \<or>
      b_type_inst_sd (ity ir) \<or> j_type_inst_sd (ity ir) \<or> jalr_type_inst_sd (ity ir) \<or>
      s_type_inst_sd (ity ir)"
    "s_type_inst_sd (ity ir) \<Longrightarrow> funct3 ir < 3" "\<not> system_type_inst_sd (ity ir)"
    "r_type_inst_sd (ity ir) \<Longrightarrow> funct7 ir = 0 \<or> funct7 ir = 0b0100000"
    "b_type_inst_sd (ity ir) \<Longrightarrow> funct3 ir \<noteq> 2 \<and> funct3 ir \<noteq> 3" "opcode ir \<noteq> 0b1110011"
  using assms
  by (cases rule: rv_plain_cases; (auto simp: decoding_instruction_type_def elim!: rv_result_cases; fail))+

lemma plain_legal:
  assumes "rv_plain (INSTR_RI i)"
  shows "\<not> illegal_instruction_sd (dec_post_reg_read u i (ity (INSTR_RI i)) f b s)"
proof (cases "s_type_inst_sd (ity (INSTR_RI i))")
  case True
  then have op: "opcode (INSTR_RI i) = 0b0100011" by (simp add: decoding_instruction_type_def)
  have "\<not> 2 < funct3 (INSTR_RI i)"
    using plain_formats(2) [OF assms True] u3_cases [of "funct3 (INSTR_RI i)"] by auto
  then show ?thesis
    using store_format [OF op] plain_formats(5) [OF assms]
    by (auto simp: dec_post_reg_read_def Let_def split_beta dec_illegal_fields_def dec_post_store_def
        dec_locals_init_def)
next
  case False
  then show ?thesis
    using plain_formats(1,3-6) [OF assms]
    by (auto simp: dec_post_reg_read_def Let_def split_beta dec_illegal_fields_def dec_post_alu_def
        dec_alu_operands_def dec_post_branch_def dec_post_jump_def dec_locals_init_def)
qed

lemma system_words: "opcode 0x30200073 = 0b1110011" "opcode 0x10200073 = 0b1110011"
  by code_simp+

lemma plain_no_exception:
  assumes "rv_plain (INSTR_RI i)" "p = dec_issue u i rd fb re rm s"
  shows "EXCEPTION_RD p \<longleftrightarrow>
    instruction_adress_missaligned_sd (D_pc (dec_settle u i rd fb re rm s)) \<or>
    instruction_access_fault_sd (D_pc (dec_settle u i rd fb re rm s))"
proof -
  have "\<not> ecall_i_sd (ifl (INSTR_RI i))" "\<not> mret_i_sd (ifl (INSTR_RI i))" "\<not> ebreak_i_sd (ifl (INSTR_RI i))"
    using plain_formats(6) [OF assms(1)] system_words by (auto simp: decoding_instruction_flags)
  then show ?thesis
    using plain_legal [OF assms(1)]
    by (simp add: assms(2) dec_issue_def dec_payload_def Let_def dec_settle_parts(1,3)
        dec_pre_reg_read_def)
qed

lemma add_4_and_3: "(x + 4) AND 3 = x AND 3" for x :: u32
proof -
  have m: "unat (y AND 3) = unat y mod 4" for y :: u32
    unfolding three_mask
    by (simp only: take_bit_eq_mask [symmetric] unsigned_take_bit_eq) (simp add: take_bit_eq_mod)
  have "unat (x + 4) mod 4 = (unat x + 4) mod 2 ^ 32 mod 4"
    by (simp add: unat_word_ariths)
  also have "\<dots> = unat x mod 4"
    by (subst mod_mod_cancel) simp_all
  finally show ?thesis by (simp add: word_unat_eq_iff m)
qed

lemma core_no_exception:
  assumes n: "core_normal prog i c" and inv: "core_inv prog c" and cyc: "core_cycle i c = Some c'"
    and push: "core_push i c" and aligned: "core_target i c AND 3 = 0"
  shows "\<not> EXCEPTION_RD (core_issue i c)"
proof -
  let ?p = "D_pc (core_dec i c)" and ?x = "core_dec_ports i c"
  have front: "front_inv prog c" using inv by (simp add: core_inv_def)
  note iss = core_issue_parts [OF n inv cyc push]
  note run = core_dec_run [OF n front]
  have p: "?p = dec_pc_inc ?x (D_ops (core_dec i c)) (D_stall (core_dec i c)) (core_fb c) (D_pc (dec_inst c))"
    unfolding core_dec_eq dec_settle_parts(5) ..
  have exc: "\<not> dec_in.EXCEPTION_SM ?x" "dec_in.CURRENT_MODE_SM ?x = 3"
    using core_dec_ports_sel(5) [OF core_normal_back(2) [OF n]] back_no_trap(2) [OF _ core_normal_back(3) [OF n]] inv
    by (simp_all add: core_inv_def) (simp add: core_dec_in_def split_beta core_dec_fixed_def Let_def core_mem_def)
  have adr: "instruction_adress_missaligned_sd ?p = (dec_pc.WRITE_PC_SD ?p AND 3 \<noteq> 0)"
    "\<not> instruction_access_fault_sd ?p"
    using exc unfolding p by (simp_all add: dec_pc_inc_def Let_def split_beta)
  have room: "core_jump i c \<Longrightarrow> dec2if_push_sd ?p"
    using push run(4,8) core_fetch_run(1) [OF n front] by (simp add: core_full_def fifo_FULL_def)
  have "dec_pc.WRITE_PC_SD ?p \<in> {core_target i c, core_target i c + 4}"
  proof (cases "dec2if_push_sd ?p")
    case True
    then show ?thesis
      using run(6,8) push front by (auto simp: core_target_def front_inv_def)
  next
    case False
    then have "\<not> core_jump i c" using room by blast
    moreover have "\<not> PRED_TAKEN_RI ?x"
      using core_dec_ports_sel(4) [OF core_normal_back(2) [OF n]] front by (simp add: front_inv_def)
    then have "dec_pc.WRITE_PC_SD ?p = READ_PC_SR ?x"
      by (rule dec_pc_run(8) [OF exc(1) _ p False])
    ultimately show ?thesis by (simp add: core_target_def iss(3))
  qed
  then have "dec_pc.WRITE_PC_SD ?p AND 3 = 0" using aligned by (auto simp: add_4_and_3)
  then show ?thesis
    using plain_no_exception [of ?x "core_issue i c"] iss(1,4) adr
    by (simp add: core_issue_def core_dec_eq)
qed

subsection \<open>A cycle\<close>

text \<open>
  A state that the theorem allows: a plain instruction, with its address, at a multiple of four.
  The pipeline is up to two instructions ahead of the execution, so a cycle rests on the state and its
  two successors.
\<close>

definition rv_ok :: "(u32 \<Rightarrow> u32) \<Rightarrow> rv_state \<Rightarrow> bool" where
  "rv_ok prog s \<longleftrightarrow> rv_plain (prog (fst s)) \<and> fst s AND 3 = 0 \<and> rv_aligned (prog (fst s)) (snd s)"

definition rv_ahead :: "(u32 \<Rightarrow> u32) \<Rightarrow> rv_state \<Rightarrow> bool" where
  "rv_ahead prog s \<longleftrightarrow> rv_ok prog s \<and> rv_ok prog (rv_step prog s) \<and>
     fst (rv_step prog (rv_step prog s)) AND 3 = 0"

lemma core_next_pc:
  assumes "core_inv prog c"
  shows "fetch_pc c = (if fifo_v (dec2exe (back_end c)) then fst (rv_step prog (core_abs prog c))
    else fst (core_abs prog c))"
  using assms by (auto simp: core_inv_def exe_inv_def core_abs_def Let_def)

lemma core_quiet_normal:
  assumes "core_quiet prog i c" and inv: "core_inv prog c" and "rv_ahead prog (core_abs prog c)"
  shows "core_normal prog i c" "rv_plain (prog (fetch_pc c))"
proof -
  have front: "front_inv prog c" and bi: "back_inv (back_end c)" using inv by (simp_all add: core_inv_def)
  have exc: "\<not> mem.EXCEPTION_SM (core_mem i c)"
    using back_no_trap(1) [OF bi] assms(1) by (simp add: core_quiet_def core_mem_def)
  have "\<not> stall_sd (D_stall (core_dec i c)) \<Longrightarrow> fifo_v (if2dec c)"
    using core_dec_ports_sel(3) [OF exc]
    by (auto simp: core_dec_eq dec_settle_parts(4) dec_stall_settle_def dec_stall_method_def)
  moreover have "core_push i c = (\<not> stall_sd (D_stall (core_dec i c)))"
    using dec_pc_run(1) [OF core_dec_ports_sel(5) [OF exc] _ refl] front core_dec_ports_sel(4) [OF exc]
    by (simp add: core_push_def core_dec_eq dec_settle_parts(5) front_inv_def)
  ultimately have "core_push i c \<Longrightarrow> INSTR_RI (core_dec_ports i c) = prog (fetch_pc c)"
    using front core_dec_ports_sel(1) [OF exc] by (simp add: front_inv_def)
  moreover show "rv_plain (prog (fetch_pc c))"
    using core_next_pc [OF inv] assms(3) by (simp add: rv_ahead_def rv_ok_def)
  ultimately show "core_normal prog i c"
    using assms(1) exc by (simp add: core_normal_def)
qed

lemma core_quiet_step:
  assumes "core_quiet prog i c" and inv: "core_inv prog c" and prog: "rv_ahead prog (core_abs prog c)"
  shows "\<exists>c'. core_cycle i c = Some c' \<and> core_inv prog c' \<and>
    core_abs prog c' = (if core_executes i c then rv_step prog (core_abs prog c) else core_abs prog c)"
proof -
  note n = core_quiet_normal(1) [OF assms]
  have "reg_inv (REG_RR (back_end c))" using inv by (simp add: core_inv_def back_inv_def)
  then obtain c' where cyc: "core_cycle i c = Some c'"
    using backend_cycle_registers [of "back_end c" "core_back_in i c"]
    by (auto simp: core_cycle_def Let_def)
  note abs = core_abs_step [OF n inv cyc]
  then have ok: "rv_ok prog (core_abs prog c')" "fst (rv_step prog (core_abs prog c')) AND 3 = 0"
    using prog by (auto simp: rv_ahead_def rv_ok_def)
  have at: "core_abs prog c' = (fetch_pc c, regs_mem prog (back_end c'))" if "core_push i c"
    using that core_dec2exe_step(2,3) [OF n inv cyc] core_issue_pc [OF n inv cyc that]
    by (simp add: core_abs_def)
  have "\<not> EXCEPTION_RD (core_issue i c)" if "core_push i c"
    using core_no_exception [OF n inv cyc that] core_target_next [OF n inv cyc that] at [OF that] ok(2)
    by simp
  moreover have "rv_aligned (prog (fetch_pc c)) (regs_mem prog (back_end c'))" if "core_push i c"
    using at [OF that] ok(1) by (simp add: rv_ok_def)
  ultimately show ?thesis using cyc core_inv_step [OF n inv cyc] abs by blast
qed

subsection \<open>Progress\<close>

text \<open>
  How many cycles it takes at most, when neither cache stalls, until the execute stage has an
  instruction: decode has to ask for the address, fetch for the word, and decode to hand it on,
  and an instruction behind a load waits a cycle in front of execute or, a branch, in decode.
\<close>

definition core_wait :: "core \<Rightarrow> nat" where
  "core_wait c =
     (if fifo_v (dec2exe (back_end c)) then (if waits (back_end c) (back_rd (back_end c)) then 1 else 0)
      else if fifo_v (if2dec c) then (if loading (back_end c) then 2 else 1)
      else if fifo_v (dec2if c) then 2 else 3)"

definition core_flows :: "core_in \<Rightarrow> bool" where
  "core_flows i \<longleftrightarrow> \<not> STALL_SIC (fetch_ports i) \<and> \<not> MCACHE_STALL_SM (mem_ports (back_ports i))"

lemma core_wait_le: "core_wait c \<le> 3"
  by (simp add: core_wait_def)

text \<open>With nothing in the execute stage and no load ahead, decode hands over what it has.\<close>

lemma core_push_ready:
  assumes n: "core_normal prog i c" and inv: "core_inv prog c"
    and v: "fifo_v (if2dec c)" "\<not> fifo_v (dec2exe (back_end c))" "\<not> loading (back_end c)"
  shows "core_push i c"
proof -
  let ?x = "core_dec_ports i c" and ?b = "back_end c"
  have front: "front_inv prog c" and bi: "back_inv ?b" using inv by (simp_all add: core_inv_def)
  note sel = core_dec_ports_sel [OF core_normal_back(2) [OF n], of "core_full i c"]
  have re: "\<not> MULT_INST_RE (back_re ?b)" "\<not> CSR_WENABLE_RE (back_re ?b)"
    "\<not> MULT_INST_RM (back_rm ?b)" "\<not> CSR_WENABLE_RM (back_rm ?b)"
    using bi by (simp_all add: back_inv_def plain_re_def plain_rm_def)
  have "snd (dec_bypass ?x f (back_rd ?b) (back_re ?b) (back_rm ?b) r w old)" for f r w old
    using v(2,3) re sel(6,8) unfolding dec_bypass_valid in_exe_def late_in_mem_def loading_def by auto
  then have "r1_valid_sd (D_byp (core_dec i c))" "r2_valid_sd (D_byp (core_dec i c))"
    unfolding core_dec_eq dec_settle_parts(2) dec_byp_parts by blast+
  moreover have "\<not> dec2exe_full_sd ?x" using v(2) by (simp add: sel backend_full_def fifo_FULL_def)
  ultimately have "\<not> stall_sd (D_stall (core_dec i c))"
    using v(1,2) re sel(3,8) unfolding core_dec_eq dec_settle_parts(4)
    by (simp add: dec_stall_settle_def dec_stall_method_def)
  then show ?thesis using core_dec_run(1) [OF n front] by simp
qed

lemma core_flow_step:
  assumes n: "core_normal prog i c" and inv: "core_inv prog c" and cyc: "core_cycle i c = Some c'"
    and flows: "core_flows i"
  shows "core_executes i c \<or> core_wait c' < core_wait c"
proof -
  let ?b = "back_end c"
  have front: "front_inv prog c" using inv by (simp add: core_inv_def)
  have bi: "back_inv ?b" using inv by (simp add: core_inv_def)
  have pop: "EXE2MEM_POP_SM (backend_mem (back_ports i) ?b) = fifo_v (exe2mem ?b)"
    using flows by (auto simp: backend_mem_def mem_handshake backend_mem_env_def core_flows_def
        fifo_FULL_def fifo_EMPTY_def backend_wbk_def wbk_method_def)
  have gone: "\<not> loading (back_end c')" if "\<not> core_executes i c"
    using that back_fifo_step(5) [OF bi core_normal_back(4) [OF n] core_front_fifos(1) [OF n inv cyc]] pop
    by (simp add: loading_def core_mem_pop core_executes_def)
  then have free: "\<not> waits (back_end c') p" if "\<not> core_executes i c" for p
    using that by (simp add: waits_def)
  note exe = core_executes_iff [OF n inv]
  note d2e = core_dec2exe_step(2) [OF n inv cyc] and st = core_front_fifos(3,5) [OF n inv cyc]
  have push: "core_push i c \<Longrightarrow> fifo_v (if2dec c)" using core_dec_run(8) [OF n front] by blast
  consider (exec) "core_executes i c" | (load) "fifo_v (dec2exe ?b)" "\<not> core_executes i c"
    | (decode) "\<not> fifo_v (dec2exe ?b)" "fifo_v (if2dec c)"
    | (fetch) "\<not> fifo_v (dec2exe ?b)" "\<not> fifo_v (if2dec c)" "fifo_v (dec2if c)"
    | (ask) "\<not> fifo_v (dec2exe ?b)" "\<not> fifo_v (if2dec c)" "\<not> fifo_v (dec2if c)"
    by blast
  then show ?thesis
  proof cases
    case exec
    then show ?thesis by simp
  next
    case load
    then have "waits ?b (back_rd ?b)" using exe pop by blast
    then show ?thesis using load free d2e by (simp add: core_wait_def)
  next
    case decode
    then have ne: "\<not> core_executes i c" using exe(1) by blast
    show ?thesis
    proof (cases "core_push i c")
      case True
      then show ?thesis using decode free [OF ne] d2e by (simp add: core_wait_def)
    next
      case False
      then have "loading ?b" using core_push_ready [OF n inv decode(2,1)] by blast
      then show ?thesis using False decode gone [OF ne] d2e st(1) by (simp add: core_wait_def)
    qed
  next
    case fetch
    then have ne: "\<not> core_executes i c" using exe(1) by blast
    have "if2dec_push (core_fetch i c)"
      using core_fetch_run(2) [OF n front] push fetch flows by (auto simp: core_flows_def)
    then show ?thesis using fetch st(1) gone [OF ne] free [OF ne] by (simp add: core_wait_def)
  next
    case ask
    then have ne: "\<not> core_executes i c" using exe(1) by blast
    have "dec2if_push_sd (D_pc (core_dec i c))"
      using ask core_dec_run(4) [OF n front] by (simp add: core_full_def fifo_FULL_def)
    then show ?thesis using ask st(2) gone [OF ne] free [OF ne] by (simp add: core_wait_def)
  qed
qed

subsection \<open>From the reset\<close>

text \<open>The core as the reset leaves it, with the program counter register one instruction ahead.\<close>

definition fifo_idle :: "'t::zero fifo \<Rightarrow> bool" where
  "fifo_idle s \<longleftrightarrow> \<not> fifo_v s \<and> DOUT_R s = 0 \<and> wait_left s \<le> 1"

definition core_at_start :: "u32 \<Rightarrow> core \<Rightarrow> bool" where
  "core_at_start pc c \<longleftrightarrow> fifo_idle (if2dec c) \<and> fifo_idle (dec2if c) \<and>
     fifo_idle (dec2exe (back_end c)) \<and> fifo_idle (exe2mem (back_end c)) \<and>
     fifo_idle (mem2wbk (back_end c)) \<and> REG_RR (back_end c) = reg_reset (pc - 4) \<and>
     mem.CURRENT_MODE_SM (mem_inst (back_end c)) = 3"

lemma core_at_start_inv:
  assumes "core_at_start pc c" "pc AND 3 = 0"
  shows "core_inv prog c" "core_abs prog c = (pc, \<lambda>_. 0)" "\<not> MEM_STORE_RE (back_re (back_end c))"
proof -
  have z: "DEST_RE (exe2mem_unconcat 0) = 0" "plain_re (exe2mem_unconcat 0)"
    "DEST_RM (mem2wbk_unconcat 0) = 0" "plain_rm (mem2wbk_unconcat 0)"
    by (simp_all add: exe2mem_unconcat_def mem2wbk_unconcat_def plain_re_def plain_rm_def load_ok_def)
  have r: "reg_inv (REG_RR (back_end c))" using assms(1) by (simp add: core_at_start_def reg_inv_reset)
  have pc: "fetch_pc c = pc"
    using assms(1) by (simp add: fetch_pc_def core_at_start_def fifo_idle_def reg_reset_def)
  have "even pc"
    using assms(2) by (metis even_and_iff even_zero odd_numeral)
  then show "core_inv prog c"
    using assms(1) z r
    by (simp add: core_inv_def back_inv_def front_inv_def exe_inv_def core_at_start_def fifo_idle_def
        started_def shows_newest_def pc bit_0)
  show "\<not> MEM_STORE_RE (back_re (back_end c))"
    using assms(1) by (simp add: core_at_start_def fifo_idle_def exe2mem_unconcat_def)
  have "regs_mem prog (back_end c) s = 0" for s
    using assms(1) by (auto simp: regs_mem_def regs_wb_def core_at_start_def fifo_idle_def reg_reset_def
        nth_list_update)
  then show "core_abs prog c = (pc, \<lambda>_. 0)"
    using assms(1) pc by (simp add: core_abs_def core_at_start_def fifo_idle_def fun_eq_iff)
qed

subsection \<open>Instances\<close>

text \<open>The core as the reset leaves it, to run from address \<open>0x100\<close> on, and ports with \<open>addi x1, x1, 1\<close>.\<close>

definition core_first :: core where
  "core_first =
     \<lparr>if2dec = \<lparr>fifo_v = False, DOUT_R = 0, wait_left = 1\<rparr>,
      dec2if = \<lparr>fifo_v = False, DOUT_R = 0, wait_left = 1\<rparr>,
      ifetch_inst = ifetch_zero, dec_inst = dec_zero,
      back_end =
        \<lparr>dec2exe = \<lparr>fifo_v = False, DOUT_R = 0, wait_left = 1\<rparr>,
         exe2mem = \<lparr>fifo_v = False, DOUT_R = 0, wait_left = 1\<rparr>,
         mem2wbk = \<lparr>fifo_v = False, DOUT_R = 0, wait_left = 1\<rparr>,
         exec_inst = exec_reset, mem_inst = mem_user\<lparr>mem.CURRENT_MODE_SM := 3\<rparr>,
         REG_RR = reg_reset (0x100 - 4)\<rparr>\<rparr>"

definition core_counts :: core_in where
  "core_counts =
     \<lparr>fetch_ports = ifetch_in_ready\<lparr>INST_SIC := 0x00108093\<rparr>, if2dec_high = 0,
      dec_ports = dec_in_at_100 0, dec_uninits = dec_uninit_F, back_ports = back_idle\<rparr>"

lemma core_first_start: "core_at_start 0x100 core_first"
  by (simp add: core_at_start_def core_first_def fifo_idle_def)

end
