(* ===== verification/Bench_Ram.thy ===== *)
theory Bench_Ram
  imports Memory_Lanes
begin

text \<open>
  The memory of the simulation (\<open>SIM/SystemC/CORE/core_tb.cpp\<close>): \<open>ram\<close>, an
  \<open>unordered_map<int, int>\<close> of words under byte addresses.  An address that has no entry reads as
  zero, because \<open>operator[]\<close> creates one, so the map is a total function here.

  Definitions: the masks and switches of a store, which the bench has twice (with and without the
  data cache), and the loop that places a section of the program into \<open>ram\<close>.  Lemmas: an aligned
  store replaces exactly the addressed lanes of one word, a misaligned half word stores nothing,
  and a loaded section holds the words of the file.
\<close>

type_synonym ram = "u32 \<Rightarrow> u32"

definition ram_empty :: ram where
  "ram_empty = (\<lambda>a. 0)"

subsection \<open>Stores\<close>

text \<open>
  The word that a store leaves: \<open>old\<close> is \<open>temporary_value\<close> and \<open>d\<close> is \<open>temporary_store_value\<close>.
\<close>

definition tb_store_word :: "u2 \<Rightarrow> u32 \<Rightarrow> u32 \<Rightarrow> u32 \<Rightarrow> u32" where
  "tb_store_word sz adr d old =
     (let mask_adr = adr AND 0x00000003 in
      if sz = 2 then
        (if mask_adr = 0 then (0xFFFFFF00 AND old) OR (d AND 0x000000FF)
         else if mask_adr = 1 then (0xFFFF00FF AND old) OR (d AND 0x0000FF00)
         else if mask_adr = 2 then (0xFF00FFFF AND old) OR (d AND 0x00FF0000)
         else if mask_adr = 3 then (0x00FFFFFF AND old) OR (d AND 0xFF000000)
         else old)
      else if sz = 1 then
        (if mask_adr = 0 then (0xFFFF0000 AND old) OR (d AND 0x0000FFFF)
         else if mask_adr = 2 then (0x0000FFFF AND old) OR (d AND 0xFFFF0000)
         else old)
      else d)"

definition tb_store :: "u2 \<Rightarrow> u32 \<Rightarrow> u32 \<Rightarrow> ram \<Rightarrow> ram" where
  "tb_store sz adr d ram =
     (let mem_adr = adr AND 0xFFFFFFFC
      in ram(mem_adr := tb_store_word sz adr d (ram mem_adr)))"

text \<open>The masks of the code are the lanes of the store.\<close>

lemma mask_lanes:
  "(mask 8 :: u32) = 0xFF" "(mask 16 :: u32) = 0xFFFF" "(mask 32 :: u32) = 0xFFFFFFFF"
  by (simp_all add: mask_eq_exp_minus_1)

lemma other_lanes:
  fixes x :: u32
  shows "x AND NOT 0xFF = 0xFFFFFF00 AND x" "x AND NOT 0xFF00 = 0xFFFF00FF AND x"
    "x AND NOT 0xFF0000 = 0xFF00FFFF AND x" "x AND NOT 0xFF000000 = 0x00FFFFFF AND x"
    "x AND NOT 0xFFFF = 0xFFFF0000 AND x" "x AND NOT 0xFFFF0000 = 0x0000FFFF AND x"
    "x AND NOT 0xFFFFFFFF = 0" "x AND 0xFFFFFFFF = x"
proof -
  have "NOT (0xFF :: u32) = 0xFFFFFF00" "NOT (0xFF00 :: u32) = 0xFFFF00FF"
    "NOT (0xFF0000 :: u32) = 0xFF00FFFF" "NOT (0xFF000000 :: u32) = 0x00FFFFFF"
    "NOT (0xFFFF :: u32) = 0xFFFF0000" "NOT (0xFFFF0000 :: u32) = 0x0000FFFF"
    "NOT (0xFFFFFFFF :: u32) = 0" "(0xFFFFFFFF :: u32) = - 1"
    by simp_all
  then show "x AND NOT 0xFF = 0xFFFFFF00 AND x" "x AND NOT 0xFF00 = 0xFFFF00FF AND x"
    "x AND NOT 0xFF0000 = 0xFF00FFFF AND x" "x AND NOT 0xFF000000 = 0x00FFFFFF AND x"
    "x AND NOT 0xFFFF = 0xFFFF0000 AND x" "x AND NOT 0xFFFF0000 = 0x0000FFFF AND x"
    "x AND NOT 0xFFFFFFFF = 0" "x AND 0xFFFFFFFF = x"
    by (simp_all only: and.commute and_zero_eq zero_and_eq and.right_neutral and.left_neutral)
qed

lemma store_mask_lanes:
  "adr AND 3 = 0 \<Longrightarrow> store_mask adr 2 = 0xFF" "adr AND 3 = 1 \<Longrightarrow> store_mask adr 2 = 0xFF00"
  "adr AND 3 = 2 \<Longrightarrow> store_mask adr 2 = 0xFF0000" "adr AND 3 = 3 \<Longrightarrow> store_mask adr 2 = 0xFF000000"
  "adr AND 3 = 0 \<Longrightarrow> store_mask adr 1 = 0xFFFF" "adr AND 3 = 2 \<Longrightarrow> store_mask adr 1 = 0xFFFF0000"
  "adr AND 3 = 0 \<Longrightarrow> sz \<noteq> 1 \<Longrightarrow> sz \<noteq> 2 \<Longrightarrow> store_mask adr sz = 0xFFFFFFFF"
  by (simp_all add: store_mask_def mask_lanes)

lemma tb_store_word_cases:
  "adr AND 3 = 0 \<Longrightarrow> tb_store_word 2 adr d old = (0xFFFFFF00 AND old) OR (d AND 0xFF)"
  "adr AND 3 = 1 \<Longrightarrow> tb_store_word 2 adr d old = (0xFFFF00FF AND old) OR (d AND 0xFF00)"
  "adr AND 3 = 2 \<Longrightarrow> tb_store_word 2 adr d old = (0xFF00FFFF AND old) OR (d AND 0xFF0000)"
  "adr AND 3 = 3 \<Longrightarrow> tb_store_word 2 adr d old = (0x00FFFFFF AND old) OR (d AND 0xFF000000)"
  "adr AND 3 = 0 \<Longrightarrow> tb_store_word 1 adr d old = (0xFFFF0000 AND old) OR (d AND 0xFFFF)"
  "adr AND 3 = 2 \<Longrightarrow> tb_store_word 1 adr d old = (0x0000FFFF AND old) OR (d AND 0xFFFF0000)"
  "sz \<noteq> 1 \<Longrightarrow> sz \<noteq> 2 \<Longrightarrow> tb_store_word sz adr d old = d"
  by (simp_all add: tb_store_word_def Let_def)

lemma tb_store_word_lanes:
  assumes "store_aligned adr sz"
  shows "tb_store_word sz adr d old =
    (old AND NOT (store_mask adr sz)) OR (d AND store_mask adr sz)"
proof -
  consider "sz = 2" "adr AND 3 = 0" | "sz = 2" "adr AND 3 = 1" | "sz = 2" "adr AND 3 = 2"
    | "sz = 2" "adr AND 3 = 3" | "sz = 1" "adr AND 3 = 0" | "sz = 1" "adr AND 3 = 2"
    | "sz \<noteq> 1" "sz \<noteq> 2" "adr AND 3 = 0"
    using assms low2_cases [of adr] by (auto simp: store_aligned_def low1_low2 [of adr])
  then show ?thesis
    by cases (simp_all only: tb_store_word_cases store_mask_lanes other_lanes or.left_neutral
        not_False_eq_True)
qed

lemma tb_store_word_misaligned:
  assumes "sz = 1" "adr AND 1 = 1"
  shows "tb_store_word sz adr d old = old"
  using assms low2_cases [of adr] by (auto simp: tb_store_word_def Let_def low1_low2 [of adr])

lemma tb_store_same [simp]:
  "adr AND 0xFFFFFFFC = b \<Longrightarrow> tb_store sz adr d ram b = tb_store_word sz adr d (ram b)"
  by (simp add: tb_store_def)

lemma tb_store_other [simp]: "adr AND 0xFFFFFFFC \<noteq> b \<Longrightarrow> tb_store sz adr d ram b = ram b"
  by (auto simp: tb_store_def Let_def)

lemma lane_of_adr: "unat (adr AND 3) = unat adr mod 4" for adr :: u32
proof -
  have "adr AND 3 = take_bit 2 adr" by (simp only: take_bit_eq_mask) (simp add: mask_eq_exp_minus_1)
  then show ?thesis by (simp only: unsigned_take_bit_eq) (simp add: take_bit_eq_mod)
qed

lemma lane_dvd_aligned:
  assumes "lane_bytes sz dvd unat adr"
  shows "store_aligned adr sz"
proof -
  have "lane_bytes sz dvd unat (adr AND 3)"
    using assms by (simp add: lane_of_adr dvd_mod lane_bytes_def)
  then show ?thesis
    using low2_cases [of adr]
    by (auto simp: store_aligned_def lane_bytes_def low1_low2 [of adr] split: if_splits)
qed

lemma bit_store_mask:
  "bit (store_mask adr sz) k \<longleftrightarrow>
     8 * (unat adr mod 4) \<le> k \<and> k < 8 * (unat adr mod 4) + 8 * lane_bytes sz \<and> k < 32"
  by (auto simp: store_mask_def lane_of_adr lane_bytes_def bit_simps)

text \<open>The bits of the addressed lanes, and the others.\<close>

lemma tb_store_word_bit:
  assumes "lane_bytes sz dvd unat adr"
  shows "i < 8 * lane_bytes sz \<Longrightarrow>
      bit (tb_store_word sz adr d old) (8 * (unat adr mod 4) + i) = bit d (8 * (unat adr mod 4) + i)"
    and "k < 8 * (unat adr mod 4) \<or> 8 * (unat adr mod 4) + 8 * lane_bytes sz \<le> k \<Longrightarrow>
      bit (tb_store_word sz adr d old) k = bit old k"
  using lane_fits [OF assms] bit_imp_le_length [of old k]
  by (auto simp: tb_store_word_lanes [OF lane_dvd_aligned [OF assms]] bit_or_iff bit_and_iff
      bit_not_iff bit_store_mask)

lemma lane_extend_cong:
  assumes "\<And>i. i < 8 * lane_bytes sz \<Longrightarrow> bit w (8 * lane + i) = bit d i"
  shows "lane_extend sgnd sz lane w = lane_extend sgnd sz 0 d"
proof -
  define n where "n = 8 * lane_bytes sz"
  have n: "0 < n" using lane_bytes_pos [of sz] by (simp add: n_def)
  have bits: "bit w (8 * lane + i) = bit d i" if "i < n" for i using assms that by (simp add: n_def)
  have "take_bit n (drop_bit (8 * lane) w) = take_bit n d"
    using bits by (intro bit_word_eqI) (auto simp add: bit_take_bit_iff bit_drop_bit_eq)
  moreover have "signed_take_bit (n - 1) (drop_bit (8 * lane) w) = signed_take_bit (n - 1) d"
  proof (rule bit_word_eqI)
    fix k :: nat
    have "min k (n - 1) < n" using n by auto
    from bits [OF this]
    show "bit (signed_take_bit (n - 1) (drop_bit (8 * lane) w)) k = bit (signed_take_bit (n - 1) d) k"
      by (simp add: bit_signed_take_bit_iff bit_drop_bit_eq ac_simps del: min_less_iff_conj)
  qed
  ultimately show ?thesis by (simp add: lane_extend_def n_def)
qed

subsection \<open>Placing the program\<close>

text \<open>
  \<open>data[k]\<close> where \<open>data\<close> is the section's buffer read as an array of \<open>int\<close>.  The ELF reader allocates
  the bytes of the section and one zero byte more; for a section without bytes in the file the
  pointer is null.  A read outside the buffer is \<open>None\<close>; \<open>le_word\<close> is the \<open>int\<close> at a byte.
\<close>

type_synonym section_data = "8 word list option"

definition le_word :: "8 word list \<Rightarrow> nat \<Rightarrow> u32 option" where
  "le_word bs n =
     (if n + 3 < length bs then
        Some (ucast (bs ! n) OR push_bit 8 (ucast (bs ! (n + 1))) OR push_bit 16 (ucast (bs ! (n + 2)))
          OR push_bit 24 (ucast (bs ! (n + 3))))
      else None)"

definition tb_data :: "section_data \<Rightarrow> nat \<Rightarrow> u32 option" where
  "tb_data data k = (case data of None \<Rightarrow> None | Some bs \<Rightarrow> le_word (bs @ [0]) (4 * k))"

text \<open>\<open>for (j = 0; j < size; j += 4) ram[adr + j] = data[j / 4]\<close>, from the word \<open>k\<close> on, \<open>n\<close> words.\<close>

fun tb_place :: "u32 \<Rightarrow> section_data \<Rightarrow> nat \<Rightarrow> nat \<Rightarrow> ram \<Rightarrow> ram option" where
  "tb_place adr data k 0 ram = Some ram"
| "tb_place adr data k (Suc n) ram =
     (case tb_data data k of
        None \<Rightarrow> None
      | Some w \<Rightarrow> tb_place adr data (Suc k) n (ram(adr + of_nat (4 * k) := w)))"

definition tb_load_section :: "u32 \<Rightarrow> nat \<Rightarrow> section_data \<Rightarrow> ram \<Rightarrow> ram option" where
  "tb_load_section adr sz data ram =
     (if adr \<noteq> 0 then tb_place adr data 0 ((sz + 3) div 4) ram else Some ram)"

lemma tb_place_words:
  assumes "\<And>j. k \<le> j \<Longrightarrow> j < k + n \<Longrightarrow> tb_data data j \<noteq> None"
    and "4 * (k + n) \<le> 2 ^ 32"
  shows "\<exists>ram'. tb_place adr data k n ram = Some ram' \<and>
    (\<forall>j. k \<le> j \<and> j < k + n \<longrightarrow> Some (ram' (adr + of_nat (4 * j))) = tb_data data j) \<and>
    (\<forall>a. (\<forall>j. k \<le> j \<and> j < k + n \<longrightarrow> a \<noteq> adr + of_nat (4 * j)) \<longrightarrow> ram' a = ram a)"
  using assms
proof (induction n arbitrary: k ram)
  case 0
  then show ?case by auto
next
  case (Suc n)
  obtain w where w: "tb_data data k = Some w" using Suc.prems(1) [of k] by auto
  obtain ram' where r: "tb_place adr data (Suc k) n (ram(adr + of_nat (4 * k) := w)) = Some ram'"
    "\<And>j. Suc k \<le> j \<Longrightarrow> j < Suc k + n \<Longrightarrow> Some (ram' (adr + of_nat (4 * j))) = tb_data data j"
    "\<And>a. (\<forall>j. Suc k \<le> j \<and> j < Suc k + n \<longrightarrow> a \<noteq> adr + of_nat (4 * j)) \<Longrightarrow>
       ram' a = (ram(adr + of_nat (4 * k) := w)) a"
    using Suc.IH [of "Suc k" "ram(adr + of_nat (4 * k) := w)"] Suc.prems by fastforce
  have distinct: "adr + of_nat (4 * k) \<noteq> adr + of_nat (4 * j)" if "Suc k \<le> j" "j < Suc k + n" for j
  proof
    assume "adr + of_nat (4 * k) = adr + of_nat (4 * j)"
    then have "(of_nat (4 * k) :: u32) = of_nat (4 * j)" by simp
    moreover have "4 * k < 2 ^ 32" "4 * j < 2 ^ 32" using that Suc.prems(2) by simp_all
    ultimately have "4 * k = 4 * j"
      by (simp only: word_of_nat_eq_iff) (simp add: take_bit_nat_eq_self)
    then show False using that by simp
  qed
  have first: "ram' (adr + of_nat (4 * k)) = w"
    using r(3) [of "adr + of_nat (4 * k)"] distinct by auto
  have "Some (ram' (adr + of_nat (4 * j))) = tb_data data j" if "k \<le> j" "j < k + Suc n" for j
    using that r(2) [of j] first w by (cases "j = k") auto
  moreover have "ram' a = ram a" if "\<forall>j. k \<le> j \<and> j < k + Suc n \<longrightarrow> a \<noteq> adr + of_nat (4 * j)" for a
    using that r(3) [of a] by auto
  ultimately show ?case using r(1) w by auto
qed

end
