(* ===== verification/Bench_Memory.thy ===== *)
theory Bench_Memory
  imports Mem_Stage Bench_Ram
begin

text \<open>
  The simulation memory without caches (\<open>SIM/SystemC/CORE/core_tb.cpp\<close>, the blocks under
  \<open>#ifndef DCACHE_ON\<close> and \<open>#ifndef ICACHE_ON\<close>): what one pass of the loop does with the signals
  of the memory stage and of the fetch stage, which never see a stall.

  Lemmas: what the memory stage stores is what it loads back, over any accesses to other words in
  between.
\<close>

record bench_in =
  MEM_ADR :: u32
  MEM_SIZE :: u2
  MEM_ADR_VALID :: bool
  MEM_DATA :: u32
  MEM_STORE :: bool
  IF_ADR :: u32

record bench_out =
  MEM_RESULT :: u32
  MEM_STALL :: bool
  INST_SIC :: u32
  STALL_SIC :: bool

text \<open>The result is read after the store of the same pass; the instruction is read last.\<close>

definition bench_step :: "bench_in \<Rightarrow> ram \<Rightarrow> bench_out \<times> ram" where
  "bench_step i ram =
     (let mem_adr = MEM_ADR i AND 0xFFFFFFFC;
          ram' = (if MEM_STORE i \<and> MEM_ADR_VALID i
                  then tb_store (MEM_SIZE i) (MEM_ADR i) (MEM_DATA i) ram else ram)
      in (\<lparr>MEM_RESULT = ram' mem_adr, MEM_STALL = False, INST_SIC = ram' (IF_ADR i),
           STALL_SIC = False\<rparr>, ram'))"

primrec bench_run :: "bench_in list \<Rightarrow> ram \<Rightarrow> ram" where
  "bench_run [] ram = ram"
| "bench_run (i # is) ram = bench_run is (snd (bench_step i ram))"

text \<open>The signals of the memory stage, as the bench connects them.\<close>

definition bench_mem_in :: "mem \<Rightarrow> u32 \<Rightarrow> bench_in" where
  "bench_mem_in s pc =
     \<lparr>MEM_ADR = MCACHE_ADR_SM s, MEM_SIZE = MEM_SIZE_SM s, MEM_ADR_VALID = MCACHE_ADR_VALID_SM s,
      MEM_DATA = MCACHE_DATA_SM s, MEM_STORE = MCACHE_STORE_SM s, IF_ADR = pc\<rparr>"

lemma bench_step_other:
  assumes "\<not> (MEM_STORE i \<and> MEM_ADR_VALID i \<and> MEM_ADR i AND 0xFFFFFFFC = b)"
  shows "snd (bench_step i ram) b = ram b"
  using assms by (auto simp: bench_step_def Let_def)

lemma bench_run_other:
  assumes "\<forall>i \<in> set is. \<not> (MEM_STORE i \<and> MEM_ADR_VALID i \<and> MEM_ADR i AND 0xFFFFFFFC = b)"
  shows "bench_run is ram b = ram b"
  using assms by (induction "is" arbitrary: ram) (simp_all add: bench_step_other)

lemma mem_settle_request:
  "MEM_SIZE_SM (mem_settle env re rm s) = MEM_SIZE_RE re"
  "MCACHE_STORE_SM (mem_settle env re rm s) = MEM_STORE_RE re"
  "MCACHE_LOAD_SM (mem_settle env re rm s) = MEM_LOAD_RE re"
  "MCACHE_ADR_VALID_SM (mem_settle env re rm s) = (\<not> EXE2MEM_EMPTY_SE env \<or> \<not> MULT_INST_RM rm)"
  by (simp_all add: mem_settle_def) (simp_all add: mem_fifo_gestion_def mem_sign_extend_def
      mem_preprocess_def Let_def)

lemma word_adr_idem: "(adr AND 0xFFFFFFFC) AND 0xFFFFFFFC = adr AND 0xFFFFFFFC" for adr :: u32
  by (simp add: and.assoc)

text \<open>
  One access of the memory stage: its signals settle, the bench makes a pass, and the stage sees
  the result in the same cycle.
\<close>

definition bench_access :: "mem_env \<Rightarrow> exe2mem_out \<Rightarrow> mem2wbk_out \<Rightarrow> mem \<Rightarrow> u32 \<Rightarrow> ram \<Rightarrow> mem \<times> ram" where
  "bench_access env re rm s pc ram =
     (let s' = mem_settle env re rm s; (r, ram') = bench_step (bench_mem_in s' pc) ram
      in (mem_settle (env\<lparr>MCACHE_RESULT_SM := MEM_RESULT r, MCACHE_STALL_SM := MEM_STALL r\<rparr>) re rm s',
          ram'))"

text \<open>The lanes that the memory stage drives arrive in the word of the address.\<close>

lemma bench_store_word:
  assumes "lane_bytes (MEM_SIZE_RE re) dvd unat (EXE_RES_RE re)" "MEM_STORE_RE re"
    and "\<not> EXE2MEM_EMPTY_SE env" "i < 8 * lane_bytes (MEM_SIZE_RE re)"
  shows "bit (snd (bench_access env re rm s pc ram) (EXE_RES_RE re AND 0xFFFFFFFC))
      (8 * (unat (EXE_RES_RE re) mod 4) + i) = bit (MEM_DATA_RE re) i"
proof -
  have data: "bit (MCACHE_DATA_SM (mem_preprocess env re rm s)) (8 * (unat (EXE_RES_RE re) mod 4) + i) =
      bit (MEM_DATA_RE re) i"
    using store_data [OF assms(1,4) refl refl] by (simp add: mem_preprocess_def Let_def)
  have adr: "MCACHE_ADR_SM (mem_preprocess env re rm s) = EXE_RES_RE re"
    using assms(2) by (simp add: mem_preprocess_def Let_def)
  show ?thesis
    using data assms tb_store_word_bit(1) [OF assms(1,4)]
    by (simp add: bench_access_def bench_step_def bench_mem_in_def mem_settle_request adr Let_def)
qed

text \<open>A load sees the word of its address and leaves the memory as it is.\<close>

lemma bench_load_word:
  assumes "MEM_LOAD_RE ld" "\<not> MEM_STORE_RE ld" "lane_bytes (MEM_SIZE_RE ld) dvd unat (EXE_RES_RE ld)"
    and "unat (EXE_RES_RE ld) mod 8 < 4 \<or> unat (EXE_RES_RE ld) mod 4 = 0"
  shows "data_sm (fst (bench_access env ld rm s pc ram)) =
      lane_extend (MEM_SIGN_EXTEND_RE ld) (MEM_SIZE_RE ld) (unat (EXE_RES_RE ld) mod 4)
        (ram (EXE_RES_RE ld AND 0xFFFFFFFC))"
    and "snd (bench_access env ld rm s pc ram) = ram"
proof -
  have adr: "MCACHE_ADR_SM (mem_preprocess env ld rm s) = EXE_RES_RE ld AND 0xFFFFFFFC"
    using assms(2) by (simp add: mem_preprocess_def Let_def)
  have lane: "(if unat (EXE_RES_RE ld) mod 8 < 4 then unat (EXE_RES_RE ld) mod 4 else 0) =
      unat (EXE_RES_RE ld) mod 4" using assms(4) by auto
  show "data_sm (fst (bench_access env ld rm s pc ram)) =
      lane_extend (MEM_SIGN_EXTEND_RE ld) (MEM_SIZE_RE ld) (unat (EXE_RES_RE ld) mod 4)
        (ram (EXE_RES_RE ld AND 0xFFFFFFFC))"
    and "snd (bench_access env ld rm s pc ram) = ram"
    using assms(2) mem_sign_extend_data [OF assms(3,1)] lane
    by (simp_all add: bench_access_def bench_step_def bench_mem_in_def mem_settle_request adr
        word_adr_idem Let_def)
qed

text \<open>
  C11: a store of the memory stage into the simulation memory and a later load from the same
  address deliver the stored byte, half word or word, sign or zero extended, whatever the memory
  held before and whatever is stored into other words in between.  The load is taken from the
  lower word of a double word or from the start of a word, where the memory stage selects the
  right lane.
\<close>

theorem bench_store_load:
  assumes "lane_bytes (MEM_SIZE_RE st) dvd unat (EXE_RES_RE st)"
    and "unat (EXE_RES_RE st) mod 8 < 4 \<or> unat (EXE_RES_RE st) mod 4 = 0"
    and "MEM_STORE_RE st" "\<not> EXE2MEM_EMPTY_SE env"
    and "MEM_LOAD_RE ld" "\<not> MEM_STORE_RE ld"
    and "EXE_RES_RE ld = EXE_RES_RE st" "MEM_SIZE_RE ld = MEM_SIZE_RE st"
    and "\<forall>i \<in> set is. \<not> (MEM_STORE i \<and> MEM_ADR_VALID i \<and>
        MEM_ADR i AND 0xFFFFFFFC = EXE_RES_RE st AND 0xFFFFFFFC)"
  shows "data_sm (fst (bench_access env' ld rm' s' pc'
      (bench_run is (snd (bench_access env st rm s pc ram))))) =
    lane_extend (MEM_SIGN_EXTEND_RE ld) (MEM_SIZE_RE st) 0 (MEM_DATA_RE st)"
proof -
  let ?a = "EXE_RES_RE st"
  let ?ram = "snd (bench_access env st rm s pc ram)"
  have "data_sm (fst (bench_access env' ld rm' s' pc' (bench_run is ?ram))) =
      lane_extend (MEM_SIGN_EXTEND_RE ld) (MEM_SIZE_RE st) (unat ?a mod 4) (?ram (?a AND 0xFFFFFFFC))"
    using bench_load_word(1) [of ld] bench_run_other [OF assms(9)] assms by simp
  then show ?thesis
    using lane_extend_cong [OF bench_store_word [OF assms(1,3,4)]] by simp
qed

theorem bench_store_load_witness:
  "data_sm (fst (bench_access mem_env_idle ((byte_access 3)\<lparr>MEM_LOAD_RE := True\<rparr>)
      (mem2wbk_unconcat 0) mem_user 0
      (bench_run [] (snd (bench_access mem_env_idle
        ((byte_access 3)\<lparr>MEM_STORE_RE := True, MEM_DATA_RE := 0x85\<rparr>) (mem2wbk_unconcat 0) mem_user 0
        ram_empty))))) = 0xFFFFFF85"
proof -
  have "lane_extend True 2 0 0x85 = 0xFFFFFF85" by (simp add: lane_extend_def lane_bytes_def)
  then show ?thesis
    using bench_store_load [of "(byte_access 3)\<lparr>MEM_STORE_RE := True, MEM_DATA_RE := 0x85\<rparr>"
        mem_env_idle "(byte_access 3)\<lparr>MEM_LOAD_RE := True\<rparr>" "[]"]
    by (simp add: mem_eval mem_env_idle_def)
qed

end
