(* ===== verification/Clocked_Runs.thy ===== *)
theory Clocked_Runs
  imports River_Prelude
begin

text \<open>
  Runs of a machine that is clocked with a list of inputs, and the refinement of a machine that
  makes one step for some of the cycles: in the other cycles the abstract state stays as it is, and
  while the inputs let the machine flow, a measure goes down, so that every fourth cycle makes a
  step.
\<close>

subsection \<open>Runs\<close>

fun run_of :: "('i \<Rightarrow> 's \<Rightarrow> 's option) \<Rightarrow> 'i list \<Rightarrow> 's \<Rightarrow> 's option" where
  "run_of cycle [] s = Some s"
| "run_of cycle (i # is) s = Option.bind (cycle i s) (run_of cycle is)"

text \<open>The number of cycles of a run in which the machine moves.\<close>

fun count_of :: "('i \<Rightarrow> 's \<Rightarrow> 's option) \<Rightarrow> ('i \<Rightarrow> 's \<Rightarrow> bool) \<Rightarrow> 'i list \<Rightarrow> 's \<Rightarrow> nat" where
  "count_of cycle moves [] s = 0"
| "count_of cycle moves (i # is) s =
     (if moves i s then 1 else 0) +
     (case cycle i s of None \<Rightarrow> 0 | Some s' \<Rightarrow> count_of cycle moves is s')"

text \<open>A condition on the input and the state in every cycle of a run.\<close>

fun always_of :: "('i \<Rightarrow> 's \<Rightarrow> 's option) \<Rightarrow> ('i \<Rightarrow> 's \<Rightarrow> bool) \<Rightarrow> 'i list \<Rightarrow> 's \<Rightarrow> bool" where
  "always_of cycle ok [] s = True"
| "always_of cycle ok (i # is) s =
     (ok i s \<and> (case cycle i s of None \<Rightarrow> True | Some s' \<Rightarrow> always_of cycle ok is s'))"

subsection \<open>The refinement\<close>

locale lockstep =
  fixes cycle :: "'i \<Rightarrow> 's \<Rightarrow> 's option" and moves :: "'i \<Rightarrow> 's \<Rightarrow> bool"
    and quiet :: "'i \<Rightarrow> 's \<Rightarrow> bool" and flows :: "'i \<Rightarrow> bool"
    and inv :: "'s \<Rightarrow> bool" and wait :: "'s \<Rightarrow> nat"
    and abst :: "'s \<Rightarrow> 'a" and nxt :: "'a \<Rightarrow> 'a" and program :: "'a \<Rightarrow> bool"
  assumes program_nxt: "program a \<Longrightarrow> program (nxt a)"
    and wait_le: "wait s \<le> 3"
    and cycle_refines: "\<lbrakk>inv s; program (abst s); quiet i s\<rbrakk> \<Longrightarrow>
      \<exists>s'. cycle i s = Some s' \<and> inv s' \<and>
        abst s' = (if moves i s then nxt (abst s) else abst s) \<and>
        (flows i \<longrightarrow> moves i s \<or> wait s' < wait s)"
begin

lemma run_refines:
  assumes "inv s" "program (abst s)" "always_of cycle quiet is s"
  shows "\<exists>s'. run_of cycle is s = Some s' \<and> inv s' \<and>
    abst s' = (nxt ^^ count_of cycle moves is s) (abst s) \<and>
    ((\<forall>i \<in> set is. flows i) \<longrightarrow> length is + wait s' \<le> 4 * count_of cycle moves is s + wait s)"
  using assms
proof (induction "is" arbitrary: s)
  case (Cons i "is")
  obtain s1 where s1: "cycle i s = Some s1" "inv s1"
    "abst s1 = (if moves i s then nxt (abst s) else abst s)"
    "flows i \<longrightarrow> moves i s \<or> wait s1 < wait s"
    using cycle_refines [of s i] Cons.prems by auto
  then have "program (abst s1)" using Cons.prems(2) program_nxt by simp
  then obtain s' where "run_of cycle is s1 = Some s'" "inv s'"
    "abst s' = (nxt ^^ count_of cycle moves is s1) (abst s1)"
    "(\<forall>i \<in> set is. flows i) \<longrightarrow> length is + wait s' \<le> 4 * count_of cycle moves is s1 + wait s1"
    using Cons.IH [OF s1(2)] Cons.prems(3) s1(1) by auto
  then show ?case
    using s1 wait_le [of s1] by (auto simp: funpow_swap1)
qed simp

text \<open>Inputs that suit every state of an invariant of the abstract machine.\<close>

lemma always_quiet:
  assumes "inv s" "P (abst s)"
    and "\<And>a. P a \<Longrightarrow> P (nxt a)" "\<And>a. P a \<Longrightarrow> program a"
    and "\<And>s i. \<lbrakk>P (abst s); i \<in> set is\<rbrakk> \<Longrightarrow> quiet i s"
  shows "always_of cycle quiet is s"
  using assms(1,2,5)
proof (induction "is" arbitrary: s)
  case (Cons i "is")
  have q: "quiet i s" using Cons.prems by simp
  obtain s1 where s1: "cycle i s = Some s1" "inv s1"
    "abst s1 = (if moves i s then nxt (abst s) else abst s)"
    using cycle_refines [OF Cons.prems(1) assms(4) [OF Cons.prems(2)] q] by blast
  then have "P (abst s1)" using Cons.prems(2) assms(3) by simp
  then show ?case using Cons.IH [OF s1(2)] Cons.prems(3) q s1(1) by simp
qed simp

lemma run_executes:
  assumes "inv s" "program (abst s)" "always_of cycle quiet is s"
  shows "\<exists>s'. run_of cycle is s = Some s' \<and> inv s' \<and>
    abst s' = (nxt ^^ count_of cycle moves is s) (abst s) \<and>
    ((\<forall>i \<in> set is. flows i) \<longrightarrow> length is div 4 \<le> count_of cycle moves is s)"
  using run_refines [OF assms] wait_le [of s] by fastforce

end

end
