(* ===== verification/Core_Memory.thy ===== *)
theory Core_Memory
  imports Core_Refines Bench_Memory Clocked_Runs
begin

text \<open>
  The core executes programs from a memory: the sequential machine takes its instructions from the
  memory, loads from it and stores into it (\<open>rvm_step\<close>), and the core refines it when the caches
  answer with the words of the memory as the stores that have left execute have made it
  (\<open>core_executes_program\<close>).  Lemmas: the word that the memory stage drives and the bench of
  \<open>core_tb.cpp\<close> stores is the one of the machine, storing it again changes nothing, and the
  invariant of the core depends on the memory only at the next two program counters, while no
  load waits.
\<close>

subsection \<open>The machine\<close>

text \<open>The bytes of a store replace those of the word; the address is a multiple of their number.\<close>

definition rv_store_word :: "nat \<Rightarrow> u32 \<Rightarrow> u32 \<Rightarrow> u32 \<Rightarrow> u32" where
  "rv_store_word n adr d old =
     (let k = 8 * (unat adr mod 4); m = push_bit k (mask (8 * n))
      in (old AND NOT m) OR (push_bit k d AND m))"

definition rv_store_at :: "u32 \<Rightarrow> (u6 \<Rightarrow> u32) \<Rightarrow> u32" where
  "rv_store_at ir x = rv_adr ir (x (rv_rs1 ir)) AND 0xFFFFFFFC"

definition rv_store :: "u32 \<Rightarrow> (u6 \<Rightarrow> u32) \<Rightarrow> ram \<Rightarrow> ram" where
  "rv_store ir x m =
     (if rv_stores ir then
        m(rv_store_at ir x := rv_store_word (rv_bytes ir) (rv_adr ir (x (rv_rs1 ir))) (x (rv_rs2 ir))
            (m (rv_store_at ir x)))
      else m)"

type_synonym rvm_state = "rv_state \<times> ram"

definition rvm_step :: "rvm_state \<Rightarrow> rvm_state" where
  "rvm_step = (\<lambda>(s, m). (rv_step m s, rv_store (m (fst s)) (snd s) m))"

text \<open>
  What the pipeline asks of a program beyond \<open>rv_ok\<close>: a store does not change one of the next two
  instructions, which have been fetched by then.
\<close>

definition rvm_ok :: "rvm_state \<Rightarrow> bool" where
  "rvm_ok sm \<longleftrightarrow> (case sm of (s, m) \<Rightarrow>
     rv_ok m s \<and>
     (rv_stores (m (fst s)) \<longrightarrow>
        rv_store_at (m (fst s)) (snd s) \<noteq> fst (fst (rvm_step sm)) \<and>
        rv_store_at (m (fst s)) (snd s) \<noteq> fst (fst (rvm_step (rvm_step sm)))))"

text \<open>A program for the theorem: the sequential machine only meets such states.\<close>

definition rvm_program :: "rvm_state \<Rightarrow> bool" where
  "rvm_program sm \<longleftrightarrow> (\<forall>k. rvm_ok ((rvm_step ^^ k) sm))"

lemma rvm_program_now: "rvm_program sm \<Longrightarrow> rvm_ok sm"
  unfolding rvm_program_def by (drule spec [of _ 0]) simp

lemma rvm_program_step: "rvm_program sm \<Longrightarrow> rvm_program (rvm_step sm)"
  unfolding rvm_program_def
proof
  fix k assume "\<forall>k. rvm_ok ((rvm_step ^^ k) sm)"
  then show "rvm_ok ((rvm_step ^^ k) (rvm_step sm))"
    by (drule_tac x = "Suc k" in spec) (simp add: funpow_swap1)
qed

text \<open>A program is shown with an invariant of the machine.\<close>

lemma rvm_programI:
  assumes "P sm" "\<And>sm. P sm \<Longrightarrow> P (rvm_step sm)" "\<And>sm. P sm \<Longrightarrow> rvm_ok sm"
  shows "rvm_program sm"
proof -
  have "P ((rvm_step ^^ k) sm)" for k by (induction k) (simp_all add: assms)
  then show ?thesis by (simp add: rvm_program_def assms(3))
qed

lemma rv_store_other: "rv_stores ir \<longrightarrow> rv_store_at ir x \<noteq> a \<Longrightarrow> rv_store ir x m a = m a"
  by (auto simp: rv_store_def)

text \<open>The next program counter depends on the instruction and the registers alone.\<close>

lemma rv_step_pc_cong: "m (fst s) = m' (fst s) \<Longrightarrow> fst (rv_step m s) = fst (rv_step m' s)"
  by (cases s) (simp add: rv_step_def Let_def)

text \<open>The two instructions behind the present one are the same before and after its store.\<close>

lemma rvm_program_ahead:
  assumes "rvm_program (s, m)"
  defines "m' \<equiv> rv_store (m (fst s)) (snd s) m"
  shows "rv_ahead m s" "m' (fst (rv_step m s)) = m (fst (rv_step m s))"
    "m' (fst (rv_step m (rv_step m s))) = m (fst (rv_step m (rv_step m s)))"
proof -
  note now = rvm_program_now [OF assms(1)]
    and next1 = rvm_program_now [OF rvm_program_step [OF assms(1)]]
    and next2 = rvm_program_now [OF rvm_program_step [OF rvm_program_step [OF assms(1)]]]
  have s1: "rvm_step (s, m) = (rv_step m s, m')" by (simp add: rvm_step_def m'_def)
  show eq: "m' (fst (rv_step m s)) = m (fst (rv_step m s))"
    unfolding m'_def by (rule rv_store_other) (use now in \<open>simp add: rvm_ok_def s1\<close>)
  then have step: "fst (rv_step m' (rv_step m s)) = fst (rv_step m (rv_step m s))"
    by (rule rv_step_pc_cong)
  then have s2: "fst (fst (rvm_step (rvm_step (s, m)))) = fst (rv_step m (rv_step m s))"
    by (simp add: s1) (simp add: rvm_step_def)
  show "m' (fst (rv_step m (rv_step m s))) = m (fst (rv_step m (rv_step m s)))"
    unfolding m'_def by (rule rv_store_other) (use now in \<open>simp add: rvm_ok_def s2\<close>)
  show "rv_ahead m s"
    using now next1 next2 eq s2
    by (auto simp: rv_ahead_def rvm_ok_def s1 rv_ok_def split_beta)
qed

subsection \<open>The word that is stored\<close>

text \<open>What the memory stage drives onto the bus depends on the instruction in front of it alone.\<close>

definition re_data :: "exe2mem_out \<Rightarrow> u32" where
  "re_data re = MCACHE_DATA_SM (mem_preprocess mem_env_idle re (mem2wbk_unconcat 0) mem_user)"

lemma mem_drives_data: "MCACHE_DATA_SM (mem_preprocess env re rm s) = re_data re"
  by (simp add: re_data_def mem_preprocess_def Let_def)

definition re_store :: "exe2mem_out \<Rightarrow> ram \<Rightarrow> ram" where
  "re_store re m =
     (if MEM_STORE_RE re then tb_store (MEM_SIZE_RE re) (EXE_RES_RE re) (re_data re) m else m)"

lemma tb_store_word_twice: "tb_store_word sz adr d (tb_store_word sz adr d old) = tb_store_word sz adr d old"
proof -
  consider "store_aligned adr sz" | "sz = 1" "adr AND 1 = 1" | "sz \<noteq> 1" "sz \<noteq> 2"
    using low2_cases [of adr] by (cases "sz = 1"; cases "sz = 2")
      (auto simp: store_aligned_def low1_low2 [of adr])
  then show ?thesis
  proof cases
    case 1
    show ?thesis
      unfolding tb_store_word_lanes [OF 1] by (rule bit_word_eqI) (auto simp: bit_simps)
  qed (simp_all add: tb_store_word_misaligned tb_store_word_cases(7))
qed

lemma re_store_twice [simp]: "re_store re (re_store re m) = re_store re m"
  by (auto simp: re_store_def tb_store_def Let_def tb_store_word_twice)

lemma rv_store_word_bit:
  assumes "n + unat adr mod 4 \<le> 4"
  shows "bit (rv_store_word n adr d old) k \<longleftrightarrow>
    (if 8 * (unat adr mod 4) \<le> k \<and> k < 8 * (unat adr mod 4) + 8 * n then bit d (k - 8 * (unat adr mod 4))
     else bit old k)"
proof -
  have "bit old k \<Longrightarrow> k < 32" using bit_imp_le_length [of old k] by simp
  then show ?thesis
    using assms by (auto simp: rv_store_word_def Let_def bit_simps)
qed

lemma re_store_rv:
  assumes "MEM_STORE_RE re" "lane_bytes (MEM_SIZE_RE re) dvd unat (EXE_RES_RE re)"
  shows "re_store re m = m((EXE_RES_RE re AND 0xFFFFFFFC) :=
    rv_store_word (lane_bytes (MEM_SIZE_RE re)) (EXE_RES_RE re) (MEM_DATA_RE re)
      (m (EXE_RES_RE re AND 0xFFFFFFFC)))"
proof -
  let ?a = "EXE_RES_RE re" and ?n = "lane_bytes (MEM_SIZE_RE re)"
  have "tb_store_word (MEM_SIZE_RE re) ?a (re_data re) old = rv_store_word ?n ?a (MEM_DATA_RE re) old" for old
  proof (rule bit_word_eqI)
    fix k :: nat
    have fits: "?n + unat ?a mod 4 \<le> 4" using lane_fits [OF assms(2)] by simp
    have data: "bit (re_data re) (8 * (unat ?a mod 4) + i) = bit (MEM_DATA_RE re) i" if "i < 8 * ?n" for i
      using store_data [OF assms(2) that refl refl] by (simp add: re_data_def mem_preprocess_def Let_def)
    show "bit (tb_store_word (MEM_SIZE_RE re) ?a (re_data re) old) k =
        bit (rv_store_word ?n ?a (MEM_DATA_RE re) old) k"
    proof (cases "8 * (unat ?a mod 4) \<le> k \<and> k < 8 * (unat ?a mod 4) + 8 * ?n")
      case True
      moreover have "k - 8 * (unat ?a mod 4) < 8 * ?n" using True by linarith
      ultimately show ?thesis
        using tb_store_word_bit(1) [OF assms(2), of "k - 8 * (unat ?a mod 4)"]
          data [of "k - 8 * (unat ?a mod 4)"]
        by (simp add: rv_store_word_bit [OF fits])
    next
      case False
      then have "k < 8 * (unat ?a mod 4) \<or> 8 * (unat ?a mod 4) + 8 * ?n \<le> k" by auto
      then show ?thesis
        using tb_store_word_bit(2) [OF assms(2)] False
        by (simp only: rv_store_word_bit [OF fits] if_False)
    qed
  qed
  then show ?thesis using assms(1) by (simp add: re_store_def tb_store_def Let_def)
qed

subsection \<open>The core and the memory\<close>

lemma core_back_payload:
  assumes "core_normal m i c" "core_inv m c" "core_cycle i c = Some c'"
  shows "back_re (back_end c') = (if core_executes i c
    then exec_payload (back_rd (back_end c)) (backend_exec (back_ports i) (back_end c))
    else back_re (back_end c))"
  using back_fifo_step(6) [OF _ core_normal_back(4) [OF assms(1)] core_front_fifos(1) [OF assms]] assms(2)
  by (simp add: core_executes_def core_inv_def)

text \<open>The store of an instruction that the execute stage takes is the one of the machine.\<close>

lemma core_store_step:
  assumes n: "core_normal m i c" and inv: "core_inv m c" and cyc: "core_cycle i c = Some c'"
    and exe: "core_executes i c"
  shows "re_store (back_re (back_end c')) ram =
      rv_store (m (fst (core_abs m c))) (snd (core_abs m c)) ram"
    and "rv_stores (m (fst (core_abs m c))) \<Longrightarrow> \<not> loading (back_end c')"
proof -
  let ?b = "back_end c"
  have v: "fifo_v (dec2exe ?b)" and go: "\<not> blocked (backend_exec (back_ports i) ?b)"
    using core_executes_iff(1) [OF n inv] exe by simp_all
  define ir where "ir = m (fst (core_abs m c))"
  have abs: "core_abs m c = (PC_DEC2EXE_RD (back_rd ?b), regs_mem m ?b)" using v by (simp add: core_abs_def)
  then have ir: "m (PC_DEC2EXE_RD (back_rd ?b)) = ir" by (simp add: ir_def)
  have e: "issued (back_rd ?b) ir (PC_DEC2EXE_RD (back_rd ?b))" "rv_plain ir" "ready m ?b (back_rd ?b) ir"
    "\<not> EXCEPTION_RD (back_rd ?b)" "rv_aligned ir (regs_mem m ?b)" and bi: "back_inv ?b"
    using inv v by (simp_all add: core_inv_def exe_inv_def Let_def ir)
  note pay = plain_exec_payload(3-5) [OF bi core_normal_back(3) [OF n] e go,
      folded core_back_payload [OF n inv cyc, unfolded if_P [OF exe]]]
  show "re_store (back_re (back_end c')) ram = rv_store (m (fst (core_abs m c))) (snd (core_abs m c)) ram"
  proof (cases "rv_stores ir")
    case True
    then show ?thesis
      using pay e(5) re_store_rv [of "back_re (back_end c')" ram]
      by (simp add: rv_store_def rv_store_at_def rv_aligned_def abs ir)
  next
    case False
    then show ?thesis using pay(1) by (simp add: re_store_def rv_store_def abs ir)
  qed
  show "\<not> loading (back_end c')" if "rv_stores (m (fst (core_abs m c)))"
    using that pay(2) by (simp add: abs ir loading_def rv_stores_def rv_loads_def)
qed

text \<open>The invariant reads the program at the next two addresses only, unless a load waits.\<close>

lemma core_abs_cong: "\<not> loading (back_end c) \<Longrightarrow> core_abs m c = core_abs m' c"
  using regs_mem_loading [of "back_end c" m m'] by (simp add: core_abs_def)

lemma core_inv_cong:
  assumes "core_inv m c" "m' (fst (core_abs m c)) = m (fst (core_abs m c))"
    and "m' (fst (rv_step m (core_abs m c))) = m (fst (rv_step m (core_abs m c)))"
    and "\<not> loading (back_end c)"
  shows "core_inv m' c"
proof -
  have "m' (fetch_pc c) = m (fetch_pc c)" using assms(1-3) core_next_pc [OF assms(1)] by simp
  then have "front_inv m' c" using assms(1) by (simp add: core_inv_def front_inv_def)
  moreover have "exe_inv m' c"
  proof (cases "fifo_v (dec2exe (back_end c))")
    case True
    let ?pc = "PC_DEC2EXE_RD (back_rd (back_end c))"
    have pc: "m' ?pc = m ?pc" using assms(2) True by (simp add: core_abs_def)
    then have "fst (rv_step m (?pc, x)) = fst (rv_step m' (?pc, x))" for x
      by (intro rv_step_pc_cong) simp
    then show ?thesis
      using assms(1) regs_mem_loading [OF assms(4), of m m'] pc
      by (auto simp: core_inv_def exe_inv_def Let_def ready_def supplied_def)
  qed (simp add: exe_inv_def)
  ultimately show ?thesis using assms(1) by (simp add: core_inv_def)
qed

text \<open>A cycle of the core, with the memory after the stores that have left the execute stage.\<close>

definition core_mem_inv :: "core \<times> ram \<Rightarrow> bool" where
  "core_mem_inv = (\<lambda>(c, m). core_inv m c \<and> re_store (back_re (back_end c)) m = m)"

definition core_mem_abs :: "core \<times> ram \<Rightarrow> rvm_state" where
  "core_mem_abs = (\<lambda>(c, m). (core_abs m c, m))"

lemma core_mem_step:
  assumes quiet: "core_quiet m i c" and inv: "core_mem_inv (c, m)" and prog: "rvm_program (core_mem_abs (c, m))"
    and cyc: "core_cycle i c = Some c'"
  defines "m' \<equiv> re_store (back_re (back_end c')) m"
  shows "core_mem_inv (c', m')"
    and "core_mem_abs (c', m') =
      (if core_executes i c then rvm_step (core_mem_abs (c, m)) else core_mem_abs (c, m))"
proof -
  have cinv: "core_inv m c" and st: "re_store (back_re (back_end c)) m = m"
    using inv by (simp_all add: core_mem_inv_def)
  note ahead = rvm_program_ahead [OF prog [unfolded core_mem_abs_def, simplified]]
  have c': "core_inv m c'"
    "core_abs m c' = (if core_executes i c then rv_step m (core_abs m c) else core_abs m c)"
    using core_quiet_step [OF quiet cinv ahead(1)] cyc by auto
  have n: "core_normal m i c" by (rule core_quiet_normal(1) [OF quiet cinv ahead(1)])
  let ?ir = "m (fst (core_abs m c))"
  have m': "m' = (if core_executes i c then rv_store ?ir (snd (core_abs m c)) m else m)"
    using core_store_step(1) [OF n cinv cyc] core_back_payload [OF n cinv cyc] st by (simp add: m'_def)
  have "core_inv m' c' \<and> core_abs m' c' = core_abs m c'"
  proof (cases "core_executes i c \<and> rv_stores ?ir")
    case True
    then have l: "\<not> loading (back_end c')" using core_store_step(2) [OF n cinv cyc] by simp
    have "core_inv m' c'"
      by (rule core_inv_cong [OF c'(1) _ _ l]) (use True c'(2) m' ahead(2,3) in simp_all)
    then show ?thesis using core_abs_cong [OF l] by blast
  next
    case False
    then have "m' = m" using m' by (auto simp: rv_store_def)
    then show ?thesis using c'(1) by simp
  qed
  moreover have "re_store (back_re (back_end c')) m' = m'" by (simp add: m'_def)
  ultimately show "core_mem_inv (c', m')"
    and "core_mem_abs (c', m') =
      (if core_executes i c then rvm_step (core_mem_abs (c, m)) else core_mem_abs (c, m))"
    using c'(2) m' by (simp_all add: core_mem_inv_def core_mem_abs_def rvm_step_def)
qed

text \<open>Runs: the caches answer with the words of the memory, and stall as they like.\<close>

definition core_mem_cycle :: "core_in \<Rightarrow> core \<times> ram \<Rightarrow> (core \<times> ram) option" where
  "core_mem_cycle i = (\<lambda>(c, m).
     map_option (\<lambda>c'. (c', re_store (back_re (back_end c')) m)) (core_cycle i c))"

abbreviation "core_mem_executes \<equiv> \<lambda>i (c, m :: ram). core_executes i c"
abbreviation "core_mem_quiet \<equiv> \<lambda>i (c, m). core_quiet m i c"

interpretation core_lockstep: lockstep core_mem_cycle core_mem_executes core_mem_quiet core_flows
  core_mem_inv "core_wait \<circ> fst" core_mem_abs rvm_step rvm_program
proof
  fix s :: "core \<times> ram" and i
  assume inv: "core_mem_inv s" and prog: "rvm_program (core_mem_abs s)" and quiet: "core_mem_quiet i s"
  obtain c m where s: "s = (c, m)" by (cases s)
  have cinv: "core_inv m c" using inv by (simp add: s core_mem_inv_def)
  have q: "core_quiet m i c" using quiet by (simp add: s)
  note ahead = rvm_program_ahead(1) [OF prog [unfolded s core_mem_abs_def, simplified]]
  obtain c' where cyc: "core_cycle i c = Some c'" using core_quiet_step [OF q cinv ahead] by blast
  note n = core_quiet_normal(1) [OF q cinv ahead]
  show "\<exists>s'. core_mem_cycle i s = Some s' \<and> core_mem_inv s' \<and>
      core_mem_abs s' = (if core_mem_executes i s then rvm_step (core_mem_abs s) else core_mem_abs s) \<and>
      (core_flows i \<longrightarrow> core_mem_executes i s \<or> (core_wait \<circ> fst) s' < (core_wait \<circ> fst) s)"
    using core_mem_step [OF q inv [unfolded s] prog [unfolded s] cyc] core_flow_step [OF n cinv cyc]
    by (simp add: s core_mem_cycle_def cyc)
qed (simp_all add: rvm_program_step core_wait_le)

text \<open>
  The core executes programs.  From the state after reset, over any run of cycles without
  reset, interrupts, bus errors and predicted branches, in which the caches answer with the words of
  the memory whenever they do not stall, the core never fails, and program counter, registers
  and memory are at every moment those of the sequential machine after the instructions that have
  been executed; when neither cache stalls, the execute stage takes an instruction at least every four
  cycles.
\<close>

lemma core_mem_start:
  assumes "core_at_start pc c" "rvm_program ((pc, \<lambda>_. 0), m)"
  shows "core_mem_inv (c, m)" "core_mem_abs (c, m) = ((pc, \<lambda>_. 0), m)"
proof -
  have "pc AND 3 = 0" using rvm_program_now [OF assms(2)] by (simp add: rvm_ok_def rv_ok_def)
  note start = core_at_start_inv [OF assms(1) this]
  show "core_mem_inv (c, m)" "core_mem_abs (c, m) = ((pc, \<lambda>_. 0), m)"
    using start by (simp_all add: core_mem_inv_def core_mem_abs_def re_store_def)
qed

theorem core_executes_program:
  assumes "core_at_start pc c" "rvm_program ((pc, \<lambda>_. 0), m)"
    "always_of core_mem_cycle core_mem_quiet is (c, m)"
  shows "\<exists>c' m'. run_of core_mem_cycle is (c, m) = Some (c', m') \<and>
    (core_abs m' c', m') =
      (rvm_step ^^ count_of core_mem_cycle core_mem_executes is (c, m)) ((pc, \<lambda>_. 0), m) \<and>
    ((\<forall>i \<in> set is. core_flows i) \<longrightarrow>
       length is div 4 \<le> count_of core_mem_cycle core_mem_executes is (c, m))"
  using core_lockstep.run_executes [OF core_mem_start(1) [OF assms(1,2)] _ assms(3)]
    core_mem_start(2) [OF assms(1,2)] assms(2)
  by (auto simp: core_mem_abs_def)

text \<open>Once the stages behind execute are empty, the registers of the machine are in the register file.\<close>

lemma core_abs_retired:
  assumes "\<not> fifo_v (exe2mem (back_end c))" "\<not> fifo_v (mem2wbk (back_end c))" "r \<noteq> 0" "unat r < 32"
  shows "REG_RR (back_end c) ! unat r = snd (core_abs m c) r"
  using assms by (simp add: core_abs_def regs_mem_def regs_wb_def)

subsection \<open>Instances\<close>

text \<open>A memory full of \<open>lw x1, 0x100(x0)\<close>, which loads its own instruction.\<close>

definition load_self :: ram where
  "load_self = (\<lambda>_. 0x10002083)"

definition core_loads :: core_in where
  "core_loads = core_counts
     \<lparr>fetch_ports := ifetch_in_ready\<lparr>ifetch_in.INST_SIC := 0x10002083\<rparr>,
      back_ports := back_idle\<lparr>mem_ports := mem_env_idle\<lparr>MCACHE_RESULT_SM := 0x10002083\<rparr>\<rparr>\<rparr>"

definition loads_self :: "rvm_state \<Rightarrow> bool" where
  "loads_self sm \<longleftrightarrow> snd sm = load_self \<and> fst (fst sm) AND 3 = 0 \<and> snd (fst sm) 0 = 0"

lemma load_self_words:
  "opcode 0x10002083 = 0b0000011" "funct3 0x10002083 = 2" "rv_rs1 0x10002083 = 0" "rv_rd 0x10002083 = 1"
  "rv_offset_i 0x10002083 = 0x100" "rv_plain 0x10002083" "rv_loads 0x10002083" "\<not> rv_stores 0x10002083"
  "rv_load 0x10002083 0x100 (\<lambda>_. 0x10002083) = 0x10002083"
  by code_simp+

lemma load_self_step:
  assumes "loads_self sm"
  shows "rvm_step sm = ((fst (fst sm) + 4, (snd (fst sm))(1 := 0x10002083)), load_self)"
  using assms load_self_words
  by (simp add: loads_self_def rvm_step_def split_beta rv_step_def rv_store_def load_self_def Let_def
      rv_next_def rv_value_def rv_write_def rv_adr_def)

lemma loads_self_step: "loads_self sm \<Longrightarrow> loads_self (rvm_step sm)"
  by (simp add: load_self_step) (simp add: loads_self_def add_4_and_3)

lemma loads_self_program: "loads_self sm \<Longrightarrow> rvm_program sm"
proof (rule rvm_programI [where P = loads_self])
  show "rvm_ok sm" if "loads_self sm" for sm
    using that load_self_words
    by (simp add: loads_self_def rvm_ok_def split_beta rv_ok_def rv_aligned_def load_self_def rv_adr_def rv_bytes_def)
qed (simp_all add: loads_self_step)

lemma loads_self_start: "loads_self ((0x100, \<lambda>_. 0), load_self)"
  by (simp add: loads_self_def)

text \<open>From the second instruction on the register holds the instruction.\<close>

lemma load_self_value:
  assumes "0 < n"
  shows "snd (fst ((rvm_step ^^ n) ((0x100, \<lambda>_. 0), load_self))) 1 = 0x10002083"
proof -
  have "loads_self ((rvm_step ^^ k) ((0x100, \<lambda>_. 0), load_self))" for k
    by (induction k) (simp_all add: loads_self_start loads_self_step)
  from load_self_step [OF this [of "n - 1"]] show ?thesis using assms by (cases n) simp_all
qed

lemma core_loads_quiet: "core_quiet load_self core_loads c" "core_flows core_loads"
  by (simp_all add: core_quiet_def core_loads_def core_counts_def load_self_def back_quiet_def
      ifetch_in_ready_def back_idle_def reg_in_run_def mem_env_idle_def exec_env_reset_def
      mem_trap_to_handle_def back_answers_def load_in_time_def core_flows_def)

lemma core_loads_always:
  "always_of core_mem_cycle core_mem_quiet (replicate k core_loads) (core_first, load_self)"
proof (rule core_lockstep.always_quiet [where P = loads_self])
  note start = core_mem_start [OF core_first_start loads_self_program [OF loads_self_start]]
  show "core_mem_inv (core_first, load_self)" by (rule start)
  show "loads_self (core_mem_abs (core_first, load_self))" unfolding start by (rule loads_self_start)
  show "core_mem_quiet i s" if "loads_self (core_mem_abs s)" "i \<in> set (replicate k core_loads)" for s i
    using that core_loads_quiet(1) by (auto simp: loads_self_def core_mem_abs_def split_beta)
qed (simp_all add: loads_self_step loads_self_program)

theorem core_executes_program_witness:
  "\<exists>c' m'. run_of core_mem_cycle (replicate 8 core_loads) (core_first, load_self) = Some (c', m') \<and>
     snd (core_abs m' c') 1 = 0x10002083"
proof -
  let ?n = "count_of core_mem_cycle core_mem_executes (replicate 8 core_loads) (core_first, load_self)"
  obtain c' m' where run: "run_of core_mem_cycle (replicate 8 core_loads) (core_first, load_self) = Some (c', m')"
    "(core_abs m' c', m') = (rvm_step ^^ ?n) ((0x100, \<lambda>_. 0), load_self)" "2 \<le> ?n"
    using core_executes_program [OF core_first_start loads_self_program [OF loads_self_start]
        core_loads_always [of 8]] core_loads_quiet(2)
    by (auto simp del: run_of.simps count_of.simps)
  then have "0 < ?n" by linarith
  from load_self_value [OF this] show ?thesis
    using run unfolding run(2) [symmetric] by auto
qed

end
