(* ===== verification/Csr_Unit.thy ===== *)
theory Csr_Unit
  imports Stage_Interfaces
begin

text \<open>
  The control and status registers (\<open>SIM/SystemC/CORE/CSR/csr.cpp\<close>) and the timer
  (\<open>TIMER/timer.cpp\<close>).

  The register array \<open>csr_rc\<close> has 15 entries, indexed by the address decoders of the write and
  of the read switch.  Lemmas: what a clock edge leaves in each register, reading back what was
  written, read-only addresses, exception entry, and when the timer raises its interrupt and
  how acknowledging it restarts or stops the timer.
\<close>

subsection \<open>State of the CSR unit\<close>

record csr =
  csr_rc :: "u32 list"
  ACK_SP :: bool
  csr_started :: bool
  csr_wait :: nat

record csr_in =
  CSR_WADR_SM :: u12
  CSR_WDATA_SM :: u32
  CSR_ENABLE_SM :: bool
  EXCEPTION_SM :: bool
  MSTATUS_WDATA_RM :: u32
  MIP_WDATA_RM :: u32
  MEPC_WDATA_RM :: u32
  MCAUSE_WDATA_SM :: u32
  MTVAL_WDATA_SM :: u32
  TIME_RT_in :: u64
  TIMER_INT_ST_in :: bool
  PROC_ID :: u32

text \<open>The two address switches.  The write switch has no effect on the other addresses.\<close>

definition csr_write_index :: "u12 \<Rightarrow> nat option" where
  "csr_write_index a =
     (if a = 0x304 then Some 6
      else if a = 0x305 then Some 7
      else if a = 0x341 then Some 9
      else if a = 0x342 then Some 10
      else if a = 0x343 then Some 11
      else if a = 0x344 then Some 12
      else if a = 0x300 then Some 4
      else if a = 0x340 then Some 13
      else if a = 0x800 then Some 14
      else None)"

definition csr_read_index :: "u12 \<Rightarrow> nat option" where
  "csr_read_index a =
     (if a = 0xF11 then Some 0
      else if a = 0xF12 then Some 1
      else if a = 0xF13 then Some 2
      else if a = 0xF14 then Some 3
      else if a = 0x300 then Some 4
      else if a = 0x301 then Some 5
      else if a = 0x304 then Some 6
      else if a = 0x305 then Some 7
      else if a = 0x310 then Some 8
      else if a = 0x341 then Some 9
      else if a = 0x342 then Some 10
      else if a = 0x343 then Some 11
      else if a = 0x344 then Some 12
      else if a = 0x340 then Some 13
      else if a = 0x800 then Some 14
      else None)"

text \<open>
  The thread is not bound to the reset signal: its initial writes are made once, at the first
  clock edge, and \<open>wait(3)\<close> keeps it idle for the next two.
\<close>

definition csr_reset :: "csr_in \<Rightarrow> csr \<Rightarrow> csr" where
  "csr_reset i s =
     s\<lparr>csr_rc := (replicate 15 0)[3 := PROC_ID i, 4 := 0, 5 := 0x40100100, 14 := 0xFFFFFFFF],
       csr_started := True, csr_wait := 3\<rparr>"

text \<open>
  The body of the loop.  The timer bit is set in the value of \<open>mip\<close> from before the activation;
  the last write of a register wins.
\<close>

definition csr_body :: "csr_in \<Rightarrow> csr \<Rightarrow> csr" where
  "csr_body i s =
     (let old = csr_rc s;
          c1 = (if CSR_ENABLE_SM i then
                  (case csr_write_index (CSR_WADR_SM i) of
                     Some k \<Rightarrow> old[k := CSR_WDATA_SM i]
                   | None \<Rightarrow> old)
                else old);
          c2 = (if TIMER_INT_ST_in i then c1[12 := old ! 12 OR push_bit 7 1] else c1);
          c3 = (if EXCEPTION_SM i then
                  c2[4 := MSTATUS_WDATA_RM i, 12 := MIP_WDATA_RM i, 9 := MEPC_WDATA_RM i,
                     10 := MCAUSE_WDATA_SM i, 11 := MTVAL_WDATA_SM i]
                else c2)
      in s\<lparr>csr_rc := c3, ACK_SP := TIMER_INT_ST_in i, csr_wait := 1\<rparr>)"

definition csr_writing_csr :: "csr_in \<Rightarrow> csr \<Rightarrow> csr" where
  "csr_writing_csr i s =
     (if \<not> csr_started s then csr_reset i s
      else if 1 < csr_wait s then s\<lparr>csr_wait := csr_wait s - 1\<rparr>
      else csr_body i s)"

text \<open>\<open>TIMER_CONFIG_WB_SC\<close> and \<open>TIMER_DIVIDER_WB_SC\<close>.\<close>

definition csr_transmit_to_timer :: "csr_in \<Rightarrow> bool \<times> bool" where
  "csr_transmit_to_timer i =
     (if CSR_ENABLE_SM i then
        (if CSR_WADR_SM i = 0x5C0 then (True, False)
         else if CSR_WADR_SM i = 0x5C1 then (False, True)
         else (False, False))
      else (False, False))"

record csr_ports =
  CSR_RDATA_SC :: u32
  MEPC_SC :: u32
  MSTATUS_RC :: u32
  MTVEC_VALUE_RC :: u32
  MIP_VALUE_RC :: u32
  MIE_VALUE_RC :: u32
  MCAUSE_SC :: u32
  KERNEL_ADR_SC :: u32

definition csr_reading_csr :: "u12 \<Rightarrow> csr_in \<Rightarrow> csr \<Rightarrow> csr_ports" where
  "csr_reading_csr radr i s =
     \<lparr>CSR_RDATA_SC =
        (case csr_read_index radr of
           Some k \<Rightarrow> csr_rc s ! k
         | None \<Rightarrow>
             if radr = 0xC01 then rng 31 0 (TIME_RT_in i)
             else if radr = 0xC81 then rng 63 32 (TIME_RT_in i)
             else 0),
      MEPC_SC = csr_rc s ! 9, MSTATUS_RC = csr_rc s ! 4, MTVEC_VALUE_RC = csr_rc s ! 7,
      MIP_VALUE_RC = csr_rc s ! 12, MIE_VALUE_RC = csr_rc s ! 6, MCAUSE_SC = csr_rc s ! 10,
      KERNEL_ADR_SC = csr_rc s ! 14\<rparr>"

subsection \<open>Facts about the two switches\<close>

lemma csr_index_bound:
  "csr_write_index a = Some k \<Longrightarrow> k < 15"
  "csr_read_index a = Some k \<Longrightarrow> k < 15"
  by (auto simp: csr_write_index_def csr_read_index_def split: if_splits)

lemma csr_write_index_read: "csr_write_index a = Some k \<Longrightarrow> csr_read_index a = Some k"
  by (auto simp: csr_write_index_def csr_read_index_def split: if_splits)

definition csr_adr :: "nat \<Rightarrow> u12" where
  "csr_adr k = [0xF11, 0xF12, 0xF13, 0xF14, 0x300, 0x301, 0x304, 0x305, 0x310, 0x341, 0x342,
     0x343, 0x344, 0x340, 0x800] ! k"

lemma csr_read_index_adr: "csr_read_index a = Some k \<Longrightarrow> a = csr_adr k"
  by (auto simp: csr_read_index_def csr_adr_def split: if_splits)

lemma csr_read_index_inj: "csr_read_index a = Some k \<Longrightarrow> csr_read_index b = Some k \<Longrightarrow> a = b"
  by (drule csr_read_index_adr)+ simp

definition csr_ok :: "csr \<Rightarrow> bool" where
  "csr_ok s \<longleftrightarrow> length (csr_rc s) = 15"

lemma csr_ok_step: "csr_ok s \<Longrightarrow> csr_ok (csr_writing_csr i s)"
  by (simp add: csr_ok_def csr_writing_csr_def csr_reset_def csr_body_def Let_def
      split: option.splits)


subsection \<open>The effect of a clock edge\<close>

definition csr_running :: "csr \<Rightarrow> bool" where
  "csr_running s \<longleftrightarrow> csr_started s \<and> csr_wait s \<le> 1 \<and> csr_ok s"

definition csr_after :: "csr_in \<Rightarrow> csr \<Rightarrow> nat \<Rightarrow> u32" where
  "csr_after i s k =
     (if EXCEPTION_SM i \<and> k = 4 then MSTATUS_WDATA_RM i
      else if EXCEPTION_SM i \<and> k = 9 then MEPC_WDATA_RM i
      else if EXCEPTION_SM i \<and> k = 10 then MCAUSE_WDATA_SM i
      else if EXCEPTION_SM i \<and> k = 11 then MTVAL_WDATA_SM i
      else if EXCEPTION_SM i \<and> k = 12 then MIP_WDATA_RM i
      else if TIMER_INT_ST_in i \<and> k = 12 then csr_rc s ! 12 OR 0x80
      else if CSR_ENABLE_SM i \<and> csr_write_index (CSR_WADR_SM i) = Some k then CSR_WDATA_SM i
      else csr_rc s ! k)"

lemma csr_step:
  assumes "csr_running s" "k < 15"
  shows "csr_rc (csr_writing_csr i s) ! k = csr_after i s k"
proof -
  have len: "length (csr_rc s) = 15" using assms(1) by (simp add: csr_running_def csr_ok_def)
  have "csr_writing_csr i s = csr_body i s"
    using assms(1) by (simp add: csr_running_def csr_writing_csr_def)
  then show ?thesis
    using assms(2) len csr_index_bound(1) [of "CSR_WADR_SM i"]
    by (cases "csr_write_index (CSR_WADR_SM i)")
      (auto simp: csr_body_def Let_def csr_after_def nth_list_update)
qed

text \<open>
  C22: reading a CSR back after a CSR instruction wrote it gives the written value, and reading
  any other register of the array gives its old value; writes to the other addresses change
  nothing.
\<close>

theorem csr_read_after_write:
  assumes "csr_running s" "CSR_ENABLE_SM i" "\<not> EXCEPTION_SM i" "\<not> TIMER_INT_ST_in i"
    and "csr_read_index b = Some k"
  shows "CSR_RDATA_SC (csr_reading_csr b j (csr_writing_csr i s)) =
    (if b = CSR_WADR_SM i \<and> csr_write_index b \<noteq> None then CSR_WDATA_SM i
     else CSR_RDATA_SC (csr_reading_csr b j s))"
proof -
  have k: "k < 15" using csr_index_bound(2) [OF assms(5)] .
  have "csr_write_index (CSR_WADR_SM i) = Some k \<longleftrightarrow>
      b = CSR_WADR_SM i \<and> csr_write_index b \<noteq> None"
  proof
    assume w: "csr_write_index (CSR_WADR_SM i) = Some k"
    then have "b = CSR_WADR_SM i"
      by (intro csr_read_index_inj [OF assms(5) csr_write_index_read])
    then show "b = CSR_WADR_SM i \<and> csr_write_index b \<noteq> None" using w by simp
  next
    assume b: "b = CSR_WADR_SM i \<and> csr_write_index b \<noteq> None"
    then obtain k' where "csr_write_index b = Some k'" by blast
    then show "csr_write_index (CSR_WADR_SM i) = Some k"
      using csr_write_index_read [of b k'] assms(5) b by simp
  qed
  then have "csr_after i s k = (if b = CSR_WADR_SM i \<and> csr_write_index b \<noteq> None
      then CSR_WDATA_SM i else csr_rc s ! k)"
    using assms(2-4) by (simp add: csr_after_def)
  then show ?thesis
    by (simp only: csr_reading_csr_def csr_ports.select_convs assms(5) option.case
        csr_step [OF assms(1) k])
qed

text \<open>
  A clock edge with an exception stores the status, program counter, cause and value of the
  trap, whatever CSR instruction or timer interrupt coincides with it, and overwrites the
  pending interrupts.
\<close>

theorem csr_exception_entry:
  assumes "csr_running s" "EXCEPTION_SM i"
  shows "let p = csr_reading_csr 0x343 j (csr_writing_csr i s) in
    MSTATUS_RC p = MSTATUS_WDATA_RM i \<and> MEPC_SC p = MEPC_WDATA_RM i \<and>
    MCAUSE_SC p = MCAUSE_WDATA_SM i \<and> CSR_RDATA_SC p = MTVAL_WDATA_SM i \<and>
    MIP_VALUE_RC p = MIP_WDATA_RM i"
  using assms csr_step [OF assms(1)]
  by (simp add: csr_reading_csr_def csr_after_def Let_def csr_read_index_def)

subsection \<open>Timer\<close>

record timer =
  TIME_RT :: u64
  TIMER_INT_ST :: bool
  counter_rt :: u32
  divider_rt :: u32
  config_rt :: u2

record timer_in =
  TIMER_CONFIG_WB :: bool
  TIMER_DIVIDER_WB :: bool
  DATA_SC :: u32
  ACK_in :: bool

text \<open>
  The body of the thread: it reads the state \<open>s\<close> from before the activation and adds its writes
  to those already made, \<open>w\<close>.  The first activation makes the initial writes and goes on with
  the body.
\<close>

definition timer_writes :: "timer_in \<Rightarrow> timer \<Rightarrow> timer \<Rightarrow> timer" where
  "timer_writes i s w =
     (let s1 = (if TIMER_CONFIG_WB i then w\<lparr>config_rt := rng 1 0 (DATA_SC i)\<rparr> else w);
          s2 = (if TIMER_DIVIDER_WB i then s1\<lparr>divider_rt := DATA_SC i\<rparr> else s1);
          s3 = s2\<lparr>TIME_RT := TIME_RT s + 1, TIMER_INT_ST := False\<rparr>
      in
        if bit (config_rt s) 0 then
          (if counter_rt s = divider_rt s then
             (if ACK_in i then
                (let s4 = s3\<lparr>counter_rt := 0\<rparr>
                 in if \<not> bit (config_rt s) 1 then s4\<lparr>config_rt := 0\<rparr> else s4)
              else s3\<lparr>TIMER_INT_ST := True\<rparr>)
           else s3\<lparr>counter_rt := counter_rt s + 1\<rparr>)
        else s3)"

definition timer_body :: "timer_in \<Rightarrow> timer \<Rightarrow> timer" where
  "timer_body i s = timer_writes i s s"

definition timer_first :: "timer_in \<Rightarrow> timer \<Rightarrow> timer" where
  "timer_first i s =
     timer_writes i s (s\<lparr>config_rt := 0, divider_rt := 1, TIME_RT := 0, counter_rt := 0\<rparr>)"

fun timer_run :: "nat \<Rightarrow> timer_in \<Rightarrow> timer \<Rightarrow> timer" where
  "timer_run 0 i s = s"
| "timer_run (Suc n) i s = timer_body i (timer_run n i s)"

definition timer_quiet :: timer_in where
  "timer_quiet = \<lparr>TIMER_CONFIG_WB = False, TIMER_DIVIDER_WB = False, DATA_SC = 0, ACK_in = False\<rparr>"

lemma timer_counts:
  assumes "bit (config_rt s) 0" "counter_rt s = 0"
  shows "n \<le> unat (divider_rt s) \<Longrightarrow>
     timer_run n timer_quiet s = s\<lparr>TIME_RT := TIME_RT s + of_nat n,
       counter_rt := of_nat n, TIMER_INT_ST := (if n = 0 then TIMER_INT_ST s else False)\<rparr>"
proof (induction n)
  case 0
  then show ?case using assms by simp
next
  case (Suc n)
  have "unat (of_nat n :: u32) = n"
    using Suc.prems unsigned_less [of "divider_rt s", where ?'a = nat]
    by (simp add: unat_of_nat)
  then have "(of_nat n :: u32) \<noteq> divider_rt s"
    using Suc.prems by auto
  then show ?case
    using Suc assms by (simp add: timer_body_def timer_writes_def timer_quiet_def Let_def ac_simps)
qed

text \<open>
  C23: an enabled timer with its counter at 0 keeps quiet for as many cycles as its divider says
  and raises its interrupt in the next; the interrupt stays until it is acknowledged, which
  lowers it and restarts the count, and stops a timer that is not periodic.
\<close>

theorem timer_interrupt:
  assumes "bit (config_rt s) 0" "counter_rt s = 0" "n = unat (divider_rt s)"
  shows "(\<forall>m. 0 < m \<and> m \<le> n \<longrightarrow> \<not> TIMER_INT_ST (timer_run m timer_quiet s)) \<and>
    (\<forall>m > n. TIMER_INT_ST (timer_run m timer_quiet s)) \<and>
    (\<forall>m > n. let t = timer_body (timer_quiet\<lparr>ACK_in := True\<rparr>) (timer_run m timer_quiet s) in
       \<not> TIMER_INT_ST t \<and> counter_rt t = 0 \<and>
       config_rt t = (if bit (config_rt s) 1 then config_rt s else 0))"
proof -
  have full: "timer_run n timer_quiet s = s\<lparr>TIME_RT := TIME_RT s + of_nat n,
      counter_rt := divider_rt s, TIMER_INT_ST := (if n = 0 then TIMER_INT_ST s else False)\<rparr>"
    using timer_counts [OF assms(1,2), of n] assms(3) by simp
  have after: "timer_run (Suc (n + j)) timer_quiet s = s\<lparr>TIME_RT := TIME_RT s + of_nat (Suc (n + j)),
      counter_rt := divider_rt s, TIMER_INT_ST := True\<rparr>" for j
  proof (induction j)
    case 0
    then show ?case
      using full assms(1) by (simp add: timer_body_def timer_writes_def timer_quiet_def Let_def ac_simps)
  next
    case (Suc j)
    then show ?case
      using assms(1)
      by (simp del: timer_run.simps add: timer_run.simps(2) [of "Suc (n + j)"])
        (simp add: timer_body_def timer_writes_def timer_quiet_def Let_def ac_simps)
  qed
  have late: "timer_run m timer_quiet s = s\<lparr>TIME_RT := TIME_RT s + of_nat m,
      counter_rt := divider_rt s, TIMER_INT_ST := True\<rparr>" if "n < m" for m
    using after [of "m - Suc n"] that by simp
  have "\<not> TIMER_INT_ST (timer_run m timer_quiet s)" if "0 < m" "m \<le> n" for m
    using timer_counts [OF assms(1,2), of m] that assms(3) by simp
  moreover have "let t = timer_body (timer_quiet\<lparr>ACK_in := True\<rparr>) (timer_run m timer_quiet s) in
       \<not> TIMER_INT_ST t \<and> counter_rt t = 0 \<and>
       config_rt t = (if bit (config_rt s) 1 then config_rt s else 0)" if "n < m" for m
    unfolding late [OF that] using assms(1) by (simp add: timer_body_def timer_writes_def timer_quiet_def Let_def)
  ultimately show ?thesis
    by (simp add: late)
qed


subsection \<open>Instances\<close>

definition csr_after_reset :: csr where
  "csr_after_reset = \<lparr>csr_rc = (replicate 15 0)[5 := 0x40100100, 14 := 0xFFFFFFFF],
     ACK_SP = False, csr_started = True, csr_wait = 1\<rparr>"

definition csr_write_mtvec :: csr_in where
  "csr_write_mtvec = \<lparr>CSR_WADR_SM = 0x305, CSR_WDATA_SM = 0x80000000, CSR_ENABLE_SM = True,
     EXCEPTION_SM = False, MSTATUS_WDATA_RM = 0x1800, MIP_WDATA_RM = 0, MEPC_WDATA_RM = 4,
     MCAUSE_WDATA_SM = 8, MTVAL_WDATA_SM = 0, TIME_RT_in = 0, TIMER_INT_ST_in = False,
     PROC_ID = 0\<rparr>"

theorem csr_read_after_write_witness:
  "CSR_RDATA_SC (csr_reading_csr 0x305 csr_write_mtvec
     (csr_writing_csr csr_write_mtvec csr_after_reset)) = 0x80000000"
  using csr_read_after_write [of csr_after_reset csr_write_mtvec "0x305" 7 csr_write_mtvec]
  by (simp add: csr_running_def csr_ok_def csr_write_mtvec_def csr_after_reset_def
      csr_read_index_def csr_write_index_def)

theorem csr_exception_entry_witness:
  "MCAUSE_SC (csr_reading_csr 0x343 csr_write_mtvec
     (csr_writing_csr (csr_write_mtvec\<lparr>EXCEPTION_SM := True\<rparr>) csr_after_reset)) = 8"
  using csr_exception_entry [of csr_after_reset "csr_write_mtvec\<lparr>EXCEPTION_SM := True\<rparr>"]
  by (simp add: csr_running_def csr_ok_def csr_write_mtvec_def csr_after_reset_def Let_def)

definition timer_periodic_5 :: timer where
  "timer_periodic_5 = \<lparr>TIME_RT = 0, TIMER_INT_ST = False, counter_rt = 0, divider_rt = 5,
     config_rt = 3\<rparr>"

theorem timer_interrupt_witness:
  "\<not> TIMER_INT_ST (timer_run 5 timer_quiet timer_periodic_5) \<and>
   TIMER_INT_ST (timer_run 6 timer_quiet timer_periodic_5)"
proof -
  have "bit (config_rt timer_periodic_5) 0" "counter_rt timer_periodic_5 = 0"
    "5 = unat (divider_rt timer_periodic_5)"
    by (simp_all add: timer_periodic_5_def)
  from timer_interrupt [OF this] show ?thesis by auto
qed

end
