(* ===== verification/Core_Units.thy ===== *)
theory Core_Units
  imports Core_Memory Csr_Unit Mult_Pipe Divider
begin

text \<open>
  The whole core: the pipeline of \<open>Core\<close> with the units that \<open>SIM/SystemC/CORE/core.h\<close> connects
  beside it, the divider, the three-stage multiplier with its two FIFOs, the control and status
  registers and the timer.  What remains outside is what is outside of \<open>core.h\<close>, the caches,
  the bus and the interrupt lines, and the branch prediction.

  A cycle settles the units first whose outputs come from registers (the CSR unit, the timer
  and the last stage of the multiplier), then the divider on the operands of the execute stage,
  which do not depend on the divider's answer (\<open>exec_operands_div\<close>), then the pipeline.
  The theorem: the core executes programs with nothing assumed but the answers of the caches.
\<close>

subsection \<open>State and inputs\<close>

record units =
  core_part :: core
  x0_inst :: x0_multiplier
  x02x1 :: "322 word fifo"
  x1_inst :: x1_multiplier
  x12x2 :: "130 word fifo"
  divider_inst :: diviseur
  csr_inst :: csr
  timer_inst :: timer
  timer_started :: bool

record units_in =
  core_ports :: core_in
  core_PROC_ID :: u32

subsection \<open>The connections\<close>

definition unit_x2 :: "units \<Rightarrow> u32" where
  "unit_x2 u =
     (let r = x1_fifo_unconcat (DOUT_R (x12x2 u))
      in x2_process (RES_RX1 r) (SELECT_HIGHER_BITS_RX1 r))"

text \<open>
  The inputs of the CSR unit from the timer and, when the memory stage is settled, from there.
  Nothing drives \<open>MIP_WDATA_RM\<close>, which keeps the initial value of a signal.
\<close>

definition unit_csr_idle :: "units_in \<Rightarrow> units \<Rightarrow> csr_in" where
  "unit_csr_idle i u =
     \<lparr>csr_in.CSR_WADR_SM = 0, CSR_WDATA_SM = 0, CSR_ENABLE_SM = False, EXCEPTION_SM = False,
      MSTATUS_WDATA_RM = 0, MIP_WDATA_RM = 0, MEPC_WDATA_RM = 0, MCAUSE_WDATA_SM = 0,
      MTVAL_WDATA_SM = 0, TIME_RT_in = TIME_RT (timer_inst u),
      TIMER_INT_ST_in = TIMER_INT_ST (timer_inst u), PROC_ID = core_PROC_ID i\<rparr>"

definition unit_csr_in :: "units_in \<Rightarrow> mem \<Rightarrow> units \<Rightarrow> csr_in" where
  "unit_csr_in i m u =
     (unit_csr_idle i u)\<lparr>csr_in.CSR_WADR_SM := mem.CSR_WADR_SM m,
       csr_in.CSR_WDATA_SM := mem.CSR_WDATA_SM m, csr_in.CSR_ENABLE_SM := mem.CSR_ENABLE_SM m,
       csr_in.EXCEPTION_SM := mem.EXCEPTION_SM m,
       csr_in.MSTATUS_WDATA_RM := mem.MSTATUS_WDATA_RM m,
       csr_in.MEPC_WDATA_RM := mem.MEPC_WDATA_RM m,
       csr_in.MCAUSE_WDATA_SM := mem.MCAUSE_WDATA_SM m,
       csr_in.MTVAL_WDATA_SM := mem.MTVAL_WDATA_SM m\<rparr>"

definition unit_csr_out :: "u12 \<Rightarrow> units_in \<Rightarrow> units \<Rightarrow> csr_ports" where
  "unit_csr_out radr i u = csr_reading_csr radr (unit_csr_idle i u) (csr_inst u)"

definition unit_timer_in :: "units_in \<Rightarrow> mem \<Rightarrow> units \<Rightarrow> timer_in" where
  "unit_timer_in i m u =
     (let (config, divider) = csr_transmit_to_timer (unit_csr_in i m u)
      in \<lparr>TIMER_CONFIG_WB = config, TIMER_DIVIDER_WB = divider, DATA_SC = mem.CSR_WDATA_SM m,
          ACK_in = ACK_SP (csr_inst u)\<rparr>)"

text \<open>The back end with the answers of the units, \<open>ds\<close> being those of the divider.\<close>

definition unit_back_in :: "units_in \<Rightarrow> units \<Rightarrow> diviseur \<Rightarrow> backend_in" where
  "unit_back_in i u ds =
     (let b = back_ports (core_ports i); p = unit_csr_out 0 i u
      in b\<lparr>x2_result := unit_x2 u,
           mem_ports := (mem_ports b)\<lparr>mem_env.MEPC_SC := csr_ports.MEPC_SC p,
             mem_env.MSTATUS_RC := csr_ports.MSTATUS_RC p,
             mem_env.MIP_VALUE_RC := csr_ports.MIP_VALUE_RC p,
             mem_env.MIE_VALUE_RC := csr_ports.MIE_VALUE_RC p\<rparr>,
           exec_ports := (exec_ports b)\<lparr>exec_env.KERNEL_ADR_SC := csr_ports.KERNEL_ADR_SC p,
             DIVIDER_RES_OUTPUT_in := DIVIDER_RES_OUTPUT ds, DIV_BUSY_SE := BUSY_SE ds\<rparr>\<rparr>)"

definition unit_divider :: "units_in \<Rightarrow> units \<Rightarrow> diviseur" where
  "unit_divider i u =
     (let b = back_end (core_part u); e = backend_exec (unit_back_in i u (divider_inst u)) b
      in div_settle (SELECT_TYPE_OPERATIONS_RD (back_rd b)) (fifo_EMPTY (dec2exe b))
           (OP1_SE e) (OP2_SE e) (EXE_CMD_RD (back_rd b)) (divider_inst u))"

text \<open>The CSR that decode reads depends on the instruction alone.\<close>

definition unit_core_in :: "units_in \<Rightarrow> units \<Rightarrow> core_in" where
  "unit_core_in i u =
     (let ip = (core_ports i)\<lparr>back_ports := unit_back_in i u (unit_divider i u)\<rparr>;
          x = core_dec_fixed ip (core_part u);
          r = dec_pre_reg_read x (decoding_instruction_type (INSTR_RI x))
                (decoding_instruction (INSTR_RI x)) (D_reg (dec_inst (core_part u)));
          p = unit_csr_out (CSR_RADR_SD r) i u
      in ip\<lparr>dec_ports := (dec_ports ip)\<lparr>dec_in.CSR_RDATA_SC := csr_ports.CSR_RDATA_SC p,
              dec_in.KERNEL_ADR_SC := csr_ports.KERNEL_ADR_SC p,
              dec_in.MTVEC_VALUE_RC := csr_ports.MTVEC_VALUE_RC p\<rparr>\<rparr>)"

text \<open>The multiplier: each stage takes what the one in front holds.\<close>

definition unit_x0 :: "exec \<Rightarrow> dec2exe_out \<Rightarrow> units \<Rightarrow> x0_multiplier" where
  "unit_x0 e rd u = x0_settle (OP1_SE e) (OP2_SE e) (EXE_CMD_RD rd) (x0_inst u)"

definition unit_x1 :: "units \<Rightarrow> x1_multiplier" where
  "unit_x1 u = x1_settle (RES_RX0 (x0_fifo_unconcat (DOUT_R (x02x1 u)))) (x1_inst u)"

definition unit_x1_handshake :: "units \<Rightarrow> bool \<times> bool" where
  "unit_x1_handshake u =
     x1_manage_fifo (fifo_FULL (x12x2 u) (x2_manage_fifo (fifo_EMPTY (x12x2 u))))
       (fifo_EMPTY (x02x1 u))"

definition unit_mult_clock :: "exec \<Rightarrow> backend \<Rightarrow> units \<Rightarrow> units" where
  "unit_mult_clock e b u =
     (let r0 = x0_fifo_unconcat (DOUT_R (x02x1 u)); (push1, pop0) = unit_x1_handshake u
      in u\<lparr>x0_inst := unit_x0 e (back_rd b) u, x1_inst := unit_x1 u,
           x02x1 := fifo_clock (x0_fifo_concat (unit_x0 e (back_rd b) u))
             (x0_manage_fifo (fifo_FULL (x02x1 u) pop0) (fifo_EMPTY (dec2exe b))) pop0 (x02x1 u),
           x12x2 := fifo_clock
             (x1_fifo_concat (SIGNED_RES_RX0 r0) (SELECT_HIGHER_BITS_RX0 r0) (unit_x1 u))
             push1 (x2_manage_fifo (fifo_EMPTY (x12x2 u))) (x12x2 u)\<rparr>)"

definition units_cycle :: "units_in \<Rightarrow> units \<Rightarrow> units option" where
  "units_cycle i u =
     (let ci = unit_core_in i u; b = back_end (core_part u);
          m = backend_mem (back_ports ci) b; e = backend_exec (back_ports ci) b
      in map_option (\<lambda>c'.
           (unit_mult_clock e b u)\<lparr>core_part := c', divider_inst := div_new_state (unit_divider i u),
             csr_inst := csr_writing_csr (unit_csr_in i m u) (csr_inst u),
             timer_inst := (if timer_started u then timer_body else timer_first)
               (unit_timer_in i m u) (timer_inst u),
             timer_started := True\<rparr>)
         (core_cycle ci (core_part u)))"

fun units_run :: "units_in list \<Rightarrow> units \<Rightarrow> units option" where
  "units_run [] u = Some u"
| "units_run (i # is) u = Option.bind (units_cycle i u) (units_run is)"

subsection \<open>The units while plain instructions run\<close>

lemma exec_bypasses_div:
  "exec_bypasses (env\<lparr>DIVIDER_RES_OUTPUT_in := r, DIV_BUSY_SE := y\<rparr>) rd re rm s =
     exec_bypasses env rd re rm s"
proof -
  have "exec_env.EXE2MEM_EMPTY_SE (env\<lparr>DIVIDER_RES_OUTPUT_in := r, DIV_BUSY_SE := y\<rparr>) =
      exec_env.EXE2MEM_EMPTY_SE env"
    "exec_env.MEM2WBK_EMPTY_SM (env\<lparr>DIVIDER_RES_OUTPUT_in := r, DIV_BUSY_SE := y\<rparr>) =
      exec_env.MEM2WBK_EMPTY_SM env"
    for env :: exec_env by simp_all
  then show ?thesis
    unfolding exec_bypasses_def exec_bypass_rs1_def exec_bypass_rs2_def by (simp only:)
qed

lemma exec_operands_div:
  "op1_se (exec_settle (env\<lparr>DIVIDER_RES_OUTPUT_in := r, DIV_BUSY_SE := y\<rparr>) rd re rm s) =
     op1_se (exec_settle env rd re rm s)"
  "op2_se (exec_settle (env\<lparr>DIVIDER_RES_OUTPUT_in := r, DIV_BUSY_SE := y\<rparr>) rd re rm s) =
     op2_se (exec_settle env rd re rm s)"
  by (simp_all add: exec_bypasses_div)

lemma div_pass_idle:
  assumes "current_state s = 0" "\<not> exec_manage_divider select emp False"
  shows "div_pass select emp a b cmd s =
    s\<lparr>BUSY_SE := False, shift_cpt_se := 0, DONE_SE := (shift_cpt_re s = 32), next_state := 0\<rparr>"
proof -
  have "\<not> exec_manage_divider select emp d" for d
    using assms(2) by (auto simp: exec_manage_divider_def split: if_splits)
  then show ?thesis
    using assms(1) by (simp add: div_pass_def div_mae_output_def div_idle_def
        div_state_transition_def)
qed

lemma div_stays_idle:
  assumes "current_state s = 0" "\<not> exec_manage_divider select emp False"
  shows "\<not> BUSY_SE (div_settle select emp a b cmd s)"
    "current_state (div_new_state (div_settle select emp a b cmd s)) = 0"
  using assms by (simp_all add: div_settle_def div_pass_idle div_RET_def div_new_state_def Let_def)

lemma csr_keeps_mie:
  assumes "length (csr_rc s) = 15" "csr_rc s ! 6 = 0" "\<not> CSR_ENABLE_SM i" "\<not> csr_in.EXCEPTION_SM i"
  shows "length (csr_rc (csr_writing_csr i s)) = 15" "csr_rc (csr_writing_csr i s) ! 6 = 0"
  using assms by (simp_all add: csr_writing_csr_def csr_reset_def csr_body_def Let_def nth_list_update)

lemma mem_no_csr_write:
  assumes "\<not> EXCEPTION_RE re" "\<not> BUS_ERROR_SX env" "mem_trap_to_handle env = 0" "RESET env"
    "\<not> CSR_WENABLE_RE re"
  shows "\<not> mem.CSR_ENABLE_SM (mem_settle env re rm s)"
  using assms
  by (simp add: mem_settle_def mem_csr_settle_def mem_csr_exception_def mem_csr_write_def Let_def)

lemma plain_no_division:
  assumes "issued p ir pc" "rv_plain ir"
  shows "SELECT_TYPE_OPERATIONS_RD p \<noteq> 0b1000"
proof -
  obtain u i rd fb re rm s where p: "p = dec_issue u i rd fb re rm s" and ir: "INSTR_RI i = ir"
    using assms(1) by (auto simp: issued_def)
  have alu: "dec_alu_select (ifl ir) = 8 \<Longrightarrow> opcode ir = 0b0110011 \<and> funct7 ir = 1"
    by (auto simp: dec_alu_select_def decoding_instruction_flags split: if_splits)
  note fmt = plain_formats(1) [OF assms(2)]
  show ?thesis
  proof (cases "r_type_inst_sd (ity ir) \<or> i_type_inst_sd (ity ir) \<or> u_type_inst_sd (ity ir)")
    case True
    then have "SELECT_TYPE_OPERATIONS_RD p = dec_alu_select (ifl ir)"
      using ir by (intro dec_issue_alu(3) [OF _ _ refl p]) auto
    then show ?thesis
      using True alu plain_formats(4) [OF assms(2)] by (auto simp: decoding_instruction_type_def)
  next
    case False
    then have "\<not> m_type_inst_sd (ity ir)"
      using fmt by (auto simp: decoding_instruction_type_def)
    then show ?thesis
      using False fmt plain_formats(2,3) [OF assms(2)]
      by (auto simp: p dec_issue_def dec_payload_def Let_def ir dec_settle_parts(3)
          dec_post_reg_read_def split_beta dec_post_store_def dec_post_branch_def dec_post_jump_def)
  qed
qed

subsection \<open>Runs of programs\<close>

text \<open>What is assumed of the outside: no reset, bus error or predicted branch, and the caches answer.\<close>

definition units_quiet :: "(u32 \<Rightarrow> u32) \<Rightarrow> units_in \<Rightarrow> units \<Rightarrow> bool" where
  "units_quiet m i u \<longleftrightarrow>
     (let ip = core_ports i; f = fetch_ports ip
      in RESET_N (reg_ports (back_ports ip)) \<and> \<not> BUS_ERROR_SX (mem_ports (back_ports ip)) \<and>
         \<not> (PRED_BRANCH_MISS_OUT_SP f \<and> pb_taken f) \<and> \<not> bit (if2dec_high ip) 32 \<and>
         (\<not> ifetch_in.STALL_SIC f \<longrightarrow> ifetch_in.INST_SIC f = m (PC_SI (core_fetch (unit_core_in i u) (core_part u)))) \<and>
         back_answers m (back_ports ip) (back_end (core_part u)) \<and>
         load_in_time (back_ports ip) (back_end (core_part u)))"

definition units_inv :: "(u32 \<Rightarrow> u32) \<Rightarrow> units \<Rightarrow> bool" where
  "units_inv m u \<longleftrightarrow> core_inv m (core_part u) \<and>
     length (csr_rc (csr_inst u)) = 15 \<and> csr_rc (csr_inst u) ! 6 = 0 \<and>
     current_state (divider_inst u) = 0"

lemma unit_core_in_sel:
  "fetch_ports (unit_core_in i u) = fetch_ports (core_ports i)"
  "if2dec_high (unit_core_in i u) = if2dec_high (core_ports i)"
  "back_ports (unit_core_in i u) = unit_back_in i u (unit_divider i u)"
  by (simp_all add: unit_core_in_def Let_def)

lemma unit_back_in_sel:
  "reg_ports (unit_back_in i u ds) = reg_ports (back_ports (core_ports i))"
  "BUS_ERROR_SX (mem_ports (unit_back_in i u ds)) = BUS_ERROR_SX (mem_ports (back_ports (core_ports i)))"
  "mem_env.MIE_VALUE_RC (mem_ports (unit_back_in i u ds)) = csr_rc (csr_inst u) ! 6"
  "mem_env.MCACHE_STALL_SM (mem_ports (unit_back_in i u ds)) =
     mem_env.MCACHE_STALL_SM (mem_ports (back_ports (core_ports i)))"
  "mem_env.MCACHE_RESULT_SM (mem_ports (unit_back_in i u ds)) =
     mem_env.MCACHE_RESULT_SM (mem_ports (back_ports (core_ports i)))"
  "DIV_BUSY_SE (exec_ports (unit_back_in i u ds)) = BUSY_SE ds"
  by (simp_all add: unit_back_in_def Let_def unit_csr_out_def csr_reading_csr_def)

lemma units_no_division:
  assumes "units_inv m u"
  shows "\<not> exec_manage_divider (SELECT_TYPE_OPERATIONS_RD (back_rd (back_end (core_part u))))
    (fifo_EMPTY (dec2exe (back_end (core_part u)))) False"
  using assms plain_no_division
  by (auto simp: units_inv_def core_inv_def exe_inv_def Let_def fifo_EMPTY_def exec_manage_divider_def
      split: if_splits)

lemma units_core_quiet:
  assumes "units_quiet m i u" "units_inv m u"
  shows "core_quiet m (unit_core_in i u) (core_part u)"
proof -
  have "\<not> BUSY_SE (unit_divider i u)"
    using div_stays_idle(1) [OF _ units_no_division [OF assms(2)]] assms(2)
    by (simp add: unit_divider_def Let_def units_inv_def)
  then show ?thesis
    using assms by (simp add: core_quiet_def units_quiet_def Let_def unit_core_in_sel back_quiet_def
        unit_back_in_sel mem_trap_to_handle_def units_inv_def back_answers_def load_in_time_def)
qed

lemma units_step:
  assumes quiet: "units_quiet m i u" and inv: "units_inv m u"
    and prog: "rv_ahead m (core_abs m (core_part u))"
  defines "ci \<equiv> unit_core_in i u" and "c \<equiv> core_part u"
  shows "\<exists>u'. units_cycle i u = Some u' \<and> units_inv m u' \<and>
    core_cycle ci c = Some (core_part u') \<and>
    core_abs m (core_part u') = (if core_executes ci c then rv_step m (core_abs m c) else core_abs m c)"
proof -
  have cinv: "core_inv m c" using inv by (simp add: units_inv_def c_def)
  have cq: "core_quiet m ci c" using units_core_quiet [OF quiet inv] by (simp add: ci_def c_def)
  obtain c' where c': "core_cycle ci c = Some c'" "core_inv m c'"
    "core_abs m c' = (if core_executes ci c then rv_step m (core_abs m c) else core_abs m c)"
    using core_quiet_step [OF cq cinv] prog by (auto simp: c_def)
  then obtain u' where u': "units_cycle i u = Some u'" "core_part u' = c'"
    "divider_inst u' = div_new_state (unit_divider i u)"
    "csr_inst u' = csr_writing_csr (unit_csr_in i (backend_mem (back_ports ci) (back_end c)) u) (csr_inst u)"
    by (simp add: units_cycle_def Let_def ci_def [symmetric] c_def [symmetric])
  have bi: "back_inv (back_end c)" using cinv by (simp add: core_inv_def)
  have bq: "back_quiet (back_ports ci)" using cq by (simp add: core_quiet_def)
  have "\<not> mem.CSR_ENABLE_SM (backend_mem (back_ports ci) (back_end c))"
    unfolding backend_mem_def using bi bq
    by (intro mem_no_csr_write)
      (simp_all add: back_inv_def plain_re_def back_quiet_def backend_mem_env_def mem_trap_to_handle_def)
  then have csr: "length (csr_rc (csr_inst u')) = 15 \<and> csr_rc (csr_inst u') ! 6 = 0"
    using csr_keeps_mie [of "csr_inst u"] inv back_no_trap(1) [OF bi bq]
    by (simp add: u'(4) units_inv_def unit_csr_in_def)
  have "current_state (divider_inst u') = 0"
    using div_stays_idle(2) [OF _ units_no_division [OF inv]] inv
    by (simp add: u'(3) unit_divider_def Let_def units_inv_def)
  then show ?thesis using c' u'(1,2) csr by (auto simp: units_inv_def)
qed

definition units_flow :: "units_in \<Rightarrow> bool" where
  "units_flow i \<longleftrightarrow> \<not> ifetch_in.STALL_SIC (fetch_ports (core_ports i)) \<and>
     \<not> mem_env.MCACHE_STALL_SM (mem_ports (back_ports (core_ports i)))"

lemma units_flow_step:
  assumes "units_quiet m i u" "units_inv m u" "rv_ahead m (core_abs m (core_part u))"
    and "core_cycle (unit_core_in i u) (core_part u) = Some c'" "units_flow i"
  shows "core_executes (unit_core_in i u) (core_part u) \<or> core_wait c' < core_wait (core_part u)"
proof (rule core_flow_step [OF _ _ assms(4)])
  show "core_normal m (unit_core_in i u) (core_part u)"
    using core_quiet_normal(1) [OF units_core_quiet [OF assms(1,2)] _ assms(3)] assms(2)
    by (simp add: units_inv_def)
qed (use assms(2,5) in \<open>simp_all add: units_inv_def core_flows_def units_flow_def
    unit_core_in_sel unit_back_in_sel\<close>)

text \<open>The core with its units and the memory that its stores make.\<close>

definition units_mem_inv :: "units \<times> ram \<Rightarrow> bool" where
  "units_mem_inv = (\<lambda>(u, m). units_inv m u \<and> core_mem_inv (core_part u, m))"

definition units_mem_abs :: "units \<times> ram \<Rightarrow> rvm_state" where
  "units_mem_abs = (\<lambda>(u, m). core_mem_abs (core_part u, m))"

definition units_mem_cycle :: "units_in \<Rightarrow> units \<times> ram \<Rightarrow> (units \<times> ram) option" where
  "units_mem_cycle i = (\<lambda>(u, m).
     map_option (\<lambda>u'. (u', re_store (back_re (back_end (core_part u'))) m)) (units_cycle i u))"

definition units_executes :: "units_in \<Rightarrow> units \<Rightarrow> bool" where
  "units_executes i u = core_executes (unit_core_in i u) (core_part u)"

lemma units_mem_step:
  assumes quiet: "units_quiet m i u" and inv: "units_mem_inv (u, m)" and prog: "rvm_program (units_mem_abs (u, m))"
  shows "\<exists>u'. units_cycle i u = Some u' \<and>
    (let m' = re_store (back_re (back_end (core_part u'))) m
     in units_mem_inv (u', m') \<and>
        units_mem_abs (u', m') =
          (if units_executes i u then rvm_step (units_mem_abs (u, m)) else units_mem_abs (u, m))) \<and>
    (units_flow i \<longrightarrow> units_executes i u \<or> core_wait (core_part u') < core_wait (core_part u))"
proof -
  have uinv: "units_inv m u" and cinv: "core_mem_inv (core_part u, m)"
    using inv by (simp_all add: units_mem_inv_def)
  have prog': "rvm_program (core_mem_abs (core_part u, m))" using prog by (simp add: units_mem_abs_def)
  note ahead = rvm_program_ahead(1) [OF prog' [unfolded core_mem_abs_def, simplified]]
  obtain u' where u': "units_cycle i u = Some u'" "units_inv m u'"
    "core_cycle (unit_core_in i u) (core_part u) = Some (core_part u')"
    using units_step [OF quiet uinv ahead] by blast
  note st = core_mem_step [OF units_core_quiet [OF quiet uinv] cinv prog' u'(3)]
  have "units_inv m' u'" if "core_mem_inv (core_part u', m')" for m'
    using that u'(2) by (simp add: units_inv_def core_mem_inv_def)
  then show ?thesis
    using u'(1) st units_flow_step [OF quiet uinv ahead u'(3)]
    by (auto simp: units_mem_inv_def units_mem_abs_def units_executes_def)
qed

abbreviation "units_mem_quiet \<equiv> \<lambda>i (u, m). units_quiet m i u"
abbreviation "units_mem_executes \<equiv> \<lambda>i (u, m :: ram). units_executes i u"

interpretation units_lockstep: lockstep units_mem_cycle units_mem_executes units_mem_quiet units_flow
  units_mem_inv "core_wait \<circ> core_part \<circ> fst" units_mem_abs rvm_step rvm_program
proof
  fix s :: "units \<times> ram" and i
  assume inv: "units_mem_inv s" and prog: "rvm_program (units_mem_abs s)" and quiet: "units_mem_quiet i s"
  obtain u m where s: "s = (u, m)" by (cases s)
  show "\<exists>s'. units_mem_cycle i s = Some s' \<and> units_mem_inv s' \<and>
      units_mem_abs s' = (if units_mem_executes i s then rvm_step (units_mem_abs s) else units_mem_abs s) \<and>
      (units_flow i \<longrightarrow> units_mem_executes i s \<or>
        (core_wait \<circ> core_part \<circ> fst) s' < (core_wait \<circ> core_part \<circ> fst) s)"
    using units_mem_step [of m i u] inv prog quiet
    by (auto simp: s units_mem_cycle_def Let_def)
qed (simp_all add: rvm_program_step core_wait_le)

text \<open>As the reset leaves the core, with no interrupt enabled in \<open>mie\<close>.\<close>

definition units_at_start :: "u32 \<Rightarrow> units \<Rightarrow> bool" where
  "units_at_start pc u \<longleftrightarrow> core_at_start pc (core_part u) \<and> length (csr_rc (csr_inst u)) = 15 \<and>
     csr_rc (csr_inst u) ! 6 = 0 \<and> current_state (divider_inst u) = 0"

lemma units_mem_start:
  assumes "units_at_start pc u" "rvm_program ((pc, \<lambda>_. 0), m)"
  shows "units_mem_inv (u, m)" "units_mem_abs (u, m) = ((pc, \<lambda>_. 0), m)"
  using assms core_mem_start [OF _ assms(2)]
  by (simp_all add: units_at_start_def units_mem_inv_def units_mem_abs_def units_inv_def core_mem_inv_def)


subsection \<open>Instances\<close>

definition units_first :: units where
  "units_first =
     \<lparr>core_part = core_first,
      x0_inst = \<lparr>product = \<lambda>_. 0, product_s1 = \<lambda>_. 0, product_s2 = \<lambda>_. 0,
        product_s3 = \<lambda>_. 0, product_s4 = \<lambda>_. 0, product_s5 = \<lambda>_. 0,
        select_higher_bits_sx0 = False, signed_res_sx0 = False\<rparr>,
      x02x1 = \<lparr>fifo_v = False, DOUT_R = 0, wait_left = 1\<rparr>,
      x1_inst = \<lparr>M = \<lambda>_. 0, product_s6 = \<lambda>_. 0, product_s7 = \<lambda>_. 0, product_s8 = \<lambda>_. 0\<rparr>,
      x12x2 = \<lparr>fifo_v = False, DOUT_R = 0, wait_left = 1\<rparr>,
      divider_inst = div_rest, csr_inst = csr_after_reset,
      timer_inst = timer_periodic_5, timer_started = False\<rparr>"

definition units_counts :: units_in where
  "units_counts = \<lparr>core_ports = core_counts, core_PROC_ID = 0\<rparr>"

definition units_loads :: units_in where
  "units_loads = \<lparr>core_ports = core_loads, core_PROC_ID = 0\<rparr>"

lemma units_loads_quiet:
  "units_quiet load_self units_loads u" "units_flow units_loads"
  by (simp_all add: units_quiet_def units_loads_def core_loads_def core_counts_def load_self_def
      ifetch_in_ready_def back_idle_def reg_in_run_def mem_env_idle_def back_answers_def
      load_in_time_def units_flow_def)

lemma units_first_start: "units_at_start 0x100 units_first"
  using core_first_start by (simp add: units_at_start_def units_first_def div_rest_def csr_after_reset_def)

lemma units_loads_always:
  "always_of units_mem_cycle units_mem_quiet (replicate k units_loads) (units_first, load_self)"
proof (rule units_lockstep.always_quiet [where P = loads_self])
  note start = units_mem_start [OF units_first_start loads_self_program [OF loads_self_start]]
  show "units_mem_inv (units_first, load_self)" by (rule start)
  show "loads_self (units_mem_abs (units_first, load_self))" unfolding start by (rule loads_self_start)
  show "units_mem_quiet i s" if "loads_self (units_mem_abs s)" "i \<in> set (replicate k units_loads)" for s i
    using that units_loads_quiet(1)
    by (auto simp: loads_self_def units_mem_abs_def core_mem_abs_def split_beta)
qed (simp_all add: loads_self_step loads_self_program)


end
