(* ===== verification/Core_Mult.thy ===== *)
theory Core_Mult
  imports Core_Units
begin

text \<open>
  Multiplications through the whole core: the stages of the multiplier never wait for each other,
  so that an instruction which moves from execute to memory and on to write-back without a pause
  meets its product there.  The products that a pause or a bypass loses are counterexamples.
\<close>

subsection \<open>The multiplier never waits\<close>

definition units_started :: "units \<Rightarrow> bool" where
  "units_started u \<longleftrightarrow> started (back_end (core_part u)) \<and> wait_left (x02x1 u) \<le> 1 \<and>
     wait_left (x12x2 u) \<le> 1"

lemma mult_handshakes:
  "unit_x1_handshake u = (fifo_v (x02x1 u), fifo_v (x02x1 u))"
  "x2_manage_fifo (fifo_EMPTY (x12x2 u)) = fifo_v (x12x2 u)"
  "x0_manage_fifo (fifo_FULL (x02x1 u) (fifo_v (x02x1 u))) (fifo_EMPTY s) = fifo_v s"
  by (simp_all add: unit_x1_handshake_def x1_manage_fifo_def x2_manage_fifo_def x0_manage_fifo_def
      fifo_FULL_def fifo_EMPTY_def Let_def)

abbreviation "units_ports i u \<equiv> back_ports (unit_core_in i u)"
abbreviation "units_back u \<equiv> back_end (core_part u)"
abbreviation "units_exec i u \<equiv> backend_exec (units_ports i u) (units_back u)"

lemma units_cycle_parts:
  assumes "units_cycle i u = Some u'"
  shows "core_cycle (unit_core_in i u) (core_part u) = Some (core_part u')"
    "x02x1 u' = x02x1 (unit_mult_clock (units_exec i u) (units_back u) u)"
    "x12x2 u' = x12x2 (unit_mult_clock (units_exec i u) (units_back u) u)"
  using assms by (auto simp: units_cycle_def Let_def)

lemma units_cycle_back:
  assumes "units_cycle i u = Some u'"
  shows "backend_cycle (core_back_in (unit_core_in i u) (core_part u)) (units_back u) =
    Some (units_back u')"
  using units_cycle_parts(1) [OF assms]
  by (auto simp: core_cycle_def Let_def dest: arg_cong [of _ _ back_end])

lemma units_cycle_mult:
  assumes "units_cycle i u = Some u'" "units_started u"
  shows "fifo_v (dec2exe (units_back u)) \<Longrightarrow> fifo_v (x02x1 u') \<and>
      DOUT_R (x02x1 u') = x0_fifo_concat (unit_x0 (units_exec i u) (back_rd (units_back u)) u)"
    and "fifo_v (x02x1 u) \<Longrightarrow>
      DOUT_R (x12x2 u') = x1_fifo_concat (SIGNED_RES_RX0 (x0_fifo_unconcat (DOUT_R (x02x1 u))))
        (SELECT_HIGHER_BITS_RX0 (x0_fifo_unconcat (DOUT_R (x02x1 u)))) (unit_x1 u)"
    and "units_started u'"
proof -
  show "fifo_v (dec2exe (units_back u)) \<Longrightarrow> fifo_v (x02x1 u') \<and>
      DOUT_R (x02x1 u') = x0_fifo_concat (unit_x0 (units_exec i u) (back_rd (units_back u)) u)"
    using assms(2) by (simp add: units_cycle_parts(2) [OF assms(1)] unit_mult_clock_def
        mult_handshakes Let_def units_started_def fifo_clock_run fifo_function_loop_def)
  show "fifo_v (x02x1 u) \<Longrightarrow>
      DOUT_R (x12x2 u') = x1_fifo_concat (SIGNED_RES_RX0 (x0_fifo_unconcat (DOUT_R (x02x1 u))))
        (SELECT_HIGHER_BITS_RX0 (x0_fifo_unconcat (DOUT_R (x02x1 u)))) (unit_x1 u)"
    using assms(2) by (simp add: units_cycle_parts(3) [OF assms(1)] unit_mult_clock_def
        mult_handshakes Let_def units_started_def fifo_clock_run fifo_function_loop_def)
  have "wait_left (x02x1 u') \<le> 1 \<and> wait_left (x12x2 u') \<le> 1"
    using assms(2) unfolding units_cycle_parts(2,3) [OF assms(1)]
    by (simp add: unit_mult_clock_def mult_handshakes Let_def units_started_def fifo_clock_run
        fifo_loop_started [unfolded One_nat_def])
  then show "units_started u'"
    using assms(2) backend_cycle_fifos(4) [of _ _ "units_back u'", OF _ units_cycle_back [OF assms(1)]]
    by (simp add: units_started_def)
qed

text \<open>Two cycles after an instruction has been in execute, the last stage shows its product.\<close>

lemma units_product:
  assumes "units_started u" "fifo_v (dec2exe (units_back u))"
    and "units_cycle i1 u = Some u1" "units_cycle i2 u1 = Some u2"
  shows "unit_x2 u2 = mult_result (OP1_SE (units_exec i1 u)) (OP2_SE (units_exec i1 u))
    (EXE_CMD_RD (back_rd (units_back u))) (x0_inst u) (x1_inst u1)"
proof -
  note s1 = units_cycle_mult [OF assms(3,1)]
  have x02: "fifo_v (x02x1 u1)"
    "DOUT_R (x02x1 u1) = x0_fifo_concat (unit_x0 (units_exec i1 u) (back_rd (units_back u)) u)"
    using s1(1) [OF assms(2)] by simp_all
  show ?thesis
    unfolding unit_x2_def units_cycle_mult(2) [OF assms(4) s1(3) x02(1)] x02(2)
    by (simp add: mult_result_def unit_x0_def unit_x1_def x02(2) Let_def)
qed

subsection \<open>A multiplication on its way to its register\<close>

lemma m_type_writes:
  assumes "opcode (INSTR_RI i) = 0b0110011" "funct7 (INSTR_RI i) = 1"
    and p: "p = dec_issue u i rd fb re rm s"
  shows "EXE_DEST_RD p = rng 11 7 (INSTR_RI i)" "WB_RD p" "\<not> MEM_LOAD_RD p" "\<not> MEM_STORE_RD p"
    "\<not> CSR_WENABLE_RD p" "PC_DEC2EXE_RD p = PC_IF2DEC_RI i"
proof -
  let ?t = "ity (INSTR_RI i)"
  have t: "m_type_inst_sd ?t" "\<not> b_type_inst_sd ?t" "\<not> s_type_inst_sd ?t"
    "\<not> system_type_inst_sd ?t"
    using assms(1,2) by (simp_all add: decoding_instruction_type_def)
  have ops: "D_ops (dec_settle u i rd fb re rm s) =
      dec_post_reg_read u i ?t (ifl (INSTR_RI i)) (D_byp (dec_settle u i rd fb re rm s)) (D_ops s)"
    by (simp add: dec_settle_parts(3))
  show "EXE_DEST_RD p = rng 11 7 (INSTR_RI i)"
    using t by (auto simp: p dec_issue_def dec_payload_def dec_settle_parts(1) dec_pre_reg_read_def
        dec_set_regs_def Let_def)
  have "exe_wb_sd (dec_post_reg_read u i ?t (ifl (INSTR_RI i)) b x) \<and>
      \<not> csr_wenable_sd (dec_post_reg_read u i ?t (ifl (INSTR_RI i)) b x) \<and>
      \<not> mem_load_sd (dec_post_reg_read u i ?t (ifl (INSTR_RI i)) b x) \<and>
      \<not> mem_store_sd (dec_post_reg_read u i ?t (ifl (INSTR_RI i)) b x)" for b x
    using t assms(1)
    by (auto simp: dec_post_reg_read_def Let_def dec_post_alu_def dec_load_size_def
        decoding_instruction_flags)
  then show "WB_RD p" "\<not> MEM_LOAD_RD p" "\<not> MEM_STORE_RD p" "\<not> CSR_WENABLE_RD p"
    by (simp_all add: p dec_issue_def dec_payload_def ops Let_def)
  show "PC_DEC2EXE_RD p = PC_IF2DEC_RI i"
    by (simp add: p dec_issue_def dec_payload_def Let_def)
qed

text \<open>
  C3: a multiplication that decode has issued leaves its product in its register: in three cycles
  in which execute and then memory hand it on, the product of the two operands that execute used
  (low half, or the high half signed, unsigned or mixed) has passed the three stages of the
  multiplier beside it, whatever was in them, and is written in the third cycle.
\<close>

theorem units_mul_retires:
  assumes "back_rd (units_back u) = dec_issue un i rd fb re rm s" "EXE_DEST_RD (back_rd (units_back u)) \<noteq> 0"
    and "opcode (INSTR_RI i) = 0b0110011" "funct7 (INSTR_RI i) = 1" "funct3 (INSTR_RI i) < 4"
    and "\<not> EXCEPTION_RD (back_rd (units_back u))"
    and "units_started u" "reg_inv (REG_RR (units_back u))" "RESET_N (reg_ports (back_ports (core_ports i3)))"
    and "\<not> mem.EXCEPTION_SM (backend_mem (units_ports i1 u) (units_back u))"
    and "exe2mem_push_se (units_exec i1 u)"
    and "mem2wbk_push_sm (backend_mem (units_ports i2 u1) (units_back u1))"
    and "units_cycle i1 u = Some u1" "units_cycle i2 u1 = Some u2" "units_cycle i3 u2 = Some u3"
  shows "reg_read (rng 11 7 (INSTR_RI i)) (REG_RR (units_back u3)) =
      Some (rv_m_op (funct3 (INSTR_RI i)) (OP1_SE (units_exec i1 u)) (OP2_SE (units_exec i1 u))) \<and>
    retiring (units_ports i3 u2) (units_back u2) = [PC_IF2DEC_RI i]"
proof -
  let ?b = "units_back u"
  note wr = m_type_writes [OF assms(3,4,1)]
  note cyc = units_cycle_back [OF assms(13)] units_cycle_back [OF assms(14)]
    units_cycle_back [OF assms(15)]
  have dest: "take_bit 5 (EXE_DEST_RD (back_rd ?b)) = EXE_DEST_RD (back_rd ?b)"
    unfolding wr(1) by (rule dest_field)
  have st: "started ?b" using assms(7) by (simp add: units_started_def)
  have "\<not> exec_env.EXCEPTION_SM (backend_exec_env (units_ports i1 u) ?b)"
    using assms(10) by (simp add: backend_exec_env_def Let_def)
  from exec_pushes(2) [OF this] have "\<not> DEC2EXE_EMPTY_SD (backend_exec_env (units_ports i1 u) ?b)"
    using assms(11) unfolding backend_exec_def by blast
  then have v: "fifo_v (dec2exe ?b)"
    by (simp add: backend_exec_env_def Let_def fifo_EMPTY_def split: if_splits)
  note prod = units_product [OF assms(7) v assms(13,14)]
  have x2: "x2_result (core_back_in (unit_core_in i3 u2) (core_part u2)) = unit_x2 u2"
    by (simp add: core_back_in_def Let_def unit_core_in_sel unit_back_in_def)
  have mul: "mult_result a c (EXE_CMD_RD (back_rd ?b)) s0 s1 = rv_m_op (funct3 (INSTR_RI i)) a c"
    for a c s0 s1
    unfolding m_type_issue(2) [OF assms(3,4,1)] m_type_cmd(2) [OF assms(3,4)] mult_result_op
    using u3_cases [of "funct3 (INSTR_RI i)"] assms(5)
    by (elim disjE) (simp_all add: rv_m_op_def)
  have "MULT_INST_RD (back_rd ?b)"
    using m_type_issue(3) [OF assms(3,4,1)] assms(5) by simp
  then show ?thesis
    using backend_three_cycles [OF st assms(8) _ assms(6) wr(2-4) assms(2) dest _ _ _ cyc]
      assms(9-12) wr(1,5,6) by (simp add: x2 prod mul unit_core_in_sel unit_back_in_sel retiring_def)
qed

lemma units_cycle_total:
  assumes "reg_inv (REG_RR (units_back u))"
  shows "\<exists>u'. units_cycle i u = Some u' \<and> reg_inv (REG_RR (units_back u'))"
proof -
  obtain b' where "backend_cycle (core_back_in (unit_core_in i u) (core_part u)) (units_back u) = Some b'"
    "reg_inv (REG_RR b')"
    using backend_cycle_registers [OF assms] by blast
  then show ?thesis by (auto simp: units_cycle_def core_cycle_def Let_def)
qed

subsection \<open>Products that are lost\<close>

text \<open>While memory stalls, the FIFO in front of it keeps its instruction.\<close>

lemma backend_mem_stalls:
  assumes "started b" "backend_cycle i b = Some b'" "fifo_v (exe2mem b)"
    and "\<not> mem.EXCEPTION_SM (backend_mem i b)" "\<not> mem2wbk_push_sm (backend_mem i b)"
  shows "exe2mem b' = (exe2mem b)\<lparr>wait_left := wait_left (exe2mem b')\<rparr>" "started b'"
proof -
  have pop: "\<not> EXE2MEM_POP_SM (backend_mem i b)"
    using assms(5) by (simp add: backend_mem_def mem_handshake)
  have "\<not> exec_env.EXCEPTION_SM (backend_exec_env i b)"
    using assms(4) by (simp add: backend_exec_env_def Let_def)
  from exec_pushes(2) [OF this, of "back_rd b" "back_re b" "back_rm b" "exec_inst b"]
  have "\<not> exe2mem_push_se (backend_exec i b)"
    using pop assms(3) by (auto simp: backend_exec_def backend_exec_env_def fifo_FULL_def Let_def)
  then show "exe2mem b' = (exe2mem b)\<lparr>wait_left := wait_left (exe2mem b')\<rparr>"
    using backend_cycle_fifos(2) [OF assms(1,2)] pop assms(3)
    by (simp add: fifo_function_loop_def)
  show "started b'" by (rule backend_cycle_fifos(4) [OF assms(1,2)])
qed

text \<open>
  C20: a multiplication that has to wait in the memory stage loses its product.  When the data
  cache stalls memory for one cycle and another instruction, of whatever kind, has come to
  execute behind it, the multiplier takes that one's operands meanwhile, and the register of the
  multiplication receives their product (by that one's command) instead of its own.
\<close>

theorem units_mul_stalled_loses_product:
  assumes "fifo_v (exe2mem (units_back u))" "MULT_INST_RE (back_re (units_back u))"
    and "WB_RE (back_re (units_back u))" "\<not> MEM_LOAD_RE (back_re (units_back u))"
    "\<not> CSR_WENABLE_RE (back_re (units_back u))"
    and "DEST_RE (back_re (units_back u)) = r" "take_bit 5 r = r" "r \<noteq> 0"
    and "fifo_v (dec2exe (units_back u))"
    and "units_started u" "reg_inv (REG_RR (units_back u))" "RESET_N (reg_ports (back_ports (core_ports i3)))"
    and "\<not> mem.EXCEPTION_SM (backend_mem (units_ports i1 u) (units_back u))"
    and "mem_env.MCACHE_STALL_SM (mem_ports (back_ports (core_ports i1)))"
    and "mem2wbk_push_sm (backend_mem (units_ports i2 u1) (units_back u1))"
    and "units_cycle i1 u = Some u1" "units_cycle i2 u1 = Some u2" "units_cycle i3 u2 = Some u3"
  shows "reg_read r (REG_RR (units_back u3)) =
    Some (mult_result (OP1_SE (units_exec i1 u)) (OP2_SE (units_exec i1 u))
      (EXE_CMD_RD (back_rd (units_back u))) (x0_inst u) (x1_inst u1))"
proof -
  note cyc = units_cycle_back [OF assms(16)] units_cycle_back [OF assms(17)]
    units_cycle_back [OF assms(18)]
  have st: "started (units_back u)" using assms(10) by (simp add: units_started_def)
  have stall: "\<not> mem2wbk_push_sm (backend_mem (units_ports i1 u) (units_back u))"
    using assms(14) by (simp add: backend_mem_def mem_handshake backend_mem_env_def
        unit_core_in_sel unit_back_in_sel)
  have keep: "DOUT_R (exe2mem (units_back u1)) = DOUT_R (exe2mem (units_back u))"
    "started (units_back u1)"
    using backend_mem_stalls [OF st cyc(1) assms(1)] assms(13) stall
    by (auto dest: arg_cong [of _ _ DOUT_R])
  have inv: "reg_inv (REG_RR (units_back u2))"
    using units_cycle_total [OF assms(11), of i1] units_cycle_total [of u1 i2] assms(16,17) by auto
  have "mem2wbk_push_sm (backend_mem (core_back_in (unit_core_in i2 u1) (core_part u1)) (units_back u1))"
    using assms(15) by simp
  note rm = backend_hop_mem [OF keep(2) cyc(2) this]
  have "wb_sm (backend_mem (units_ports i2 u1) (units_back u1))"
    using assms(3) keep(1) by (simp add: backend_mem_def mem_sign_extend_def mem_preprocess_def Let_def)
  then have wb: "WB_RM (back_rm (units_back u2))" "DEST_RM (back_rm (units_back u2)) = r"
    "MULT_INST_RM (back_rm (units_back u2))" "\<not> CSR_WENABLE_RM (back_rm (units_back u2))"
    using assms(2,5-7) keep(1) by (simp_all add: rm(1) mem_payload_def)
  have x2: "x2_result (core_back_in (unit_core_in i3 u2) (core_part u2)) = unit_x2 u2"
    by (simp add: core_back_in_def Let_def unit_core_in_sel unit_back_in_def)
  then have "WDATA_SW (backend_wbk (core_back_in (unit_core_in i3 u2) (core_part u2)) (units_back u2)) =
      unit_x2 u2"
    using wb by (simp add: backend_wbk_def wbk_method_def)
  then show ?thesis
    using backend_hop_wbk [OF _ cyc(3) inv rm(2) wb(1)] wb(2) assms(8,12)
      units_product [OF assms(10,9,16,17)]
    by (simp add: unit_core_in_sel unit_back_in_sel)
qed

text \<open>
  The bypass of the first operand in execute mistakes a multiplication for a result.  Once
  the FIFO to memory is empty, the payload of a multiplication that it still shows counts as
  valid, though the result in it is not the product but what an earlier instruction has left in
  \<open>exe_res_se\<close>; a later instruction that reads the product gets this value and goes on.
\<close>

theorem exec_rs1_mistakes_product:
  assumes "SELECT_TYPE_OPERATIONS_RD m = 0b0100" "EXE_DEST_RD m = BP_RADR1_RD rd"
    and "\<not> MEM_LOAD_RD m" "\<not> CSR_WENABLE_RD m"
    and "BP_RADR1_RD rd \<noteq> 0" "\<not> BLOCK_BP_RD rd" "\<not> CSRRC_I_RD rd" "exec_env.EXE2MEM_EMPTY_SE env"
  shows "let e = exec_settle env rd (exec_payload m (exec_settle env0 m re0 rm0 s0)) rm s
    in op1_se e = exe_res_se s0 \<and> r1_valid_se e"
proof -
  let ?re = "exec_payload m (exec_settle env0 m re0 rm0 s0)"
  have "exe_res_se (exec_bypasses env0 m re0 rm0 s0) = exe_res_se s0"
    by (simp add: exec_bypasses_def exec_bypass_rs1_def exec_bypass_rs2_def Let_def)
  then have "EXE_RES_RE ?re = exe_res_se s0"
    using assms(1) by (simp add: exec_payload_def exec_settle_def exec_select_exec_res_def
        exec_preprocess_op_def exec_alu_inst_def exec_shifter_inst_def)
  moreover have "DEST_RE ?re = BP_RADR1_RD rd" "\<not> CSR_WENABLE_RE ?re" "\<not> MEM_LOAD_RE ?re"
    using assms(2-4) by (simp_all add: exec_payload_def exec_settle_def exec_exception_def
        exec_manage_fifo_def Let_def)
  ultimately show ?thesis
    using assms(5-8) by (simp add: exec_bypasses_def split_beta exec_bypass_rs1_def
        exec_bypass_rs2_def Let_def)
qed

end
