(* ===== verification/Core_Div.thy ===== *)
theory Core_Div
  imports Core_Mult
begin

text \<open>
  Divisions through the whole core: an instruction that waits in execute for the divider holds
  the stage for 33 cycles, moves on when the divider is done, and leaves quotient or remainder in
  its register.
\<close>

subsection \<open>A division waits in execute\<close>

lemma exec_keeps_op_ports:
  "OP1_SE (exec_manage_fifo env s) = OP1_SE s" "OP2_SE (exec_manage_fifo env s) = OP2_SE s"
  "OP1_SE (exec_exception env rd s) = OP1_SE s" "OP2_SE (exec_exception env rd s) = OP2_SE s"
  "OP1_SE (exec_check_access env rd s) = OP1_SE s" "OP2_SE (exec_check_access env rd s) = OP2_SE s"
  by (simp_all add: exec_manage_fifo_def exec_exception_def exec_check_access_def Let_def)

lemma exec_res_keeps_op_ports:
  "OP1_SE (exec_select_exec_res env rd s) = OP1_SE s"
  "OP2_SE (exec_select_exec_res env rd s) = OP2_SE s"
  by (simp_all add: exec_select_exec_res_def exec_keeps_op_ports Let_def)

lemma exec_op_ports:
  "OP1_SE (exec_settle env rd re rm s) = op1_se (exec_settle env rd re rm s)"
  "OP2_SE (exec_settle env rd re rm s) = op2_se (exec_settle env rd re rm s)"
  by (simp_all only: exec_settle_operands)
    (simp_all add: exec_settle_def exec_keeps_op_ports exec_res_keeps_op_ports exec_shifter_inst_def
      exec_alu_inst_def exec_preprocess_op_def)

text \<open>The operands of the divider are those of execute, though the latter waits for it.\<close>

lemma unit_back_mem:
  "backend_mem (unit_back_in i u ds) b = backend_mem (unit_back_in i u d0) b"
  by (simp add: backend_mem_def backend_mem_env_def backend_wbk_def unit_back_in_def Let_def)

lemma unit_back_exec_env:
  "backend_exec_env (unit_back_in i u ds) b =
     (backend_exec_env (unit_back_in i u d0) b)
       \<lparr>DIVIDER_RES_OUTPUT_in := DIVIDER_RES_OUTPUT ds, DIV_BUSY_SE := BUSY_SE ds\<rparr>"
proof -
  have ports: "exec_ports (unit_back_in i u ds) = (exec_ports (unit_back_in i u d0))
      \<lparr>DIVIDER_RES_OUTPUT_in := DIVIDER_RES_OUTPUT ds, DIV_BUSY_SE := BUSY_SE ds\<rparr>"
    by (simp add: unit_back_in_def Let_def)
  show ?thesis
    unfolding backend_exec_env_def Let_def unit_back_mem [of i u ds b d0] ports
    by (rule exec_env.equality) simp_all
qed

lemma unit_divider_operands:
  "unit_divider i u = div_settle (SELECT_TYPE_OPERATIONS_RD (back_rd (units_back u)))
     (fifo_EMPTY (dec2exe (units_back u))) (OP1_SE (units_exec i u)) (OP2_SE (units_exec i u))
     (EXE_CMD_RD (back_rd (units_back u))) (divider_inst u)"
proof -
  have ops: "OP1_SE (backend_exec (unit_back_in i u ds) b) = OP1_SE (backend_exec (unit_back_in i u d0) b)"
    "OP2_SE (backend_exec (unit_back_in i u ds) b) = OP2_SE (backend_exec (unit_back_in i u d0) b)"
    for ds d0 b
    unfolding backend_exec_def exec_op_ports unit_back_exec_env [of i u ds b d0]
    by (rule exec_operands_div)+
  then show ?thesis
    unfolding unit_divider_def unit_core_in_sel Let_def
    by (intro arg_cong2 [where f = "\<lambda>x y. div_settle _ _ x y _ _"]) (rule ops)+
qed

text \<open>
  \<open>units_divides a b is u\<close>: over the cycles of \<open>is\<close> the operands that execute sees stay \<open>a\<close> and
  \<open>b\<close> (the bypasses agree), and no trap is taken ahead of the division.
\<close>

fun units_divides :: "u32 \<Rightarrow> u32 \<Rightarrow> units_in list \<Rightarrow> units \<Rightarrow> bool" where
  "units_divides a b [] u = True"
| "units_divides a b (i # is) u =
     (OP1_SE (units_exec i u) = a \<and> OP2_SE (units_exec i u) = b \<and>
      \<not> mem.EXCEPTION_SM (backend_mem (units_ports i u) (units_back u)) \<and>
      (case units_cycle i u of None \<Rightarrow> True | Some u' \<Rightarrow> units_divides a b is u'))"

text \<open>The divider when a division has waited for \<open>k\<close> cycles.\<close>

definition div_after :: "nat \<Rightarrow> u32 \<Rightarrow> u32 \<Rightarrow> u2 \<Rightarrow> diviseur \<Rightarrow> diviseur" where
  "div_after k a b cmd d = (case k of 0 \<Rightarrow> d | Suc n \<Rightarrow> div_new_state (div_run n a b cmd d))"

lemma div_after_settles: "div_settle 0b1000 False a b cmd (div_after k a b cmd d) = div_run k a b cmd d"
  by (cases k) (simp_all add: div_after_def div_cycle_def)

lemma units_cycle_divider:
  "units_cycle i u = Some u' \<Longrightarrow> divider_inst u' = div_new_state (unit_divider i u)"
  by (auto simp: units_cycle_def Let_def)

lemma units_division_waits:
  assumes "units_started u" "fifo_v (dec2exe (units_back u))"
    and "SELECT_TYPE_OPERATIONS_RD (back_rd (units_back u)) = 0b1000"
    and "divider_inst u = div_after k a b (EXE_CMD_RD (back_rd (units_back u))) d"
    and "BUSY_SE (div_run k a b (EXE_CMD_RD (back_rd (units_back u))) d)"
    and "units_divides a b [i] u" "units_cycle i u = Some u'"
  shows "\<not> exe2mem_push_se (units_exec i u)" "units_started u'"
    "fifo_v (dec2exe (units_back u'))" "DOUT_R (dec2exe (units_back u')) = DOUT_R (dec2exe (units_back u))"
    "divider_inst u' = div_after (Suc k) a b (EXE_CMD_RD (back_rd (units_back u))) d"
proof -
  let ?b = "units_back u"
  have run: "unit_divider i u = div_run k a b (EXE_CMD_RD (back_rd ?b)) d"
    using assms(2-4,6) by (simp add: unit_divider_operands fifo_EMPTY_def div_after_settles)
  have exc: "\<not> exec_env.EXCEPTION_SM (backend_exec_env (units_ports i u) ?b)"
    using assms(6) by (simp add: backend_exec_env_def Let_def)
  have "DIV_BUSY_SE (backend_exec_env (units_ports i u) ?b)"
    using assms(5) by (simp add: backend_exec_env_def Let_def unit_core_in_sel unit_back_in_sel run)
  then show push: "\<not> exe2mem_push_se (units_exec i u)"
    using exec_handshake [of "backend_exec_env (units_ports i u) ?b" "back_rd ?b" "back_re ?b"
        "back_rm ?b" "exec_inst ?b"] exc unfolding backend_exec_def Let_def by blast
  note s = units_cycle_mult(3) [OF assms(7,1)]
  show "units_started u'" by (rule s)
  have "\<not> DEC2EXE_POP_SE (units_exec i u)"
    using push by (simp add: backend_exec_def exec_pushes(1))
  then have "dec2exe (units_back u') = (dec2exe ?b)\<lparr>wait_left := wait_left (dec2exe (units_back u'))\<rparr>"
    using backend_cycle_fifos(1) [of ?b, OF _ units_cycle_back [OF assms(7)]] assms(1,2)
    by (simp add: units_started_def fifo_function_loop_def)
  then show "fifo_v (dec2exe (units_back u'))"
    "DOUT_R (dec2exe (units_back u')) = DOUT_R (dec2exe (units_back u))"
    using assms(2) by (metis fifo.select_convs fifo.surjective fifo.update_convs(3))+
  show "divider_inst u' = div_after (Suc k) a b (EXE_CMD_RD (back_rd ?b)) d"
    by (simp add: units_cycle_divider [OF assms(7)] run div_after_def)
qed

text \<open>How many instructions execute sends on.\<close>

fun units_sent :: "units_in list \<Rightarrow> units \<Rightarrow> nat" where
  "units_sent [] u = 0"
| "units_sent (i # is) u =
     (if exe2mem_push_se (units_exec i u) then 1 else 0) +
     (case units_cycle i u of None \<Rightarrow> 0 | Some u' \<Rightarrow> units_sent is u')"

abbreviation "div_cycles b \<equiv> if b = (0 :: u32) then 1 else (33 :: nat)"

lemma div_run_cycles:
  assumes "div_ready d"
  shows "k < div_cycles b \<Longrightarrow> BUSY_SE (div_run k a b cmd d)"
    "\<not> BUSY_SE (div_run (div_cycles b) a b cmd d)"
    "DIVIDER_RES_OUTPUT (div_run (div_cycles b) a b cmd d) =
      (if cmd = 1 then rv_div a b else if cmd = 2 then rv_divu a b
       else if cmd = 3 then rv_rem a b else rv_remu a b)"
  using div_run_waits [OF assms, of b k a cmd] div_run_done [OF assms, of b a cmd]
    div_run_zero [OF assms, of a cmd]
  by (auto simp del: div_run.simps split: if_splits)

lemma units_division_runs:
  assumes "div_ready d" "length is + k \<le> div_cycles b"
    and "units_started u" "reg_inv (REG_RR (units_back u))" "fifo_v (dec2exe (units_back u))"
    and "SELECT_TYPE_OPERATIONS_RD (back_rd (units_back u)) = 0b1000"
    and "divider_inst u = div_after k a b (EXE_CMD_RD (back_rd (units_back u))) d"
    and "units_divides a b (is @ js) u"
  shows "\<exists>u'. units_run is u = Some u' \<and> units_sent is u = 0 \<and> units_started u' \<and>
    reg_inv (REG_RR (units_back u')) \<and>
    fifo_v (dec2exe (units_back u')) \<and>
    DOUT_R (dec2exe (units_back u')) = DOUT_R (dec2exe (units_back u)) \<and>
    divider_inst u' = div_after (length is + k) a b (EXE_CMD_RD (back_rd (units_back u))) d \<and>
    units_divides a b js u'"
  using assms(2-)
proof (induction "is" arbitrary: u k)
  case (Cons i "is")
  obtain u1 where u1: "units_cycle i u = Some u1" "reg_inv (REG_RR (units_back u1))"
    using units_cycle_total [OF Cons.prems(3)] by blast
  have "units_divides a b [i] u" and rest: "units_divides a b (is @ js) u1"
    using Cons.prems(7) u1(1) by (auto split: option.splits)
  note w = units_division_waits [OF Cons.prems(2,4-6) _ this(1) u1(1)]
  have "BUSY_SE (div_run k a b (EXE_CMD_RD (back_rd (units_back u))) d)"
    using Cons.prems(1) by (intro div_run_cycles(1) [OF assms(1)]) simp
  note w = w [OF this]
  obtain u' where "units_run is u1 = Some u'" "units_sent is u1 = 0" "units_started u'" "reg_inv (REG_RR (units_back u'))"
    "fifo_v (dec2exe (units_back u'))"
    "DOUT_R (dec2exe (units_back u')) = DOUT_R (dec2exe (units_back u1))"
    "divider_inst u' = div_after (length is + Suc k) a b (EXE_CMD_RD (back_rd (units_back u1))) d"
    "units_divides a b js u'"
    using Cons.IH [OF _ w(2) u1(2) w(3) _ _ rest, of "Suc k"] Cons.prems(1,5) w(4,5) by auto
  then show ?case using u1(1) w(1,4) by auto
qed (use assms(1) in auto)

lemma m_division_cmd:
  assumes "opcode (INSTR_RI i) = 0b0110011" "funct7 (INSTR_RI i) = 1" "\<not> funct3 (INSTR_RI i) < 4"
    and "p = dec_issue u i rd fb re rm s" "div_ready d"
  shows "SELECT_TYPE_OPERATIONS_RD p = 0b1000" "\<not> MULT_INST_RD p"
    "DIVIDER_RES_OUTPUT (div_run (div_cycles b) a b (EXE_CMD_RD p) d) =
       rv_m_op (funct3 (INSTR_RI i)) a b"
proof -
  note m = m_type_issue [OF assms(1,2,4)]
  show "SELECT_TYPE_OPERATIONS_RD p = 0b1000" "\<not> MULT_INST_RD p"
    using assms(3) by (simp_all add: m)
  show "DIVIDER_RES_OUTPUT (div_run (div_cycles b) a b (EXE_CMD_RD p) d) =
       rv_m_op (funct3 (INSTR_RI i)) a b"
    unfolding div_run_cycles(3) [OF assms(5)] m(2) m_type_cmd(2) [OF assms(1,2)]
    using u3_cases [of "funct3 (INSTR_RI i)"] assms(3)
    by (elim disjE) (simp_all add: rv_m_op_def)
qed

lemma exec_div_result:
  assumes "SELECT_TYPE_OPERATIONS_RD rd = 0b1000"
  shows "exe_res_se (exec_settle env rd re rm s) = DIVIDER_RES_OUTPUT_in env"
  using assms by (simp add: exec_settle_def exec_select_exec_res_def exec_exception_def
      exec_manage_fifo_def Let_def)


text \<open>
  A division starts without its operand.  \<open>START_SE\<close> does not look at \<open>blocked\<close>: when the first
  operand of a division is still being loaded by the instruction in the memory stage, execute
  blocks, but the divider starts in this very cycle, on the first operand of the instruction
  before (which the blocked bypass leaves in \<open>op1_se\<close>), and calculates on.
\<close>

theorem units_div_starts_blocked:
  assumes "fifo_v (dec2exe (units_back u))" "SELECT_TYPE_OPERATIONS_RD (back_rd (units_back u)) = 0b1000"
    and "BP_RADR1_RD (back_rd (units_back u)) \<noteq> 0" "\<not> BLOCK_BP_RD (back_rd (units_back u))"
    and "fifo_v (exe2mem (units_back u))" "MEM_LOAD_RE (back_re (units_back u))"
    "DEST_RE (back_re (units_back u)) = BP_RADR1_RD (back_rd (units_back u))"
    "\<not> CSR_WENABLE_RE (back_re (units_back u))"
    and "DEST_RM (back_rm (units_back u)) \<noteq> BP_RADR1_RD (back_rd (units_back u))"
    and "BP_RADR2_RD (back_rd (units_back u)) = 0" "OP2_RD (back_rd (units_back u)) = b" "b \<noteq> 0"
    and "div_ready (divider_inst u)"
  shows "blocked (units_exec i u) \<and>
    unit_divider i u = div_run 0 (op1_se (exec_inst (units_back u))) b
      (EXE_CMD_RD (back_rd (units_back u))) (divider_inst u) \<and>
    next_state (unit_divider i u) = 1"
proof -
  let ?b = "units_back u"
  have "\<not> exec_env.EXE2MEM_EMPTY_SE (backend_exec_env (units_ports i u) ?b)"
    using assms(5) by (simp add: backend_exec_env_def Let_def fifo_EMPTY_def)
  then have e: "blocked (units_exec i u)" "op1_se (units_exec i u) = op1_se (exec_inst ?b)"
    "op2_se (units_exec i u) = b"
    using assms by (simp_all add: backend_exec_def exec_bypasses_def exec_bypass_rs1_def
        exec_bypass_rs2_def Let_def)
  have d: "unit_divider i u = div_run 0 (op1_se (exec_inst ?b)) b (EXE_CMD_RD (back_rd ?b))
      (divider_inst u)"
    using assms(1,2) e(2,3) by (simp add: unit_divider_operands backend_exec_def exec_op_ports fifo_EMPTY_def)
  then show ?thesis using e(1) div_run_0(3) [OF assms(13,12)] by simp
qed

subsection \<open>Instances\<close>

text \<open>An instruction \<open>p\<close> in execute, and nothing else behind decode.\<close>

definition units_alone :: "dec2exe_out \<Rightarrow> units \<Rightarrow> bool" where
  "units_alone p u \<longleftrightarrow>
     (let b = units_back u
      in units_started u \<and> reg_inv (REG_RR b) \<and> fifo_v (dec2exe b) \<and> back_rd b = p \<and>
         \<not> fifo_v (exe2mem b) \<and> DOUT_R (exe2mem b) = 0 \<and> \<not> fifo_v (mem2wbk b) \<and>
         DOUT_R (mem2wbk b) = 0 \<and> csr_rc (csr_inst u) ! 6 = 0 \<and> length (csr_rc (csr_inst u)) = 15)"

lemma units_counts_ports:
  "reg_ports (back_ports (core_ports units_counts)) = reg_in_run"
  "mem_ports (back_ports (core_ports units_counts)) = mem_env_idle"
  by (simp_all add: units_counts_def core_counts_def back_idle_def)

lemma units_alone_exec:
  assumes "units_alone p u"
  shows "\<not> mem.EXCEPTION_SM (backend_mem (units_ports units_counts u) (units_back u))"
    "OP1_SE (units_exec units_counts u) = OP1_RD p" "OP2_SE (units_exec units_counts u) = OP2_RD p"
    "\<not> BUSY_SE (unit_divider units_counts u) \<Longrightarrow> exe2mem_push_se (units_exec units_counts u)"
proof -
  let ?b = "units_back u" and ?i = "units_ports units_counts u"
  have z: "back_rd ?b = p" "back_re ?b = exe2mem_unconcat 0" "back_rm ?b = mem2wbk_unconcat 0"
    using assms by (simp_all add: units_alone_def Let_def)
  show exc: "\<not> mem.EXCEPTION_SM (backend_mem ?i ?b)"
    unfolding backend_mem_def z(2,3) using assms
    by (intro mem_no_exception) (simp_all add: backend_mem_env_def exe2mem_unconcat_def [of 0]
        unit_core_in_sel unit_back_in_sel units_counts_ports mem_env_idle_def mem_trap_to_handle_def
        units_alone_def Let_def)
  show "OP1_SE (units_exec units_counts u) = OP1_RD p" "OP2_SE (units_exec units_counts u) = OP2_RD p"
    unfolding backend_exec_def exec_op_ports z exec_alone by (rule refl)+
  show "exe2mem_push_se (units_exec units_counts u)" if "\<not> BUSY_SE (unit_divider units_counts u)"
    unfolding backend_exec_def z
    by (rule exec_alone_pushes) (use exc that assms in \<open>simp_all add: backend_exec_env_def Let_def
      fifo_FULL_def fifo_EMPTY_def units_alone_def unit_core_in_sel unit_back_in_sel\<close>)
qed

lemma units_alone_retires:
  assumes "units_alone p u" "\<not> BUSY_SE (unit_divider units_counts u)"
  obtains u1 u2 u3 where "units_cycle units_counts u = Some u1" "units_cycle units_counts u1 = Some u2"
    "units_cycle units_counts u2 = Some u3" "exe2mem_push_se (units_exec units_counts u)"
    "mem2wbk_push_sm (backend_mem (units_ports units_counts u1) (units_back u1))"
proof -
  have inv: "reg_inv (REG_RR (units_back u))" using assms(1) by (simp add: units_alone_def Let_def)
  then obtain u1 where u1: "units_cycle units_counts u = Some u1" "reg_inv (REG_RR (units_back u1))"
    using units_cycle_total by blast
  then obtain u2 where u2: "units_cycle units_counts u1 = Some u2" "reg_inv (REG_RR (units_back u2))"
    using units_cycle_total by blast
  then obtain u3 where u3: "units_cycle units_counts u2 = Some u3" using units_cycle_total by blast
  note push = units_alone_exec(4) [OF assms]
  have st: "started (units_back u)" using assms(1) by (simp add: units_alone_def units_started_def Let_def)
  note fifos = backend_cycle_fifos(2,3) [OF st units_cycle_back [OF u1(1)]]
  have "\<not> MEM2WBK_POP_SW (backend_wbk (units_ports units_counts u) (units_back u))"
    "\<not> mem2wbk_push_sm (backend_mem (units_ports units_counts u) (units_back u))"
    "\<not> EXE2MEM_POP_SM (backend_mem (units_ports units_counts u) (units_back u))"
    using assms(1) by (simp_all add: backend_wbk_def wbk_method_def backend_mem_def mem_handshake
        backend_mem_env_def fifo_EMPTY_def units_alone_def Let_def)
  then have "fifo_v (exe2mem (units_back u1))" "\<not> fifo_v (mem2wbk (units_back u1))"
    using fifos push assms(1) by (simp_all add: fifo_function_loop_def units_alone_def Let_def)
  then have "mem2wbk_push_sm (backend_mem (units_ports units_counts u1) (units_back u1))"
    by (simp add: backend_mem_def mem_handshake backend_mem_env_def fifo_FULL_def fifo_EMPTY_def
        unit_core_in_sel unit_back_in_sel units_counts_ports mem_env_idle_def)
  then show thesis using that u1(1) u2(1) u3 push by blast
qed

lemma units_alone_waits:
  assumes "units_alone p u" "BUSY_SE (unit_divider units_counts u)" "units_cycle units_counts u = Some u'"
  shows "units_alone p u'"
proof -
  let ?b = "units_back u" and ?i = "units_ports units_counts u"
  have al: "started ?b" "reg_inv (REG_RR ?b)" "fifo_v (dec2exe ?b)" "\<not> fifo_v (exe2mem ?b)"
    "\<not> fifo_v (mem2wbk ?b)" "DOUT_R (exe2mem ?b) = 0"
    using assms(1) by (simp_all add: units_alone_def units_started_def Let_def)
  note exc = units_alone_exec(1) [OF assms(1)]
  have "\<not> exec_env.EXCEPTION_SM (backend_exec_env ?i ?b)"
    using exc by (simp add: backend_exec_env_def Let_def)
  moreover have "DIV_BUSY_SE (backend_exec_env ?i ?b)"
    using assms(2) by (simp add: backend_exec_env_def Let_def unit_core_in_sel unit_back_in_sel)
  ultimately have push: "\<not> exe2mem_push_se (units_exec units_counts u)"
    using exec_handshake [of "backend_exec_env ?i ?b" "back_rd ?b" "back_re ?b" "back_rm ?b"
        "exec_inst ?b"] unfolding backend_exec_def Let_def by blast
  then have pop: "\<not> DEC2EXE_POP_SE (units_exec units_counts u)"
    by (simp add: backend_exec_def exec_pushes(1))
  have hs: "\<not> MEM2WBK_POP_SW (backend_wbk ?i ?b)" "\<not> mem2wbk_push_sm (backend_mem ?i ?b)"
    "\<not> EXE2MEM_POP_SM (backend_mem ?i ?b)"
    using al by (simp_all add: backend_wbk_def wbk_method_def backend_mem_def mem_handshake
        backend_mem_env_def fifo_EMPTY_def)
  note fifos = backend_cycle_fifos(1-3) [OF al(1) units_cycle_back [OF assms(3)]]
  have same: "fifo_v (dec2exe (units_back u'))" "DOUT_R (dec2exe (units_back u')) = DOUT_R (dec2exe ?b)"
    "\<not> fifo_v (exe2mem (units_back u'))" "DOUT_R (exe2mem (units_back u')) = DOUT_R (exe2mem ?b)"
    "\<not> fifo_v (mem2wbk (units_back u'))" "DOUT_R (mem2wbk (units_back u')) = DOUT_R (mem2wbk ?b)"
    using fifos al push pop hs by (simp_all add: fifo_function_loop_def)
  have "csr_inst u' = csr_writing_csr (unit_csr_in units_counts (backend_mem ?i ?b) u) (csr_inst u)"
    using assms(3) by (auto simp: units_cycle_def Let_def)
  moreover have "\<not> mem.CSR_ENABLE_SM (backend_mem ?i ?b)"
    unfolding backend_mem_def using assms(1)
    by (intro mem_no_csr_write) (simp_all add: backend_mem_env_def exe2mem_unconcat_def [of 0]
        unit_core_in_sel unit_back_in_sel units_counts_ports mem_env_idle_def mem_trap_to_handle_def
        units_alone_def Let_def al(6) reg_in_run_def)
  ultimately have csr: "length (csr_rc (csr_inst u')) = 15" "csr_rc (csr_inst u') ! 6 = 0"
    using csr_keeps_mie [of "csr_inst u"] exc assms(1)
    by (simp_all add: unit_csr_in_def units_alone_def Let_def)
  have "reg_inv (REG_RR (units_back u'))"
    using units_cycle_total [OF al(2), of units_counts] assms(3) by auto
  then show ?thesis
    using assms(1) same csr units_cycle_mult(3) [OF assms(3)]
    by (simp add: units_alone_def Let_def)
qed

lemma m_issue_alone:
  assumes "opcode ir = 0b0110011" "funct7 ir = 1" "rng 11 7 ir = (3 :: u6)"
  defines "p \<equiv> issue_alone (dec_in_at_100 ir)"
  shows "\<not> EXCEPTION_RD p" "OP1_RD p = 6" "OP2_RD p = 6" "EXE_DEST_RD p = 3"
proof -
  have t: "m_type_inst_sd (ity ir)" "\<not> r_type_inst_sd (ity ir)" "\<not> s_type_inst_sd (ity ir)"
    "\<not> b_type_inst_sd (ity ir)" "\<not> system_type_inst_sd (ity ir)" "\<not> jalr_type_inst_sd (ity ir)"
    "\<not> j_type_inst_sd (ity ir)" "\<not> u_type_inst_sd (ity ir)" "\<not> i_type_inst_sd (ity ir)"
    using assms(1,2) by (simp_all add: decoding_instruction_type_def)
  have "opcode 0x73 = 0x73" "opcode 0x100073 = 0x73" "opcode 0x10200073 = 0x73"
    "opcode 0x30200073 = 0x73"
    by code_simp+
  then have sys: "ir \<noteq> 0x73" "ir \<noteq> 0x100073" "ir \<noteq> 0x10200073" "ir \<noteq> 0x30200073"
    using assms(1) by auto
  from t have "\<not> illegal_instruction_sd
      (dec_post_reg_read u (dec_in_at_100 ir) (ity ir) f b s)" for u f b s
    using assms(1,2)
    by (simp add: dec_post_reg_read_def dec_post_alu_def dec_alu_operands_def dec_locals_init_def
        dec_illegal_fields_def Let_def split_beta)
  then show "\<not> EXCEPTION_RD p"
    using assms(1,2)
    by (simp add: t sys p_def dec_issue_def dec_payload_def Let_def dec_settle_parts
        decoding_instruction_flags dec_pre_reg_read_def dec_set_regs_def
        dec_post_reg_read_alu dec_pc_inc_def dec_next_pc_def dec_if2dec_def)
  show "OP1_RD p = 6" "OP2_RD p = 6"
    using t by (simp_all add: p_def dec_issue_alu [OF refl _ refl refl] dec_alu_operands_def
        decoding_instruction_type_def assms(1,2) dec_alone_operands)
  show "EXE_DEST_RD p = 3"
    using assms(3) m_type_writes(1) [of "dec_in_at_100 ir" p] assms(1,2) by (simp add: p_def)
qed

text \<open>\<open>mul x3, x1, x2\<close> and \<open>div x3, x1, x2\<close> with 6 in both registers.\<close>

definition units_with :: "dec2exe_out \<Rightarrow> units" where
  "units_with p = units_first\<lparr>core_part := core_first\<lparr>back_end := (back_end core_first)
     \<lparr>dec2exe := \<lparr>fifo_v = True, DOUT_R = dec2exe_pack p, wait_left = 1\<rparr>\<rparr>\<rparr>\<rparr>"

lemma units_with_alone: "units_alone p (units_with p)"
  by (simp add: units_alone_def units_with_def units_first_def core_first_def units_started_def
      started_def reg_inv_reset csr_after_reset_def unconcat_dec2exe_dec2exe_pack Let_def)

lemma units_with_sel:
  "divider_inst (units_with p) = div_rest" "back_rd (units_back (units_with p)) = p"
  by (simp_all add: units_with_def units_first_def unconcat_dec2exe_dec2exe_pack)

lemma m_rows:
  "opcode 0x022081B3 = 0b0110011" "funct7 0x022081B3 = 1" "funct3 0x022081B3 = 0"
  "rng 11 7 (0x022081B3 :: u32) = (3 :: u6)" "rng 11 7 (0x0220C1B3 :: u32) = (3 :: u6)"
  by code_simp+

theorem units_mul_retires_witness:
  "\<exists>u. units_run (replicate 3 units_counts) (units_with (issue_alone (dec_in_at_100 0x022081B3))) = Some u \<and>
     reg_read 3 (REG_RR (units_back u)) = Some 36"
proof -
  define p where "p = issue_alone (dec_in_at_100 0x022081B3)"
  note p = m_issue_alone [OF m_rows(1,2,4), folded p_def]
  have "SELECT_TYPE_OPERATIONS_RD p = 4"
    using m_type_issue(1) [of "dec_in_at_100 0x022081B3" p] m_rows(1-3) by (simp add: p_def)
  then have idle: "\<not> BUSY_SE (unit_divider units_counts (units_with p))"
    unfolding unit_divider_operands units_with_sel
    by (intro div_stays_idle) (simp_all add: div_rest_def exec_manage_divider_def)
  note al = units_with_alone [of p]
  obtain u1 u2 u3 where runs: "units_cycle units_counts (units_with p) = Some u1"
    "units_cycle units_counts u1 = Some u2" "units_cycle units_counts u2 = Some u3"
    "exe2mem_push_se (units_exec units_counts (units_with p))"
    "mem2wbk_push_sm (backend_mem (units_ports units_counts u1) (units_back u1))"
    using units_alone_retires [OF al idle] by blast
  have st: "units_started (units_with p)" "reg_inv (REG_RR (units_back (units_with p)))"
    using al by (simp_all add: units_alone_def Let_def)
  have rd: "back_rd (units_back (units_with p)) = issue_alone (dec_in_at_100 0x022081B3)"
    by (simp add: units_with_sel p_def)
  have rst: "RESET_N (reg_ports (back_ports (core_ports units_counts)))"
    by (simp add: units_counts_ports reg_in_run_def)
  have "reg_read (rng 11 7 (INSTR_RI (dec_in_at_100 0x022081B3))) (REG_RR (units_back u3)) =
      Some (rv_m_op (funct3 (INSTR_RI (dec_in_at_100 0x022081B3)))
        (OP1_SE (units_exec units_counts (units_with p))) (OP2_SE (units_exec units_counts (units_with p))))"
    using units_mul_retires [OF rd _ _ _ _ _ st rst units_alone_exec(1) [OF al] runs(4,5,1-3)] p m_rows
    by (simp add: units_with_sel)
  then have "reg_read 3 (REG_RR (units_back u3)) = Some 36"
    by (simp add: units_alone_exec(2,3) [OF al] p m_rows rv_m_op_def rv_mul_def)
  then show ?thesis using runs(1-3) by (simp add: p_def numeral_3_eq_3)
qed

lemma units_alone_divides:
  assumes "units_alone p u" "div_ready d" "SELECT_TYPE_OPERATIONS_RD p = 0b1000"
    and "divider_inst u = div_after k (OP1_RD p) (OP2_RD p) (EXE_CMD_RD p) d"
    and "n + k = div_cycles (OP2_RD p)"
  shows "units_divides (OP1_RD p) (OP2_RD p) (replicate n units_counts @ [units_counts]) u \<and>
    (\<exists>u'. units_run (replicate n units_counts) u = Some u' \<and> units_alone p u' \<and>
      \<not> BUSY_SE (unit_divider units_counts u'))"
  using assms(1,4,5)
proof (induction n arbitrary: u k)
  have run: "unit_divider units_counts u = div_run k (OP1_RD p) (OP2_RD p) (EXE_CMD_RD p) d"
    if "units_alone p u" "divider_inst u = div_after k (OP1_RD p) (OP2_RD p) (EXE_CMD_RD p) d" for u k
    using that assms(3) by (simp add: unit_divider_operands units_alone_exec(2,3) [OF that(1)]
        units_alone_def Let_def fifo_EMPTY_def div_after_settles)
  {
    case 0
    then have "\<not> BUSY_SE (unit_divider units_counts u)"
      using run [of u k] div_run_cycles(2) [OF assms(2)] by simp
    then show ?case
      using 0 units_alone_exec(1-3) [OF 0(1)] by (simp split: option.split)
  next
    case (Suc n)
    have busy: "BUSY_SE (unit_divider units_counts u)"
      using run [OF Suc.prems(1,2)] Suc.prems(3) div_run_cycles(1) [OF assms(2), of k "OP2_RD p"] by simp
    obtain u1 where u1: "units_cycle units_counts u = Some u1"
      using units_cycle_total [of u] Suc.prems(1) by (auto simp: units_alone_def Let_def)
    have "divider_inst u1 = div_after (Suc k) (OP1_RD p) (OP2_RD p) (EXE_CMD_RD p) d"
      by (simp add: units_cycle_divider [OF u1] run [OF Suc.prems(1,2)] div_after_def)
    from Suc.IH [OF units_alone_waits [OF Suc.prems(1) busy u1] this] Suc.prems(3)
    show ?case
      using u1 units_alone_exec(1-3) [OF Suc.prems(1)] by auto
  }
qed

lemma units_run_append:
  "units_run (is @ js) u = Option.bind (units_run is u) (units_run js)"
  by (induction "is" arbitrary: u) (auto split: bind_splits)


text \<open>A multiplication to \<open>x3\<close> that the data cache stalls in memory, and \<open>mul x3, x1, x2\<close> behind it.\<close>

definition units_stalling :: units_in where
  "units_stalling = units_counts\<lparr>core_ports := core_counts\<lparr>back_ports := back_idle
     \<lparr>mem_ports := mem_env_idle\<lparr>mem_env.MCACHE_STALL_SM := True\<rparr>\<rparr>\<rparr>\<rparr>"

definition mult_in_mem :: exe2mem_out where
  "mult_in_mem = (exe2mem_unconcat 0)\<lparr>MULT_INST_RE := True, WB_RE := True, DEST_RE := 3\<rparr>"

definition units_two_mults :: units where
  "units_two_mults = (let u = units_with (issue_alone (dec_in_at_100 0x022081B3)) in
     u\<lparr>core_part := (core_part u)\<lparr>back_end := (units_back u)
       \<lparr>exe2mem := \<lparr>fifo_v = True, DOUT_R = exe2mem_pack mult_in_mem, wait_left = 1\<rparr>\<rparr>\<rparr>\<rparr>)"

lemma units_two_mults_sel:
  "back_re (units_back units_two_mults) = mult_in_mem" "fifo_v (exe2mem (units_back units_two_mults))"
  "back_rd (units_back units_two_mults) = issue_alone (dec_in_at_100 0x022081B3)"
  "fifo_v (dec2exe (units_back units_two_mults))" "\<not> fifo_v (mem2wbk (units_back units_two_mults))"
  "back_rm (units_back units_two_mults) = mem2wbk_unconcat 0" "units_started units_two_mults"
  "REG_RR (units_back units_two_mults) = reg_reset (0x100 - 4)" "csr_rc (csr_inst units_two_mults) ! 6 = 0"
  by (simp_all add: units_two_mults_def Let_def exe2mem_unconcat_exe2mem_pack units_with_def
      units_first_def core_first_def units_started_def started_def csr_after_reset_def
      unconcat_dec2exe_dec2exe_pack)

lemma mult_in_mem_sel:
  "MULT_INST_RE mult_in_mem" "WB_RE mult_in_mem" "\<not> MEM_LOAD_RE mult_in_mem" "DEST_RE mult_in_mem = 3"
  "\<not> CSR_WENABLE_RE mult_in_mem" "\<not> EXCEPTION_RE mult_in_mem"
  by (simp_all add: mult_in_mem_def exe2mem_unconcat_def)

lemma units_stalling_ports:
  "RESET_N (reg_ports (back_ports (core_ports units_stalling)))"
  "mem_ports (back_ports (core_ports units_stalling)) = mem_env_idle\<lparr>mem_env.MCACHE_STALL_SM := True\<rparr>"
  by (simp_all add: units_stalling_def units_counts_def core_counts_def back_idle_def reg_in_run_def)

theorem units_mul_stalled_loses_product_witness:
  "\<exists>u. units_run [units_stalling, units_counts, units_counts] units_two_mults = Some u \<and>
     (\<exists>a b s0 s1. reg_read 3 (REG_RR (units_back u)) = Some (mult_result a b 1 s0 s1))"
proof -
  let ?u = units_two_mults and ?b = "units_back units_two_mults"
  have inv: "reg_inv (REG_RR ?b)" by (simp add: units_two_mults_sel reg_inv_reset)
  then obtain u1 where u1: "units_cycle units_stalling ?u = Some u1" "reg_inv (REG_RR (units_back u1))"
    using units_cycle_total by blast
  then obtain u2 where u2: "units_cycle units_counts u1 = Some u2" "reg_inv (REG_RR (units_back u2))"
    using units_cycle_total by blast
  then obtain u3 where u3: "units_cycle units_counts u2 = Some u3" using units_cycle_total by blast
  have exc: "\<not> mem.EXCEPTION_SM (backend_mem (units_ports units_stalling ?u) ?b)"
    unfolding backend_mem_def units_two_mults_sel
    by (intro mem_no_exception) (simp_all add: backend_mem_env_def mult_in_mem_sel
        unit_core_in_sel unit_back_in_sel units_stalling_ports mem_env_idle_def mem_trap_to_handle_def
        units_two_mults_sel)
  have st: "started ?b" using units_two_mults_sel(7) by (simp add: units_started_def)
  have hs: "\<not> mem2wbk_push_sm (backend_mem (units_ports units_stalling ?u) ?b)"
    "\<not> EXE2MEM_POP_SM (backend_mem (units_ports units_stalling ?u) ?b)"
    by (simp_all add: backend_mem_def mem_handshake backend_mem_env_def unit_core_in_sel
        unit_back_in_sel units_stalling_ports)
  note keep = backend_mem_stalls [OF st units_cycle_back [OF u1(1)] units_two_mults_sel(2)]
  have "fifo_v (exe2mem (units_back u1))"
    using keep(1) exc hs(1) units_two_mults_sel(2) by (auto dest: arg_cong [of _ _ fifo_v])
  moreover have "\<not> fifo_v (mem2wbk (units_back u1))"
    using backend_cycle_fifos(3) [OF st units_cycle_back [OF u1(1)]] hs(1) units_two_mults_sel(5)
    by (simp add: fifo_function_loop_def)
  ultimately have push: "mem2wbk_push_sm (backend_mem (units_ports units_counts u1) (units_back u1))"
    by (simp add: backend_mem_def mem_handshake backend_mem_env_def fifo_FULL_def fifo_EMPTY_def
        unit_core_in_sel unit_back_in_sel units_counts_ports mem_env_idle_def)
  have cmd: "EXE_CMD_RD (back_rd ?b) = 1"
    using m_type_issue(2) [of "dec_in_at_100 0x022081B3", OF _ _ units_two_mults_sel(3)]
      m_type_cmd(2) [of "0x022081B3"] m_rows by simp
  have "reg_read 3 (REG_RR (units_back u3)) = Some (mult_result (OP1_SE (units_exec units_stalling ?u))
      (OP2_SE (units_exec units_stalling ?u)) (EXE_CMD_RD (back_rd ?b)) (x0_inst ?u) (x1_inst u1))"
    by (rule units_mul_stalled_loses_product [OF units_two_mults_sel(2) _ _ _ _ _ _ _
          units_two_mults_sel(4,7) inv _ exc _ push u1(1) u2(1) u3])
      (simp_all add: units_two_mults_sel mult_in_mem_sel units_counts_ports reg_in_run_def
        units_stalling_ports)
  then show ?thesis using u1(1) u2(1) u3 cmd by auto
qed

text \<open>\<open>mul x1, x2, x3\<close>, and an instruction that reads \<open>x1\<close> when it has left the back end.\<close>

theorem exec_rs1_mistakes_product_witness:
  "let m = (unconcat_dec2exe 0)\<lparr>SELECT_TYPE_OPERATIONS_RD := 4, MULT_INST_RD := True, WB_RD := True,
         EXE_DEST_RD := 1, OP1_RD := 5, OP2_RD := 7\<rparr>;
       rd = (unconcat_dec2exe 0)\<lparr>BP_RADR1_RD := 1, OP1_RD := 35\<rparr>;
       z = exe2mem_unconcat 0; w = mem2wbk_unconcat 0
   in op1_se (exec_settle exec_env_reset rd (exec_payload m (exec_settle exec_env_reset m z w
         (exec_reset\<lparr>exe_res_se := 99\<rparr>))) w exec_reset) = 99"
  using exec_rs1_mistakes_product [of "(unconcat_dec2exe 0)\<lparr>SELECT_TYPE_OPERATIONS_RD := 4,
      MULT_INST_RD := True, WB_RD := True, EXE_DEST_RD := 1, OP1_RD := 5, OP2_RD := 7\<rparr>"
      "(unconcat_dec2exe 0)\<lparr>BP_RADR1_RD := 1, OP1_RD := 35\<rparr>" exec_env_reset]
  by (simp add: Let_def exec_env_reset_def unconcat_dec2exe_def [of 0])

text \<open>A load to \<open>x1\<close> in memory, and a division of \<open>x1\<close> by 2 behind it.\<close>

definition load_in_mem :: exe2mem_out where
  "load_in_mem = (exe2mem_unconcat 0)\<lparr>MEM_LOAD_RE := True, WB_RE := True, DEST_RE := 1\<rparr>"

definition div_in_exe :: dec2exe_out where
  "div_in_exe = (unconcat_dec2exe 0)\<lparr>SELECT_TYPE_OPERATIONS_RD := 8, EXE_CMD_RD := 1,
     BP_RADR1_RD := 1, OP2_RD := 2\<rparr>"

definition units_load_div :: units where
  "units_load_div = (let u = units_with div_in_exe in
     u\<lparr>core_part := (core_part u)\<lparr>back_end := (units_back u)
       \<lparr>exe2mem := \<lparr>fifo_v = True, DOUT_R = exe2mem_pack load_in_mem, wait_left = 1\<rparr>\<rparr>\<rparr>\<rparr>)"

lemma units_load_div_sel:
  "back_re (units_back units_load_div) = load_in_mem" "fifo_v (exe2mem (units_back units_load_div))"
  "back_rd (units_back units_load_div) = div_in_exe" "fifo_v (dec2exe (units_back units_load_div))"
  "back_rm (units_back units_load_div) = mem2wbk_unconcat 0" "divider_inst units_load_div = div_rest"
  "op1_se (exec_inst (units_back units_load_div)) = 0"
  by (simp_all add: units_load_div_def Let_def exe2mem_unconcat_exe2mem_pack units_with_def
      units_first_def core_first_def unconcat_dec2exe_dec2exe_pack exec_reset_def)

theorem units_div_starts_blocked_witness:
  "unit_divider units_counts units_load_div = div_run 0 0 2 1 div_rest \<and>
   blocked (units_exec units_counts units_load_div)"
  using units_div_starts_blocked [where u = units_load_div and b = 2 and i = units_counts] div_rest_ready
  by (simp add: units_load_div_sel div_in_exe_def load_in_mem_def unconcat_dec2exe_def [of 0]
      exe2mem_unconcat_def [of 0] mem2wbk_unconcat_def [of 0] del: div_run.simps)

end
