(* ===== verification/Branch_Cache.thy ===== *)
theory Branch_Cache
  imports River_Prelude
begin

text \<open>
  The branch prediction cache (\<open>SIM/SystemC/CORE/PRED_BRANCH_CACHE/pred_branch_cache.cpp\<close>): four
  entries with the address of a branch, its target, a counter and one bit of recent use, whose
  meaning \<open>inverse_lru\<close> swaps.  \<open>pred_check\<close> is a method, \<open>pred_write\<close> one activation of the
  thread, which runs on every change of its inputs.

  Lemmas: what the lookup loop finds, that a branch just written is found with its data, and the
  reachable states: an entry that is not present is never chosen for replacement, so the cache
  only ever uses its first entry.
\<close>

subsection \<open>State and operations\<close>

record pred_cache =
  present :: "bool list"
  branch_inst_adr :: "u32 list"
  branch_target_adr :: "u32 list"
  branch_counter :: "u2 list"
  lru :: "bool list"
  inverse_lru :: bool
  p_nb :: u2

record pred_out =
  PRED_MISS :: bool
  PRED_TARGET_ADR :: u32
  PRED_LRU :: bool
  PRED_CPT :: u2
  PRED_PNT :: u2

text \<open>The body of the loop of \<open>pred_check\<close>; the locals are \<open>miss\<close> and \<open>replace_index\<close>.\<close>

definition pred_check_body ::
  "u32 \<Rightarrow> pred_cache \<Rightarrow> nat \<Rightarrow> pred_out \<times> bool \<times> u2 \<Rightarrow> pred_out \<times> bool \<times> u2" where
  "pred_check_body adr c i = (\<lambda>(out, miss, replace_index).
     (if present c ! i then
        (let (out', miss') =
               (if adr = branch_inst_adr c ! i then
                  (out\<lparr>PRED_TARGET_ADR := branch_target_adr c ! i, PRED_LRU := lru c ! i,
                     PRED_CPT := branch_counter c ! i, PRED_PNT := of_nat i\<rparr>, False)
                else (out, miss))
         in (out', miss', if lru c ! i = inverse_lru c then of_nat i else replace_index))
      else (out, miss, replace_index)))"

definition pred_check :: "u32 \<Rightarrow> pred_cache \<Rightarrow> pred_out \<Rightarrow> pred_out" where
  "pred_check adr c out0 =
     (let (out, miss, replace_index) = fold (pred_check_body adr c) [0..<4] (out0, True, 0);
          out' = (if miss then out\<lparr>PRED_PNT := replace_index\<rparr> else out)
      in out'\<lparr>PRED_MISS := miss\<rparr>)"

definition pred_reset :: "pred_cache \<Rightarrow> pred_cache" where
  "pred_reset c =
     c\<lparr>present := replicate 4 False, lru := replicate 4 False, p_nb := 0, inverse_lru := False\<rparr>"

text \<open>The use of an entry of low priority.\<close>

definition pred_use :: "nat \<Rightarrow> pred_cache \<Rightarrow> pred_cache \<Rightarrow> pred_cache" where
  "pred_use k old c =
     (if (p_nb old = 3 \<and> \<not> inverse_lru old) \<or> (p_nb old = 1 \<and> inverse_lru old) then
        c\<lparr>inverse_lru := \<not> inverse_lru old\<rparr>
      else c\<lparr>p_nb := p_nb old + 1, lru := (lru c)[k := \<not> inverse_lru old]\<rparr>)"

definition pred_write :: "u2 \<Rightarrow> u32 \<Rightarrow> u32 \<Rightarrow> u2 \<Rightarrow> u2 \<Rightarrow> pred_cache \<Rightarrow> pred_cache" where
  "pred_write cmd adr target cpt pnt c =
     (let k = unat pnt in
      if cmd \<noteq> 0 then
        (let c1 = c\<lparr>present := (present c)[k := True]\<rparr> in
         if cmd = 1 then
           pred_use k c (c1\<lparr>branch_inst_adr := (branch_inst_adr c)[k := adr],
             branch_target_adr := (branch_target_adr c)[k := target],
             branch_counter := (branch_counter c)[k := cpt]\<rparr>)
         else if cmd = 2 then
           (let c2 = c1\<lparr>branch_counter := (branch_counter c)[k := cpt]\<rparr> in
            if lru c ! k = inverse_lru c then pred_use k c c2 else c2)
         else c1)
      else c)"

subsection \<open>Lookup\<close>

definition pred_ok :: "pred_cache \<Rightarrow> bool" where
  "pred_ok c \<longleftrightarrow> length (present c) = 4 \<and> length (branch_inst_adr c) = 4 \<and>
     length (branch_target_adr c) = 4 \<and> length (branch_counter c) = 4 \<and> length (lru c) = 4"

definition pred_hit :: "u32 \<Rightarrow> pred_cache \<Rightarrow> nat \<Rightarrow> bool" where
  "pred_hit adr c k \<longleftrightarrow> k < 4 \<and> present c ! k \<and> branch_inst_adr c ! k = adr"

lemma pred_fold_miss:
  "fst (snd (fold (pred_check_body adr c) ks (out, m, r))) \<longleftrightarrow>
     m \<and> (\<forall>i \<in> set ks. \<not> (present c ! i \<and> branch_inst_adr c ! i = adr))"
  by (induction ks arbitrary: out m r) (auto simp: pred_check_body_def Let_def)

lemma pred_fold_hit:
  assumes "\<And>j. present c ! j \<and> branch_inst_adr c ! j = adr \<and> j \<in> set ks \<Longrightarrow> j = k"
    and "present c ! k" "branch_inst_adr c ! k = adr"
    and "k \<in> set ks \<or> PRED_TARGET_ADR out = branch_target_adr c ! k \<and>
      PRED_CPT out = branch_counter c ! k \<and> PRED_LRU out = lru c ! k \<and> PRED_PNT out = of_nat k"
  shows "let o' = fst (fold (pred_check_body adr c) ks (out, m, r)) in
    PRED_TARGET_ADR o' = branch_target_adr c ! k \<and> PRED_CPT o' = branch_counter c ! k \<and>
    PRED_LRU o' = lru c ! k \<and> PRED_PNT o' = of_nat k"
  using assms(1,4)
proof (induction ks arbitrary: out m r)
  case Nil
  then show ?case by (simp add: Let_def)
next
  case (Cons i ks)
  obtain o1 m1 r1 where b: "pred_check_body adr c i (out, m, r) = (o1, m1, r1)"
    by (metis prod_cases3)
  have "k \<in> set ks \<or> PRED_TARGET_ADR o1 = branch_target_adr c ! k \<and>
      PRED_CPT o1 = branch_counter c ! k \<and> PRED_LRU o1 = lru c ! k \<and> PRED_PNT o1 = of_nat k"
  proof (cases "i = k")
    case True
    then have "o1 = out\<lparr>PRED_TARGET_ADR := branch_target_adr c ! k, PRED_LRU := lru c ! k,
        PRED_CPT := branch_counter c ! k, PRED_PNT := of_nat k\<rparr>"
      using b assms(2,3) by (simp add: pred_check_body_def Let_def)
    then show ?thesis by simp
  next
    case False
    then have "\<not> (present c ! i \<and> branch_inst_adr c ! i = adr)"
      using Cons.prems(1) [of i] by auto
    then have "o1 = out"
      using b by (auto simp: pred_check_body_def Let_def split: if_splits)
    then show ?thesis using Cons.prems(2) False by simp
  qed
  then show ?case
    using Cons.IH [of o1 m1 r1] Cons.prems(1) b by simp
qed

lemma pred_fold_first:
  assumes "\<And>i. i \<in> set ks \<Longrightarrow> present c ! i \<Longrightarrow> i = 0" "r = 0" "m \<or> PRED_PNT out = 0"
    and "fold (pred_check_body adr c) ks (out, m, r) = (out', m', r')"
  shows "r' = 0 \<and> (m' \<or> PRED_PNT out' = 0)"
  using assms
proof (induction ks arbitrary: out m r)
  case Nil
  then show ?case by simp
next
  case (Cons i ks)
  obtain o1 m1 r1 where b: "pred_check_body adr c i (out, m, r) = (o1, m1, r1)"
    by (metis prod_cases3)
  have "r1 = 0 \<and> (m1 \<or> PRED_PNT o1 = 0)"
    using b Cons.prems(1) [of i] Cons.prems(2,3)
    by (auto simp: pred_check_body_def Let_def split: if_splits)
  then show ?case
    using Cons.IH [of r1 m1 o1] Cons.prems(1,4) b by simp
qed

lemma pred_check_miss: "PRED_MISS (pred_check adr c out) \<longleftrightarrow> (\<forall>k. \<not> pred_hit adr c k)"
  using pred_fold_miss [of adr c "[0..<4]" out True 0]
  by (auto simp: pred_check_def Let_def split_beta pred_hit_def)

lemma pred_check_hit:
  assumes "pred_hit adr c k" "\<And>j. pred_hit adr c j \<Longrightarrow> j = k"
  shows "PRED_TARGET_ADR (pred_check adr c out) = branch_target_adr c ! k"
    "PRED_CPT (pred_check adr c out) = branch_counter c ! k"
    "PRED_LRU (pred_check adr c out) = lru c ! k"
    "PRED_PNT (pred_check adr c out) = of_nat k"
proof -
  obtain o1 m1 r1 where f: "fold (pred_check_body adr c) [0..<4] (out, True, 0) = (o1, m1, r1)"
    by (metis prod_cases3)
  have k: "k < 4" "present c ! k" "branch_inst_adr c ! k = adr"
    using assms(1) by (simp_all add: pred_hit_def)
  then have "\<not> m1"
    using pred_fold_miss [of adr c "[0..<4]" out True 0] unfolding f by (simp add: Bex_def) blast
  then have check: "pred_check adr c out = o1\<lparr>PRED_MISS := False\<rparr>"
    unfolding pred_check_def f by simp
  have only: "j = k" if "present c ! j \<and> branch_inst_adr c ! j = adr \<and> j \<in> set [0..<4]" for j
    using that assms(2) [of j] by (simp only: pred_hit_def set_upt atLeastLessThan_iff)
  have "k \<in> set [0..<4]" using k(1) by simp
  then have "PRED_TARGET_ADR o1 = branch_target_adr c ! k \<and> PRED_CPT o1 = branch_counter c ! k \<and>
      PRED_LRU o1 = lru c ! k \<and> PRED_PNT o1 = of_nat k"
    using pred_fold_hit [where ks = "[0..<4]" and out = out and m = True and r = 0,
        OF only k(2,3)]
    unfolding f Let_def fst_conv by blast
  then show "PRED_TARGET_ADR (pred_check adr c out) = branch_target_adr c ! k"
    "PRED_CPT (pred_check adr c out) = branch_counter c ! k"
    "PRED_LRU (pred_check adr c out) = lru c ! k"
    "PRED_PNT (pred_check adr c out) = of_nat k"
    by (simp_all add: check)
qed

lemma pred_use_frame [simp]:
  "present (pred_use k old c) = present c"
  "branch_inst_adr (pred_use k old c) = branch_inst_adr c"
  "branch_target_adr (pred_use k old c) = branch_target_adr c"
  "branch_counter (pred_use k old c) = branch_counter c"
  "length (lru (pred_use k old c)) = length (lru c)"
  by (simp_all add: pred_use_def)

lemma pred_write_present:
  "present (pred_write cmd adr target cpt pnt c) =
     (if cmd \<noteq> 0 then (present c)[unat pnt := True] else present c)"
  by (simp add: pred_write_def Let_def)

lemma pred_ok_write: "pred_ok c \<Longrightarrow> pred_ok (pred_write cmd adr target cpt pnt c)"
  by (simp add: pred_ok_def pred_write_def Let_def)

lemma unat_u2: "unat (p :: u2) < 4"
  using unsigned_less [of p, where ?'a = nat] by simp

text \<open>
  a branch written to the cache is found with its target, counter and entry by the next
  lookup, and the write decides about no other entry.
\<close>

theorem pred_write_check:
  assumes "pred_ok c" "\<And>j. pred_hit adr c j \<Longrightarrow> j = unat pnt"
  shows "(let o1 = pred_check adr (pred_write 1 adr target cpt pnt c) out in
      \<not> PRED_MISS o1 \<and> PRED_TARGET_ADR o1 = target \<and> PRED_CPT o1 = cpt \<and> PRED_PNT o1 = pnt) \<and>
    (\<forall>k. k \<noteq> unat pnt \<longrightarrow>
       pred_hit b (pred_write 1 adr target cpt pnt c) k = pred_hit b c k)"
proof -
  define c' where "c' = pred_write 1 adr target cpt pnt c"
  have k: "unat pnt < 4" by (rule unat_u2)
  have fields: "present c' = (present c)[unat pnt := True]"
    "branch_inst_adr c' = (branch_inst_adr c)[unat pnt := adr]"
    "branch_target_adr c' = (branch_target_adr c)[unat pnt := target]"
    "branch_counter c' = (branch_counter c)[unat pnt := cpt]"
    by (simp_all add: c'_def pred_write_def Let_def)
  have hit: "pred_hit adr c' (unat pnt)"
    using k assms(1) by (simp add: pred_hit_def fields pred_ok_def)
  have other: "pred_hit x c' j = pred_hit x c j" if "j \<noteq> unat pnt" for x j
    using that by (simp add: pred_hit_def fields)
  then have only: "j = unat pnt" if "pred_hit adr c' j" for j
    using that assms(2) by blast
  have "\<not> PRED_MISS (pred_check adr c' out)"
    using hit pred_check_miss by blast
  moreover note pred_check_hit [OF hit only, of out]
  moreover have "branch_target_adr c' ! unat pnt = target" "branch_counter c' ! unat pnt = cpt"
    using k assms(1) by (simp_all add: fields pred_ok_def)
  ultimately show ?thesis
    unfolding c'_def [symmetric] Let_def using other by simp
qed

subsection \<open>Reachable states\<close>

text \<open>
  The pointers that lookups have given out and that may come back with a write.
\<close>

inductive pred_reach :: "pred_cache \<Rightarrow> u2 set \<Rightarrow> bool" where
  start: "pred_ok c \<Longrightarrow> pred_reach (pred_reset c) {}"
| lookup: "pred_reach c P \<Longrightarrow> pred_reach c (insert (PRED_PNT (pred_check adr c out)) P)"
| update: "pred_reach c P \<Longrightarrow> pnt \<in> P \<Longrightarrow> pred_reach (pred_write cmd adr target cpt pnt c) P"

definition pred_first_only :: "pred_cache \<Rightarrow> bool" where
  "pred_first_only c \<longleftrightarrow> (\<forall>k < 4. present c ! k \<longrightarrow> k = 0)"

lemma pred_check_pnt_0:
  assumes "pred_first_only c"
  shows "PRED_PNT (pred_check adr c out) = 0"
proof -
  obtain o1 m1 r1 where f: "fold (pred_check_body adr c) [0..<4] (out, True, 0) = (o1, m1, r1)"
    by (metis prod_cases3)
  then have "r1 = 0 \<and> (m1 \<or> PRED_PNT o1 = 0)"
    using assms by (intro pred_fold_first [OF _ refl _ f]) (simp_all add: pred_first_only_def)
  then show ?thesis
    by (auto simp: pred_check_def f)
qed

lemma pred_reach_first: "pred_reach c P \<Longrightarrow> P \<subseteq> {0} \<and> pred_first_only c \<and> pred_ok c"
proof (induction rule: pred_reach.induct)
  case (start c)
  then show ?case
    by (auto simp: pred_first_only_def pred_reset_def pred_ok_def)
next
  case (lookup c P adr out)
  then show ?case by (simp add: pred_check_pnt_0)
next
  case (update c P pnt cmd adr target cpt)
  then have "pnt = 0" by auto
  moreover have "length (present c) = 4" using update by (simp add: pred_ok_def)
  ultimately show ?case
    using update
    by (auto simp: pred_ok_write pred_first_only_def pred_write_present nth_list_update
        split: if_splits)
qed

text \<open>
  C40: the cache remembers a single branch.  In every reachable state, after a branch has been
  written every other branch misses, although four entries are provided: an entry that has
  never been used is not a candidate for replacement.
\<close>

theorem pred_single_branch:
  assumes "pred_reach c P" "pnt \<in> P" "adr' \<noteq> adr"
  shows "PRED_MISS (pred_check adr' (pred_write 1 adr target cpt pnt c) out)"
proof -
  have c: "pnt = 0" "pred_first_only c" "pred_ok c"
    using pred_reach_first [OF assms(1)] assms(2) by auto
  have "\<not> pred_hit adr' (pred_write 1 adr target cpt pnt c) k" for k
    using c assms(3)
    by (cases "k = 0") (auto simp: pred_hit_def pred_write_def Let_def pred_first_only_def pred_ok_def)
  then show ?thesis by (simp add: pred_check_miss)
qed

subsection \<open>Instances\<close>

definition pred_empty :: pred_cache where
  "pred_empty = pred_reset \<lparr>present = replicate 4 False, branch_inst_adr = replicate 4 0,
     branch_target_adr = replicate 4 0, branch_counter = replicate 4 0, lru = replicate 4 False,
     inverse_lru = False, p_nb = 0\<rparr>"

definition pred_out_0 :: pred_out where
  "pred_out_0 = \<lparr>PRED_MISS = False, PRED_TARGET_ADR = 0, PRED_LRU = False, PRED_CPT = 0,
     PRED_PNT = 0\<rparr>"

lemma pred_empty_ok: "pred_ok pred_empty" "\<not> pred_hit a pred_empty k"
  by (auto simp: pred_empty_def pred_reset_def pred_ok_def pred_hit_def)

theorem pred_write_check_witness:
  "PRED_TARGET_ADR (pred_check 0x40 (pred_write 1 0x40 0x100 2 3 pred_empty) pred_out_0) = 0x100"
  using pred_write_check [of pred_empty "0x40" 3 "0x100" 2 pred_out_0] pred_empty_ok
  by (simp add: Let_def)

theorem pred_single_branch_witness:
  "PRED_MISS (pred_check 0x40 (pred_write 1 0x80 0x100 2 0
     (pred_write 1 0x40 0x20 2 0 pred_empty)) pred_out_0)"
proof -
  have "pred_reach pred_empty {}"
    unfolding pred_empty_def by (rule pred_reach.start) (simp add: pred_ok_def)
  then have "pred_reach pred_empty (insert (PRED_PNT (pred_check 0x40 pred_empty pred_out_0)) {})"
    by (rule pred_reach.lookup)
  then have "pred_reach pred_empty {0}"
    using pred_reach_first [of pred_empty "{}"] \<open>pred_reach pred_empty {}\<close>
    by (simp add: pred_check_pnt_0)
  then have "pred_reach (pred_write 1 0x40 0x20 2 0 pred_empty) {0}"
    by (rule pred_reach.update) simp
  then show ?thesis
    by (rule pred_single_branch) simp_all
qed

end
