(* ===== verification/Buffer_Cache.thy ===== *)
theory Buffer_Cache
  imports River_Prelude
begin

text \<open>
  The write buffer of the data cache (\<open>SIM/SystemC/CORE/CACHES/buffercache.cpp\<close>): two slots for
  requests to memory, filled by the cache and drained towards memory.

  The contract is the abstract queue \<open>buff_content\<close>, the pending requests by age.  Lemmas: one
  activation takes the oldest request out and appends an accepted one (a refinement of a
  two-place queue), and which requests are not accepted although there is room.
\<close>

subsection \<open>State and operations\<close>

record request =
  DATA :: u32
  ADR :: u32
  STORE :: bool
  LOAD :: bool
  SIZE :: u2

record buffercache =
  buffer_LRU :: u2
  buff0 :: request
  buff0_VALIDATE :: bool
  buff1 :: request
  buff1_VALIDATE :: bool
  MP :: request
  buff_readed :: "5 word"
  FULL :: bool
  EMPTY :: bool

text \<open>
  The write part; \<open>c\<close> is the request on the inputs.  The reads are of the old state \<open>old\<close>.
\<close>

definition buff_write :: "request \<Rightarrow> buffercache \<Rightarrow> buffercache \<Rightarrow> buffercache" where
  "buff_write c old s =
     (if \<not> (buff0_VALIDATE old \<and> ADR c = ADR (buff0 old) \<or>
            buff1_VALIDATE old \<and> ADR c = ADR (buff1 old)) \<and> STORE c \<or> LOAD c then
        (if \<not> buff0_VALIDATE old \<and> ADR c \<noteq> ADR (buff0 old) then
           s\<lparr>buff0 := c, buff0_VALIDATE := (STORE c \<or> LOAD c), buffer_LRU := 0b01\<rparr>
         else if \<not> buff1_VALIDATE old \<and> ADR c \<noteq> ADR (buff1 old) then
           s\<lparr>buff1 := c, buff1_VALIDATE := (STORE c \<or> LOAD c), buffer_LRU := 0b10\<rparr>
         else s)
      else s)"

definition buff_read :: "buffercache \<Rightarrow> buffercache \<Rightarrow> buffercache" where
  "buff_read old s =
     (if buff0_VALIDATE old \<and> buff1_VALIDATE old then
        (if buffer_LRU old = 0b01 then
           s\<lparr>MP := buff1 old, buff1_VALIDATE := False, buff_readed := 0b0001\<rparr>
         else if buffer_LRU old = 0b10 then
           s\<lparr>MP := buff0 old, buff0_VALIDATE := False, buff_readed := 0b0010\<rparr>
         else s)
      else if buff0_VALIDATE old \<and> \<not> buff1_VALIDATE old then
        s\<lparr>MP := buff0 old, buff0_VALIDATE := False, buff_readed := 0b0100\<rparr>
      else if \<not> buff0_VALIDATE old \<and> buff1_VALIDATE old then
        s\<lparr>MP := buff1 old, buff1_VALIDATE := False, buff_readed := 0b1000\<rparr>
      else s)"

definition buff_fifo :: "bool \<Rightarrow> bool \<Rightarrow> request \<Rightarrow> buffercache \<Rightarrow> buffercache" where
  "buff_fifo write_obuff read_obuff c s =
     (let s1 = (if write_obuff then buff_write c s s else s);
          s2 = (if read_obuff then buff_read s s1 else s1)
      in if \<not> read_obuff \<and> \<not> write_obuff then
           s2\<lparr>MP := (MP s2)\<lparr>STORE := False, LOAD := False\<rparr>\<rparr>
         else s2)"

definition buff_bufferfull :: "buffercache \<Rightarrow> buffercache" where
  "buff_bufferfull s =
     s\<lparr>FULL := (buff1_VALIDATE s \<and> buff0_VALIDATE s),
       EMPTY := (\<not> buff1_VALIDATE s \<and> \<not> buff0_VALIDATE s)\<rparr>"

subsection \<open>The queue of pending requests\<close>

definition buff_content :: "buffercache \<Rightarrow> request list" where
  "buff_content s =
     (if buff0_VALIDATE s \<and> buff1_VALIDATE s then
        (if buffer_LRU s = 0b01 then [buff1 s, buff0 s] else [buff0 s, buff1 s])
      else if buff0_VALIDATE s then [buff0 s]
      else if buff1_VALIDATE s then [buff1 s]
      else [])"

definition buff_ok :: "buffercache \<Rightarrow> bool" where
  "buff_ok s \<longleftrightarrow>
     (buff0_VALIDATE s \<and> buff1_VALIDATE s \<longrightarrow> buffer_LRU s = 0b01 \<or> buffer_LRU s = 0b10)"

text \<open>
  A request is accepted when a slot is free that does not still hold its address, and, for a
  store, when none is pending for its address.
\<close>

definition buff_accepts :: "request \<Rightarrow> buffercache \<Rightarrow> bool" where
  "buff_accepts c s \<longleftrightarrow>
     (LOAD c \<or> STORE c \<and> ADR c \<notin> ADR ` set (buff_content s)) \<and>
     (\<not> buff0_VALIDATE s \<and> ADR c \<noteq> ADR (buff0 s) \<or> \<not> buff1_VALIDATE s \<and> ADR c \<noteq> ADR (buff1 s))"

lemma buff_ok_fifo: "buff_ok s \<Longrightarrow> buff_ok (buff_fifo w r c s)"
  by (auto simp: buff_ok_def buff_fifo_def buff_write_def buff_read_def Let_def)

lemma buff_content_fifo:
  assumes "buff_ok s"
  shows "buff_content (buff_fifo w r c s) =
    (if r then tl (buff_content s) else buff_content s) @ (if w \<and> buff_accepts c s then [c] else [])"
  using assms
  by (cases "buff0_VALIDATE s"; cases "buff1_VALIDATE s"; cases w; cases r;
      simp add: buff_content_def buff_fifo_def Let_def buff_write_def buff_read_def
        buff_accepts_def buff_ok_def; auto)

lemma buff_output:
  assumes "buff_ok s" "r" "buff_content s \<noteq> []"
  shows "MP (buff_fifo w r c s) = hd (buff_content s)"
  using assms
  by (cases "buff0_VALIDATE s"; cases "buff1_VALIDATE s"; cases w;
      simp add: buff_content_def buff_fifo_def Let_def buff_write_def buff_read_def buff_ok_def;
      auto)

lemma buff_flags:
  "FULL (buff_bufferfull s) = (length (buff_content s) = 2)"
  "EMPTY (buff_bufferfull s) = (buff_content s = [])"
  by (auto simp: buff_bufferfull_def buff_content_def)

text \<open>A sequence of activations, with what memory has been shown and what was accepted.\<close>

fun buff_run :: "(bool \<times> bool \<times> request) list \<Rightarrow> buffercache \<Rightarrow> buffercache" where
  "buff_run [] s = s"
| "buff_run ((w, r, c) # as) s = buff_run as (buff_fifo w r c s)"

fun buff_shown :: "(bool \<times> bool \<times> request) list \<Rightarrow> buffercache \<Rightarrow> request list" where
  "buff_shown [] s = []"
| "buff_shown ((w, r, c) # as) s =
     (if r \<and> \<not> EMPTY (buff_bufferfull s) then [MP (buff_fifo w r c s)] else []) @
     buff_shown as (buff_fifo w r c s)"

fun buff_taken :: "(bool \<times> bool \<times> request) list \<Rightarrow> buffercache \<Rightarrow> request list" where
  "buff_taken [] s = []"
| "buff_taken ((w, r, c) # as) s =
     (if w \<and> buff_accepts c s then [c] else []) @ buff_taken as (buff_fifo w r c s)"

text \<open>
  C39: the buffer is a queue: over any sequence of activations memory is shown the pending and the
  accepted requests in order, each once, and what has not been shown is still pending.
\<close>

theorem buff_refines_queue:
  assumes "buff_ok s"
  shows "buff_shown as s @ buff_content (buff_run as s) = buff_content s @ buff_taken as s \<and>
    buff_ok (buff_run as s)"
  using assms
proof (induction "as" arbitrary: s)
  case Nil
  then show ?case by simp
next
  case (Cons a "as")
  obtain w r c where a: "a = (w, r, c)" by (cases a)
  have IH: "buff_shown as (buff_fifo w r c s) @ buff_content (buff_run as (buff_fifo w r c s)) =
      buff_content (buff_fifo w r c s) @ buff_taken as (buff_fifo w r c s) \<and>
      buff_ok (buff_run as (buff_fifo w r c s))"
    by (rule Cons.IH [OF buff_ok_fifo [OF Cons.prems]])
  have shown: "(if r \<and> buff_content s \<noteq> [] then [MP (buff_fifo w r c s)] else []) @
      (if r then tl (buff_content s) else buff_content s) = buff_content s"
    using buff_output [OF Cons.prems, of r w c] by simp
  show ?case
    using IH shown unfolding a buff_run.simps buff_shown.simps buff_taken.simps buff_flags
      buff_content_fifo [OF Cons.prems]
    by (metis append.assoc)
qed

text \<open>
  Three stores to the same address, each drained before the next, with no other request between:
  the third is lost although the buffer is empty, because both free slots still hold the
  address.
\<close>

theorem buff_third_store_lost:
  assumes "buff_content s = []" "STORE c1" "STORE c2" "STORE c3"
    and "ADR c1 = a" "ADR c2 = a" "ADR c3 = a" "ADR (buff0 s) \<noteq> a" "ADR (buff1 s) \<noteq> a"
  shows "buff_shown [(True, False, c1), (False, True, c1), (True, False, c2), (False, True, c2),
      (True, False, c3), (False, True, c3)] s = [c1, c2]"
proof -
  have s: "\<not> buff0_VALIDATE s" "\<not> buff1_VALIDATE s"
    using assms(1) by (auto simp: buff_content_def split: if_splits)
  show ?thesis
    using s assms(2-9)
    by (simp add: buff_fifo_def buff_write_def buff_read_def Let_def buff_bufferfull_def)
qed

subsection \<open>Instances\<close>

definition buff_store :: "u32 \<Rightarrow> u32 \<Rightarrow> request" where
  "buff_store a d = \<lparr>DATA = d, ADR = a, STORE = True, LOAD = False, SIZE = 0\<rparr>"

definition buff_zero :: buffercache where
  "buff_zero = \<lparr>buffer_LRU = 0, buff0 = buff_store 0 0, buff0_VALIDATE = False, buff1 = buff_store 0 0,
     buff1_VALIDATE = False, MP = buff_store 0 0, buff_readed = 0, FULL = False, EMPTY = True\<rparr>"

theorem buff_refines_queue_witness:
  "buff_shown [(True, False, buff_store 8 1), (True, True, buff_store 12 2),
     (False, True, buff_store 12 2)] buff_zero = [buff_store 8 1, buff_store 12 2]"
proof -
  let ?as = "[(True, False, buff_store 8 1), (True, True, buff_store 12 2),
     (False, True, buff_store 12 2)]"
  have "buff_content buff_zero = []" "buff_content (buff_run ?as buff_zero) = []"
    "buff_taken ?as buff_zero = [buff_store 8 1, buff_store 12 2]"
    by (simp_all add: buff_content_def buff_zero_def buff_fifo_def Let_def buff_write_def
        buff_read_def buff_store_def buff_accepts_def)
  moreover have "buff_ok buff_zero" by (simp add: buff_ok_def buff_zero_def)
  ultimately show ?thesis
    using buff_refines_queue [of buff_zero ?as] by simp
qed

theorem buff_third_store_lost_witness:
  "buff_shown [(True, False, buff_store 8 1), (False, True, buff_store 8 1),
     (True, False, buff_store 8 2), (False, True, buff_store 8 2),
     (True, False, buff_store 8 3), (False, True, buff_store 8 3)] buff_zero =
   [buff_store 8 1, buff_store 8 2]"
  by (rule buff_third_store_lost [where a = 8])
    (simp_all add: buff_content_def buff_zero_def buff_store_def)

end
