(* ===== verification/Cache_Spec.thy ===== *)
theory Cache_Spec
  imports River_Prelude
begin

text \<open>
  What the processor relies on when it reads through a cache, as a locale: a hit returns the word
  of memory, and after a refill the address hits.  The client lemma is that a sequence of reads,
  each refilled when it misses, returns what memory holds.  Both caches interpret it.

  Memory is a function of word numbers, \<open>wnum adr\<close> the number of the word that holds \<open>adr\<close>.
\<close>

definition wnum :: "u32 \<Rightarrow> nat" where
  "wnum adr = unat adr div 4"

lemma unat_rng:
  fixes x :: "'a::len word"
  assumes "hi < LENGTH('a)" "lo \<le> hi" "Suc hi - lo \<le> LENGTH('b)"
  shows "unat (rng hi lo x :: 'b::len word) = unat x div 2 ^ lo mod 2 ^ (Suc hi - lo)"
proof -
  have x: "take_bit LENGTH('a) (unat x) = unat x"
    by (simp add: take_bit_nat_eq_self)
  have "unat (rng hi lo x :: 'b word) = take_bit LENGTH('b) (take_bit (Suc hi - lo) (drop_bit lo (unat x)))"
    by (simp add: rng_def unsigned_ucast_eq unsigned_take_bit_eq unsigned_drop_bit_eq x
        min.commute)
  also have "\<dots> = take_bit (Suc hi - lo) (drop_bit lo (unat x))"
    using assms(3) by (simp add: min_def)
  finally show ?thesis
    by (simp add: take_bit_eq_mod drop_bit_eq_div)
qed

lemma unat_u32: "unat (a :: u32) < 4294967296"
  using unsigned_less [of a, where ?'a = nat] by simp

lemma unat_line: "unat (pc AND 0xFFFFFFF0 :: u32) = unat pc div 16 * 16"
proof -
  have mask: "(0xFFFFFFF0 :: u32) = NOT (mask 4)" by (simp add: mask_eq_exp_minus_1)
  have "pc AND 0xFFFFFFF0 = push_bit 4 (drop_bit 4 pc)"
    unfolding mask by (rule bit_word_eqI) (auto simp: bit_simps)
  then have "unat (pc AND 0xFFFFFFF0) =
      take_bit 32 (push_bit 4 (drop_bit 4 (take_bit 32 (unat pc))))"
    by (simp only: unsigned_push_bit_eq unsigned_drop_bit_eq) simp
  also have "\<dots> = unat pc div 16 * 16"
    using unat_u32 [of pc] by (simp add: take_bit_eq_mod push_bit_eq_mult drop_bit_eq_div)
  finally show ?thesis .
qed

lemma wnum_line: "wnum (pc AND 0xFFFFFFF0) = unat pc div 16 * 4"
  unfolding wnum_def unat_line by simp

lemma wnum_line_add:
  assumes "k < 4"
  shows "wnum ((pc AND 0xFFFFFFF0) + of_nat (4 * k)) = wnum (pc AND 0xFFFFFFF0) + k"
proof -
  have "unat pc div 16 < 268435456"
    using unat_u32 [of pc] by (simp add: less_mult_imp_div_less)
  then have "unat pc div 16 * 16 + 4 * k < 2 ^ 32"
    using assms by simp
  moreover have "unat (of_nat (4 * k) :: u32) = 4 * k"
    using assms by (simp only: unsigned_of_nat) (simp add: take_bit_nat_eq_self)
  ultimately have "unat ((pc AND 0xFFFFFFF0) + of_nat (4 * k)) = unat pc div 16 * 16 + 4 * k"
    unfolding unat_word_ariths unat_line by simp
  then show ?thesis by (simp add: wnum_def unat_line)
qed

lemma div_split: "(x :: nat) div 4 = x div 16 * 4 + x mod 16 div 4"
  by presburger

locale read_cache =
  fixes lookup :: "'c \<Rightarrow> u32 \<Rightarrow> u32 option"
    and refill :: "'c \<Rightarrow> u32 \<Rightarrow> (nat \<Rightarrow> u32) \<Rightarrow> 'c"
    and coherent :: "'c \<Rightarrow> (nat \<Rightarrow> u32) \<Rightarrow> bool"
  assumes hit_memory: "coherent c m \<Longrightarrow> lookup c a = Some v \<Longrightarrow> v = m (wnum a)"
    and refill_coherent: "coherent c m \<Longrightarrow> lookup c a = None \<Longrightarrow> coherent (refill c a m) m"
    and refill_hit: "coherent c m \<Longrightarrow> lookup c a = None \<Longrightarrow> lookup (refill c a m) a \<noteq> None"
begin

fun serve :: "'c \<Rightarrow> (nat \<Rightarrow> u32) \<Rightarrow> u32 list \<Rightarrow> u32 option list" where
  "serve c m [] = []"
| "serve c m (a # as) =
     (case lookup c a of
        Some v \<Rightarrow> Some v # serve c m as
      | None \<Rightarrow> lookup (refill c a m) a # serve (refill c a m) m as)"

lemma serve_memory: "coherent c m \<Longrightarrow> serve c m as = map (\<lambda>a. Some (m (wnum a))) as"
proof (induction "as" arbitrary: c)
  case Nil
  then show ?case by simp
next
  case (Cons a "as")
  show ?case
  proof (cases "lookup c a")
    case None
    then obtain v where v: "lookup (refill c a m) a = Some v"
      using refill_hit [OF Cons.prems] by blast
    then have "v = m (wnum a)"
      using hit_memory [OF refill_coherent [OF Cons.prems None]] by blast
    then show ?thesis
      using Cons.IH [OF refill_coherent [OF Cons.prems None]] None v by simp
  next
    case (Some v)
    then show ?thesis
      using Cons.IH [OF Cons.prems] hit_memory [OF Cons.prems Some] by simp
  qed
qed

end

end
