(* ===== verification/Icache.thy ===== *)
theory Icache
  imports Cache_Spec
begin

text \<open>
  The instruction cache (\<open>SIM/SystemC/CORE/CACHES/icache.cpp\<close>): direct mapped, 256 lines of four
  words, with a thread that fetches a line from memory when the address misses.

  The thread is modelled by one activation (\<open>icache_transition\<close>); its local variables are part of
  the state.  A word beyond the line, which C++ leaves undefined, makes the activation
  \<open>None\<close>.  Lemmas: what a burst of words leaves in the line, how many words a burst may have,
  and that the cache is a \<open>read_cache\<close>.
\<close>

subsection \<open>State and operations\<close>

datatype ic_fsm = IDLE | WAIT_MEM | UPDT | ERROR

record icache =
  data :: "nat \<Rightarrow> nat \<Rightarrow> u32"
  tag :: "nat \<Rightarrow> 20 word"
  data_validate :: "nat \<Rightarrow> bool"
  address_tag :: "20 word"
  address_index :: "8 word"
  address_offset :: "4 word"
  hit :: bool
  fsm_state :: "3 word"
  IC_INST_SI :: u32
  IC_STALL_SI :: bool
  A :: u32
  DTA_VALID :: bool
  fsm_current_state :: ic_fsm
  cpt :: nat
  current_address_index :: "8 word"
  current_address_tag :: "20 word"

record icache_in =
  RESET_N :: bool
  PC_SI :: u32
  PC_VALID_SI :: bool
  DT :: u32
  SLAVE_ACK_SP :: bool

definition icache_parse_adr :: "u32 \<Rightarrow> icache \<Rightarrow> icache" where
  "icache_parse_adr pc s =
     s\<lparr>address_tag := rng 31 12 pc, address_index := rng 11 4 pc, address_offset := rng 3 0 pc\<rparr>"

definition icache_miss_detection :: "icache \<Rightarrow> icache" where
  "icache_miss_detection s =
     (let i = unat (address_index s) in
      if address_tag s = tag s i \<and> data_validate s i then
        s\<lparr>hit := True, IC_STALL_SI := False,
          IC_INST_SI := data s i (unat (address_offset s) div 4)\<rparr>
      else s\<lparr>hit := False, IC_STALL_SI := True\<rparr>)"

text \<open>\<open>data[current_address_index][cpt++] = DT\<close>.\<close>

definition icache_put :: "u32 \<Rightarrow> icache \<Rightarrow> icache option" where
  "icache_put d s =
     (let i = unat (current_address_index s) in
      if cpt s < 4 then
        Some (s\<lparr>data := (data s)(i := (data s i)(cpt s := d)), cpt := cpt s + 1\<rparr>)
      else None)"

definition icache_fsm :: "icache_in \<Rightarrow> icache \<Rightarrow> icache option" where
  "icache_fsm i s =
     (case fsm_current_state s of
        IDLE \<Rightarrow>
          Some (if PC_VALID_SI i \<and> RESET_N i \<and> \<not> hit s then
                  s\<lparr>fsm_current_state := WAIT_MEM, A := PC_SI i AND 0xFFFFFFF0,
                    current_address_index := address_index s,
                    current_address_tag := address_tag s, DTA_VALID := True, cpt := 0\<rparr>
                else s)
      | WAIT_MEM \<Rightarrow>
          (if SLAVE_ACK_SP i then
             map_option (\<lambda>s'. s'\<lparr>fsm_current_state := UPDT,
                 tag := (tag s')(unat (current_address_index s) := current_address_tag s),
                 data_validate := (data_validate s')(unat (current_address_index s) := False)\<rparr>)
               (icache_put (DT i) s)
           else Some s)
      | UPDT \<Rightarrow>
          (if \<not> SLAVE_ACK_SP i then
             Some (s\<lparr>fsm_current_state := IDLE,
               data_validate := (data_validate s)(unat (current_address_index s) := True)\<rparr>)
           else icache_put (DT i) s)
      | ERROR \<Rightarrow> Some s)"

definition icache_fsm_code :: "ic_fsm \<Rightarrow> 3 word" where
  "icache_fsm_code f =
     (case f of IDLE \<Rightarrow> 0 | WAIT_MEM \<Rightarrow> 1 | UPDT \<Rightarrow> 2 | ERROR \<Rightarrow> 3)"

text \<open>
  One activation of the thread; while the reset is active it starts from the beginning, which
  initialises the state of the machine and the counter.
\<close>

definition icache_transition :: "icache_in \<Rightarrow> icache \<Rightarrow> icache option" where
  "icache_transition i s0 =
     (let s = (if RESET_N i then s0 else s0\<lparr>fsm_current_state := IDLE, cpt := 0\<rparr>)
      in map_option (\<lambda>s'. s'\<lparr>fsm_state := icache_fsm_code (fsm_current_state s')\<rparr>)
           (icache_fsm i (s\<lparr>DTA_VALID := False\<rparr>)))"

subsection \<open>Lookup and refill\<close>

definition icache_access :: "u32 \<Rightarrow> icache \<Rightarrow> icache" where
  "icache_access pc s = icache_miss_detection (icache_parse_adr pc s)"

definition icache_lookup :: "icache \<Rightarrow> u32 \<Rightarrow> u32 option" where
  "icache_lookup s pc =
     (let s' = icache_access pc s in if IC_STALL_SI s' then None else Some (IC_INST_SI s'))"

text \<open>Memory acknowledges the words \<open>ds\<close> one activation each, then takes the acknowledgement back.\<close>

fun icache_burst :: "u32 \<Rightarrow> u32 list \<Rightarrow> icache \<Rightarrow> icache option" where
  "icache_burst pc [] s =
     icache_transition \<lparr>RESET_N = True, PC_SI = pc, PC_VALID_SI = True, DT = 0,
       SLAVE_ACK_SP = False\<rparr> s"
| "icache_burst pc (d # ds) s =
     Option.bind (icache_transition \<lparr>RESET_N = True, PC_SI = pc, PC_VALID_SI = True, DT = d,
       SLAVE_ACK_SP = True\<rparr> s) (icache_burst pc ds)"

definition icache_request :: "u32 \<Rightarrow> icache \<Rightarrow> icache option" where
  "icache_request pc s =
     icache_transition \<lparr>RESET_N = True, PC_SI = pc, PC_VALID_SI = True, DT = 0,
       SLAVE_ACK_SP = False\<rparr> (icache_access pc s)"

lemma icache_access_frame [simp]:
  "data (icache_access pc s) = data s" "tag (icache_access pc s) = tag s"
  "data_validate (icache_access pc s) = data_validate s"
  "fsm_current_state (icache_access pc s) = fsm_current_state s"
  "address_index (icache_access pc s) = rng 11 4 pc" "address_tag (icache_access pc s) = rng 31 12 pc"
  by (simp_all add: icache_access_def icache_miss_detection_def icache_parse_adr_def Let_def)

lemma icache_lookup_eq:
  "icache_lookup s pc =
     (let i = unat (rng 11 4 pc :: 8 word) in
      if (rng 31 12 pc :: 20 word) = tag s i \<and> data_validate s i
      then Some (data s i (unat (rng 3 0 pc :: 4 word) div 4)) else None)"
  by (simp add: icache_lookup_def icache_access_def icache_miss_detection_def
      icache_parse_adr_def Let_def)

lemma icache_hit_eq: "hit (icache_access pc s) = (icache_lookup s pc \<noteq> None)"
  unfolding icache_lookup_eq
  by (simp add: icache_access_def icache_miss_detection_def icache_parse_adr_def Let_def)

text \<open>The state while a line is being filled: \<open>k\<close> words have been stored.\<close>

definition icache_filling :: "nat \<Rightarrow> icache \<Rightarrow> bool" where
  "icache_filling k s \<longleftrightarrow> cpt s = k \<and> fsm_current_state s = (if k = 0 then WAIT_MEM else UPDT)"

definition icache_filled :: "u32 list \<Rightarrow> icache \<Rightarrow> icache \<Rightarrow> bool" where
  "icache_filled ds s s' \<longleftrightarrow>
     fsm_current_state s' = IDLE \<and>
     (let i = unat (current_address_index s) in
      tag s' = (tag s)(i := (if cpt s = 0 then current_address_tag s else tag s i)) \<and>
      data_validate s' = (data_validate s)(i := True) \<and>
      data s' = (data s)(i := (\<lambda>k. if cpt s \<le> k \<and> k < cpt s + length ds then ds ! (k - cpt s)
                                   else data s i k)))"

lemma icache_store_word:
  assumes "icache_filling (cpt s) s" "cpt s < 4"
  obtains s1 where
    "icache_transition \<lparr>RESET_N = True, PC_SI = pc, PC_VALID_SI = True, DT = d,
       SLAVE_ACK_SP = True\<rparr> s = Some s1"
    "icache_filling (cpt s1) s1" "cpt s1 = cpt s + 1"
    "current_address_index s1 = current_address_index s"
    "current_address_tag s1 = current_address_tag s"
    "data s1 = (data s)(unat (current_address_index s) :=
       (data s (unat (current_address_index s)))(cpt s := d))"
    "tag s1 = (tag s)(unat (current_address_index s) :=
       (if cpt s = 0 then current_address_tag s else tag s (unat (current_address_index s))))"
    "\<And>x. (data_validate s1)(unat (current_address_index s) := x) =
       (data_validate s)(unat (current_address_index s) := x)"
proof -
  obtain s1 where s1: "icache_transition \<lparr>RESET_N = True, PC_SI = pc, PC_VALID_SI = True, DT = d,
      SLAVE_ACK_SP = True\<rparr> s = Some s1"
    using assms by (cases "cpt s = 0")
      (simp_all add: icache_transition_def icache_fsm_def icache_put_def icache_filling_def Let_def)
  show thesis
    by (rule that [OF s1]; use s1 assms in \<open>cases "cpt s = 0"\<close>)
      (auto simp: icache_transition_def icache_fsm_def icache_put_def icache_filling_def Let_def)
qed

lemma icache_burst_fills:
  assumes "icache_filling (cpt s) s" "cpt s + length ds \<le> 4" "cpt s \<noteq> 0 \<or> ds \<noteq> []"
  shows "\<exists>s'. icache_burst pc ds s = Some s' \<and> icache_filled ds s s'"
  using assms
proof (induction ds arbitrary: s)
  case Nil
  then show ?case
    by (auto simp: icache_filling_def icache_transition_def icache_fsm_def icache_filled_def Let_def
        fun_eq_iff)
next
  case (Cons d ds)
  obtain s1 where s1: "icache_transition \<lparr>RESET_N = True, PC_SI = pc, PC_VALID_SI = True, DT = d,
       SLAVE_ACK_SP = True\<rparr> s = Some s1"
    "icache_filling (cpt s1) s1" "cpt s1 = cpt s + 1"
    "current_address_index s1 = current_address_index s"
    "current_address_tag s1 = current_address_tag s"
    "data s1 = (data s)(unat (current_address_index s) :=
       (data s (unat (current_address_index s)))(cpt s := d))"
    "tag s1 = (tag s)(unat (current_address_index s) :=
       (if cpt s = 0 then current_address_tag s else tag s (unat (current_address_index s))))"
    "\<And>x. (data_validate s1)(unat (current_address_index s) := x) =
       (data_validate s)(unat (current_address_index s) := x)"
    using icache_store_word [of s pc d] Cons.prems by auto
  obtain s' where s': "icache_burst pc ds s1 = Some s'" "icache_filled ds s1 s'"
    using Cons.IH [of s1] s1(2,3) Cons.prems(2) by auto
  have idx: "data s' = (data s)(unat (current_address_index s) :=
      (\<lambda>k. if cpt s \<le> k \<and> k < cpt s + length (d # ds) then (d # ds) ! (k - cpt s)
           else data s (unat (current_address_index s)) k))"
  proof -
    have line: "(\<lambda>k. if cpt s + 1 \<le> k \<and> k < cpt s + 1 + length ds then ds ! (k - (cpt s + 1))
           else (f (cpt s := d)) k) =
        (\<lambda>k. if cpt s \<le> k \<and> k < cpt s + length (d # ds) then (d # ds) ! (k - cpt s) else f k)"
      for f
    proof
      fix k
      show "(if cpt s + 1 \<le> k \<and> k < cpt s + 1 + length ds then ds ! (k - (cpt s + 1))
           else (f (cpt s := d)) k) =
        (if cpt s \<le> k \<and> k < cpt s + length (d # ds) then (d # ds) ! (k - cpt s) else f k)"
        by (cases "k - cpt s") (auto simp: diff_Suc_eq_diff_pred [symmetric] diff_Suc)
    qed
    show ?thesis
      using s'(2) s1(3,4,6) line [of "data s (unat (current_address_index s))"]
      unfolding icache_filled_def Let_def by (simp cong: if_cong)
  qed
  have "icache_filled (d # ds) s s'"
    unfolding icache_filled_def Let_def using s'(2) s1(3-5,7,8) idx
    by (simp add: icache_filled_def Let_def)
  then show ?case using s1(1) s'(1) by simp
qed

lemma icache_burst_overflows:
  assumes "icache_filling (cpt s) s" "4 < cpt s + length ds" "cpt s \<le> 4"
  shows "icache_burst pc ds s = None"
  using assms
proof (induction ds arbitrary: s)
  case Nil
  then show ?case by simp
next
  case (Cons d ds)
  show ?case
  proof (cases "cpt s < 4")
    case True
    then obtain s1 where "icache_transition \<lparr>RESET_N = True, PC_SI = pc, PC_VALID_SI = True, DT = d,
        SLAVE_ACK_SP = True\<rparr> s = Some s1" "icache_filling (cpt s1) s1" "cpt s1 = cpt s + 1"
      using icache_store_word [of s pc d] Cons.prems by metis
    then show ?thesis
      using Cons.IH [of s1] Cons.prems True by simp
  next
    case False
    then show ?thesis
      using Cons.prems
      by (simp add: icache_filling_def icache_transition_def icache_fsm_def icache_put_def Let_def)
  qed
qed


subsection \<open>The cache as a read cache\<close>

text \<open>The line that contains the address, taken from memory.\<close>

definition icache_line :: "(nat \<Rightarrow> u32) \<Rightarrow> u32 \<Rightarrow> u32 list" where
  "icache_line m pc = map (\<lambda>k. m (wnum (pc AND 0xFFFFFFF0) + k)) [0..<4]"

definition icache_refill :: "icache \<Rightarrow> u32 \<Rightarrow> (nat \<Rightarrow> u32) \<Rightarrow> icache" where
  "icache_refill s pc m =
     (case Option.bind (icache_request pc s) (icache_burst pc (icache_line m pc)) of
        Some s' \<Rightarrow> s' | None \<Rightarrow> s)"

definition icache_coherent :: "icache \<Rightarrow> (nat \<Rightarrow> u32) \<Rightarrow> bool" where
  "icache_coherent s m \<longleftrightarrow>
     fsm_current_state s = IDLE \<and>
     (\<forall>i < 256. data_validate s i \<longrightarrow>
        (\<forall>k < 4. data s i k = m ((unat (tag s i) * 256 + i) * 4 + k)))"

lemma wnum_icache:
  "wnum pc = (unat (rng 31 12 pc :: 20 word) * 256 + unat (rng 11 4 pc :: 8 word)) * 4 +
     unat (rng 3 0 pc :: 4 word) div 4"
proof -
  have "unat pc div 16 div 256 * 256 + unat pc div 16 mod 256 = unat pc div 16"
    by (rule div_mult_mod_eq)
  moreover have "unat pc div 4096 mod 1048576 = unat pc div 16 div 256"
    using unat_u32 [of pc] by (simp add: div_mult2_eq [symmetric] less_mult_imp_div_less)
  ultimately show ?thesis
    using div_split [of "unat pc"] by (simp add: wnum_def unat_rng)
qed

lemma icache_coherent_hit:
  assumes "icache_coherent s m" "icache_lookup s pc = Some v"
  shows "v = m (wnum pc)"
proof -
  have "unat (rng 11 4 pc :: 8 word) < 256" "unat (rng 3 0 pc :: 4 word) div 4 < 4"
    by (simp_all add: unat_rng)
  then show ?thesis
    using assms unfolding icache_coherent_def wnum_icache [of pc] icache_lookup_eq
    by (auto simp: Let_def split: if_splits)
qed


lemma icache_request_miss:
  assumes "fsm_current_state s = IDLE" "icache_lookup s pc = None"
  obtains s1 where "icache_request pc s = Some s1" "icache_filling 0 s1"
    "data s1 = data s" "tag s1 = tag s" "data_validate s1 = data_validate s"
    "current_address_index s1 = rng 11 4 pc" "current_address_tag s1 = rng 31 12 pc"
    "A s1 = pc AND 0xFFFFFFF0" "DTA_VALID s1"
proof -
  have "\<not> hit (icache_access pc s)" using assms(2) by (simp add: icache_hit_eq)
  then show thesis
    using assms(1) that
    by (simp add: icache_request_def icache_transition_def icache_fsm_def icache_filling_def)
qed

lemma icache_refill_filled:
  assumes "fsm_current_state s = IDLE" "icache_lookup s pc = None"
  shows "fsm_current_state (icache_refill s pc m) = IDLE"
    and "tag (icache_refill s pc m) = (tag s)(unat (rng 11 4 pc :: 8 word) := rng 31 12 pc)"
    and "data_validate (icache_refill s pc m) =
      (data_validate s)(unat (rng 11 4 pc :: 8 word) := True)"
    and "data (icache_refill s pc m) = (data s)(unat (rng 11 4 pc :: 8 word) :=
      (\<lambda>k. if k < 4 then icache_line m pc ! k else data s (unat (rng 11 4 pc :: 8 word)) k))"
proof -
  obtain s1 where s1: "icache_request pc s = Some s1" "icache_filling 0 s1"
    "data s1 = data s" "tag s1 = tag s" "data_validate s1 = data_validate s"
    "current_address_index s1 = rng 11 4 pc" "current_address_tag s1 = rng 31 12 pc"
    using icache_request_miss [OF assms] by metis
  have cpt: "cpt s1 = 0" using s1(2) by (simp add: icache_filling_def)
  have len: "length (icache_line m pc) = 4" by (simp add: icache_line_def)
  then have "icache_line m pc \<noteq> []" by auto
  then obtain s' where s': "icache_burst pc (icache_line m pc) s1 = Some s'"
      "icache_filled (icache_line m pc) s1 s'"
    using icache_burst_fills [of s1 "icache_line m pc" pc] s1(2) cpt len by auto
  have refill: "icache_refill s pc m = s'"
    by (simp add: icache_refill_def s1(1) s'(1))
  show "fsm_current_state (icache_refill s pc m) = IDLE"
    "tag (icache_refill s pc m) = (tag s)(unat (rng 11 4 pc :: 8 word) := rng 31 12 pc)"
    "data_validate (icache_refill s pc m) = (data_validate s)(unat (rng 11 4 pc :: 8 word) := True)"
    "data (icache_refill s pc m) = (data s)(unat (rng 11 4 pc :: 8 word) :=
      (\<lambda>k. if k < 4 then icache_line m pc ! k else data s (unat (rng 11 4 pc :: 8 word)) k))"
    using s'(2) s1 cpt len by (simp_all add: refill icache_filled_def Let_def cong: if_cong)
qed

lemma icache_line_nth:
  assumes "k < 4"
  shows "icache_line m pc ! k =
    m ((unat (rng 31 12 pc :: 20 word) * 256 + unat (rng 11 4 pc :: 8 word)) * 4 + k)"
proof -
  have "unat (rng 3 0 pc :: 4 word) div 4 < 4" by (simp add: unat_rng)
  have "wnum (pc AND 0xFFFFFFF0) = wnum pc - unat pc mod 16 div 4"
    using div_split [of "unat pc"] by (simp add: wnum_line) (simp add: wnum_def)
  then have "wnum (pc AND 0xFFFFFFF0) =
      (unat (rng 31 12 pc :: 20 word) * 256 + unat (rng 11 4 pc :: 8 word)) * 4"
    unfolding wnum_icache [of pc] by (simp add: unat_rng)
  then show ?thesis using assms by (simp add: icache_line_def)
qed

lemma icache_refill_hit:
  assumes "icache_coherent s m" "icache_lookup s pc = None"
  shows "icache_lookup (icache_refill s pc m) pc \<noteq> None"
proof -
  have "fsm_current_state s = IDLE" using assms(1) by (simp add: icache_coherent_def)
  from icache_refill_filled [OF this assms(2)] show ?thesis
    by (simp add: icache_lookup_eq Let_def)
qed

lemma icache_refill_coherent:
  assumes "icache_coherent s m" "icache_lookup s pc = None"
  shows "icache_coherent (icache_refill s pc m) m"
proof -
  have idle: "fsm_current_state s = IDLE" using assms(1) by (simp add: icache_coherent_def)
  note filled = icache_refill_filled [OF idle assms(2), of m]
  have "data (icache_refill s pc m) i k = m ((unat (tag (icache_refill s pc m) i) * 256 + i) * 4 + k)"
    if "i < 256" "k < 4" "data_validate (icache_refill s pc m) i" for i k
    using that assms(1) unfolding filled(2-4)
    by (cases "i = unat (rng 11 4 pc :: 8 word)") (simp_all add: icache_line_nth icache_coherent_def)
  then show ?thesis unfolding icache_coherent_def using filled(1) by blast
qed

interpretation ic: read_cache icache_lookup icache_refill icache_coherent
  by unfold_locales
    (blast intro: icache_coherent_hit icache_refill_coherent dest: icache_refill_hit)+

subsection \<open>Properties\<close>

lemma icache_burst_none_iff:
  assumes "icache_filling 0 s"
  shows "icache_burst pc ds s = None \<longleftrightarrow> 4 < length ds"
proof -
  have cpt: "cpt s = 0" using assms by (simp add: icache_filling_def)
  show ?thesis
  proof (cases "ds = []")
    case True
    then show ?thesis
      using assms by (simp add: icache_filling_def icache_transition_def icache_fsm_def)
  next
    case False
    then show ?thesis
      using icache_burst_fills [of s ds pc] icache_burst_overflows [of s ds pc] assms cpt
      by (metis add_0 linorder_not_less option.distinct(1) zero_le)
  qed
qed

definition icache_example :: icache where
  "icache_example =
     \<lparr>data = (\<lambda>i k. 0), tag = (\<lambda>i. 0), data_validate = (\<lambda>i. False), address_tag = 0,
      address_index = 0, address_offset = 0, hit = False, fsm_state = 0, IC_INST_SI = 0,
      IC_STALL_SI = True, A = 0, DTA_VALID = False, fsm_current_state = IDLE, cpt = 0,
      current_address_index = 0, current_address_tag = 0\<rparr>"

lemma icache_example_coherent: "icache_coherent icache_example m"
  by (simp add: icache_example_def icache_coherent_def)

text \<open>
  C36: starting from any state whose valid lines agree with memory (after reset no line is
  valid), a sequence of fetches returns exactly the words of memory at their addresses, whatever
  the order of the addresses and however they share lines, when each miss is followed by the
  request and a burst of the four words of the line.
\<close>

theorem icache_serves_memory:
  assumes "icache_coherent s m"
  shows "ic.serve s m pcs = map (\<lambda>pc. Some (m (wnum pc))) pcs"
  using assms by (rule ic.serve_memory)

theorem icache_serves_memory_witness:
  "ic.serve icache_example (\<lambda>n. of_nat n * 3) [0x1004, 0x2008, 0x1000] = [Some 3075, Some 6150, Some 3072]"
  using icache_serves_memory [OF icache_example_coherent, of "\<lambda>n. of_nat n * 3" "[0x1004, 0x2008, 0x1000]"]
  by (simp add: wnum_def)

text \<open>
  C38: on a miss the thread asks memory for the address of the line, and then takes at most four
  words: with four or fewer acknowledged words every store stays inside the line, with a fifth
  word, be it a repeated activation for the same word, the thread writes past the line.
\<close>

theorem icache_burst_bound:
  assumes "fsm_current_state s = IDLE" "icache_lookup s pc = None"
  shows "\<exists>s1. icache_request pc s = Some s1 \<and> DTA_VALID s1 \<and> A s1 = pc AND 0xFFFFFFF0 \<and>
           (icache_burst pc ds s1 = None \<longleftrightarrow> 4 < length ds)"
proof -
  obtain s1 where "icache_request pc s = Some s1" "icache_filling 0 s1"
    "A s1 = pc AND 0xFFFFFFF0" "DTA_VALID s1"
    using icache_request_miss [OF assms] by metis
  then show ?thesis using icache_burst_none_iff by blast
qed

theorem icache_burst_bound_witness:
  "\<exists>s1. icache_request 0x1234 icache_example = Some s1 \<and> DTA_VALID s1 \<and> A s1 = 0x1230 \<and>
        icache_burst 0x1234 [7, 8, 9, 10, 11] s1 = None"
  using icache_burst_bound [of icache_example "0x1234" "[7, 8, 9, 10, 11]"]
  by (simp add: icache_example_def icache_lookup_eq Let_def)

end
