(* ===== verification/Bench_Icache.thy ===== *)
theory Bench_Icache
  imports Icache Bench_Ram
begin

text \<open>
  The simulation memory behind the instruction cache (\<open>SIM/SystemC/CORE/core_tb.cpp\<close>, the
  \<open>switch\<close> over \<open>IC_fsm_current_state\<close>) and the two together while a line is fetched.

  The bench passes twice per clock cycle, at each edge.  SystemC holds the activity at the end of
  \<open>sc_start\<close> back until the next call, so what a pass writes becomes visible together with the
  edge of that time.  The thread of the cache runs at a falling edge and at a change of the data
  or of the acknowledgement (\<open>icache_woken\<close>).

  Lemma: with the wait states of the bench the thread runs exactly once for every word.
\<close>

datatype ic_bench_fsm =
  IC_IDLE | IC_SEND_INSTRUCTION_1 | IC_CLK_SIMU0 | IC_SEND_INSTRUCTION_2 | IC_CLK_SIMU1
| IC_SEND_INSTRUCTION_3 | IC_END_BURST

record ic_bench =
  IC_fsm_current_state :: ic_bench_fsm
  icache_dta_valid :: bool
  if_adr :: u32
  ICACHE_DT :: u32
  MP_ACK_ICACHE :: bool

text \<open>
  One pass; \<open>ICACHE_A\<close>, the second component, is a signal that the cache and the bench both
  write.
\<close>

definition ic_bench_send :: "ram \<Rightarrow> u32 \<Rightarrow> ic_bench_fsm \<Rightarrow> ic_bench \<Rightarrow> ic_bench \<times> u32" where
  "ic_bench_send ram adr next b =
     (b\<lparr>ICACHE_DT := ram adr, MP_ACK_ICACHE := True, IC_fsm_current_state := next\<rparr>, adr)"

definition ic_bench_step :: "ram \<Rightarrow> bool \<Rightarrow> u32 \<Rightarrow> ic_bench \<Rightarrow> ic_bench \<times> u32" where
  "ic_bench_step ram dta_valid icache_a b =
     (case IC_fsm_current_state b of
        IC_IDLE \<Rightarrow>
          (let b' = b\<lparr>icache_dta_valid := dta_valid\<rparr> in
           if dta_valid then
             ic_bench_send ram icache_a IC_SEND_INSTRUCTION_1 (b'\<lparr>if_adr := icache_a\<rparr>)
           else (b'\<lparr>MP_ACK_ICACHE := False\<rparr>, icache_a))
      | IC_SEND_INSTRUCTION_1 \<Rightarrow> ic_bench_send ram (if_adr b + 4) IC_CLK_SIMU0 b
      | IC_CLK_SIMU0 \<Rightarrow> (b\<lparr>IC_fsm_current_state := IC_SEND_INSTRUCTION_2\<rparr>, icache_a)
      | IC_SEND_INSTRUCTION_2 \<Rightarrow> ic_bench_send ram (if_adr b + 8) IC_CLK_SIMU1 b
      | IC_CLK_SIMU1 \<Rightarrow> (b\<lparr>IC_fsm_current_state := IC_SEND_INSTRUCTION_3\<rparr>, icache_a)
      | IC_SEND_INSTRUCTION_3 \<Rightarrow> ic_bench_send ram (if_adr b + 12) IC_END_BURST b
      | IC_END_BURST \<Rightarrow>
          (b\<lparr>IC_fsm_current_state := IC_IDLE, MP_ACK_ICACHE := False\<rparr>, icache_a))"

subsection \<open>The bench and the cache\<close>

definition icache_woken :: "bool \<Rightarrow> ic_bench \<Rightarrow> ic_bench \<Rightarrow> bool" where
  "icache_woken falling b b' \<longleftrightarrow>
     falling \<or> ICACHE_DT b' \<noteq> ICACHE_DT b \<or> MP_ACK_ICACHE b' \<noteq> MP_ACK_ICACHE b"

text \<open>
  A pass of the bench and the edge that follows it: the thread runs when it is woken, and
  \<open>miss_detection\<close> after it, which is sensitive to the line and its validity.
\<close>

definition icache_bench_step ::
  "ram \<Rightarrow> u32 \<Rightarrow> bool \<Rightarrow> ic_bench \<times> icache \<Rightarrow> (ic_bench \<times> icache) option" where
  "icache_bench_step ram pc falling bs =
     (case bs of (b, s) \<Rightarrow>
        case ic_bench_step ram (DTA_VALID s) (A s) b of (b', a) \<Rightarrow>
          if icache_woken falling b b' then
            map_option (\<lambda>s'. (b', icache_miss_detection s'))
              (icache_transition \<lparr>RESET_N = True, PC_SI = pc, PC_VALID_SI = True,
                 DT = ICACHE_DT b', SLAVE_ACK_SP = MP_ACK_ICACHE b'\<rparr> (s\<lparr>A := a\<rparr>))
          else Some (b', s\<lparr>A := a\<rparr>))"

fun icache_bench_run ::
  "ram \<Rightarrow> u32 \<Rightarrow> bool list \<Rightarrow> ic_bench \<times> icache \<Rightarrow> (ic_bench \<times> icache) option" where
  "icache_bench_run ram pc [] bs = Some bs"
| "icache_bench_run ram pc (e # es) bs =
     Option.bind (icache_bench_step ram pc e bs) (icache_bench_run ram pc es)"

text \<open>
  A miss: the thread requests the line at a falling edge; seven passes follow, beginning at the
  rising edge.
\<close>

definition icache_bench_fetch :: "ram \<Rightarrow> u32 \<Rightarrow> ic_bench \<times> icache \<Rightarrow> (ic_bench \<times> icache) option" where
  "icache_bench_fetch ram pc bs =
     (case bs of (b, s) \<Rightarrow>
        Option.bind (icache_request pc s)
          (\<lambda>s'. icache_bench_run ram pc [False, True, False, True, False, True, False] (b, s')))"

text \<open>The bench, idle and with its acknowledgement taken back.\<close>

definition ic_bench_idle :: "ic_bench \<Rightarrow> bool" where
  "ic_bench_idle b \<longleftrightarrow> IC_fsm_current_state b = IC_IDLE \<and> \<not> MP_ACK_ICACHE b"

lemma icache_miss_detection_frame [simp]:
  "data (icache_miss_detection s) = data s" "tag (icache_miss_detection s) = tag s"
  "data_validate (icache_miss_detection s) = data_validate s"
  "fsm_current_state (icache_miss_detection s) = fsm_current_state s"
  "cpt (icache_miss_detection s) = cpt s"
  "current_address_index (icache_miss_detection s) = current_address_index s"
  "current_address_tag (icache_miss_detection s) = current_address_tag s"
  "A (icache_miss_detection s) = A s" "DTA_VALID (icache_miss_detection s) = DTA_VALID s"
  by (simp_all add: icache_miss_detection_def Let_def)

subsection \<open>The passes of a burst\<close>

text \<open>A line while it is filled: the parts of the cache that matter afterwards.\<close>

definition icache_stored :: "(nat \<Rightarrow> u32) \<Rightarrow> icache \<Rightarrow> icache \<Rightarrow> bool" where
  "icache_stored f s s' \<longleftrightarrow>
     current_address_index s' = current_address_index s \<and>
     current_address_tag s' = current_address_tag s \<and>
     (let i = unat (current_address_index s) in
      data s' = (data s)(i := (\<lambda>k. if k < cpt s' then f k else data s i k)) \<and>
      tag s' = (if cpt s' = 0 then tag s else (tag s)(i := current_address_tag s)) \<and>
      (\<forall>x. (data_validate s')(i := x) = (data_validate s)(i := x)))"

lemma icache_stored_0: "cpt s = 0 \<Longrightarrow> icache_stored f s s"
  by (simp add: icache_stored_def Let_def)

text \<open>A pass in which the thread takes the word that the bench has sent.\<close>

lemma icache_bench_word:
  assumes "icache_filling n s'" "n < 4" "icache_stored f s s'"
    and "ic_bench_step ram (DTA_VALID s') (A s') b = (b', a)" "icache_woken falling b b'"
    and "MP_ACK_ICACHE b'" "ICACHE_DT b' = f n"
  shows "\<exists>s''. icache_bench_step ram pc falling (b, s') = Some (b', s'') \<and>
    icache_filling (n + 1) s'' \<and> icache_stored f s s''"
proof -
  have n: "cpt s' = n" using assms(1) by (simp add: icache_filling_def)
  let ?s = "s'\<lparr>A := a\<rparr>"
  let ?i = "unat (current_address_index s')"
  have fill: "icache_filling (cpt ?s) ?s" "cpt ?s < 4"
    using assms(1,2) n by (simp_all add: icache_filling_def)
  obtain s1 where step: "icache_transition \<lparr>RESET_N = True, PC_SI = pc, PC_VALID_SI = True, DT = f n,
      SLAVE_ACK_SP = True\<rparr> ?s = Some s1" and "icache_filling (cpt s1) s1" "cpt s1 = cpt ?s + 1"
    "current_address_index s1 = current_address_index ?s"
    "current_address_tag s1 = current_address_tag ?s"
    "data s1 = (data ?s)(unat (current_address_index ?s) :=
       (data ?s (unat (current_address_index ?s)))(cpt ?s := f n))"
    "tag s1 = (tag ?s)(unat (current_address_index ?s) :=
       (if cpt ?s = 0 then current_address_tag ?s else tag ?s (unat (current_address_index ?s))))"
    "\<And>x. (data_validate s1)(unat (current_address_index ?s) := x) =
       (data_validate ?s)(unat (current_address_index ?s) := x)"
    by (rule icache_store_word [OF fill, of pc "f n"]) (rule that)
  note s1 = this [simplified n icache.simps]
  have "icache_filling (n + 1) (icache_miss_detection s1)"
    using s1(2,3) n by (simp add: icache_filling_def)
  moreover have "icache_stored f s (icache_miss_detection s1)"
    using assms(3) s1(3-8) n
    by (auto simp: icache_stored_def Let_def fun_eq_iff less_Suc_eq split: if_splits)
  ultimately show ?thesis
    using assms(4-7) step by (auto simp: icache_bench_step_def)
qed

text \<open>A wait state: nothing changes and the thread sleeps.\<close>

lemma icache_bench_wait:
  assumes "IC_fsm_current_state b = IC_CLK_SIMU0 \<or> IC_fsm_current_state b = IC_CLK_SIMU1"
  shows "icache_bench_step ram pc False (b, s) =
    Some (b\<lparr>IC_fsm_current_state := (if IC_fsm_current_state b = IC_CLK_SIMU0
       then IC_SEND_INSTRUCTION_2 else IC_SEND_INSTRUCTION_3)\<rparr>, s)"
  using assms by (auto simp: icache_bench_step_def ic_bench_step_def icache_woken_def)

text \<open>The end of the burst: the fall of the acknowledgement wakes the thread.\<close>

lemma icache_bench_end:
  assumes "IC_fsm_current_state b = IC_END_BURST" "MP_ACK_ICACHE b" "icache_filling n s" "0 < n"
  shows "\<exists>b' s'. icache_bench_step ram pc False (b, s) = Some (b', s') \<and> ic_bench_idle b' \<and>
    fsm_current_state s' = IDLE \<and> data s' = data s \<and> tag s' = tag s \<and>
    data_validate s' = (data_validate s)(unat (current_address_index s) := True)"
  using assms
  by (auto simp: icache_bench_step_def ic_bench_step_def icache_woken_def icache_transition_def
      icache_fsm_def icache_filling_def ic_bench_idle_def Let_def)

lemma icache_bench_burst:
  assumes "ic_bench_idle b" "icache_filling 0 s" "DTA_VALID s"
  shows "\<exists>b' s'. icache_bench_run ram pc [False, True, False, True, False, True, False] (b, s) =
      Some (b', s') \<and> ic_bench_idle b' \<and> fsm_current_state s' = IDLE \<and>
    (let i = unat (current_address_index s) in
     data s' = (data s)(i := (\<lambda>k. if k < 4 then ram (A s + of_nat (4 * k)) else data s i k)) \<and>
     tag s' = (tag s)(i := current_address_tag s) \<and>
     data_validate s' = (data_validate s)(i := True))"
proof -
  define f where "f = (\<lambda>k. ram (A s + of_nat (4 * k)))"
  have f: "f 0 = ram (A s)" "f 1 = ram (A s + 4)" "f 2 = ram (A s + 8)" "f 3 = ram (A s + 12)"
    "f (Suc 0) = ram (A s + 4)"
    by (simp_all add: f_def)
  have cpt: "cpt s = 0" using assms(2) by (simp add: icache_filling_def)
  define b1 where "b1 = b\<lparr>icache_dta_valid := True, if_adr := A s, ICACHE_DT := f 0,
    MP_ACK_ICACHE := True, IC_fsm_current_state := IC_SEND_INSTRUCTION_1\<rparr>"
  obtain s1 where s1: "icache_bench_step ram pc False (b, s) = Some (b1, s1)"
    "icache_filling 1 s1" "icache_stored f s s1"
    using icache_bench_word [OF assms(2) _ icache_stored_0 [OF cpt], of ram b b1 "A s" False f pc]
      assms(1,3)
    by (auto simp: ic_bench_step_def ic_bench_send_def ic_bench_idle_def icache_woken_def b1_def f)
  define b2 where "b2 = b1\<lparr>ICACHE_DT := f 1, MP_ACK_ICACHE := True, IC_fsm_current_state := IC_CLK_SIMU0\<rparr>"
  obtain s2 where s2: "icache_bench_step ram pc True (b1, s1) = Some (b2, s2)"
    "icache_filling 2 s2" "icache_stored f s s2"
    using icache_bench_word [OF s1(2) _ s1(3), of ram b1 b2 "A s + 4" True pc]
    by (auto simp: ic_bench_step_def ic_bench_send_def icache_woken_def b1_def b2_def f
        numeral_2_eq_2)
  define b3 where "b3 = b2\<lparr>IC_fsm_current_state := IC_SEND_INSTRUCTION_2\<rparr>"
  have w3: "icache_bench_step ram pc False (b2, s2) = Some (b3, s2)"
    using icache_bench_wait [of b2 ram pc s2] by (simp add: b2_def b3_def)
  define b4 where "b4 = b3\<lparr>ICACHE_DT := f 2, MP_ACK_ICACHE := True, IC_fsm_current_state := IC_CLK_SIMU1\<rparr>"
  obtain s4 where s4: "icache_bench_step ram pc True (b3, s2) = Some (b4, s4)"
    "icache_filling 3 s4" "icache_stored f s s4"
    using icache_bench_word [OF s2(2) _ s2(3), of ram b3 b4 "A s + 8" True pc]
    by (auto simp: ic_bench_step_def ic_bench_send_def icache_woken_def b1_def b2_def b3_def b4_def f)
  define b5 where "b5 = b4\<lparr>IC_fsm_current_state := IC_SEND_INSTRUCTION_3\<rparr>"
  have w5: "icache_bench_step ram pc False (b4, s4) = Some (b5, s4)"
    using icache_bench_wait [of b4 ram pc s4] by (simp add: b4_def b5_def)
  define b6 where "b6 = b5\<lparr>ICACHE_DT := f 3, MP_ACK_ICACHE := True, IC_fsm_current_state := IC_END_BURST\<rparr>"
  obtain s6 where s6: "icache_bench_step ram pc True (b5, s4) = Some (b6, s6)"
    "icache_filling 4 s6" "icache_stored f s s6"
    using icache_bench_word [OF s4(2) _ s4(3), of ram b5 b6 "A s + 12" True pc]
    by (auto simp: ic_bench_step_def ic_bench_send_def icache_woken_def b1_def b2_def b3_def b4_def
        b5_def b6_def f)
  have b6: "IC_fsm_current_state b6 = IC_END_BURST" "MP_ACK_ICACHE b6" by (simp_all add: b6_def)
  obtain b7 s7 where s7: "icache_bench_step ram pc False (b6, s6) = Some (b7, s7)" "ic_bench_idle b7"
    "fsm_current_state s7 = IDLE" "data s7 = data s6" "tag s7 = tag s6"
    "data_validate s7 = (data_validate s6)(unat (current_address_index s6) := True)"
    using icache_bench_end [OF b6 s6(2), of ram pc] by auto
  have "cpt s6 = 4" using s6(2) by (simp add: icache_filling_def)
  then show ?thesis
    using s1(1) s2(1) w3 s4(1) w5 s6(1,3) s7
    by (simp add: icache_stored_def Let_def f_def cong: if_cong)
qed

subsection \<open>The cache with the bench as a read cache\<close>

text \<open>The words of memory, as the bench holds them.\<close>

definition ram_of :: "(nat \<Rightarrow> u32) \<Rightarrow> ram" where
  "ram_of m = (\<lambda>a. m (wnum a))"

definition icache_bench_refill :: "ic_bench \<times> icache \<Rightarrow> u32 \<Rightarrow> (nat \<Rightarrow> u32) \<Rightarrow> ic_bench \<times> icache" where
  "icache_bench_refill bs pc m =
     (case icache_bench_fetch (ram_of m) pc bs of Some bs' \<Rightarrow> bs' | None \<Rightarrow> bs)"

definition icache_bench_lookup :: "ic_bench \<times> icache \<Rightarrow> u32 \<Rightarrow> u32 option" where
  "icache_bench_lookup bs = icache_lookup (snd bs)"

definition icache_bench_coherent :: "ic_bench \<times> icache \<Rightarrow> (nat \<Rightarrow> u32) \<Rightarrow> bool" where
  "icache_bench_coherent bs m \<longleftrightarrow> ic_bench_idle (fst bs) \<and> icache_coherent (snd bs) m"

lemma icache_same_lines:
  assumes "fsm_current_state s' = fsm_current_state s" "data s' = data s" "tag s' = tag s"
    and "data_validate s' = data_validate s"
  shows "icache_lookup s' = icache_lookup s" "icache_coherent s' = icache_coherent s"
  unfolding fun_eq_iff icache_lookup_eq icache_coherent_def assms by simp_all

text \<open>The burst of the bench leaves in the line what a burst of the four words leaves.\<close>

lemma icache_bench_refill_eq:
  assumes "ic_bench_idle b" "icache_coherent s m" "icache_lookup s pc = None"
  shows "ic_bench_idle (fst (icache_bench_refill (b, s) pc m))"
    and "icache_lookup (snd (icache_bench_refill (b, s) pc m)) = icache_lookup (icache_refill s pc m)"
    and "icache_coherent (snd (icache_bench_refill (b, s) pc m)) =
      icache_coherent (icache_refill s pc m)"
proof -
  have idle: "fsm_current_state s = IDLE" using assms(2) by (simp add: icache_coherent_def)
  obtain s1 where s1: "icache_request pc s = Some s1" "icache_filling 0 s1"
    "data s1 = data s" "tag s1 = tag s" "data_validate s1 = data_validate s"
    "current_address_index s1 = rng 11 4 pc" "current_address_tag s1 = rng 31 12 pc"
    "A s1 = pc AND 0xFFFFFFF0" "DTA_VALID s1"
    using icache_request_miss [OF idle assms(3)] by metis
  obtain b' s' where s': "icache_bench_run (ram_of m) pc
      [False, True, False, True, False, True, False] (b, s1) = Some (b', s')"
    "ic_bench_idle b'" "fsm_current_state s' = IDLE"
    "data s' = (data s1)(unat (current_address_index s1) :=
       (\<lambda>k. if k < 4 then ram_of m (A s1 + of_nat (4 * k))
            else data s1 (unat (current_address_index s1)) k))"
    "tag s' = (tag s1)(unat (current_address_index s1) := current_address_tag s1)"
    "data_validate s' = (data_validate s1)(unat (current_address_index s1) := True)"
    using icache_bench_burst [OF assms(1) s1(2,9), of "ram_of m" pc] unfolding Let_def by blast
  have refill: "icache_bench_refill (b, s) pc m = (b', s')"
    using s1(1) s'(1) by (simp add: icache_bench_refill_def icache_bench_fetch_def)
  note filled = icache_refill_filled [OF idle assms(3), of m]
  have line: "ram_of m ((pc AND 0xFFFFFFF0) + of_nat (4 * k)) = icache_line m pc ! k" if "k < 4" for k
    using that by (simp add: ram_of_def icache_line_def wnum_line_add del: of_nat_mult)
  have "data s' = data (icache_refill s pc m)"
    unfolding filled(4) s'(4) s1(3,6,8) using line by (simp del: of_nat_mult cong: if_cong)
  then have same: "fsm_current_state s' = fsm_current_state (icache_refill s pc m)"
    "data s' = data (icache_refill s pc m)" "tag s' = tag (icache_refill s pc m)"
    "data_validate s' = data_validate (icache_refill s pc m)"
    using filled s' s1 by simp_all
  show "ic_bench_idle (fst (icache_bench_refill (b, s) pc m))"
    "icache_lookup (snd (icache_bench_refill (b, s) pc m)) = icache_lookup (icache_refill s pc m)"
    "icache_coherent (snd (icache_bench_refill (b, s) pc m)) = icache_coherent (icache_refill s pc m)"
    using s'(2) icache_same_lines [OF same] by (simp_all add: refill)
qed

interpretation ib: read_cache icache_bench_lookup icache_bench_refill icache_bench_coherent
proof unfold_locales
  fix c a m v
  assume "icache_bench_coherent c m" "icache_bench_lookup c a = Some v"
  then show "v = m (wnum a)"
    by (auto simp: icache_bench_coherent_def icache_bench_lookup_def intro: icache_coherent_hit)
next
  fix c a m
  assume c: "icache_bench_coherent c m" "icache_bench_lookup c a = None"
  obtain b s where bs: "c = (b, s)" by (cases c)
  have s: "ic_bench_idle b" "icache_coherent s m" "icache_lookup s a = None"
    using c by (simp_all add: bs icache_bench_coherent_def icache_bench_lookup_def)
  show "icache_bench_coherent (icache_bench_refill c a m) m"
    and "icache_bench_lookup (icache_bench_refill c a m) a \<noteq> None"
    using icache_bench_refill_eq [OF s] icache_refill_coherent [OF s(2,3)] icache_refill_hit [OF s(2,3)]
    by (simp_all add: bs icache_bench_coherent_def icache_bench_lookup_def)
qed

text \<open>
  C37: the instruction cache and the memory of the bench together serve every sequence of fetch
  addresses with the words of memory: the wait states of the bench wake the thread of the cache
  exactly once for every word of a line and once for the end of the burst, so each miss fills its
  line and hits afterwards.
\<close>

theorem icache_bench_serves:
  assumes "ic_bench_idle b" "icache_coherent s m"
  shows "ib.serve (b, s) m pcs = map (\<lambda>pc. Some (m (wnum pc))) pcs"
  by (rule ib.serve_memory) (simp add: icache_bench_coherent_def assms)

definition ic_bench_example :: ic_bench where
  "ic_bench_example = \<lparr>IC_fsm_current_state = IC_IDLE, icache_dta_valid = False, if_adr = 0,
     ICACHE_DT = 0, MP_ACK_ICACHE = False\<rparr>"

theorem icache_bench_serves_witness:
  "ib.serve (ic_bench_example, icache_example) (\<lambda>n. of_nat n * 3) [0x1004, 0x2008, 0x1000] =
     [Some 3075, Some 6150, Some 3072]"
  using icache_bench_serves [of ic_bench_example icache_example "\<lambda>n. of_nat n * 3" "[0x1004, 0x2008, 0x1000]"]
    icache_example_coherent
  by (simp add: wnum_def ic_bench_example_def ic_bench_idle_def)

end
