(* ===== verification/Dcache.thy ===== *)
theory Dcache
  imports Cache_Spec Memory_Lanes
begin

text \<open>
  The data cache (\<open>SIM/SystemC/CORE/CACHES/dcache.cpp\<close>): two ways of 128 lines of four words,
  write-through, with the write buffer of \<open>Buffer_Cache\<close> between it and memory.

  Each method is one activation.  The clock activates four of them at once, which all read the
  signals from before the edge (\<open>dcache_clock\<close>); a word stored outside a line is \<open>None\<close>.
  Lemmas: what a load finds, the refill of a line over the edges of a burst, the cache as a
  \<open>read_cache\<close>, and which stores keep it in agreement with memory.
\<close>

subsection \<open>State\<close>

record way =
  word :: "nat \<Rightarrow> nat \<Rightarrow> u32"
  TAG :: "nat \<Rightarrow> 21 word"
  LINE_VALIDATE :: "nat \<Rightarrow> bool"

record dcache =
  w0 :: way
  w1 :: way
  LRU_bit_check :: "nat \<Rightarrow> bool"
  address_tag :: "21 word"
  address_index :: "7 word"
  address_offset :: "4 word"
  mp_address_tag :: "21 word"
  mp_address_index :: "7 word"
  mp_address_offset :: "4 word"
  mp_last_addr_offset :: "4 word"
  way0_hit :: bool
  way1_hit :: bool
  miss :: bool
  DATA_SC :: u32
  STALL_SC :: bool
  DTA_VALID_SC :: bool
  write_buff :: bool
  read_buff :: bool
  adr_sc :: u32
  data_mask_sc :: u32
  burst_cpt :: nat
  current_state :: "3 word"
  future_state :: "3 word"

text \<open>The inputs, with the two flags of the write buffer.\<close>

record dcache_in =
  RESET_N :: bool
  DATA_ADR_SM :: u32
  DATA_SM :: u32
  LOAD_SM :: bool
  STORE_SM :: bool
  VALID_ADR_SM :: bool
  MEM_SIZE_SM :: u2
  DT_SP :: u32
  A_SP :: u32
  SLAVE_ACK_SP :: bool
  full :: bool
  empty :: bool

abbreviation "IDLE \<equiv> (0 :: 3 word)"
abbreviation "WAIT_MEM \<equiv> (2 :: 3 word)"
abbreviation "UPDT \<equiv> (3 :: 3 word)"

subsection \<open>Methods\<close>

definition dcache_adresse_parcer :: "dcache_in \<Rightarrow> dcache \<Rightarrow> dcache" where
  "dcache_adresse_parcer i s =
     s\<lparr>address_tag := rng 31 11 (DATA_ADR_SM i), address_index := rng 10 4 (DATA_ADR_SM i),
       address_offset := rng 3 0 (DATA_ADR_SM i), mp_address_tag := rng 31 11 (A_SP i),
       mp_address_index := rng 10 4 (A_SP i), mp_address_offset := rng 3 0 (A_SP i)\<rparr>"

text \<open>\<open>way0_hit\<close>, \<open>way1_hit\<close> and \<open>miss\<close> are signals: the method reads them from before.\<close>

definition dcache_miss_detection :: "dcache_in \<Rightarrow> dcache \<Rightarrow> dcache" where
  "dcache_miss_detection i s =
     (let ix = unat (address_index s); off = unat (address_offset s) div 4;
          s0 = (if address_tag s = TAG (w0 s) ix then
                  (let s' = s\<lparr>way0_hit := LINE_VALIDATE (w0 s) ix\<rparr> in
                   if LOAD_SM i \<and> way0_hit s then s'\<lparr>DATA_SC := word (w0 s) ix off\<rparr> else s')
                else s\<lparr>way0_hit := False\<rparr>);
          s1 = (if address_tag s = TAG (w1 s) ix then
                  (let s' = s0\<lparr>way1_hit := LINE_VALIDATE (w1 s) ix\<rparr> in
                   if LOAD_SM i \<and> way1_hit s then s'\<lparr>DATA_SC := word (w1 s) ix off\<rparr> else s')
                else s0\<lparr>way1_hit := False\<rparr>)
      in s1\<lparr>miss := (\<not> way0_hit s \<and> \<not> way1_hit s),
            STALL_SC := (miss s \<and> LOAD_SM i \<or> STORE_SM i \<and> full i)\<rparr>)"

definition dcache_new_state :: "dcache_in \<Rightarrow> dcache \<Rightarrow> dcache" where
  "dcache_new_state i s =
     s\<lparr>current_state := (if RESET_N i then future_state s else IDLE)\<rparr>"

definition dcache_state_transition :: "dcache_in \<Rightarrow> dcache \<Rightarrow> dcache" where
  "dcache_state_transition i s =
     (if current_state s = IDLE then
        (if LOAD_SM i \<and> VALID_ADR_SM i then
           s\<lparr>future_state := (if miss s \<and> \<not> full i then WAIT_MEM else IDLE)\<rparr>
         else if STORE_SM i \<and> VALID_ADR_SM i then
           (if \<not> full i then s\<lparr>future_state := IDLE\<rparr> else s)
         else s\<lparr>future_state := IDLE\<rparr>)
      else if current_state s = WAIT_MEM then
        s\<lparr>future_state := (if SLAVE_ACK_SP i then UPDT else WAIT_MEM)\<rparr>
      else if current_state s = UPDT then
        s\<lparr>future_state := (if SLAVE_ACK_SP i then UPDT else IDLE)\<rparr>
      else s)"

text \<open>A half word at offset 2 has no case, and \<open>sc_uint\<close> starts as 0.\<close>

definition dcache_data_mask :: "dcache_in \<Rightarrow> u32" where
  "dcache_data_mask i =
     (let m = DATA_ADR_SM i AND 0x00000003 in
      if MEM_SIZE_SM i = 2 then
        (if m = 0 then 0x000000FF else if m = 1 then 0x0000FF00
         else if m = 2 then 0x00FF0000 else if m = 3 then 0xFF000000 else 0)
      else if MEM_SIZE_SM i = 1 then
        (if m = 0 then 0x0000FFFF else if m = 1 then 0xFFFF0000 else 0)
      else 0xFFFFFFFF)"

definition way_put :: "nat \<Rightarrow> nat \<Rightarrow> u32 \<Rightarrow> way \<Rightarrow> way" where
  "way_put ix k d w = w\<lparr>word := (word w)(ix := (word w ix)(k := d))\<rparr>"

definition way_claim :: "nat \<Rightarrow> 21 word \<Rightarrow> way \<Rightarrow> way" where
  "way_claim ix t w = w\<lparr>TAG := (TAG w)(ix := t), LINE_VALIDATE := (LINE_VALIDATE w)(ix := True)\<rparr>"

text \<open>\<open>dt = word; dt = dt & ~mask; dt = dt | (DATA_SM & mask); word = dt\<close>.\<close>

definition way_store :: "nat \<Rightarrow> nat \<Rightarrow> u32 \<Rightarrow> u32 \<Rightarrow> way \<Rightarrow> way" where
  "way_store ix k data msk w =
     (let dt = word w ix k; dt' = dt AND NOT msk; dt'' = dt' OR (data AND msk)
      in way_put ix k dt'' w)"

definition dcache_store :: "dcache_in \<Rightarrow> dcache \<Rightarrow> dcache" where
  "dcache_store i s =
     (let msk = dcache_data_mask i; ix = unat (address_index s);
          k = unat (address_offset s) div 4;
          s0 = s\<lparr>adr_sc := DATA_ADR_SM i AND 0xFFFFFFFC, data_mask_sc := msk\<rparr>
      in if miss s then
           (if LRU_bit_check s ix then
              s0\<lparr>w0 := way_claim ix (address_tag s) (way_store ix k (DATA_SM i) msk (w0 s))\<rparr>
            else s0\<lparr>w1 := way_claim ix (address_tag s) (way_store ix k (DATA_SM i) msk (w1 s))\<rparr>)
         else if way0_hit s then s0\<lparr>w0 := way_store ix k (DATA_SM i) msk (w0 s)\<rparr>
         else if way1_hit s then s0\<lparr>w1 := way_store ix k (DATA_SM i) msk (w1 s)\<rparr>
         else s0)"

text \<open>\<open>w[DT_A_MP.range(10,4)][burst_cpt++] = DT_SP\<close> in the way that \<open>LRU_bit_check\<close> selects.\<close>

definition dcache_burst_word :: "dcache_in \<Rightarrow> dcache \<Rightarrow> dcache option" where
  "dcache_burst_word i s =
     (let ix = unat (rng 10 4 (A_SP i) :: 7 word); k = burst_cpt s;
          s' = s\<lparr>burst_cpt := burst_cpt s + 1\<rparr>
      in if k < 4 then
           Some (if LRU_bit_check s ix then s'\<lparr>w0 := way_put ix k (DT_SP i) (w0 s)\<rparr>
                 else s'\<lparr>w1 := way_put ix k (DT_SP i) (w1 s)\<rparr>)
         else None)"

definition dcache_claim :: "dcache_in \<Rightarrow> dcache \<Rightarrow> dcache" where
  "dcache_claim i s =
     (let ix = unat (rng 10 4 (A_SP i) :: 7 word) in
      if LRU_bit_check s ix then s\<lparr>w0 := way_claim ix (rng 31 11 (A_SP i)) (w0 s)\<rparr>
      else s\<lparr>w1 := way_claim ix (rng 31 11 (A_SP i)) (w1 s)\<rparr>)"

definition dcache_mae_output :: "dcache_in \<Rightarrow> dcache \<Rightarrow> dcache option" where
  "dcache_mae_output i s =
     (if current_state s = IDLE then
        (let s' = s\<lparr>read_buff := True,
               write_buff := (LOAD_SM i \<and> miss s \<or> STORE_SM i) \<and> VALID_ADR_SM i \<and> \<not> full i,
               DTA_VALID_SC := \<not> empty i\<rparr>
         in Some (if STORE_SM i \<and> VALID_ADR_SM i then dcache_store i s' else s'))
      else if current_state s = WAIT_MEM then
        (if SLAVE_ACK_SP i then
           map_option (\<lambda>s'. (dcache_claim i s')\<lparr>DTA_VALID_SC := False, read_buff := False,
               mp_last_addr_offset := mp_address_offset s, write_buff := False\<rparr>)
             (dcache_burst_word i s)
         else Some (s\<lparr>DTA_VALID_SC := True, read_buff := True, burst_cpt := 0,
             write_buff := False\<rparr>))
      else if current_state s = UPDT then
        (let s' = s\<lparr>read_buff := True\<rparr>; mix = unat (mp_address_index s) in
         if \<not> SLAVE_ACK_SP i then
           Some (s'\<lparr>LRU_bit_check := (LRU_bit_check s)(mix := \<not> LRU_bit_check s mix)\<rparr>)
         else if unat (rng 3 0 (A_SP i) :: 4 word) = unat (mp_last_addr_offset s) + 4 then
           dcache_burst_word i (s'\<lparr>mp_last_addr_offset := rng 3 0 (A_SP i)\<rparr>)
         else Some s')
      else Some s)"

text \<open>A falling edge of the clock activates the four methods on the same signals.\<close>

definition dcache_clock :: "dcache_in \<Rightarrow> dcache \<Rightarrow> dcache option" where
  "dcache_clock i s =
     (let m = dcache_miss_detection i s; n = dcache_new_state i s;
          t = dcache_state_transition i s
      in map_option (\<lambda>s'. s'\<lparr>way0_hit := way0_hit m, way1_hit := way1_hit m, miss := miss m,
             DATA_SC := DATA_SC m, STALL_SC := STALL_SC m, current_state := current_state n,
             future_state := future_state t\<rparr>)
           (dcache_mae_output i s))"

text \<open>
  A change of the processor's inputs is parsed; \<open>miss_detection\<close> runs for the new address, for
  the new hits, and at the edge.
\<close>

definition dcache_access :: "dcache_in \<Rightarrow> dcache \<Rightarrow> dcache" where
  "dcache_access i s =
     dcache_miss_detection i (dcache_miss_detection i (dcache_miss_detection i
       (dcache_adresse_parcer i s)))"

subsection \<open>Loads\<close>

definition dcache_load_in :: "u32 \<Rightarrow> dcache_in" where
  "dcache_load_in a =
     \<lparr>RESET_N = True, DATA_ADR_SM = a, DATA_SM = 0, LOAD_SM = True, STORE_SM = False,
      VALID_ADR_SM = True, MEM_SIZE_SM = 0, DT_SP = 0, A_SP = 0, SLAVE_ACK_SP = False,
      full = False, empty = True\<rparr>"

definition dcache_lookup :: "dcache \<Rightarrow> u32 \<Rightarrow> u32 option" where
  "dcache_lookup s a =
     (let s' = dcache_access (dcache_load_in a) s
      in if STALL_SC s' then None else Some (DATA_SC s'))"

definition way_has :: "u32 \<Rightarrow> way \<Rightarrow> bool" where
  "way_has a w \<longleftrightarrow>
     (let ix = unat (rng 10 4 a :: 7 word) in TAG w ix = rng 31 11 a \<and> LINE_VALIDATE w ix)"

definition way_word :: "u32 \<Rightarrow> way \<Rightarrow> u32" where
  "way_word a w = word w (unat (rng 10 4 a :: 7 word)) (unat (rng 3 0 a :: 4 word) div 4)"

lemma dcache_miss_detection_sel:
  "w0 (dcache_miss_detection i s) = w0 s" "w1 (dcache_miss_detection i s) = w1 s"
  "LRU_bit_check (dcache_miss_detection i s) = LRU_bit_check s"
  "current_state (dcache_miss_detection i s) = current_state s"
  "future_state (dcache_miss_detection i s) = future_state s"
  "address_tag (dcache_miss_detection i s) = address_tag s"
  "address_index (dcache_miss_detection i s) = address_index s"
  "address_offset (dcache_miss_detection i s) = address_offset s"
  "way0_hit (dcache_miss_detection i s) =
     (address_tag s = TAG (w0 s) (unat (address_index s)) \<and>
      LINE_VALIDATE (w0 s) (unat (address_index s)))"
  "way1_hit (dcache_miss_detection i s) =
     (address_tag s = TAG (w1 s) (unat (address_index s)) \<and>
      LINE_VALIDATE (w1 s) (unat (address_index s)))"
  "miss (dcache_miss_detection i s) = (\<not> way0_hit s \<and> \<not> way1_hit s)"
  "STALL_SC (dcache_miss_detection i s) = (miss s \<and> LOAD_SM i \<or> STORE_SM i \<and> full i)"
  "DATA_SC (dcache_miss_detection i s) =
     (if LOAD_SM i \<and> way1_hit s \<and> address_tag s = TAG (w1 s) (unat (address_index s)) then
        word (w1 s) (unat (address_index s)) (unat (address_offset s) div 4)
      else if LOAD_SM i \<and> way0_hit s \<and> address_tag s = TAG (w0 s) (unat (address_index s)) then
        word (w0 s) (unat (address_index s)) (unat (address_offset s) div 4)
      else DATA_SC s)"
  by (simp_all add: dcache_miss_detection_def Let_def)

lemma dcache_adresse_parcer_sel [simp]:
  "w0 (dcache_adresse_parcer i s) = w0 s" "w1 (dcache_adresse_parcer i s) = w1 s"
  "LRU_bit_check (dcache_adresse_parcer i s) = LRU_bit_check s"
  "current_state (dcache_adresse_parcer i s) = current_state s"
  "future_state (dcache_adresse_parcer i s) = future_state s"
  "miss (dcache_adresse_parcer i s) = miss s"
  "way0_hit (dcache_adresse_parcer i s) = way0_hit s"
  "way1_hit (dcache_adresse_parcer i s) = way1_hit s"
  "burst_cpt (dcache_adresse_parcer i s) = burst_cpt s"
  "mp_last_addr_offset (dcache_adresse_parcer i s) = mp_last_addr_offset s"
  "address_tag (dcache_adresse_parcer i s) = rng 31 11 (DATA_ADR_SM i)"
  "address_index (dcache_adresse_parcer i s) = rng 10 4 (DATA_ADR_SM i)"
  "address_offset (dcache_adresse_parcer i s) = rng 3 0 (DATA_ADR_SM i)"
  "mp_address_tag (dcache_adresse_parcer i s) = rng 31 11 (A_SP i)"
  "mp_address_index (dcache_adresse_parcer i s) = rng 10 4 (A_SP i)"
  "mp_address_offset (dcache_adresse_parcer i s) = rng 3 0 (A_SP i)"
  by (simp_all add: dcache_adresse_parcer_def)

lemma dcache_access_frame [simp]:
  "w0 (dcache_access i s) = w0 s" "w1 (dcache_access i s) = w1 s"
  "LRU_bit_check (dcache_access i s) = LRU_bit_check s"
  "current_state (dcache_access i s) = current_state s"
  "future_state (dcache_access i s) = future_state s"
  "address_tag (dcache_access i s) = rng 31 11 (DATA_ADR_SM i)"
  "address_index (dcache_access i s) = rng 10 4 (DATA_ADR_SM i)"
  "address_offset (dcache_access i s) = rng 3 0 (DATA_ADR_SM i)"
  by (simp_all add: dcache_access_def dcache_miss_detection_sel)

lemma dcache_access_hits:
  "way0_hit (dcache_access i s) = way_has (DATA_ADR_SM i) (w0 s)"
  "way1_hit (dcache_access i s) = way_has (DATA_ADR_SM i) (w1 s)"
  "miss (dcache_access i s) =
     (\<not> way_has (DATA_ADR_SM i) (w0 s) \<and> \<not> way_has (DATA_ADR_SM i) (w1 s))"
  by (auto simp: dcache_access_def dcache_miss_detection_sel way_has_def Let_def)

lemma dcache_lookup_eq:
  "dcache_lookup s a =
     (if way_has a (w1 s) then Some (way_word a (w1 s))
      else if way_has a (w0 s) then Some (way_word a (w0 s)) else None)"
  by (auto simp: dcache_lookup_def dcache_access_def dcache_miss_detection_sel Let_def
      way_has_def way_word_def dcache_load_in_def)

subsection \<open>Refill\<close>

text \<open>The inputs change and are parsed, then the clock falls.\<close>

definition dcache_edge :: "dcache_in \<Rightarrow> dcache \<Rightarrow> dcache option" where
  "dcache_edge i s = dcache_clock i (dcache_adresse_parcer i s)"

fun dcache_edges :: "dcache_in list \<Rightarrow> dcache \<Rightarrow> dcache option" where
  "dcache_edges [] s = Some s"
| "dcache_edges (i # is) s = Option.bind (dcache_edge i s) (dcache_edges is)"

text \<open>
  A missing load is held while the machine leaves \<open>IDLE\<close> (two edges) and waits (one edge); then
  memory sends the four words of the line, one at each edge, and takes its acknowledgement
  back for the two edges in which the machine returns to \<open>IDLE\<close>.
\<close>

definition dcache_word_in :: "u32 \<Rightarrow> (nat \<Rightarrow> u32) \<Rightarrow> nat \<Rightarrow> dcache_in" where
  "dcache_word_in a m k =
     (dcache_load_in a)\<lparr>DT_SP := m (wnum (a AND 0xFFFFFFF0) + k),
       A_SP := (a AND 0xFFFFFFF0) + of_nat (4 * k), SLAVE_ACK_SP := True\<rparr>"

definition dcache_refill_inputs :: "u32 \<Rightarrow> (nat \<Rightarrow> u32) \<Rightarrow> dcache_in list" where
  "dcache_refill_inputs a m =
     replicate 3 (dcache_load_in a) @ map (dcache_word_in a m) [0..<4] @
     replicate 2 ((dcache_load_in a)\<lparr>A_SP := (a AND 0xFFFFFFF0) + 12\<rparr>)"

definition dcache_refill :: "dcache \<Rightarrow> u32 \<Rightarrow> (nat \<Rightarrow> u32) \<Rightarrow> dcache" where
  "dcache_refill s a m =
     (case dcache_edges (dcache_refill_inputs a m) (dcache_access (dcache_load_in a) s) of
        Some s' \<Rightarrow> s' | None \<Rightarrow> s)"

lemma line_add:
  fixes a :: u32
  assumes "k < 4"
  shows "rng 31 11 ((a AND 0xFFFFFFF0) + of_nat (4 * k)) = (rng 31 11 a :: 21 word)"
    "rng 10 4 ((a AND 0xFFFFFFF0) + of_nat (4 * k)) = (rng 10 4 a :: 7 word)"
    "rng 3 0 ((a AND 0xFFFFFFF0) + of_nat (4 * k)) = (of_nat (4 * k) :: 4 word)"
proof -
  define c where "c = (of_nat (4 * k) :: 4 word)"
  have k: "k = 0 \<or> k = 1 \<or> k = 2 \<or> k = 3" using assms by auto
  have c: "(of_nat (4 * k) :: u32) = ucast c" using k unfolding c_def by auto
  have mask: "(0xFFFFFFF0 :: u32) = NOT (mask 4)" by (simp add: mask_eq_exp_minus_1)
  have small: "bit c n \<Longrightarrow> n < 4" for n using bit_imp_le_length [of c n] by simp
  have "(a AND NOT (mask 4)) AND ucast c = 0"
    by (rule bit_word_eqI) (auto simp: bit_simps dest: small)
  then have add: "(a AND NOT (mask 4)) + ucast c = (a AND NOT (mask 4)) OR ucast c"
    by (rule disjunctive_add_eq_or)
  show "rng 31 11 ((a AND 0xFFFFFFF0) + of_nat (4 * k)) = (rng 31 11 a :: 21 word)"
    "rng 10 4 ((a AND 0xFFFFFFF0) + of_nat (4 * k)) = (rng 10 4 a :: 7 word)"
    "rng 3 0 ((a AND 0xFFFFFFF0) + of_nat (4 * k)) = (of_nat (4 * k) :: 4 word)"
    unfolding c c_def [symmetric] mask add
    by (rule bit_word_eqI; auto simp: bit_rng bit_simps dest: small)+
qed

text \<open>The two ways, and an operation on the one that the replacement bit selects.\<close>

definition dcache_ways :: "dcache \<Rightarrow> way \<times> way" where
  "dcache_ways s = (w0 s, w1 s)"

definition in_way :: "bool \<Rightarrow> (way \<Rightarrow> way) \<Rightarrow> way \<times> way \<Rightarrow> way \<times> way" where
  "in_way b f p = (if b then (f (fst p), snd p) else (fst p, f (snd p)))"

lemma in_way_in_way [simp]: "in_way b f (in_way b g p) = in_way b (\<lambda>w. f (g w)) p"
  by (simp add: in_way_def)

definition line_index :: "u32 \<Rightarrow> nat" where
  "line_index a = unat (rng 10 4 a :: 7 word)"

lemmas dcache_edge_simps = dcache_edge_def dcache_clock_def dcache_mae_output_def
  dcache_new_state_def dcache_state_transition_def dcache_ways_def in_way_def line_index_def Let_def

lemma dcache_edge_idle:
  assumes "current_state s = IDLE"
  shows "\<exists>s'. dcache_edge (dcache_load_in a) s = Some s' \<and> dcache_ways s' = dcache_ways s \<and>
    LRU_bit_check s' = LRU_bit_check s \<and> current_state s' = future_state s \<and>
    future_state s' = (if miss s then WAIT_MEM else IDLE) \<and>
    miss s' = (\<not> way0_hit s \<and> \<not> way1_hit s)"
  using assms by (simp add: dcache_edge_simps dcache_miss_detection_sel dcache_load_in_def)

lemma dcache_edge_wait:
  assumes "current_state s = WAIT_MEM"
  shows "\<exists>s'. dcache_edge (dcache_load_in a) s = Some s' \<and> dcache_ways s' = dcache_ways s \<and>
    LRU_bit_check s' = LRU_bit_check s \<and> burst_cpt s' = 0 \<and> current_state s' = future_state s \<and>
    future_state s' = WAIT_MEM"
  using assms by (simp add: dcache_edge_simps dcache_load_in_def)

lemma dcache_word_in_sel:
  "SLAVE_ACK_SP (dcache_word_in a m k)" "RESET_N (dcache_word_in a m k)"
  "A_SP (dcache_word_in a m k) = (a AND 0xFFFFFFF0) + of_nat (4 * k)"
  "DT_SP (dcache_word_in a m k) = m (wnum (a AND 0xFFFFFFF0) + k)"
  by (simp_all add: dcache_word_in_def dcache_load_in_def)

definition line_put :: "u32 \<Rightarrow> (nat \<Rightarrow> u32) \<Rightarrow> nat \<Rightarrow> way \<Rightarrow> way" where
  "line_put a m k = way_put (line_index a) k (m (wnum (a AND 0xFFFFFFF0) + k))"

text \<open>A word sent while the machine is in \<open>WAIT_MEM\<close>: it is stored and the line is claimed.\<close>

lemma dcache_edge_first:
  assumes "current_state s = WAIT_MEM" "burst_cpt s = k" "k < 4"
  shows "\<exists>s'. dcache_edge (dcache_word_in a m k) s = Some s' \<and>
    dcache_ways s' = in_way (LRU_bit_check s (line_index a))
      (\<lambda>w. way_claim (line_index a) (rng 31 11 a) (line_put a m k w)) (dcache_ways s) \<and>
    LRU_bit_check s' = LRU_bit_check s \<and> burst_cpt s' = k + 1 \<and>
    mp_last_addr_offset s' = of_nat (4 * k) \<and>
    current_state s' = future_state s \<and> future_state s' = UPDT"
  using assms
  by (auto simp add: dcache_edge_simps dcache_word_in_sel dcache_burst_word_def dcache_claim_def
      line_add line_put_def simp del: of_nat_mult)

text \<open>A word sent in \<open>UPDT\<close>, next to the last one.\<close>

lemma dcache_edge_next:
  assumes "current_state s = UPDT" "burst_cpt s = k" "k < 4"
    and "unat (mp_last_addr_offset s) + 4 = 4 * k"
  shows "\<exists>s'. dcache_edge (dcache_word_in a m k) s = Some s' \<and>
    dcache_ways s' = in_way (LRU_bit_check s (line_index a)) (line_put a m k) (dcache_ways s) \<and>
    LRU_bit_check s' = LRU_bit_check s \<and> burst_cpt s' = k + 1 \<and>
    mp_last_addr_offset s' = of_nat (4 * k) \<and>
    current_state s' = future_state s \<and> future_state s' = UPDT"
proof -
  have "unat (of_nat (4 * k) :: 4 word) = unat (mp_last_addr_offset s) + 4"
    using assms(3,4) by (simp add: unat_of_nat del: of_nat_mult)
  then show ?thesis
    using assms
    by (auto simp add: dcache_edge_simps dcache_word_in_sel dcache_burst_word_def
        line_add line_put_def simp del: of_nat_mult)
qed

text \<open>The end of the burst: each such edge flips the replacement bit of the line.\<close>

lemma dcache_edge_end:
  assumes "current_state s = UPDT"
  shows "\<exists>s'. dcache_edge ((dcache_load_in a)\<lparr>A_SP := (a AND 0xFFFFFFF0) + 12\<rparr>) s = Some s' \<and>
    dcache_ways s' = dcache_ways s \<and>
    LRU_bit_check s' =
      (LRU_bit_check s)(line_index a := \<not> LRU_bit_check s (line_index a)) \<and>
    current_state s' = future_state s \<and> future_state s' = IDLE"
  using assms line_add [of 3 a] by (simp add: dcache_edge_simps dcache_load_in_def)

definition way_filled :: "u32 \<Rightarrow> (nat \<Rightarrow> u32) \<Rightarrow> way \<Rightarrow> way" where
  "way_filled a m w =
     way_claim (line_index a) (rng 31 11 a)
       (w\<lparr>word := (word w)(line_index a := (\<lambda>k. if k < 4 then m (wnum (a AND 0xFFFFFFF0) + k)
                                               else word w (line_index a) k))\<rparr>)"

lemma line_puts:
  "line_put a m 3 (line_put a m 2 (way_claim (line_index a) (rng 31 11 a) (line_put a m 1
     (way_claim (line_index a) (rng 31 11 a) (line_put a m 0 w))))) = way_filled a m w"
proof -
  have "(v(0 := f 0, 1 := f 1, 2 := f 2, 3 := f 3)) = (\<lambda>k. if k < 4 then f k else v k)"
    for v f :: "nat \<Rightarrow> u32"
    by (rule ext) (auto simp: less_Suc_eq numeral_eq_Suc)
  from this [of "word w (line_index a)" "\<lambda>k. m (wnum (a AND 0xFFFFFFF0) + k)"] show ?thesis
    by (simp add: line_put_def way_put_def way_claim_def way_filled_def fun_upd_twist)
qed

lemma upt_4: "[0..<4] = [0, 1, 2, 3]"
  by (simp add: upt_rec)

text \<open>From the miss to the first word: three edges.\<close>

lemma dcache_edges_to_wait:
  assumes "current_state s = IDLE" "future_state s = IDLE"
    and "miss s" "\<not> way0_hit s" "\<not> way1_hit s"
  shows "\<exists>s'. dcache_edges (replicate 3 (dcache_load_in a)) s = Some s' \<and>
    dcache_ways s' = dcache_ways s \<and> LRU_bit_check s' = LRU_bit_check s \<and> burst_cpt s' = 0 \<and>
    current_state s' = WAIT_MEM \<and> future_state s' = WAIT_MEM"
proof -
  obtain s1 where s1: "dcache_edge (dcache_load_in a) s = Some s1" "dcache_ways s1 = dcache_ways s"
    "LRU_bit_check s1 = LRU_bit_check s" "current_state s1 = IDLE" "future_state s1 = WAIT_MEM"
    using dcache_edge_idle [of s a] assms by auto
  obtain s2 where s2: "dcache_edge (dcache_load_in a) s1 = Some s2" "dcache_ways s2 = dcache_ways s"
    "LRU_bit_check s2 = LRU_bit_check s" "current_state s2 = WAIT_MEM" "future_state s2 = WAIT_MEM"
    using dcache_edge_idle [of s1 a] dcache_edge_idle [of s a] assms s1 by auto
  show ?thesis
    using dcache_edge_wait [of s2 a] s1 s2 by (auto simp: numeral_eq_Suc)
qed

text \<open>The words of the line: two edges in \<open>WAIT_MEM\<close> and two in \<open>UPDT\<close>.\<close>

lemma dcache_edges_words:
  assumes "current_state s = WAIT_MEM" "future_state s = WAIT_MEM" "burst_cpt s = 0"
  shows "\<exists>s'. dcache_edges (map (dcache_word_in a m) [0..<4]) s = Some s' \<and>
    dcache_ways s' = in_way (LRU_bit_check s (line_index a)) (way_filled a m) (dcache_ways s) \<and>
    LRU_bit_check s' = LRU_bit_check s \<and> current_state s' = UPDT \<and> future_state s' = UPDT"
proof -
  obtain s1 where s1: "dcache_edge (dcache_word_in a m 0) s = Some s1"
    "LRU_bit_check s1 = LRU_bit_check s" "current_state s1 = WAIT_MEM" "future_state s1 = UPDT"
    "burst_cpt s1 = 1" "dcache_ways s1 = in_way (LRU_bit_check s (line_index a))
      (\<lambda>w. way_claim (line_index a) (rng 31 11 a) (line_put a m 0 w)) (dcache_ways s)"
    using dcache_edge_first [of s 0 a m] assms by auto
  obtain s2 where s2: "dcache_edge (dcache_word_in a m 1) s1 = Some s2"
    "LRU_bit_check s2 = LRU_bit_check s" "current_state s2 = UPDT" "future_state s2 = UPDT"
    "burst_cpt s2 = 2" "mp_last_addr_offset s2 = 4"
    "dcache_ways s2 = in_way (LRU_bit_check s (line_index a))
      (\<lambda>w. way_claim (line_index a) (rng 31 11 a) (line_put a m 1 w)) (dcache_ways s1)"
    using dcache_edge_first [of s1 1 a m] s1 by auto
  obtain s3 where s3: "dcache_edge (dcache_word_in a m 2) s2 = Some s3"
    "LRU_bit_check s3 = LRU_bit_check s" "current_state s3 = UPDT" "future_state s3 = UPDT"
    "burst_cpt s3 = 3" "mp_last_addr_offset s3 = 8"
    "dcache_ways s3 = in_way (LRU_bit_check s (line_index a)) (line_put a m 2) (dcache_ways s2)"
    using dcache_edge_next [of s2 2 a m] s2 by auto
  show ?thesis
    using dcache_edge_next [of s3 3 a m] s1 s2 s3 line_puts [of a m] by (auto simp: upt_4)
qed

text \<open>The end: two edges, so the replacement bit flips twice and is back at its old value.\<close>

lemma dcache_edges_end:
  assumes "current_state s = UPDT" "future_state s = UPDT"
  shows "\<exists>s'. dcache_edges (replicate 2 ((dcache_load_in a)\<lparr>A_SP := (a AND 0xFFFFFFF0) + 12\<rparr>)) s =
      Some s' \<and> dcache_ways s' = dcache_ways s \<and> LRU_bit_check s' = LRU_bit_check s \<and>
    current_state s' = IDLE \<and> future_state s' = IDLE"
proof -
  obtain s1 where s1: "dcache_edge ((dcache_load_in a)\<lparr>A_SP := (a AND 0xFFFFFFF0) + 12\<rparr>) s = Some s1"
    "dcache_ways s1 = dcache_ways s" "current_state s1 = UPDT" "future_state s1 = IDLE"
    "LRU_bit_check s1 =
      (LRU_bit_check s)(line_index a := \<not> LRU_bit_check s (line_index a))"
    using dcache_edge_end [of s a] assms by auto
  show ?thesis
    using dcache_edge_end [of s1 a] s1 by (auto simp: numeral_eq_Suc)
qed

lemma dcache_edges_append:
  "dcache_edges (xs @ ys) s = Option.bind (dcache_edges xs s) (dcache_edges ys)"
proof (induction xs arbitrary: s)
  case (Cons i xs)
  then show ?case by (cases "dcache_edge i s") simp_all
qed simp

lemma dcache_refill_edges:
  assumes "current_state s = IDLE" "future_state s = IDLE"
    and "\<not> way_has a (w0 s)" "\<not> way_has a (w1 s)"
  shows "\<exists>s'. dcache_edges (dcache_refill_inputs a m) (dcache_access (dcache_load_in a) s) = Some s' \<and>
    dcache_ways s' = in_way (LRU_bit_check s (line_index a)) (way_filled a m) (dcache_ways s) \<and>
    LRU_bit_check s' = LRU_bit_check s \<and> current_state s' = IDLE \<and> future_state s' = IDLE"
proof -
  define s0 where "s0 = dcache_access (dcache_load_in a) s"
  have "DATA_ADR_SM (dcache_load_in a) = a" by (simp add: dcache_load_in_def)
  then have s0: "current_state s0 = IDLE" "future_state s0 = IDLE" "dcache_ways s0 = dcache_ways s"
    "LRU_bit_check s0 = LRU_bit_check s" "miss s0" "\<not> way0_hit s0" "\<not> way1_hit s0"
    using assms by (simp_all add: s0_def dcache_access_hits dcache_ways_def)
  obtain s1 where s1: "dcache_edges (replicate 3 (dcache_load_in a)) s0 = Some s1"
    "dcache_ways s1 = dcache_ways s" "LRU_bit_check s1 = LRU_bit_check s" "burst_cpt s1 = 0"
    "current_state s1 = WAIT_MEM" "future_state s1 = WAIT_MEM"
    using dcache_edges_to_wait [of s0 a] s0 by auto
  obtain s2 where s2: "dcache_edges (map (dcache_word_in a m) [0..<4]) s1 = Some s2"
    "dcache_ways s2 = in_way (LRU_bit_check s (line_index a)) (way_filled a m) (dcache_ways s)"
    "LRU_bit_check s2 = LRU_bit_check s" "current_state s2 = UPDT" "future_state s2 = UPDT"
    using dcache_edges_words [of s1 a m] s1 by auto
  show ?thesis
    using dcache_edges_end [of s2 a] s1 s2
    by (auto simp: dcache_refill_inputs_def dcache_edges_append s0_def [symmetric])
qed

subsection \<open>The cache as a read cache\<close>

text \<open>The valid lines of a way hold what memory holds, and no line is in both ways.\<close>

definition way_coherent :: "way \<Rightarrow> (nat \<Rightarrow> u32) \<Rightarrow> bool" where
  "way_coherent w m \<longleftrightarrow>
     (\<forall>ix < 128. LINE_VALIDATE w ix \<longrightarrow>
        (\<forall>k < 4. word w ix k = m ((unat (TAG w ix) * 128 + ix) * 4 + k)))"

definition dcache_exclusive :: "dcache \<Rightarrow> bool" where
  "dcache_exclusive s \<longleftrightarrow>
     (\<forall>ix < 128. LINE_VALIDATE (w0 s) ix \<longrightarrow> LINE_VALIDATE (w1 s) ix \<longrightarrow>
        TAG (w0 s) ix \<noteq> TAG (w1 s) ix)"

definition dcache_coherent :: "dcache \<Rightarrow> (nat \<Rightarrow> u32) \<Rightarrow> bool" where
  "dcache_coherent s m \<longleftrightarrow>
     current_state s = IDLE \<and> future_state s = IDLE \<and>
     way_coherent (w0 s) m \<and> way_coherent (w1 s) m \<and> dcache_exclusive s"

lemma wnum_dcache:
  "wnum a = (unat (rng 31 11 a :: 21 word) * 128 + line_index a) * 4 +
     unat (rng 3 0 a :: 4 word) div 4"
proof -
  have "unat a div 16 div 128 * 128 + unat a div 16 mod 128 = unat a div 16"
    by (rule div_mult_mod_eq)
  moreover have "unat a div 2048 mod 2097152 = unat a div 16 div 128"
    using unat_u32 [of a] by (simp add: div_mult2_eq [symmetric] less_mult_imp_div_less)
  ultimately show ?thesis
    using div_split [of "unat a"] by (simp add: wnum_def unat_rng line_index_def)
qed

lemma wnum_dcache_line:
  "wnum (a AND 0xFFFFFFF0) = (unat (rng 31 11 a :: 21 word) * 128 + line_index a) * 4"
proof -
  have "wnum (a AND 0xFFFFFFF0) = wnum a - unat a mod 16 div 4"
    using div_split [of "unat a"] by (simp add: wnum_line) (simp add: wnum_def)
  then show ?thesis unfolding wnum_dcache [of a] by (simp add: unat_rng)
qed

lemma line_bounds [simp]: "line_index a < 128" "unat (rng 3 0 a :: 4 word) div 4 < 4"
  by (simp_all add: unat_rng line_index_def)

lemma way_coherent_word:
  assumes "way_coherent w m" "way_has a w"
  shows "way_word a w = m (wnum a)"
  using assms line_bounds [of a] unfolding wnum_dcache [of a]
  by (simp add: way_coherent_def way_has_def way_word_def Let_def line_index_def)

lemma way_filled_coherent: "way_coherent w m \<Longrightarrow> way_coherent (way_filled a m w) m"
  by (auto simp: way_coherent_def way_filled_def way_claim_def wnum_dcache_line)

lemma way_filled_has: "way_has a (way_filled a m w)"
  by (simp add: way_has_def way_filled_def way_claim_def line_index_def Let_def)

lemma dcache_coherent_hit:
  "dcache_coherent s m \<Longrightarrow> dcache_lookup s a = Some v \<Longrightarrow> v = m (wnum a)"
  using way_coherent_word by (auto simp: dcache_coherent_def dcache_lookup_eq split: if_splits)

lemma dcache_refill_fills:
  assumes "dcache_coherent s m" "dcache_lookup s a = None"
  shows "dcache_ways (dcache_refill s a m) =
      in_way (LRU_bit_check s (line_index a)) (way_filled a m) (dcache_ways s)"
    "current_state (dcache_refill s a m) = IDLE" "future_state (dcache_refill s a m) = IDLE"
proof -
  have "\<not> way_has a (w0 s)" "\<not> way_has a (w1 s)"
    using assms(2) by (simp_all add: dcache_lookup_eq split: if_splits)
  then obtain s' where
    "dcache_edges (dcache_refill_inputs a m) (dcache_access (dcache_load_in a) s) = Some s'"
    "dcache_ways s' = in_way (LRU_bit_check s (line_index a)) (way_filled a m) (dcache_ways s)"
    "current_state s' = IDLE" "future_state s' = IDLE"
    using dcache_refill_edges [of s a m] assms(1) by (auto simp: dcache_coherent_def)
  then show "dcache_ways (dcache_refill s a m) =
      in_way (LRU_bit_check s (line_index a)) (way_filled a m) (dcache_ways s)"
    "current_state (dcache_refill s a m) = IDLE" "future_state (dcache_refill s a m) = IDLE"
    by (simp_all add: dcache_refill_def)
qed

lemma dcache_refill_coherent:
  assumes "dcache_coherent s m" "dcache_lookup s a = None"
  shows "dcache_coherent (dcache_refill s a m) m"
proof -
  have "\<not> way_has a (w0 s)" "\<not> way_has a (w1 s)"
    using assms(2) by (simp_all add: dcache_lookup_eq split: if_splits)
  then have "dcache_exclusive (dcache_refill s a m)"
    using assms(1) dcache_refill_fills(1) [OF assms]
    by (auto simp: dcache_coherent_def dcache_exclusive_def dcache_ways_def in_way_def
        way_filled_def way_claim_def way_has_def line_index_def Let_def split: if_splits)
  then show ?thesis
    using assms(1) dcache_refill_fills [OF assms] way_filled_coherent
    by (auto simp: dcache_coherent_def dcache_ways_def in_way_def split: if_splits)
qed

lemma dcache_refill_hit:
  assumes "dcache_coherent s m" "dcache_lookup s a = None"
  shows "dcache_lookup (dcache_refill s a m) a \<noteq> None"
  using dcache_refill_fills(1) [OF assms] way_filled_has [of a m]
  by (auto simp: dcache_lookup_eq dcache_ways_def in_way_def split: if_splits)

interpretation dc: read_cache dcache_lookup dcache_refill dcache_coherent
  by unfold_locales
    (blast intro: dcache_coherent_hit dcache_refill_coherent dest: dcache_refill_hit)+

subsection \<open>Stores\<close>

text \<open>
  The specification: a store replaces the addressed byte lanes of one word of memory (the memory
  stage has already shifted the data into its lanes).
\<close>

definition mem_store :: "dcache_in \<Rightarrow> (nat \<Rightarrow> u32) \<Rightarrow> nat \<Rightarrow> u32" where
  "mem_store i m =
     (let n = wnum (DATA_ADR_SM i); msk = store_mask (DATA_ADR_SM i) (MEM_SIZE_SM i)
      in m(n := (m n AND NOT msk) OR (DATA_SM i AND msk)))"

definition dcache_stores :: "dcache_in \<Rightarrow> bool" where
  "dcache_stores i \<longleftrightarrow> RESET_N i \<and> STORE_SM i \<and> \<not> LOAD_SM i \<and> VALID_ADR_SM i \<and> \<not> full i"

definition dcache_store_edge :: "dcache_in \<Rightarrow> dcache \<Rightarrow> dcache option" where
  "dcache_store_edge i s = dcache_edge i (dcache_access i s)"

lemma dcache_data_mask_correct:
  assumes "store_aligned (DATA_ADR_SM i) (MEM_SIZE_SM i)"
    and "\<not> (MEM_SIZE_SM i = 1 \<and> DATA_ADR_SM i AND 3 = 2)"
  shows "dcache_data_mask i = store_mask (DATA_ADR_SM i) (MEM_SIZE_SM i)"
  using assms low2_cases [of "DATA_ADR_SM i"]
  by (auto simp: dcache_data_mask_def store_mask_def store_aligned_def Let_def
      mask_eq_exp_minus_1 low1_low2 [of "DATA_ADR_SM i"])

lemma dcache_store_edge_ways:
  assumes "dcache_stores i" "current_state s = IDLE" "future_state s = IDLE"
  defines "a \<equiv> DATA_ADR_SM i"
  defines "f \<equiv> way_store (line_index a) (unat (rng 3 0 a :: 4 word) div 4) (DATA_SM i)
      (dcache_data_mask i)"
  shows "\<exists>s'. dcache_store_edge i s = Some s' \<and>
    current_state s' = IDLE \<and> future_state s' = IDLE \<and> LRU_bit_check s' = LRU_bit_check s \<and>
    dcache_ways s' =
      (if way_has a (w0 s) then (f (w0 s), w1 s)
       else if way_has a (w1 s) then (w0 s, f (w1 s))
       else in_way (LRU_bit_check s (line_index a))
         (\<lambda>w. way_claim (line_index a) (rng 31 11 a) (f w)) (dcache_ways s))"
proof -
  define s0 where "s0 = dcache_access i s"
  have s0: "current_state s0 = IDLE" "future_state s0 = IDLE" "w0 s0 = w0 s" "w1 s0 = w1 s"
    "LRU_bit_check s0 = LRU_bit_check s" "way0_hit s0 = way_has a (w0 s)"
    "way1_hit s0 = way_has a (w1 s)" "miss s0 = (\<not> way_has a (w0 s) \<and> \<not> way_has a (w1 s))"
    using assms(2,3) by (simp_all add: s0_def a_def dcache_access_hits)
  have "\<exists>s'. dcache_edge i s0 = Some s' \<and>
    current_state s' = IDLE \<and> future_state s' = IDLE \<and> LRU_bit_check s' = LRU_bit_check s \<and>
    dcache_ways s' =
      (if way_has a (w0 s) then (f (w0 s), w1 s)
       else if way_has a (w1 s) then (w0 s, f (w1 s))
       else in_way (LRU_bit_check s (line_index a))
         (\<lambda>w. way_claim (line_index a) (rng 31 11 a) (f w)) (dcache_ways s))"
    using s0 assms(1) unfolding f_def a_def
    by (cases "way_has (DATA_ADR_SM i) (w0 s)"; cases "way_has (DATA_ADR_SM i) (w1 s)")
      (simp_all add: dcache_edge_simps dcache_stores_def dcache_store_def)
  then show ?thesis by (simp add: dcache_store_edge_def s0_def)
qed

lemma digits_unique:
  fixes x y i j b :: nat
  assumes "x * b + i = y * b + j" "i < b" "j < b"
  shows "x = y \<and> i = j"
proof -
  have "(x * b + i) div b = x" "(x * b + i) mod b = i" "(y * b + j) div b = y" "(y * b + j) mod b = j"
    using assms(2,3) by simp_all
  then show ?thesis using assms(1) by metis
qed

lemma line_unique:
  fixes x y i j k l :: nat
  assumes "(x * 128 + i) * 4 + k = (y * 128 + j) * 4 + l" "i < 128" "j < 128" "k < 4" "l < 4"
  shows "x = y \<and> i = j \<and> k = l"
  using digits_unique [OF assms(1,4,5)] digits_unique [of x 128 i y j] assms(2,3) by blast

lemma way_store_coherent:
  assumes "way_coherent w m" "way_has a w"
  shows "way_coherent (way_store (line_index a) (unat (rng 3 0 a :: 4 word) div 4) d msk w)
    (m(wnum a := (m (wnum a) AND NOT msk) OR (d AND msk)))"
proof -
  have old: "word w (line_index a) (unat (rng 3 0 a :: 4 word) div 4) = m (wnum a)"
    using way_coherent_word [OF assms] by (simp add: way_word_def line_index_def)
  have inj: "(x * 128 + i) * 4 + k = wnum a \<longleftrightarrow>
      x = unat (rng 31 11 a :: 21 word) \<and> i = line_index a \<and> k = unat (rng 3 0 a :: 4 word) div 4"
    if "i < 128" "k < 4" for x i k
    using line_unique that line_bounds [of a] unfolding wnum_dcache by blast
  have tag: "TAG w (line_index a) = rng 31 11 a"
    using assms(2) by (simp add: way_has_def line_index_def Let_def)
  show ?thesis
    using assms(1) old tag inj
    by (auto simp: way_coherent_def way_store_def way_put_def Let_def)
qed

lemma way_without_coherent:
  assumes "way_coherent w m" "\<not> way_has a w"
  shows "way_coherent w (m(wnum a := v))"
proof -
  have "(unat (TAG w i) * 128 + i) * 4 + k \<noteq> wnum a"
    if "i < 128" "k < 4" "LINE_VALIDATE w i" for i k
  proof
    assume "(unat (TAG w i) * 128 + i) * 4 + k = wnum a"
    then have "unat (TAG w i) = unat (rng 31 11 a :: 21 word)" "i = line_index a"
      using line_unique that line_bounds [of a] unfolding wnum_dcache by blast+
    then show False
      using that(3) assms(2) by (auto simp: way_has_def line_index_def Let_def dest: unsigned_word_eqI)
  qed
  then show ?thesis using assms(1) by (simp add: way_coherent_def)
qed

lemma way_store_tags [simp]:
  "TAG (way_store ix k d msk w) = TAG w" "LINE_VALIDATE (way_store ix k d msk w) = LINE_VALIDATE w"
  by (simp_all add: way_store_def way_put_def Let_def)

lemma way_store_has [simp]: "way_has b (way_store ix k d msk w) = way_has b w"
  by (simp add: way_has_def)

lemma exclusive_not_both: "dcache_exclusive s \<Longrightarrow> way_has a (w0 s) \<Longrightarrow> \<not> way_has a (w1 s)"
  using line_bounds [of a] by (auto simp: dcache_exclusive_def way_has_def line_index_def Let_def)

lemma dcache_lookup_hit: "dcache_lookup s a \<noteq> None \<longleftrightarrow> way_has a (w0 s) \<or> way_has a (w1 s)"
  by (simp add: dcache_lookup_eq)

lemma dcache_store_hit:
  assumes "dcache_coherent s m" "dcache_stores i" "dcache_lookup s (DATA_ADR_SM i) \<noteq> None"
    and msk: "dcache_data_mask i = msk"
  shows "\<exists>s'. dcache_store_edge i s = Some s' \<and>
    dcache_coherent s' (m(wnum (DATA_ADR_SM i) :=
      (m (wnum (DATA_ADR_SM i)) AND NOT msk) OR (DATA_SM i AND msk))) \<and>
    dcache_lookup s' (DATA_ADR_SM i) \<noteq> None"
proof -
  let ?a = "DATA_ADR_SM i"
  let ?f = "way_store (line_index ?a) (unat (rng 3 0 ?a :: 4 word) div 4) (DATA_SM i) msk"
  let ?m = "m(wnum ?a := (m (wnum ?a) AND NOT msk) OR (DATA_SM i AND msk))"
  have s: "current_state s = IDLE" "future_state s = IDLE" "way_coherent (w0 s) m"
    "way_coherent (w1 s) m" "dcache_exclusive s"
    using assms(1) by (simp_all add: dcache_coherent_def)
  obtain s' where s': "dcache_store_edge i s = Some s'" "current_state s' = IDLE"
    "future_state s' = IDLE" "dcache_ways s' =
      (if way_has ?a (w0 s) then (?f (w0 s), w1 s) else (w0 s, ?f (w1 s)))"
    using dcache_store_edge_ways [OF assms(2) s(1,2)] assms(3) msk dcache_lookup_hit [of s ?a]
    by (auto split: if_splits)
  have "dcache_exclusive s'"
    using s(5) s'(4) by (auto simp: dcache_exclusive_def dcache_ways_def split: if_splits)
  moreover have "way_coherent (w0 s') ?m \<and> way_coherent (w1 s') ?m"
    using s' s exclusive_not_both [of s ?a] assms(3) dcache_lookup_hit [of s ?a]
    by (auto simp: dcache_ways_def split: if_splits
        intro: way_store_coherent way_without_coherent)
  moreover have "way_has ?a (w0 s') \<or> way_has ?a (w1 s')"
    using s'(4) assms(3) dcache_lookup_hit [of s ?a] by (auto simp: dcache_ways_def split: if_splits)
  ultimately show ?thesis
    using s'(1-3) dcache_lookup_hit [of s' ?a] by (auto simp: dcache_coherent_def)
qed

lemma line_of: "k < 4 \<Longrightarrow> (n * 4 + k) div 4 = n" for n k :: nat
  by simp

lemma same_line:
  assumes "wnum b div 4 = wnum a div 4"
  shows "line_index b = line_index a" "(rng 31 11 b :: 21 word) = rng 31 11 a"
proof -
  have "unat (rng 31 11 b :: 21 word) * 128 + line_index b =
      unat (rng 31 11 a :: 21 word) * 128 + line_index a"
    using assms unfolding wnum_dcache [of a] wnum_dcache [of b]
    by (simp only: line_of line_bounds)
  from digits_unique [OF this] have "line_index b = line_index a"
    "unat (rng 31 11 b :: 21 word) = unat (rng 31 11 a :: 21 word)"
    by simp_all
  then show "line_index b = line_index a" "(rng 31 11 b :: 21 word) = rng 31 11 a"
    by (auto dest: unsigned_word_eqI)
qed

subsection \<open>Properties\<close>

definition way_empty :: way where
  "way_empty = \<lparr>word = (\<lambda>ix k. 0), TAG = (\<lambda>ix. 0), LINE_VALIDATE = (\<lambda>ix. False)\<rparr>"

definition dcache_example :: dcache where
  "dcache_example =
     \<lparr>w0 = way_empty, w1 = way_empty, LRU_bit_check = (\<lambda>ix. False), address_tag = 0,
      address_index = 0, address_offset = 0, mp_address_tag = 0, mp_address_index = 0,
      mp_address_offset = 0, mp_last_addr_offset = 0, way0_hit = False, way1_hit = False,
      miss = True, DATA_SC = 0, STALL_SC = False, DTA_VALID_SC = False, write_buff = False,
      read_buff = True, adr_sc = 0, data_mask_sc = 0, burst_cpt = 0, current_state = IDLE,
      future_state = IDLE\<rparr>"

lemma dcache_example_coherent: "dcache_coherent dcache_example m"
  by (simp add: dcache_example_def way_empty_def dcache_coherent_def way_coherent_def
      dcache_exclusive_def)

text \<open>A cache that holds the line of \<open>0x1000\<close> of a zero memory.\<close>

definition dcache_loaded :: dcache where
  "dcache_loaded = dcache_example\<lparr>w1 := way_claim 0 2 way_empty\<rparr>"

lemma dcache_loaded_coherent: "dcache_coherent dcache_loaded (\<lambda>n. 0)"
  by (simp add: dcache_loaded_def dcache_example_def way_empty_def way_claim_def dcache_coherent_def
      way_coherent_def dcache_exclusive_def)

definition store_half :: "u32 \<Rightarrow> u32 \<Rightarrow> dcache_in" where
  "store_half a d = (dcache_load_in a)\<lparr>LOAD_SM := False, STORE_SM := True, MEM_SIZE_SM := 1,
     DATA_SM := d\<rparr>"



text \<open>
  C34: a store that hits writes exactly the addressed byte lanes into the cached word, so the
  cache agrees with memory after the write-through, for bytes, words and half words in the
  lower half of a word; in particular a following load of the address hits and returns the
  updated word.
\<close>

theorem dcache_store_coherent:
  assumes "dcache_coherent s m" "dcache_stores i" "dcache_lookup s (DATA_ADR_SM i) \<noteq> None"
    and "store_aligned (DATA_ADR_SM i) (MEM_SIZE_SM i)"
    and "\<not> (MEM_SIZE_SM i = 1 \<and> DATA_ADR_SM i AND 3 = 2)"
  shows "\<exists>s'. dcache_store_edge i s = Some s' \<and> dcache_coherent s' (mem_store i m) \<and>
    dcache_lookup s' (DATA_ADR_SM i) = Some (mem_store i m (wnum (DATA_ADR_SM i)))"
proof -
  obtain s' where "dcache_store_edge i s = Some s'" "dcache_coherent s' (mem_store i m)"
    "dcache_lookup s' (DATA_ADR_SM i) \<noteq> None"
    using dcache_store_hit [OF assms(1-3) dcache_data_mask_correct [OF assms(4,5)]]
    by (auto simp: mem_store_def Let_def)
  then show ?thesis using dcache_coherent_hit by fastforce
qed

theorem dcache_store_coherent_witness:
  "\<exists>s'. dcache_store_edge (store_half 0x1004 0xABCD) dcache_loaded = Some s' \<and>
    dcache_lookup s' 0x1004 = Some 0xABCD"
proof -
  have adr: "(0x1004 :: u32) AND 3 = 0" "(0x1004 :: u32) AND 1 = 0" by simp_all
  have "dcache_lookup dcache_loaded 0x1004 \<noteq> None"
    unfolding dcache_lookup_hit by (simp add: way_has_def dcache_loaded_def way_claim_def rng_def)
  then show ?thesis
    using dcache_store_coherent [OF dcache_loaded_coherent, of "store_half 0x1004 0xABCD"] adr
    by (auto simp: store_half_def dcache_load_in_def dcache_stores_def store_aligned_def
        mem_store_def store_mask_def mask_eq_exp_minus_1 Let_def)
qed

text \<open>
  A half word stored into the upper half of a cached word is not written into the cache,
  while memory receives it: a following load hits and returns the old word.
\<close>

theorem dcache_upper_half_lost:
  assumes "dcache_coherent s m" "dcache_stores i" "dcache_lookup s (DATA_ADR_SM i) \<noteq> None"
    and "MEM_SIZE_SM i = 1" "DATA_ADR_SM i AND 3 = 2"
  shows "\<exists>s'. dcache_store_edge i s = Some s' \<and>
    dcache_lookup s' (DATA_ADR_SM i) = Some (m (wnum (DATA_ADR_SM i))) \<and>
    mem_store i m (wnum (DATA_ADR_SM i)) =
      (m (wnum (DATA_ADR_SM i)) AND 0xFFFF) OR (DATA_SM i AND 0xFFFF0000)"
proof -
  have msk: "dcache_data_mask i = 0"
    using assms(4,5) by (simp add: dcache_data_mask_def Let_def)
  have lanes: "store_mask (DATA_ADR_SM i) (MEM_SIZE_SM i) = 0xFFFF0000"
    using assms(4,5) by (simp add: store_mask_def mask_eq_exp_minus_1)
  obtain s' where "dcache_store_edge i s = Some s'" "dcache_coherent s' m"
    "dcache_lookup s' (DATA_ADR_SM i) \<noteq> None"
    using dcache_store_hit [OF assms(1-3) msk] by auto
  moreover from this have "dcache_lookup s' (DATA_ADR_SM i) = Some (m (wnum (DATA_ADR_SM i)))"
    using dcache_coherent_hit by auto
  moreover have "x AND NOT 0xFFFF0000 = x AND 0xFFFF" for x :: u32
  proof -
    have "NOT (0xFFFF0000 :: u32) = 0xFFFF" by simp
    then show ?thesis by (simp only:)
  qed
  ultimately show ?thesis by (simp only: mem_store_def Let_def lanes) simp
qed

theorem dcache_upper_half_lost_witness:
  "\<exists>s'. dcache_store_edge (store_half 0x1006 0xABCD0000) dcache_loaded = Some s' \<and>
    dcache_lookup s' 0x1006 = Some 0 \<and>
    mem_store (store_half 0x1006 0xABCD0000) (\<lambda>n. 0) (wnum 0x1006) = 0xABCD0000"
proof -
  have "dcache_lookup dcache_loaded 0x1006 \<noteq> None"
    unfolding dcache_lookup_hit by (simp add: way_has_def dcache_loaded_def way_claim_def rng_def)
  then show ?thesis
    using dcache_upper_half_lost [OF dcache_loaded_coherent, of "store_half 0x1006 0xABCD0000"]
    by (auto simp: store_half_def dcache_load_in_def dcache_stores_def)
qed

text \<open>
  A store that misses makes its whole line valid although only one word is new: loads of
  the other words of the line then hit and return what the replaced line held there.
\<close>

theorem dcache_store_miss_stale:
  assumes "current_state s = IDLE" "future_state s = IDLE" "dcache_stores i"
    and "dcache_lookup s (DATA_ADR_SM i) = None"
    and "wnum b div 4 = wnum (DATA_ADR_SM i) div 4" "wnum b \<noteq> wnum (DATA_ADR_SM i)"
  shows "\<exists>s'. dcache_store_edge i s = Some s' \<and>
    dcache_lookup s' b =
      Some (way_word b (if LRU_bit_check s (line_index b) then w0 s else w1 s))"
proof -
  let ?a = "DATA_ADR_SM i"
  have none: "\<not> way_has ?a (w0 s)" "\<not> way_has ?a (w1 s)"
    using assms(4) dcache_lookup_hit [of s ?a] by auto
  have line: "line_index b = line_index ?a" "(rng 31 11 b :: 21 word) = rng 31 11 ?a"
    using same_line [OF assms(5)] by blast+
  have offset: "unat (rng 3 0 b :: 4 word) div 4 \<noteq> unat (rng 3 0 ?a :: 4 word) div 4"
    using assms(6) line unfolding wnum_dcache [of b] wnum_dcache [of ?a] by simp
  obtain s' where "dcache_store_edge i s = Some s'" "dcache_ways s' =
      in_way (LRU_bit_check s (line_index ?a)) (\<lambda>w. way_claim (line_index ?a) (rng 31 11 ?a)
        (way_store (line_index ?a) (unat (rng 3 0 ?a :: 4 word) div 4) (DATA_SM i)
          (dcache_data_mask i) w)) (dcache_ways s)"
    using dcache_store_edge_ways [OF assms(3,1,2)] none by auto
  then show ?thesis
    using none line offset
    by (auto simp: dcache_lookup_eq dcache_ways_def in_way_def way_has_def way_word_def way_claim_def
        way_store_def way_put_def line_index_def Let_def split: if_splits)
qed

theorem dcache_store_miss_stale_witness:
  "\<exists>s'. dcache_store_edge (store_half 0x2004 0x11) dcache_loaded = Some s' \<and>
    dcache_lookup s' 0x2008 = Some 0"
proof -
  have "dcache_lookup dcache_loaded 0x2004 = None"
    using dcache_lookup_hit [of dcache_loaded "0x2004"]
    by (simp add: way_has_def dcache_loaded_def dcache_example_def way_empty_def way_claim_def rng_def)
  then show ?thesis
    using dcache_store_miss_stale [of dcache_loaded "store_half 0x2004 0x11" "0x2008"]
    by (auto simp: store_half_def dcache_load_in_def dcache_stores_def wnum_def dcache_loaded_def
        dcache_example_def way_word_def way_empty_def way_claim_def)
qed

text \<open>
  the output method runs at a change of the address from memory and again at the clock edge;
  while the machine is in \<open>WAIT_MEM\<close> each run stores the word and advances the counter, so
  one word of the burst is stored into the first two words of the line.
\<close>

theorem dcache_word_stored_twice:
  assumes "current_state s = WAIT_MEM" "burst_cpt s = 0" "SLAVE_ACK_SP i" "line_index (A_SP i) = ix"
  shows "\<exists>s'. Option.bind (dcache_mae_output i (dcache_adresse_parcer i s)) (dcache_clock i) = Some s' \<and>
    burst_cpt s' = 2 \<and>
    word (if LRU_bit_check s ix then w0 s' else w1 s') ix 0 = DT_SP i \<and>
    word (if LRU_bit_check s ix then w0 s' else w1 s') ix 1 = DT_SP i"
  using assms
  by (auto simp: dcache_mae_output_def dcache_clock_def dcache_burst_word_def dcache_claim_def
      way_put_def way_claim_def line_index_def dcache_adresse_parcer_def Let_def)

theorem dcache_word_stored_twice_witness:
  "\<exists>s'. Option.bind (dcache_mae_output (dcache_word_in 0x1004 (\<lambda>n. of_nat n) 0)
        (dcache_adresse_parcer (dcache_word_in 0x1004 (\<lambda>n. of_nat n) 0)
          (dcache_example\<lparr>current_state := WAIT_MEM\<rparr>)))
      (dcache_clock (dcache_word_in 0x1004 (\<lambda>n. of_nat n) 0)) = Some s' \<and> burst_cpt s' = 2 \<and>
    word (w1 s') 0 0 = 0x400 \<and> word (w1 s') 0 1 = 0x400"
  using dcache_word_stored_twice [of "dcache_example\<lparr>current_state := WAIT_MEM\<rparr>"
      "dcache_word_in 0x1004 (\<lambda>n. of_nat n) 0" 0]
  by (auto simp: dcache_example_def dcache_word_in_def dcache_load_in_def line_index_def rng_def wnum_def)

end
