(* ===== verification/Bench_Dcache.thy ===== *)
theory Bench_Dcache
  imports Dcache Bench_Ram
begin

text \<open>
  The simulation memory behind the data cache (\<open>SIM/SystemC/CORE/core_tb.cpp\<close>, the \<open>switch\<close> over
  \<open>DC_fsm_current_state\<close>) and the two together while a line is fetched.

  As with the instruction cache, the bench passes at each edge of the clock and what it writes
  becomes visible together with that edge.  The cache runs its four methods at a falling edge;
  besides, \<open>adresse_parcer\<close> runs when the address from memory changes, and \<open>mae_output\<close> once more when
  the parsed address changes.

  Lemmas: the bench sends the four words of the line in order and takes stores into the addressed
  lanes; the data cache takes each word twice and leaves the line.
\<close>

datatype dc_bench_fsm =
  DC_IDLE | DC_CLK_SIMU0 | DC_SEND_DTA_1 | DC_CLK_SIMU1 | DC_SEND_DTA_2 | DC_CLK_SIMU2
| DC_SEND_DTA_3 | DC_END_BURST

record dc_bench =
  DC_fsm_current_state :: dc_bench_fsm
  mem_adr :: u32
  MP_DT :: u32
  MP_A :: u32
  MP_ACK_DCACHE :: bool
  dc_ram :: ram

text \<open>The signals of the cache and its write buffer that the bench reads.\<close>

record dc_request =
  DCACHE_DTA_VALID :: bool
  DCACHE_LOAD :: bool
  DCACHE_STORE :: bool
  DCACHE_A :: u32
  DCACHE_DT :: u32
  SIZE_SC :: u2

subsection \<open>A pass of the bench\<close>

definition dc_bench_send :: "u32 \<Rightarrow> dc_bench_fsm \<Rightarrow> dc_bench \<Rightarrow> dc_bench" where
  "dc_bench_send adr next b =
     b\<lparr>MP_DT := dc_ram b adr, MP_A := adr, MP_ACK_DCACHE := True, DC_fsm_current_state := next\<rparr>"

definition dc_bench_idle_step :: "dc_request \<Rightarrow> dc_bench \<Rightarrow> dc_bench" where
  "dc_bench_idle_step q b =
     (if DCACHE_DTA_VALID q then
        (let b1 = (if DCACHE_LOAD q then
                     (let adr = DCACHE_A q AND 0xFFFFFFF0
                      in dc_bench_send adr DC_CLK_SIMU0 (b\<lparr>mem_adr := adr\<rparr>))
                   else b\<lparr>MP_ACK_DCACHE := False\<rparr>)
         in if DCACHE_STORE q then
              b1\<lparr>mem_adr := DCACHE_A q AND 0xFFFFFFFC,
                 dc_ram := tb_store (SIZE_SC q) (DCACHE_A q) (DCACHE_DT q) (dc_ram b1)\<rparr>
            else b1)
      else b\<lparr>MP_ACK_DCACHE := False\<rparr>)"

definition dc_bench_step :: "dc_request \<Rightarrow> dc_bench \<Rightarrow> dc_bench" where
  "dc_bench_step q b =
     (case DC_fsm_current_state b of
        DC_IDLE \<Rightarrow> dc_bench_idle_step q b
      | DC_CLK_SIMU0 \<Rightarrow> b\<lparr>DC_fsm_current_state := DC_SEND_DTA_1\<rparr>
      | DC_SEND_DTA_1 \<Rightarrow> dc_bench_send (mem_adr b + 4) DC_CLK_SIMU1 b
      | DC_CLK_SIMU1 \<Rightarrow> b\<lparr>DC_fsm_current_state := DC_SEND_DTA_2\<rparr>
      | DC_SEND_DTA_2 \<Rightarrow> dc_bench_send (mem_adr b + 8) DC_CLK_SIMU2 b
      | DC_CLK_SIMU2 \<Rightarrow> b\<lparr>DC_fsm_current_state := DC_SEND_DTA_3\<rparr>
      | DC_SEND_DTA_3 \<Rightarrow> dc_bench_send (mem_adr b + 12) DC_END_BURST b
      | DC_END_BURST \<Rightarrow> b\<lparr>DC_fsm_current_state := DC_IDLE, MP_ACK_DCACHE := False\<rparr>)"

fun dc_bench_trace :: "dc_request list \<Rightarrow> dc_bench \<Rightarrow> dc_bench list" where
  "dc_bench_trace [] b = []"
| "dc_bench_trace (q # qs) b = (let b' = dc_bench_step q b in b' # dc_bench_trace qs b')"

text \<open>What the bench shows: the word, its address and the acknowledgement.\<close>

definition dc_shown :: "dc_bench \<Rightarrow> (u32 \<times> u32) option" where
  "dc_shown b = (if MP_ACK_DCACHE b then Some (MP_DT b, MP_A b) else None)"

lemma dc_bench_request:
  assumes "DC_fsm_current_state b = DC_IDLE" "DCACHE_DTA_VALID q" "DCACHE_LOAD q" "\<not> DCACHE_STORE q"
  shows "dc_bench_step q b =
    b\<lparr>mem_adr := DCACHE_A q AND 0xFFFFFFF0, MP_DT := dc_ram b (DCACHE_A q AND 0xFFFFFFF0),
      MP_A := DCACHE_A q AND 0xFFFFFFF0, MP_ACK_DCACHE := True, DC_fsm_current_state := DC_CLK_SIMU0\<rparr>"
  using assms by (simp add: dc_bench_step_def dc_bench_idle_step_def dc_bench_send_def Let_def)

lemmas dc_bench_steps = dc_bench_step_def dc_bench_send_def

lemma dc_bench_burst:
  assumes "DC_fsm_current_state b = DC_CLK_SIMU0" "dc_shown b = Some (dc_ram b l, l)" "mem_adr b = l"
  shows "map dc_shown (dc_bench_trace [q1, q2, q3, q4, q5, q6, q7] b) =
    [Some (dc_ram b l, l), Some (dc_ram b (l + 4), l + 4), Some (dc_ram b (l + 4), l + 4),
     Some (dc_ram b (l + 8), l + 8), Some (dc_ram b (l + 8), l + 8),
     Some (dc_ram b (l + 12), l + 12), None]"
  using assms by (simp add: dc_bench_steps dc_shown_def split: if_splits)

subsection \<open>The bench and the cache\<close>

definition dcache_mp_address :: "dcache \<Rightarrow> 21 word \<times> 7 word \<times> 4 word" where
  "dcache_mp_address s = (mp_address_tag s, mp_address_index s, mp_address_offset s)"

text \<open>
  The cache at an edge: the methods of a falling edge and the parser read the signals from before;
  \<open>mae_output\<close> runs again when the parser has changed the address.
\<close>

definition dcache_delta :: "bool \<Rightarrow> dcache_in \<Rightarrow> dcache \<Rightarrow> dcache option" where
  "dcache_delta falling i s =
     Option.bind (if falling then dcache_clock i s else Some s)
       (\<lambda>s1. let s2 = dcache_adresse_parcer i s1
             in if dcache_mp_address s2 = dcache_mp_address s then Some s2
                else dcache_mae_output i s2)"

definition dcache_bench_step ::
  "dcache_in \<Rightarrow> bool \<Rightarrow> dc_request \<Rightarrow> dc_bench \<times> dcache \<Rightarrow> (dc_bench \<times> dcache) option" where
  "dcache_bench_step i falling q bs =
     (case bs of (b, s) \<Rightarrow>
        let b' = dc_bench_step (q\<lparr>DCACHE_DTA_VALID := DTA_VALID_SC s\<rparr>) b
        in map_option (Pair b')
             (dcache_delta falling (i\<lparr>DT_SP := MP_DT b', A_SP := MP_A b', SLAVE_ACK_SP := MP_ACK_DCACHE b'\<rparr>) s))"

fun dcache_bench_run ::
  "dcache_in \<Rightarrow> dc_request \<Rightarrow> bool list \<Rightarrow> dc_bench \<times> dcache \<Rightarrow> (dc_bench \<times> dcache) option" where
  "dcache_bench_run i q [] bs = Some bs"
| "dcache_bench_run i q (e # es) bs =
     Option.bind (dcache_bench_step i e q bs) (dcache_bench_run i q es)"

subsection \<open>The words of a burst\<close>

text \<open>What an activation leaves: the counter, the last offset, the state machine and the address.\<close>

definition dcache_fill :: "dcache \<Rightarrow> nat \<times> 4 word \<times> 3 word \<times> 3 word \<times> (21 word \<times> 7 word \<times> 4 word)" where
  "dcache_fill s =
     (burst_cpt s, mp_last_addr_offset s, current_state s, future_state s, dcache_mp_address s)"

definition parsed_address :: "u32 \<Rightarrow> 21 word \<times> 7 word \<times> 4 word" where
  "parsed_address a = (rng 31 11 a, rng 10 4 a, rng 3 0 a)"

lemma dcache_fill_parcer:
  "dcache_fill s = (k, l, c, f, p) \<Longrightarrow>
     dcache_fill (dcache_adresse_parcer i s) = (k, l, c, f, parsed_address (A_SP i))"
  by (auto simp: dcache_fill_def dcache_adresse_parcer_def dcache_mp_address_def parsed_address_def)

text \<open>Each activation takes a word, if there is room in the line.\<close>

lemma dcache_mae_wait:
  assumes "dcache_mae_output i s = Some s'" "SLAVE_ACK_SP i"
    and "dcache_fill s = (k, l, WAIT_MEM, f, p)"
  shows "k < 4 \<and> dcache_fill s' = (Suc k, snd (snd p), WAIT_MEM, f, p)"
  using assms
  by (auto simp: dcache_mae_output_def dcache_burst_word_def dcache_claim_def dcache_fill_def
      dcache_mp_address_def Let_def split: if_splits)

lemma dcache_mae_updt:
  assumes "dcache_mae_output i s = Some s'" "SLAVE_ACK_SP i"
    and "dcache_fill s = (k, l, UPDT, f, p)" "unat (rng 3 0 (A_SP i) :: 4 word) = unat l + 4"
  shows "k < 4 \<and> dcache_fill s' = (Suc k, rng 3 0 (A_SP i), UPDT, f, p)"
  using assms
  by (auto simp: dcache_mae_output_def dcache_burst_word_def dcache_fill_def
      dcache_mp_address_def Let_def split: if_splits)

lemma dcache_clock_fill:
  assumes "dcache_clock i s = Some s'" "RESET_N i" "SLAVE_ACK_SP i"
    and "dcache_fill s = (k, l, c, f, p)" "c = WAIT_MEM \<or> c = UPDT"
  shows "\<exists>m. dcache_mae_output i s = Some m \<and>
    (\<forall>k' l'. dcache_fill m = (k', l', c, f, p) \<longrightarrow> dcache_fill s' = (k', l', f, UPDT, p))"
  using assms
  by (auto simp: dcache_clock_def dcache_new_state_def dcache_state_transition_def dcache_fill_def
      dcache_mp_address_def Let_def)

text \<open>The address changes while the clock does not fall, and stays at a rising edge.\<close>

lemma dcache_delta_rise:
  assumes "dcache_fill s = (k, l, c, f, p)"
  shows "parsed_address (A_SP i) \<noteq> p \<Longrightarrow>
      dcache_delta False i s = dcache_mae_output i (dcache_adresse_parcer i s)"
    and "parsed_address (A_SP i) = p \<Longrightarrow> dcache_delta False i s = Some (dcache_adresse_parcer i s)"
  using dcache_fill_parcer [OF assms, of i] assms
  by (simp_all add: dcache_delta_def dcache_fill_def Let_def)

text \<open>A falling edge without a change of the address, and with one.\<close>

lemma dcache_delta_fall:
  assumes "dcache_delta True i s = Some s'" "RESET_N i" "SLAVE_ACK_SP i"
    and "dcache_fill s = (k, l, c, f, p)" "c = WAIT_MEM \<or> c = UPDT"
  shows "\<exists>m s1. dcache_mae_output i s = Some m \<and> dcache_clock i s = Some s1 \<and>
    (\<forall>k' l'. dcache_fill m = (k', l', c, f, p) \<longrightarrow>
       dcache_fill (dcache_adresse_parcer i s1) = (k', l', f, UPDT, parsed_address (A_SP i))) \<and>
    (if parsed_address (A_SP i) = p then s' = dcache_adresse_parcer i s1
     else dcache_mae_output i (dcache_adresse_parcer i s1) = Some s')"
proof -
  obtain s1 where s1: "dcache_clock i s = Some s1"
    using assms(1) by (cases "dcache_clock i s") (simp_all add: dcache_delta_def)
  obtain m where m: "dcache_mae_output i s = Some m"
    "\<And>k' l'. dcache_fill m = (k', l', c, f, p) \<Longrightarrow> dcache_fill s1 = (k', l', f, UPDT, p)"
    using dcache_clock_fill [OF s1 assms(2-5)] by blast
  have p: "dcache_mp_address s = p" using assms(4) by (simp add: dcache_fill_def)
  have "dcache_mp_address (dcache_adresse_parcer i s1) = parsed_address (A_SP i)"
    by (simp add: dcache_adresse_parcer_def dcache_mp_address_def parsed_address_def)
  then have "if parsed_address (A_SP i) = p then s' = dcache_adresse_parcer i s1
      else dcache_mae_output i (dcache_adresse_parcer i s1) = Some s'"
    using assms(1) s1 p by (simp add: dcache_delta_def Let_def split: if_splits)
  then show ?thesis using s1 m dcache_fill_parcer by blast
qed

text \<open>
  One pass: the words that the cache takes when the address changes while the clock rises, while
  it falls on the same address, and while it falls with a new address.
\<close>

lemma dcache_delta_rise_word:
  assumes "dcache_delta False i s = Some s'" "SLAVE_ACK_SP i" "dcache_fill s = (k, l, c, f, p)"
    and "parsed_address (A_SP i) \<noteq> p"
    and "c = WAIT_MEM \<or> c = UPDT \<and> unat (rng 3 0 (A_SP i) :: 4 word) = unat l + 4"
  shows "k < 4 \<and> dcache_fill s' = (Suc k, rng 3 0 (A_SP i), c, f, parsed_address (A_SP i))"
proof -
  have "dcache_mae_output i (dcache_adresse_parcer i s) = Some s'"
    using dcache_delta_rise(1) [OF assms(3,4)] assms(1) by simp
  from dcache_mae_wait [OF this assms(2)] dcache_mae_updt [OF this assms(2)]
  show ?thesis
    using assms(5) dcache_fill_parcer [OF assms(3), of i] by (auto simp: parsed_address_def)
qed

lemma dcache_delta_fall_same:
  assumes "dcache_delta True i s = Some s'" "RESET_N i" "SLAVE_ACK_SP i"
    and "dcache_fill s = (k, l, WAIT_MEM, f, p)" "parsed_address (A_SP i) = p"
  shows "k < 4 \<and> dcache_fill s' = (Suc k, rng 3 0 (A_SP i), f, UPDT, p)"
proof -
  obtain m s1 where m: "dcache_mae_output i s = Some m"
    "\<forall>k' l'. dcache_fill m = (k', l', WAIT_MEM, f, p) \<longrightarrow>
       dcache_fill (dcache_adresse_parcer i s1) = (k', l', f, UPDT, parsed_address (A_SP i))"
    "s' = dcache_adresse_parcer i s1"
    using dcache_delta_fall [OF assms(1-4)] assms(5) by auto
  then show ?thesis
    using dcache_mae_wait [OF m(1) assms(3,4)] assms(5) by (auto simp: parsed_address_def)
qed

lemma dcache_delta_fall_change:
  assumes "dcache_delta True i s = Some s'" "RESET_N i" "SLAVE_ACK_SP i"
    and "dcache_fill s = (k, l, WAIT_MEM, f, p)" "parsed_address (A_SP i) \<noteq> p"
    and "f = WAIT_MEM \<or> f = UPDT \<and> unat (rng 3 0 (A_SP i) :: 4 word) = unat (snd (snd p)) + 4"
  shows "Suc k < 4 \<and> dcache_fill s' = (k + 2, rng 3 0 (A_SP i), f, UPDT, parsed_address (A_SP i))"
proof -
  obtain m s1 where m: "dcache_mae_output i s = Some m"
    "\<forall>k' l'. dcache_fill m = (k', l', WAIT_MEM, f, p) \<longrightarrow>
       dcache_fill (dcache_adresse_parcer i s1) = (k', l', f, UPDT, parsed_address (A_SP i))"
    "dcache_mae_output i (dcache_adresse_parcer i s1) = Some s'"
    using dcache_delta_fall [OF assms(1-4)] assms(5) by auto
  have fill: "dcache_fill (dcache_adresse_parcer i s1) =
      (Suc k, snd (snd p), f, UPDT, parsed_address (A_SP i))"
    using dcache_mae_wait [OF m(1) assms(3,4)] m(2) by blast
  show ?thesis
    using assms(6) dcache_mae_wait [OF m(3) assms(3)] dcache_mae_updt [OF m(3) assms(3)] fill
    by (auto simp: parsed_address_def)
qed

lemma dcache_delta_fall_updt:
  assumes "dcache_delta True i s = Some s'" "RESET_N i" "SLAVE_ACK_SP i"
    and "dcache_fill s = (k, l, UPDT, f, p)" "unat (rng 3 0 (A_SP i) :: 4 word) = unat l + 4"
  shows "k < 4"
  using dcache_delta_fall [OF assms(1-4)] dcache_mae_updt [OF _ assms(3-5)] by auto

subsection \<open>The bench overruns the line\<close>

definition dc_bench_in :: "dcache_in \<Rightarrow> dc_bench \<Rightarrow> dcache_in" where
  "dc_bench_in i b = i\<lparr>DT_SP := MP_DT b, A_SP := MP_A b, SLAVE_ACK_SP := MP_ACK_DCACHE b\<rparr>"

lemma dc_bench_in_sel [simp]:
  "A_SP (dc_bench_in i b) = MP_A b" "SLAVE_ACK_SP (dc_bench_in i b) = MP_ACK_DCACHE b"
  "RESET_N (dc_bench_in i b) = RESET_N i"
  by (simp_all add: dc_bench_in_def)

lemma dcache_bench_run_Cons:
  assumes "dc_bench_step (q\<lparr>DCACHE_DTA_VALID := DTA_VALID_SC s\<rparr>) b = b'"
  shows "dcache_bench_run i q (e # es) (b, s) =
    Option.bind (dcache_delta e (dc_bench_in i b') s) (\<lambda>s'. dcache_bench_run i q es (b', s'))"
  using assms
  by (cases "dcache_delta e (dc_bench_in i b') s")
    (simp_all add: dcache_bench_step_def dc_bench_in_def Let_def)

lemma bind_chain_None:
  assumes "\<And>s1 s2 s3 s4. \<lbrakk>f1 s = Some s1; f2 s1 = Some s2; f3 s2 = Some s3; f4 s3 = Some s4\<rbrakk>
    \<Longrightarrow> f5 s4 = None"
  shows "Option.bind (f1 s) (\<lambda>s1. Option.bind (f2 s1) (\<lambda>s2. Option.bind (f3 s2) (\<lambda>s3.
    Option.bind (f4 s3) (\<lambda>s4. Option.bind (f5 s4) g)))) = None"
  using assms by (auto simp: bind_eq_None_conv)

text \<open>The five passes of the bench after the request, as they do not depend on the cache.\<close>

lemma dcache_bench_run_burst:
  assumes "DC_fsm_current_state b = DC_IDLE" "DTA_VALID_SC s" "DCACHE_LOAD q" "\<not> DCACHE_STORE q"
    and "l = DCACHE_A q AND 0xFFFFFFF0"
  shows "\<exists>b1 b2 b3 b4 b5.
    dcache_bench_run i q [e1, e2, e3, e4, e5] (b, s) =
      Option.bind (dcache_delta e1 (dc_bench_in i b1) s) (\<lambda>s1.
      Option.bind (dcache_delta e2 (dc_bench_in i b2) s1) (\<lambda>s2.
      Option.bind (dcache_delta e3 (dc_bench_in i b3) s2) (\<lambda>s3.
      Option.bind (dcache_delta e4 (dc_bench_in i b4) s3) (\<lambda>s4.
      Option.bind (dcache_delta e5 (dc_bench_in i b5) s4) (\<lambda>s5. Some (b5, s5)))))) \<and>
    MP_A b1 = l \<and> MP_A b2 = l \<and> MP_A b3 = l + 4 \<and> MP_A b4 = l + 4 \<and> MP_A b5 = l + 8 \<and>
    list_all MP_ACK_DCACHE [b1, b2, b3, b4, b5]"
proof -
  define b1 where "b1 = b\<lparr>mem_adr := l, MP_DT := dc_ram b l, MP_A := l, MP_ACK_DCACHE := True,
    DC_fsm_current_state := DC_CLK_SIMU0\<rparr>"
  define b2 where "b2 = b1\<lparr>DC_fsm_current_state := DC_SEND_DTA_1\<rparr>"
  define b3 where "b3 = dc_bench_send (l + 4) DC_CLK_SIMU1 b2"
  define b4 where "b4 = b3\<lparr>DC_fsm_current_state := DC_SEND_DTA_2\<rparr>"
  define b5 where "b5 = dc_bench_send (l + 8) DC_CLK_SIMU2 b4"
  note bs = b1_def b2_def b3_def b4_def b5_def
  have request: "dc_bench_step (q\<lparr>DCACHE_DTA_VALID := DTA_VALID_SC s\<rparr>) b = b1"
    using dc_bench_request [of b "q\<lparr>DCACHE_DTA_VALID := DTA_VALID_SC s\<rparr>"] assms
    by (simp add: b1_def)
  have next_steps: "dc_bench_step r b1 = b2" "dc_bench_step r b2 = b3" "dc_bench_step r b3 = b4"
    "dc_bench_step r b4 = b5" for r
    by (simp_all add: dc_bench_step_def bs dc_bench_send_def)
  have "dcache_bench_run i q [e1, e2, e3, e4, e5] (b, s) =
      Option.bind (dcache_delta e1 (dc_bench_in i b1) s) (\<lambda>s1.
      Option.bind (dcache_delta e2 (dc_bench_in i b2) s1) (\<lambda>s2.
      Option.bind (dcache_delta e3 (dc_bench_in i b3) s2) (\<lambda>s3.
      Option.bind (dcache_delta e4 (dc_bench_in i b4) s3) (\<lambda>s4.
      Option.bind (dcache_delta e5 (dc_bench_in i b5) s4) (\<lambda>s5. Some (b5, s5))))))"
    by (simp only: dcache_bench_run_Cons [OF request] dcache_bench_run_Cons [OF next_steps(1)]
        dcache_bench_run_Cons [OF next_steps(2)] dcache_bench_run_Cons [OF next_steps(3)]
        dcache_bench_run_Cons [OF next_steps(4)] dcache_bench_run.simps(1))
  moreover have "MP_A b1 = l" "MP_A b2 = l" "MP_A b3 = l + 4" "MP_A b4 = l + 4" "MP_A b5 = l + 8"
    "list_all MP_ACK_DCACHE [b1, b2, b3, b4, b5]"
    by (simp_all add: bs dc_bench_send_def)
  ultimately show ?thesis by blast
qed

lemma parsed_line:
  "parsed_address (a AND 0xFFFFFFF0) = (rng 31 11 a, rng 10 4 a, 0)"
  "parsed_address ((a AND 0xFFFFFFF0) + 4) = (rng 31 11 a, rng 10 4 a, 4)"
  "parsed_address ((a AND 0xFFFFFFF0) + 8) = (rng 31 11 a, rng 10 4 a, 8)"
  using line_add [of 0 a] line_add [of 1 a] line_add [of 2 a]
  by (simp_all add: parsed_address_def)

lemma dcache_overrun_rise:
  assumes "RESET_N i" "dcache_fill s = (k, o1, WAIT_MEM, WAIT_MEM, p)"
    and "p \<noteq> parsed_address (a AND 0xFFFFFFF0)"
    and "list_all MP_ACK_DCACHE [b1, b2, b3, b4, b5]" "MP_A b1 = a AND 0xFFFFFFF0"
    "MP_A b2 = a AND 0xFFFFFFF0" "MP_A b3 = (a AND 0xFFFFFFF0) + 4"
    "MP_A b4 = (a AND 0xFFFFFFF0) + 4" "MP_A b5 = (a AND 0xFFFFFFF0) + 8"
    and "dcache_delta False (dc_bench_in i b1) s = Some s1"
    "dcache_delta True (dc_bench_in i b2) s1 = Some s2"
    "dcache_delta False (dc_bench_in i b3) s2 = Some s3"
    "dcache_delta True (dc_bench_in i b4) s3 = Some s4"
  shows "dcache_delta False (dc_bench_in i b5) s4 = None"
proof (rule ccontr)
  let ?t = "rng 31 11 a :: 21 word" and ?ix = "rng 10 4 a :: 7 word"
  have off: "(rng 3 0 (a AND 0xFFFFFFF0) :: 4 word) = 0"
    "(rng 3 0 ((a AND 0xFFFFFFF0) + 4) :: 4 word) = 4"
    "(rng 3 0 ((a AND 0xFFFFFFF0) + 8) :: 4 word) = 8"
    using parsed_line [of a] by (simp_all add: parsed_address_def)
  have f1: "k < 4 \<and> dcache_fill s1 = (k + 1, 0, WAIT_MEM, WAIT_MEM, (?t, ?ix, 0))"
    using dcache_delta_rise_word [OF assms(10) _ assms(2)] assms off parsed_line [of a] by simp
  have f2: "k + 1 < 4 \<and> dcache_fill s2 = (k + 2, 0, WAIT_MEM, UPDT, (?t, ?ix, 0))"
    using dcache_delta_fall_same [OF assms(11)] f1 assms off parsed_line [of a] by simp
  have f3: "k + 2 < 4 \<and> dcache_fill s3 = (k + 3, 4, WAIT_MEM, UPDT, (?t, ?ix, 4))"
    using dcache_delta_rise_word [OF assms(12) _ conjunct2 [OF f2]] assms off parsed_line [of a] by simp
  have f4: "k + 3 < 4 \<and> dcache_fill s4 = (k + 4, 4, UPDT, UPDT, (?t, ?ix, 4))"
    using dcache_delta_fall_same [OF assms(13)] f3 assms off parsed_line [of a] by simp
  assume "dcache_delta False (dc_bench_in i b5) s4 \<noteq> None"
  then obtain s5 where "dcache_delta False (dc_bench_in i b5) s4 = Some s5" by blast
  from dcache_delta_rise_word [OF this _ conjunct2 [OF f4]] show False
    using assms off parsed_line [of a] f4 by simp
qed

lemma dcache_overrun_fall:
  assumes "RESET_N i" "dcache_fill s = (k, o1, WAIT_MEM, WAIT_MEM, p)"
    and "p \<noteq> parsed_address (a AND 0xFFFFFFF0)"
    and "list_all MP_ACK_DCACHE [b1, b2, b3, b4, b5]" "MP_A b1 = a AND 0xFFFFFFF0"
    "MP_A b2 = a AND 0xFFFFFFF0" "MP_A b3 = (a AND 0xFFFFFFF0) + 4"
    "MP_A b4 = (a AND 0xFFFFFFF0) + 4" "MP_A b5 = (a AND 0xFFFFFFF0) + 8"
    and "dcache_delta True (dc_bench_in i b1) s = Some s1"
    "dcache_delta False (dc_bench_in i b2) s1 = Some s2"
    "dcache_delta True (dc_bench_in i b3) s2 = Some s3"
    "dcache_delta False (dc_bench_in i b4) s3 = Some s4"
  shows "dcache_delta True (dc_bench_in i b5) s4 = None"
proof (rule ccontr)
  let ?t = "rng 31 11 a :: 21 word" and ?ix = "rng 10 4 a :: 7 word"
  have off: "(rng 3 0 (a AND 0xFFFFFFF0) :: 4 word) = 0"
    "(rng 3 0 ((a AND 0xFFFFFFF0) + 4) :: 4 word) = 4"
    "(rng 3 0 ((a AND 0xFFFFFFF0) + 8) :: 4 word) = 8"
    using parsed_line [of a] by (simp_all add: parsed_address_def)
  have f1: "dcache_fill s1 = (k + 2, 0, WAIT_MEM, UPDT, (?t, ?ix, 0))"
    using dcache_delta_fall_change [OF assms(10) _ _ assms(2)] assms off parsed_line [of a] by simp
  have f2: "dcache_fill s2 = (k + 2, 0, WAIT_MEM, UPDT, (?t, ?ix, 0))"
    using dcache_delta_rise(2) [OF f1, of "dc_bench_in i b2"]
      dcache_fill_parcer [OF f1, of "dc_bench_in i b2"] assms parsed_line [of a] by simp
  have f3: "k + 3 < 4 \<and> dcache_fill s3 = (k + 4, 4, UPDT, UPDT, (?t, ?ix, 4))"
    using dcache_delta_fall_change [OF assms(12) _ _ f2] assms off parsed_line [of a] by simp
  have f4: "dcache_fill s4 = (k + 4, 4, UPDT, UPDT, (?t, ?ix, 4))"
    using dcache_delta_rise(2) [OF conjunct2 [OF f3], of "dc_bench_in i b4"]
      dcache_fill_parcer [OF conjunct2 [OF f3], of "dc_bench_in i b4"] assms parsed_line [of a] by simp
  assume "dcache_delta True (dc_bench_in i b5) s4 \<noteq> None"
  then obtain s5 where "dcache_delta True (dc_bench_in i b5) s4 = Some s5" by blast
  from dcache_delta_fall_updt [OF this _ _ f4] show False
    using assms off f3 by simp
qed

text \<open>
  C35: with the memory of the bench the data cache never completes a line: whichever edge of the
  clock the burst begins at, and wherever the counter of the burst stands, within five passes
  \<open>mae_output\<close> has taken four words and writes the next one past the line.  It takes each word
  twice, once for the clock and once because the address from memory has changed.
\<close>

theorem dcache_bench_overrun:
  assumes "DC_fsm_current_state b = DC_IDLE" "DTA_VALID_SC s" "DCACHE_LOAD q" "\<not> DCACHE_STORE q"
    and "RESET_N i" "current_state s = WAIT_MEM" "future_state s = WAIT_MEM"
    and "dcache_mp_address s \<noteq> parsed_address (DCACHE_A q AND 0xFFFFFFF0)"
  shows "dcache_bench_run i q [e, \<not> e, e, \<not> e, e] (b, s) = None"
proof -
  have fill: "dcache_fill s =
      (burst_cpt s, mp_last_addr_offset s, WAIT_MEM, WAIT_MEM, dcache_mp_address s)"
    using assms(6,7) by (simp add: dcache_fill_def)
  obtain b1 b2 b3 b4 b5 where run: "dcache_bench_run i q [e, \<not> e, e, \<not> e, e] (b, s) =
      Option.bind (dcache_delta e (dc_bench_in i b1) s) (\<lambda>s1.
      Option.bind (dcache_delta (\<not> e) (dc_bench_in i b2) s1) (\<lambda>s2.
      Option.bind (dcache_delta e (dc_bench_in i b3) s2) (\<lambda>s3.
      Option.bind (dcache_delta (\<not> e) (dc_bench_in i b4) s3) (\<lambda>s4.
      Option.bind (dcache_delta e (dc_bench_in i b5) s4) (\<lambda>s5. Some (b5, s5))))))"
    and shown: "list_all MP_ACK_DCACHE [b1, b2, b3, b4, b5]" "MP_A b1 = DCACHE_A q AND 0xFFFFFFF0"
    "MP_A b2 = DCACHE_A q AND 0xFFFFFFF0" "MP_A b3 = (DCACHE_A q AND 0xFFFFFFF0) + 4"
    "MP_A b4 = (DCACHE_A q AND 0xFFFFFFF0) + 4" "MP_A b5 = (DCACHE_A q AND 0xFFFFFFF0) + 8"
    using dcache_bench_run_burst [OF assms(1-4) refl, of i e "\<not> e" e "\<not> e" e] by blast
  show ?thesis
  proof (cases e)
    case True
    then show ?thesis
      unfolding run using dcache_overrun_fall [OF assms(5) fill assms(8) shown]
      by (intro bind_chain_None) simp
  next
    case False
    then show ?thesis
      unfolding run using dcache_overrun_rise [OF assms(5) fill assms(8) shown]
      by (intro bind_chain_None) simp
  qed
qed

definition dc_bench_example :: dc_bench where
  "dc_bench_example = \<lparr>DC_fsm_current_state = DC_IDLE, mem_adr = 0, MP_DT = 0, MP_A = 0,
     MP_ACK_DCACHE = False, dc_ram = ram_empty\<rparr>"

theorem dcache_bench_overrun_witness:
  "dcache_bench_run (dcache_load_in 0x1000)
     \<lparr>DCACHE_DTA_VALID = True, DCACHE_LOAD = True, DCACHE_STORE = False, DCACHE_A = 0x1000,
      DCACHE_DT = 0, SIZE_SC = 0\<rparr> [False, True, False, True, False]
     (dc_bench_example, dcache_example\<lparr>current_state := WAIT_MEM, future_state := WAIT_MEM,
        DTA_VALID_SC := True\<rparr>) = None"
  using dcache_bench_overrun [of dc_bench_example "dcache_example\<lparr>current_state := WAIT_MEM,
        future_state := WAIT_MEM, DTA_VALID_SC := True\<rparr>"
      "\<lparr>DCACHE_DTA_VALID = True, DCACHE_LOAD = True, DCACHE_STORE = False, DCACHE_A = 0x1000,
        DCACHE_DT = 0, SIZE_SC = 0\<rparr>" "dcache_load_in 0x1000" False]
  by (simp add: dc_bench_example_def dcache_example_def dcache_load_in_def dcache_mp_address_def
      parsed_address_def rng_def)

end
