(* ===== verification/Bench_Run.thy ===== *)
theory Bench_Run
  imports Bench_Ram
begin

text \<open>
  The run of the simulation (\<open>SIM/SystemC/CORE/core_tb.cpp\<close>): the addresses that the bench takes
  from the symbol table, the placing of the sections, and the test at every pass of the loop that
  decides whether and how the run ends.

  Lemmas: a program test ends at the first of its three addresses, with the verdict of that address;
  a compliance test ends 49 passes after its end, and at the latest 49 passes after pass
  two million; both rest on \<open>countdown\<close> being zero, which the code does not make it.
\<close>

subsection \<open>The program\<close>

record tb_symbols =
  reset_adr :: u32
  start_adr :: u32
  good_adr :: u32
  bad_adr :: u32
  exception_occur :: u32
  rvtest_code_end :: u32
  begin_signature :: u32
  end_signature :: u32
  rvtest_end :: u32

text \<open>One symbol of the table; the value is narrowed to \<open>int\<close>.  A later symbol overwrites.\<close>

definition tb_symbol :: "string \<times> 64 word \<Rightarrow> tb_symbols \<Rightarrow> tb_symbols" where
  "tb_symbol nv y =
     (case nv of (name, value) \<Rightarrow>
        let y = (if name = ''_reset'' then y\<lparr>reset_adr := ucast (value - 4)\<rparr> else y);
            y = (if name = ''_start'' then y\<lparr>start_adr := ucast (value - 4)\<rparr> else y);
            y = (if name = ''_bad'' then y\<lparr>bad_adr := ucast value\<rparr> else y);
            y = (if name = ''_good'' then y\<lparr>good_adr := ucast value\<rparr> else y);
            y = (if name = ''_exception_occur'' then y\<lparr>exception_occur := ucast value\<rparr> else y);
            y = (if name = ''rvtest_code_end'' then y\<lparr>rvtest_code_end := ucast value\<rparr> else y);
            y = (if name = ''rvtest_entry_point'' then y\<lparr>reset_adr := ucast (value - 4)\<rparr> else y);
            y = (if name = ''begin_signature'' then y\<lparr>begin_signature := ucast value\<rparr> else y);
            y = (if name = ''end_signature'' then y\<lparr>end_signature := ucast value\<rparr> else y);
            y = (if name = ''rvtest_end'' then y\<lparr>rvtest_end := ucast value\<rparr> else y)
        in y)"

record elf_section =
  sec_address :: "64 word"
  sec_size :: nat
  sec_data :: section_data
  sec_symbols :: "(string \<times> 64 word) list"

text \<open>
  The sections in their order: their data, and the symbols of a symbol table (an empty list for
  the others).
\<close>

fun tb_load :: "elf_section list \<Rightarrow> tb_symbols \<times> ram \<Rightarrow> (tb_symbols \<times> ram) option" where
  "tb_load [] yr = Some yr"
| "tb_load (x # xs) (y, ram) =
     (case tb_load_section (ucast (sec_address x)) (sec_size x) (sec_data x) ram of
        None \<Rightarrow> None
      | Some ram' \<Rightarrow> tb_load xs (fold tb_symbol (sec_symbols x) y, ram'))"

subsection \<open>The end of the run\<close>

datatype tb_verdict = Bad | Good | Exception_occur | Signature

record tb_loop =
  countdown :: int
  cycles :: int

text \<open>
  A pass with the program counter \<open>pc\<close>: \<open>test\<close> says that the signature has no name.  The counters
  are stepped at the top of the loop, the tests follow in the order of the code; \<open>Inl\<close> is an exit.
\<close>

definition tb_step :: "bool \<Rightarrow> tb_symbols \<Rightarrow> u32 \<Rightarrow> tb_loop \<Rightarrow> tb_verdict + tb_loop" where
  "tb_step test y pc s0 =
     (let s = s0\<lparr>countdown := (if countdown s0 \<noteq> 0 then countdown s0 - 1 else countdown s0),
                 cycles := cycles s0 + 1\<rparr>
      in if test \<and> pc = bad_adr y then Inl Bad
         else if test \<and> pc = good_adr y then Inl Good
         else if test \<and> pc = exception_occur y then Inl Exception_occur
         else
           (let s' = (if countdown s = 0 \<and> (pc = rvtest_code_end y \<or> pc = rvtest_end y \<or>
                          \<not> test \<and> 2000000 < cycles s)
                      then s\<lparr>countdown := 50\<rparr> else s)
            in if countdown s' = 1 then Inl Signature else Inr s'))"

text \<open>The loop over the program counters that the passes see: the verdict and the pass it ends in.\<close>

fun run_loop :: "(u32 \<Rightarrow> 's \<Rightarrow> 'v + 's) \<Rightarrow> u32 list \<Rightarrow> 's \<Rightarrow> (nat \<times> 'v) option" where
  "run_loop step [] s = None"
| "run_loop step (pc # pcs) s =
     (case step pc s of
        Inl v \<Rightarrow> Some (0, v)
      | Inr s' \<Rightarrow> map_option (\<lambda>(n, v). (Suc n, v)) (run_loop step pcs s'))"

definition tb_run :: "bool \<Rightarrow> tb_symbols \<Rightarrow> u32 list \<Rightarrow> tb_loop \<Rightarrow> (nat \<times> tb_verdict) option" where
  [simp]: "tb_run test y = run_loop (tb_step test y)"

text \<open>The words that the signature file holds: \<open>for (i = begin; i < end; i += 4)\<close>.\<close>

definition tb_signature :: "tb_symbols \<Rightarrow> ram \<Rightarrow> u32 list" where
  "tb_signature y ram =
     map (\<lambda>k. ram (begin_signature y + of_nat (4 * k)))
       [0..<nat ((sint (end_signature y) - sint (begin_signature y) + 3) div 4)]"

definition tb_start :: tb_loop where
  "tb_start = \<lparr>countdown = 0, cycles = 0\<rparr>"

text \<open>Where a compliance test ends.\<close>

definition tb_at_end :: "tb_symbols \<Rightarrow> u32 \<Rightarrow> int \<Rightarrow> bool" where
  "tb_at_end y pc c \<longleftrightarrow> pc = rvtest_code_end y \<or> pc = rvtest_end y \<or> 2000000 < c"

lemma tb_step_compliance:
  "tb_step False y pc s =
     (if countdown s = 0 \<or> countdown s = 1 then
        (if tb_at_end y pc (cycles s + 1) then Inr (s\<lparr>countdown := 50, cycles := cycles s + 1\<rparr>)
         else Inr (s\<lparr>countdown := 0, cycles := cycles s + 1\<rparr>))
      else if countdown s = 2 then Inl Signature
      else Inr (s\<lparr>countdown := countdown s - 1, cycles := cycles s + 1\<rparr>))"
  by (auto simp: tb_step_def tb_at_end_def Let_def)

subsection \<open>Loops that end after a countdown\<close>

text \<open>
  The contract of a pass in a compliance test, which the bench of the core and that of the earlier
  processor keep with different numbers: an end is seen while the counter is down, starts it at
  \<open>hold\<close>, and the counter then runs down undisturbed.
\<close>

locale compliance_loop =
  fixes step :: "u32 \<Rightarrow> tb_loop \<Rightarrow> tb_verdict + tb_loop"
    and at_end :: "u32 \<Rightarrow> int \<Rightarrow> bool"
    and hold :: nat
  assumes step_law: "step pc s =
     (if countdown s = 0 \<or> countdown s = 1 then
        (if at_end pc (cycles s + 1) then Inr (s\<lparr>countdown := int hold, cycles := cycles s + 1\<rparr>)
         else Inr (s\<lparr>countdown := 0, cycles := cycles s + 1\<rparr>))
      else if countdown s = 2 then Inl Signature
      else Inr (s\<lparr>countdown := countdown s - 1, cycles := cycles s + 1\<rparr>))"
    and hold_law: "2 \<le> hold"
begin

text \<open>The countdown, once started, is not started again and ends the run.\<close>

lemma run_countdown:
  assumes "countdown s = int n + 2" "n < length pcs"
  shows "run_loop step pcs s = Some (n, Signature)"
  using assms
proof (induction n arbitrary: pcs s)
  case 0
  then show ?case by (cases pcs) (simp_all add: step_law)
next
  case (Suc n)
  obtain pc pcs' where "pcs = pc # pcs'" using Suc.prems(2) by (cases pcs) auto
  then show ?case
    using Suc by (simp add: step_law)
qed

lemma run_waits:
  assumes "countdown s = 0" "n + hold - 1 < length pcs"
    and "\<forall>k < n. \<not> at_end (pcs ! k) (cycles s + int k + 1)"
    and "at_end (pcs ! n) (cycles s + int n + 1)"
  shows "run_loop step pcs s = Some (n + hold - 1, Signature)"
  using assms
proof (induction n arbitrary: pcs s)
  case 0
  obtain pc pcs' where p: "pcs = pc # pcs'" using "0.prems"(2) by (cases pcs) auto
  let ?s = "s\<lparr>countdown := int hold, cycles := cycles s + 1\<rparr>"
  have "run_loop step pcs' ?s = Some (hold - 2, Signature)"
    using "0.prems"(2) p hold_law by (intro run_countdown) (auto simp: of_nat_diff)
  then show ?case
    using "0.prems" p hold_law by (simp add: step_law [of pc s] Suc_diff_Suc numeral_2_eq_2)
next
  case (Suc n)
  obtain pc pcs' where p: "pcs = pc # pcs'" using Suc.prems(2) by (cases pcs) auto
  let ?s = "s\<lparr>countdown := 0, cycles := cycles s + 1\<rparr>"
  have step: "step pc s = Inr ?s"
    using Suc.prems(1,3) p by (force simp: step_law)
  have "run_loop step pcs' ?s = Some (n + hold - 1, Signature)"
  proof (rule Suc.IH)
    show "\<forall>k < n. \<not> at_end (pcs' ! k) (cycles ?s + int k + 1)"
      using Suc.prems(3) p by (auto simp: ac_simps dest: spec [of _ "Suc _"])
  qed (use Suc.prems p hold_law in \<open>auto simp: ac_simps\<close>)
  then show ?case using hold_law by (simp add: p step Suc_diff_le)
qed

text \<open>If an end is certain after \<open>limit\<close> passes, the run ends, and at its first end.\<close>

lemma run_ends:
  assumes "countdown s = 0" "cycles s = 0" "limit + hold - 1 < length pcs"
    and "\<And>pc. at_end pc (int limit + 1)"
  shows "\<exists>n \<le> limit. run_loop step pcs s = Some (n + hold - 1, Signature) \<and>
    at_end (pcs ! n) (int n + 1) \<and> (\<forall>k < n. \<not> at_end (pcs ! k) (int k + 1))"
proof -
  define n where "n = (LEAST n. at_end (pcs ! n) (int n + 1))"
  have n: "at_end (pcs ! n) (int n + 1)" unfolding n_def using assms(4) by (rule LeastI)
  have before: "\<forall>k < n. \<not> at_end (pcs ! k) (int k + 1)"
    unfolding n_def using not_less_Least by blast
  have "n \<le> limit" unfolding n_def using assms(4) by (rule Least_le)
  moreover have "run_loop step pcs s = Some (n + hold - 1, Signature)"
    using run_waits [of s n pcs] n before assms(1,2,3) calculation by simp
  ultimately show ?thesis using n before by blast
qed

lemma run_negative: "countdown s < 0 \<Longrightarrow> run_loop step pcs s = None"
  by (induction pcs arbitrary: s) (simp_all add: step_law)

end

interpretation cl: compliance_loop "tb_step False y" "tb_at_end y" 50
  by unfold_locales (simp_all add: tb_step_compliance)

subsection \<open>Properties\<close>

text \<open>
  C24: a compliance test ends: with the counter at zero, the signature is written 49 passes after the
  first pass whose program counter is one of the two end addresses, and at the latest 49 passes after
  pass two million.
\<close>

theorem tb_compliance_ends:
  assumes "2000049 < length pcs"
  shows "\<exists>n \<le> 2000000. tb_run False y pcs tb_start = Some (n + 49, Signature) \<and>
    tb_at_end y (pcs ! n) (int n + 1) \<and> (\<forall>k < n. \<not> tb_at_end y (pcs ! k) (int k + 1))"
  using assms cl.run_ends [of tb_start 2000000 pcs y] by (simp add: tb_start_def tb_at_end_def ac_simps)

definition tb_example :: tb_symbols where
  "tb_example = \<lparr>reset_adr = 0x7FFFFFFC, start_adr = 0, good_adr = 0x10068, bad_adr = 0x10064,
     exception_occur = 0x1006C, rvtest_code_end = 0x80000100, begin_signature = 0x80001000,
     end_signature = 0x80001010, rvtest_end = 0x80000200\<rparr>"

theorem tb_compliance_ends_witness:
  "\<exists>n \<le> 2000000. tb_run False tb_example (replicate 2000050 0x80000100) tb_start =
     Some (n + 49, Signature) \<and>
     (\<forall>k < n. \<not> tb_at_end tb_example (replicate 2000050 0x80000100 ! k) (int k + 1))"
proof -
  have "2000049 < length (replicate 2000050 (0x80000100 :: u32))"
    by (simp only: length_replicate)
  from tb_compliance_ends [OF this, of tb_example] show ?thesis by blast
qed

text \<open>
  A program test ends at the first of its labels, with the verdict of that label; the label of a
  failure counts first.
\<close>

theorem tb_program_verdict:
  assumes "countdown s = 0" "n < length pcs"
    and "\<forall>k < n. pcs ! k \<notin> {bad_adr y, good_adr y, exception_occur y, rvtest_code_end y, rvtest_end y}"
    and "pcs ! n \<in> {bad_adr y, good_adr y, exception_occur y}"
  shows "tb_run True y pcs s = Some (n, if pcs ! n = bad_adr y then Bad
    else if pcs ! n = good_adr y then Good else Exception_occur)"
  using assms
proof (induction n arbitrary: pcs s)
  case 0
  then show ?case by (cases pcs) (auto simp: tb_step_def Let_def)
next
  case (Suc n)
  obtain pc pcs' where p: "pcs = pc # pcs'" using Suc.prems(2) by (cases pcs) auto
  let ?s = "s\<lparr>countdown := 0, cycles := cycles s + 1\<rparr>"
  have first: "pc \<notin> {bad_adr y, good_adr y, exception_occur y, rvtest_code_end y, rvtest_end y}"
    using Suc.prems(3) p by force
  have "\<forall>k < n. pcs' ! k \<notin> {bad_adr y, good_adr y, exception_occur y, rvtest_code_end y, rvtest_end y}"
    using Suc.prems(3) p by (auto dest: spec [of _ "Suc _"])
  then show ?case
    using Suc.IH [of ?s pcs'] Suc.prems first p by (auto simp: tb_step_def Let_def)
qed

text \<open>
  The counter \<open>countdown\<close> is not initialised.  If it happens to be 2, the signature is written at the first
  pass, before the program has done anything; if it happens to be negative, no test ends
  however many passes follow (an underflow of the counter, after two thousand million passes, left
  aside).
\<close>

theorem tb_countdown_uninitialised:
  "(countdown s = 2 \<longrightarrow> tb_run False y (pc # pcs) s = Some (0, Signature)) \<and>
   (countdown s < 0 \<longrightarrow> tb_run False y pcs s = None)"
  by (simp add: tb_step_compliance cl.run_negative)

theorem tb_countdown_uninitialised_witness:
  "tb_run False tb_example [0x7FFFFFFC] \<lparr>countdown = 2, cycles = 0\<rparr> = Some (0, Signature) \<and>
   tb_run False tb_example (replicate 5 0x80000100) \<lparr>countdown = -7, cycles = 0\<rparr> = None"
  using tb_countdown_uninitialised [of "\<lparr>countdown = 2, cycles = 0\<rparr>" tb_example "0x7FFFFFFC" "[]"]
    tb_countdown_uninitialised [of "\<lparr>countdown = -7, cycles = 0\<rparr>" tb_example 0
      "replicate 5 0x80000100"]
  by simp

theorem tb_program_verdict_witness:
  "tb_run True tb_example [0x10054, 0x10068, 0x1006C] tb_start = Some (1, Good)"
  using tb_program_verdict [of tb_start 1 "[0x10054, 0x10068, 0x1006C]" tb_example]
  by (simp add: tb_start_def tb_example_def)

end
