(* ===== verification/Core_Bench.thy ===== *)
theory Core_Bench
  imports Core_Units Bench_Run
begin

text \<open>
  The simulated system without caches: the whole core of \<open>Core_Units\<close> connected to the memory of
  the bench (\<open>SIM/SystemC/CORE/core_tb.cpp\<close>), and the test at every pass that looks at the program
  counter of the core.

  The bench answers the settled signals of the core, and none of the signals it reads depends on
  its answers (\<open>sim_request_answers\<close>), so one evaluation settles the two.  The bench makes two passes
  in a clock cycle; the second reads the same request and stores the same word again, which changes
  nothing (\<open>sim_second_pass\<close>), so a cycle has one pass here.

  Theorems: core and bench together refine the sequential machine with a memory
  (\<open>Core_Memory\<close>), with no assumption on the caches left; and what the test of the bench sees runs
  ahead of the execution.
\<close>

subsection \<open>The connections\<close>

text \<open>The answers of the bench as inputs of the core.\<close>

definition bench_connect :: "bench_out \<Rightarrow> units_in \<Rightarrow> units_in" where
  "bench_connect r i =
     (let p = core_ports i; b = back_ports p
      in i\<lparr>core_ports := p\<lparr>
             fetch_ports := (fetch_ports p)\<lparr>ifetch_in.INST_SIC := bench_out.INST_SIC r,
               ifetch_in.STALL_SIC := bench_out.STALL_SIC r\<rparr>,
             back_ports := b\<lparr>mem_ports := (mem_ports b)\<lparr>
               mem_env.MCACHE_RESULT_SM := MEM_RESULT r,
               mem_env.MCACHE_STALL_SM := bench_out.MEM_STALL r\<rparr>\<rparr>\<rparr>\<rparr>)"

definition sim_request :: "units_in \<Rightarrow> units \<Rightarrow> bench_in" where
  "sim_request i u =
     (let ci = unit_core_in i u
      in bench_mem_in (core_mem ci (core_part u)) (PC_SI (core_fetch ci (core_part u))))"

definition sim_answer :: "units_in \<Rightarrow> units \<times> ram \<Rightarrow> units_in" where
  "sim_answer i s = bench_connect (fst (bench_step (sim_request i (fst s)) (snd s))) i"

definition sim_cycle :: "units_in \<Rightarrow> units \<times> ram \<Rightarrow> (units \<times> ram) option" where
  "sim_cycle i s =
     map_option (\<lambda>u'. (u', snd (bench_step (sim_request i (fst s)) (snd s))))
       (units_cycle (sim_answer i s) (fst s))"

text \<open>What is left of the outside: no reset, no bus error and no predicted branch.\<close>

definition sim_quiet :: "units_in \<Rightarrow> bool" where
  "sim_quiet i \<longleftrightarrow>
     (let p = core_ports i; f = fetch_ports p
      in RESET_N (reg_ports (back_ports p)) \<and> \<not> BUS_ERROR_SX (mem_ports (back_ports p)) \<and>
         \<not> (PRED_BRANCH_MISS_OUT_SP f \<and> pb_taken f) \<and> \<not> bit (if2dec_high p) 32)"

subsection \<open>The bench does not close a loop\<close>

lemma core_fetch_PC_SI:
  "PC_SI (core_fetch i c) =
     (if PRED_BRANCH_MISS_OUT_SP (fetch_ports i) \<and> pb_taken (fetch_ports i)
      then PRED_BRANCH_TARGET_ADR_OUT_SP (fetch_ports i) else PC_RD (core_fb c))"
  by (simp add: core_fetch_def core_fetch_at_def ifetch_fetch_method_def ifetch_pc_def
      core_fetch_in_def Let_def)

lemma core_mem_request:
  "bench_mem_in (core_mem i c) pc =
     \<lparr>MEM_ADR = (if MEM_STORE_RE (back_re (back_end c)) then EXE_RES_RE (back_re (back_end c))
        else EXE_RES_RE (back_re (back_end c)) AND 0xFFFFFFFC),
      MEM_SIZE = MEM_SIZE_RE (back_re (back_end c)),
      MEM_ADR_VALID = (fifo_v (exe2mem (back_end c)) \<or> \<not> MULT_INST_RM (back_rm (back_end c))),
      MEM_DATA = MCACHE_DATA_SM (core_mem i c),
      MEM_STORE = MEM_STORE_RE (back_re (back_end c)), IF_ADR = pc\<rparr>"
  by (simp add: bench_mem_in_def core_mem_def backend_mem_def mem_settle_request backend_mem_env_def
      fifo_EMPTY_def) (simp add: mem_preprocess_def Let_def)

lemma core_mem_data:
  "MCACHE_DATA_SM (core_mem i c) = MCACHE_DATA_SM (core_mem j c)"
  by (simp add: core_mem_def backend_mem_def) (simp add: mem_preprocess_def Let_def)

lemma bench_connect_sel:
  "PRED_BRANCH_MISS_OUT_SP (fetch_ports (core_ports (bench_connect r i))) =
     PRED_BRANCH_MISS_OUT_SP (fetch_ports (core_ports i))"
  "pb_taken (fetch_ports (core_ports (bench_connect r i))) = pb_taken (fetch_ports (core_ports i))"
  "PRED_BRANCH_TARGET_ADR_OUT_SP (fetch_ports (core_ports (bench_connect r i))) =
     PRED_BRANCH_TARGET_ADR_OUT_SP (fetch_ports (core_ports i))"
  "ifetch_in.INST_SIC (fetch_ports (core_ports (bench_connect r i))) = bench_out.INST_SIC r"
  "ifetch_in.STALL_SIC (fetch_ports (core_ports (bench_connect r i))) = bench_out.STALL_SIC r"
  "mem_env.MCACHE_STALL_SM (mem_ports (back_ports (core_ports (bench_connect r i)))) =
     bench_out.MEM_STALL r"
  "mem_env.MCACHE_RESULT_SM (mem_ports (back_ports (core_ports (bench_connect r i)))) = MEM_RESULT r"
  "reg_ports (back_ports (core_ports (bench_connect r i))) = reg_ports (back_ports (core_ports i))"
  "BUS_ERROR_SX (mem_ports (back_ports (core_ports (bench_connect r i)))) =
     BUS_ERROR_SX (mem_ports (back_ports (core_ports i)))"
  "if2dec_high (core_ports (bench_connect r i)) = if2dec_high (core_ports i)"
  by (simp_all add: bench_connect_def Let_def)

lemma sim_request_answers: "sim_request (bench_connect r i) u = sim_request i u"
  using core_mem_data [of "unit_core_in (bench_connect r i) u" "core_part u" "unit_core_in i u"]
  by (simp add: sim_request_def Let_def core_mem_request core_fetch_PC_SI unit_core_in_sel
      bench_connect_sel)

subsection \<open>The memory\<close>

text \<open>
  The memory of the abstract state: the one of the bench after the store of the instruction in the
  memory stage, which the bench takes in the same cycle.
\<close>

definition sim_mem :: "units \<times> ram \<Rightarrow> ram" where
  "sim_mem s = re_store (back_re (back_end (core_part (fst s)))) (snd s)"

definition sim_abs :: "units \<times> ram \<Rightarrow> rvm_state" where
  "sim_abs s = (core_abs (sim_mem s) (core_part (fst s)), sim_mem s)"

lemma bench_step_sel:
  "bench_out.STALL_SIC (fst (bench_step q ram)) = False"
  "bench_out.MEM_STALL (fst (bench_step q ram)) = False"
  "bench_out.INST_SIC (fst (bench_step q ram)) = snd (bench_step q ram) (IF_ADR q)"
  by (simp_all add: bench_step_def Let_def)

lemma sim_bench_mem:
  assumes "units_inv prog u"
  shows "snd (bench_step (sim_request i u) ram) = sim_mem (u, ram)"
proof -
  have "\<not> MULT_INST_RM (back_rm (back_end (core_part u)))"
    using assms by (simp add: units_inv_def core_inv_def back_inv_def plain_rm_def)
  moreover have "MCACHE_DATA_SM (core_mem (unit_core_in i u) (core_part u)) =
      re_data (back_re (back_end (core_part u)))"
    by (simp add: core_mem_def backend_mem_def mem_drives_data)
  ultimately show ?thesis
    by (simp add: bench_step_def sim_request_def core_mem_request Let_def sim_mem_def re_store_def)
qed

lemma sim_second_pass:
  assumes "units_inv prog u"
  shows "bench_step (sim_request i u) (snd (bench_step (sim_request i u) ram)) =
    bench_step (sim_request i u) ram"
proof -
  have "snd (bench_step (sim_request i u) (sim_mem (u, ram))) = sim_mem (u, ram)"
    unfolding sim_bench_mem [OF assms] by (simp add: sim_mem_def)
  then show ?thesis
    using sim_bench_mem [OF assms, of i ram] by (auto simp: bench_step_def Let_def)
qed

text \<open>A load and a store are not in the memory stage at once, so a load sees the memory as it is.\<close>

lemma sim_load_answer:
  assumes "units_inv m u" "m = sim_mem (u, ram)" "loading (back_end (core_part u))"
  shows "MEM_RESULT (fst (bench_step (sim_request i u) ram)) =
    m (EXE_RES_RE (back_re (back_end (core_part u))) AND 0xFFFFFFFC)"
proof -
  have st: "\<not> MEM_STORE_RE (back_re (back_end (core_part u)))"
    using assms(1,3) by (simp add: units_inv_def core_inv_def back_inv_def plain_re_def load_ok_def loading_def)
  then have "m = ram" using assms(2) by (simp add: sim_mem_def re_store_def)
  then show ?thesis
    using st assms(3) by (simp add: bench_step_def sim_request_def core_mem_request Let_def loading_def)
qed

text \<open>A cycle with the bench is a quiet cycle of the core in which the caches never stall.\<close>

lemma sim_units_quiet:
  fixes ram :: ram
  assumes "units_inv m u" "m = sim_mem (u, ram)" "sim_quiet i"
  shows "units_quiet m (sim_answer i (u, ram)) u" "units_flow (sim_answer i (u, ram))"
    "sim_cycle i (u, ram) = map_option (\<lambda>u'. (u', m)) (units_cycle (sim_answer i (u, ram)) u)"
proof -
  let ?r = "fst (bench_step (sim_request i u) ram)"
  note mem = sim_bench_mem [OF assms(1)] and data = sim_load_answer [OF assms(1,2), of i]
  have "IF_ADR (sim_request i u) = PC_SI (core_fetch (unit_core_in (bench_connect ?r i) u) (core_part u))"
    using sim_request_answers [of ?r i u]
    by (simp add: sim_request_def Let_def core_fetch_PC_SI unit_core_in_sel bench_connect_sel
        core_mem_request)
  then show "units_quiet m (sim_answer i (u, ram)) u" "units_flow (sim_answer i (u, ram))"
    using assms(2,3) data
    by (simp_all add: units_quiet_def units_flow_def sim_quiet_def sim_answer_def bench_connect_sel
        bench_step_sel mem Let_def back_answers_def load_in_time_def)
  show "sim_cycle i (u, ram) = map_option (\<lambda>u'. (u', m)) (units_cycle (sim_answer i (u, ram)) u)"
    by (simp add: sim_cycle_def mem assms(2))
qed

subsection \<open>Programs in the memory of the bench\<close>

definition sim_executes :: "units_in \<Rightarrow> units \<times> ram \<Rightarrow> bool" where
  "sim_executes i s = units_executes (sim_answer i s) (fst s)"

definition sim_inv :: "units \<times> ram \<Rightarrow> bool" where
  "sim_inv s = units_mem_inv (fst s, sim_mem s)"

lemma sim_abs_units: "sim_abs s = units_mem_abs (fst s, sim_mem s)"
  by (simp add: sim_abs_def units_mem_abs_def core_mem_abs_def)

abbreviation "sim_inputs \<equiv> \<lambda>i (s :: units \<times> ram). sim_quiet i"

interpretation sim_lockstep: lockstep sim_cycle sim_executes sim_inputs "\<lambda>_. True"
  sim_inv "core_wait \<circ> core_part \<circ> fst" sim_abs rvm_step rvm_program
proof
  fix s :: "units \<times> ram" and i
  assume inv: "sim_inv s" and prog: "rvm_program (sim_abs s)" and quiet: "sim_inputs i s"
  obtain u ram where s: "s = (u, ram)" by (cases s)
  define m where "m = sim_mem (u, ram)"
  have minv: "units_mem_inv (u, m)" using inv by (simp add: s sim_inv_def m_def)
  then have "units_inv m u" by (simp add: units_mem_inv_def)
  note q = sim_units_quiet [OF this m_def quiet]
  obtain u' where u': "units_cycle (sim_answer i (u, ram)) u = Some u'"
    "units_mem_inv (u', sim_mem (u', m))"
    "units_mem_abs (u', sim_mem (u', m)) = (if units_executes (sim_answer i (u, ram)) u
      then rvm_step (units_mem_abs (u, m)) else units_mem_abs (u, m))"
    "units_executes (sim_answer i (u, ram)) u \<or> core_wait (core_part u') < core_wait (core_part u)"
    using units_mem_step [OF q(1) minv] prog q(2)
    by (auto simp: s sim_abs_units m_def [symmetric] Let_def) (auto simp: sim_mem_def)
  show "\<exists>s'. sim_cycle i s = Some s' \<and> sim_inv s' \<and>
      sim_abs s' = (if sim_executes i s then rvm_step (sim_abs s) else sim_abs s) \<and>
      (True \<longrightarrow> sim_executes i s \<or> (core_wait \<circ> core_part \<circ> fst) s' < (core_wait \<circ> core_part \<circ> fst) s)"
    using u' by (simp add: s q(3) sim_inv_def sim_abs_units sim_executes_def m_def [symmetric])
qed (simp_all add: rvm_program_step core_wait_le)


subsection \<open>What the test of the bench sees\<close>

text \<open>
  The bench decides by \<open>DEBUG_PC_READ\<close>, the program counter register, which is ahead of the
  execution: while decode holds an instruction, the register holds the address behind it.  So
  an instruction in front of a label ends the run with the verdict of the label, whatever it does,
  a branch elsewhere included.
\<close>

theorem bench_verdict_ahead:
  assumes "units_inv prog u" "fifo_v (if2dec (core_part u))"
    and "fetch_pc (core_part u) + 4 = good_adr y" "bad_adr y \<noteq> good_adr y"
  shows "tb_step True y (REG_RR (back_end (core_part u)) ! 32) s = Inl Good"
  using assms by (simp add: tb_step_def Let_def units_inv_def core_inv_def front_inv_def)

subsection \<open>Instances\<close>

text \<open>\<open>lw x1, 0x200(x0); addi x1, x1, 1; sw x1, 0x200(x0); jal x0, -12\<close>.\<close>

definition count_store :: ram where
  "count_store =
     ram_empty(0x100 := 0x20002083, 0x104 := 0x00108093, 0x108 := 0x20102023, 0x10C := 0xFF5FF06F)"

lemma count_store_words:
  "opcode 0x20002083 = 0b0000011" "opcode 0x00108093 = 0b0010011" "opcode 0x20102023 = 0b0100011"
  "opcode 0xFF5FF06F = 0b1101111" "funct3 0x20102023 = 2" "funct3 0x20002083 = 2"
  "rv_rs1 0x20102023 = 0" "rv_rs1 0x20002083 = 0" "rv_offset_s 0x20102023 = 0x200"
  "rv_offset_i 0x20002083 = 0x200" "rv_offset_j 0xFF5FF06F = - 12" "rv_rd 0xFF5FF06F = 0"
  "rv_rd 0x00108093 = 1" "rv_rd 0x20002083 = 1"
  "rv_plain 0x20002083" "rv_plain 0x00108093" "rv_plain 0x20102023" "rv_plain 0xFF5FF06F"
  by code_simp+

definition counts_store :: "rvm_state \<Rightarrow> bool" where
  "counts_store sm \<longleftrightarrow> (case sm of ((pc, x), m) \<Rightarrow>
     (pc = 0x100 \<or> pc = 0x104 \<or> pc = 0x108 \<or> pc = 0x10C) \<and> x 0 = 0 \<and>
     m 0x100 = 0x20002083 \<and> m 0x104 = 0x00108093 \<and> m 0x108 = 0x20102023 \<and> m 0x10C = 0xFF5FF06F)"

lemma counts_store_step: "counts_store sm \<Longrightarrow> counts_store (rvm_step sm)"
  by (cases sm; cases "fst sm")
    (auto simp: counts_store_def rvm_step_def rv_step_def rv_store_def rv_store_at_def rv_adr_def
      rv_stores_def rv_loads_def rv_value_def rv_next_def rv_write_def count_store_words Let_def
      split: option.split)

lemma counts_store_ok: "counts_store sm \<Longrightarrow> rvm_ok sm"
  by (cases sm; cases "fst sm")
    (auto simp: counts_store_def rvm_ok_def rv_ok_def rvm_step_def rv_step_def rv_store_def
      rv_store_at_def rv_adr_def rv_aligned_def rv_bytes_def rv_stores_def rv_loads_def rv_value_def
      rv_next_def count_store_words Let_def)

lemma count_store_program: "rvm_program ((0x100, \<lambda>_. 0), count_store)"
  by (rule rvm_programI [where P = counts_store])
    (simp_all add: counts_store_step counts_store_ok, simp add: counts_store_def count_store_def)


end
