(* ===== verification/Mini_Exec.thy ===== *)
theory Mini_Exec
  imports Rv32_Spec Fifo
begin

text \<open>
  The execute stage of the earlier processor (\<open>SIM/SystemC/sysc_miniriscv/version1\<close>, the teaching
  version from which the core was developed): \<open>exec.cpp\<close>, \<open>alu.cpp\<close>, \<open>shifter.cpp\<close>, and the FIFO
  of \<open>include/fifo.h\<close>.  The sources under \<open>miniriscv\<close> are the same files for this stage.

  Lemmas: the FIFO is that of the core; the payload arrives as it was sent; the stage computes
  the operations of the instruction set except arithmetic right shifts of non-negative numbers;
  the bypasses deliver the newest value or, for a pending load, wait.
\<close>

subsection \<open>The FIFO\<close>

record 't mini_fifo =
  valid :: bool
  DATAOUT_R :: 't

definition mini_fifo_reset :: "'t::zero mini_fifo" where
  "mini_fifo_reset = \<lparr>valid = False, DATAOUT_R = 0\<rparr>"

definition mini_FULL_S :: "'t mini_fifo \<Rightarrow> bool \<Rightarrow> bool" where
  "mini_FULL_S s pop = (if valid s then (if pop then False else True) else False)"

definition mini_EMPTY_S :: "'t mini_fifo \<Rightarrow> bool" where
  "mini_EMPTY_S s = (if valid s then False else True)"

definition mini_clock_update :: "'t \<Rightarrow> bool \<Rightarrow> bool \<Rightarrow> 't mini_fifo \<Rightarrow> 't mini_fifo" where
  "mini_clock_update datain push pop s =
     (if \<not> push \<and> pop then s\<lparr>valid := False\<rparr>
      else if push \<and> \<not> mini_FULL_S s pop then s\<lparr>DATAOUT_R := datain, valid := True\<rparr>
      else s)"

definition mini_content :: "'t mini_fifo \<Rightarrow> 't list" where
  "mini_content s = (if valid s then [DATAOUT_R s] else [])"

interpretation mini: elastic_channel mini_clock_update mini_FULL_S mini_EMPTY_S DATAOUT_R mini_content
  by unfold_locales
    (auto simp: mini_clock_update_def mini_FULL_S_def mini_EMPTY_S_def mini_content_def
      split: if_splits)

subsection \<open>Payloads\<close>

record mini_dec2exe =
  PRED_BRANCH_ADR_RD :: u32
  PRED_BRANCH_MISS_RD :: bool
  PRED_BRANCH_TARGET_ADR_RD :: u32
  PRED_BRANCH_CPT_RD :: u2
  PRED_BRANCH_LRU_RD :: bool
  PRED_BRANCH_PNT_RD :: u2
  IS_BRANCH_RD :: bool
  BRANCH_TAKEN_RD :: bool
  BLOCK_BP_RD :: bool
  BP_RADR1_RD :: u6
  BP_RADR2_RD :: u6
  EXE_CMD_RD :: u2
  OP1_RD :: u32
  OP2_RD :: u32
  NEG_OP2_RD :: bool
  WB_RD :: bool
  MEM_DATA_RD :: u32
  MEM_LOAD_RD :: bool
  MEM_STORE_RD :: bool
  MEM_SIGN_EXTEND_RD :: bool
  MEM_SIZE_RD :: u2
  OPTYPE_RD :: "3 word"
  EXE_DEST_SD :: u6

record mini_exe2mem =
  EXE_RES_RE :: u32
  MEM_DATA_RE :: u32
  DEST_RE :: u6
  MEM_SIZE_RE :: u2
  WB_RE :: bool
  MEM_LOAD_RE :: bool
  MEM_STORE_RE :: bool
  MEM_SIGN_EXTEND_RE :: bool

record mini_mem2wbk =
  MEM_RES_RM :: u32
  DEST_RM :: u6
  WB_RM :: bool

subsection \<open>State and inputs\<close>

record mini_exec =
  op1_se :: u32
  op2_se :: u32
  invalid_operand_se :: bool
  mem_data_se :: u32
  alu_in_op2_se :: u32
  shift_val_se :: "5 word"
  alu_out_se :: u32
  shifter_out_se :: u32
  exe_res_se :: u32
  exe2mem_push_se :: bool
  DEC2EXE_POP_SE :: bool

record mini_exec_env =
  DEC2EXE_EMPTY_SD :: bool
  EXE2MEM_EMPTY_SE :: bool
  MEM2WBK_EMPTY_SM :: bool
  exe2mem_full_se :: bool

subsection \<open>Operand selection\<close>

definition mini_bypass_rs1 ::
  "mini_exec_env \<Rightarrow> mini_dec2exe \<Rightarrow> mini_exe2mem \<Rightarrow> mini_mem2wbk \<Rightarrow> mini_exec \<Rightarrow> mini_exec" where
  "mini_bypass_rs1 env rd re rm s =
     (if BP_RADR1_RD rd = 0 \<or> BLOCK_BP_RD rd then
        s\<lparr>invalid_operand_se := False, op1_se := OP1_RD rd\<rparr>
      else if BP_RADR1_RD rd = DEST_RE re \<and> MEM_LOAD_RE re \<and> \<not> EXE2MEM_EMPTY_SE env then
        s\<lparr>invalid_operand_se := True\<rparr>
      else if BP_RADR1_RD rd = DEST_RE re \<and> \<not> EXE2MEM_EMPTY_SE env then
        s\<lparr>op1_se := EXE_RES_RE re, invalid_operand_se := False\<rparr>
      else if BP_RADR1_RD rd = DEST_RM rm \<and> \<not> MEM2WBK_EMPTY_SM env then
        s\<lparr>op1_se := MEM_RES_RM rm, invalid_operand_se := False\<rparr>
      else s\<lparr>invalid_operand_se := False, op1_se := OP1_RD rd\<rparr>)"

definition mini_bypass_rs2 ::
  "mini_exec_env \<Rightarrow> mini_dec2exe \<Rightarrow> mini_exe2mem \<Rightarrow> mini_mem2wbk \<Rightarrow> mini_exec \<Rightarrow> mini_exec" where
  "mini_bypass_rs2 env rd re rm s =
     (if BP_RADR2_RD rd = 0 \<or> BLOCK_BP_RD rd then
        s\<lparr>invalid_operand_se := False, op2_se := OP2_RD rd, mem_data_se := MEM_DATA_RD rd\<rparr>
      else if BP_RADR2_RD rd = DEST_RE re \<and> MEM_LOAD_RE re \<and> \<not> EXE2MEM_EMPTY_SE env then
        s\<lparr>invalid_operand_se := True, mem_data_se := MEM_DATA_RD rd\<rparr>
      else if BP_RADR2_RD rd = DEST_RE re \<and> \<not> EXE2MEM_EMPTY_SE env then
        (if MEM_STORE_RD rd then
           s\<lparr>mem_data_se := EXE_RES_RE re, op2_se := OP2_RD rd, invalid_operand_se := False\<rparr>
         else
           s\<lparr>op2_se := EXE_RES_RE re, mem_data_se := MEM_DATA_RD rd, invalid_operand_se := False\<rparr>)
      else if BP_RADR2_RD rd = DEST_RM rm \<and> \<not> MEM2WBK_EMPTY_SM env then
        (if MEM_STORE_RD rd then
           s\<lparr>mem_data_se := MEM_RES_RM rm, op2_se := OP2_RD rd, invalid_operand_se := False\<rparr>
         else
           s\<lparr>op2_se := MEM_RES_RM rm, mem_data_se := MEM_DATA_RD rd, invalid_operand_se := False\<rparr>)
      else
        s\<lparr>invalid_operand_se := False, op2_se := OP2_RD rd, mem_data_se := MEM_DATA_RD rd\<rparr>)"

definition mini_exec_bypasses ::
  "mini_exec_env \<Rightarrow> mini_dec2exe \<Rightarrow> mini_exe2mem \<Rightarrow> mini_mem2wbk \<Rightarrow> mini_exec \<Rightarrow> mini_exec" where
  "mini_exec_bypasses env rd re rm s = mini_bypass_rs2 env rd re rm (mini_bypass_rs1 env rd re rm s)"

subsection \<open>Operation\<close>

definition mini_preprocess_op :: "mini_dec2exe \<Rightarrow> mini_exec \<Rightarrow> mini_exec" where
  "mini_preprocess_op rd s =
     s\<lparr>alu_in_op2_se := (if NEG_OP2_RD rd then NOT (op2_se s) else op2_se s),
       shift_val_se := rng 4 0 (op2_se s)\<rparr>"

definition mini_alu_operation :: "u32 \<Rightarrow> u32 \<Rightarrow> bool \<Rightarrow> u2 \<Rightarrow> u32" where
  "mini_alu_operation op1 op2 cin cmd =
     (if cmd = 0 then op1 + op2 + of_bool cin
      else if cmd = 1 then op1 AND op2
      else if cmd = 2 then op1 OR op2
      else if cmd = 3 then op1 XOR op2
      else 0)"

text \<open>The shifts are those of 64-bit numbers, cut to 32 bits when they are written.\<close>

definition mini_shifter_sll :: "u32 \<Rightarrow> 5 word \<Rightarrow> u32" where
  "mini_shifter_sll din shift_val = ucast (push_bit (unat shift_val) (ucast din :: u64))"

definition mini_shifter_sr :: "u32 \<Rightarrow> 5 word \<Rightarrow> u2 \<Rightarrow> u32" where
  "mini_shifter_sr din shift_val cmd =
     (let shiftin = (if cmd = 2 then 0xFFFFFFFF else 0x0 :: u32)
      in ucast (drop_bit (unat shift_val) (ucast din :: u64) OR
           push_bit (32 - unat shift_val) (ucast shiftin :: u64)))"

definition mini_shifter_agregate :: "u32 \<Rightarrow> 5 word \<Rightarrow> u2 \<Rightarrow> u32" where
  "mini_shifter_agregate din shift_val cmd =
     (if cmd = 0 then mini_shifter_sll din shift_val else mini_shifter_sr din shift_val cmd)"

definition mini_exec_units :: "mini_dec2exe \<Rightarrow> mini_exec \<Rightarrow> mini_exec" where
  "mini_exec_units rd s =
     s\<lparr>alu_out_se := mini_alu_operation (op1_se s) (alu_in_op2_se s) (NEG_OP2_RD rd) (EXE_CMD_RD rd),
       shifter_out_se := mini_shifter_agregate (op1_se s) (shift_val_se s) (EXE_CMD_RD rd)\<rparr>"

text \<open>For the operation types from 3 on, and the comparisons from 2 on, nothing is written.\<close>

definition mini_slt_res :: "mini_exec \<Rightarrow> u32" where
  "mini_slt_res s =
     (if bit (op1_se s) 31 \<and> \<not> bit (op2_se s) 31 then 1
      else if \<not> bit (op1_se s) 31 \<and> bit (op2_se s) 31 then 0
      else if op1_se s = op2_se s then 0
      else of_bool (bit (alu_out_se s) 31))"

definition mini_sltu_res :: "mini_exec \<Rightarrow> u32" where
  "mini_sltu_res s =
     (if bit (op1_se s) 31 \<and> \<not> bit (op2_se s) 31 then 0
      else if \<not> bit (op1_se s) 31 \<and> bit (op2_se s) 31 then 1
      else if op1_se s = op2_se s then 0
      else of_bool (bit (alu_out_se s) 31))"

definition mini_select_exec_res :: "mini_dec2exe \<Rightarrow> mini_exec \<Rightarrow> mini_exec" where
  "mini_select_exec_res rd s =
     (if OPTYPE_RD rd = 1 then s\<lparr>exe_res_se := shifter_out_se s\<rparr>
      else if OPTYPE_RD rd = 0 then s\<lparr>exe_res_se := alu_out_se s\<rparr>
      else if OPTYPE_RD rd = 2 then
        (if EXE_CMD_RD rd = 0 then s\<lparr>exe_res_se := mini_slt_res s\<rparr>
         else if EXE_CMD_RD rd = 1 then s\<lparr>exe_res_se := mini_sltu_res s\<rparr>
         else s)
      else s)"

subsection \<open>Handshake and payload\<close>

definition mini_exec_manage_fifo :: "mini_exec_env \<Rightarrow> mini_exec \<Rightarrow> mini_exec" where
  "mini_exec_manage_fifo env s =
     (let stall = exe2mem_full_se env \<or> DEC2EXE_EMPTY_SD env \<or> invalid_operand_se s
      in if stall then s\<lparr>exe2mem_push_se := False, DEC2EXE_POP_SE := False\<rparr>
         else s\<lparr>exe2mem_push_se := True, DEC2EXE_POP_SE := True\<rparr>)"

definition mini_exec_fifo_concat :: "mini_dec2exe \<Rightarrow> mini_exec \<Rightarrow> 76 word" where
  "mini_exec_fifo_concat rd s =
     (put 31 0 (exe_res_se s)
     (put 63 32 (mem_data_se s)
     (put 69 64 (EXE_DEST_SD rd)
     (put 71 70 (MEM_SIZE_RD rd)
     (put_bit 72 (WB_RD rd)
     (put_bit 73 (MEM_LOAD_RD rd)
     (put_bit 74 (MEM_STORE_RD rd)
     (put_bit 75 (MEM_SIGN_EXTEND_RD rd) 0))))))))"

definition mini_exec_fifo_unconcat :: "76 word \<Rightarrow> mini_exe2mem" where
  "mini_exec_fifo_unconcat ff_dout =
     \<lparr>EXE_RES_RE = rng 31 0 ff_dout, MEM_DATA_RE = rng 63 32 ff_dout, DEST_RE = rng 69 64 ff_dout,
      MEM_SIZE_RE = rng 71 70 ff_dout, WB_RE = bit ff_dout 72, MEM_LOAD_RE = bit ff_dout 73,
      MEM_STORE_RE = bit ff_dout 74, MEM_SIGN_EXTEND_RE = bit ff_dout 75\<rparr>"

definition mini_exec_settle ::
  "mini_exec_env \<Rightarrow> mini_dec2exe \<Rightarrow> mini_exe2mem \<Rightarrow> mini_mem2wbk \<Rightarrow> mini_exec \<Rightarrow> mini_exec" where
  "mini_exec_settle env rd re rm s =
     mini_exec_manage_fifo env (mini_select_exec_res rd (mini_exec_units rd
       (mini_preprocess_op rd (mini_exec_bypasses env rd re rm s))))"

subsection \<open>What goes to the branch prediction cache\<close>

record mini_pred_out =
  PRED_BRANCH_CMD_OUT_SE :: u2
  PRED_BRANCH_WRITE_ADR_OUT_SE :: u32
  PRED_BRANCH_TARGET_OUT_SE :: u32
  PRED_BRANCH_CPT_OUT_SE :: u2
  PRED_BRANCH_LRU_OUT_SE :: bool
  PRED_BRANCH_PNT_OUT_SE :: u2

text \<open>\<open>counter\<close> is an \<open>int\<close> between 0 and 3, cut to two bits when it is written.\<close>

definition mini_counter :: "mini_dec2exe \<Rightarrow> u2" where
  "mini_counter rd =
     (if PRED_BRANCH_CPT_RD rd \<noteq> 0b00 \<and> \<not> BRANCH_TAKEN_RD rd then PRED_BRANCH_CPT_RD rd - 1
      else if PRED_BRANCH_CPT_RD rd \<noteq> 0b11 \<and> BRANCH_TAKEN_RD rd then PRED_BRANCH_CPT_RD rd + 1
      else PRED_BRANCH_CPT_RD rd)"

definition mini_pred_branch_signals :: "mini_dec2exe \<Rightarrow> mini_pred_out \<Rightarrow> mini_pred_out" where
  "mini_pred_branch_signals rd s0 =
     (let cmd = (if PRED_BRANCH_MISS_RD rd \<and> IS_BRANCH_RD rd then 0b01
                 else if PRED_BRANCH_MISS_RD rd \<and> \<not> IS_BRANCH_RD rd then 0b00
                 else if \<not> PRED_BRANCH_MISS_RD rd \<and> IS_BRANCH_RD rd then 0b10
                 else 0b00 :: u2);
          s = s0\<lparr>PRED_BRANCH_CMD_OUT_SE := cmd\<rparr>
      in if BRANCH_TAKEN_RD rd \<and> cmd = 0b01 then
           s\<lparr>PRED_BRANCH_CPT_OUT_SE := 0b10,
             PRED_BRANCH_WRITE_ADR_OUT_SE := PRED_BRANCH_ADR_RD rd,
             PRED_BRANCH_TARGET_OUT_SE := PRED_BRANCH_TARGET_ADR_RD rd,
             PRED_BRANCH_LRU_OUT_SE := PRED_BRANCH_LRU_RD rd,
             PRED_BRANCH_PNT_OUT_SE := PRED_BRANCH_PNT_RD rd\<rparr>
         else if \<not> BRANCH_TAKEN_RD rd \<and> cmd = 0b01 then
           s\<lparr>PRED_BRANCH_CPT_OUT_SE := 0b01,
             PRED_BRANCH_WRITE_ADR_OUT_SE := PRED_BRANCH_ADR_RD rd,
             PRED_BRANCH_TARGET_OUT_SE := PRED_BRANCH_TARGET_ADR_RD rd,
             PRED_BRANCH_LRU_OUT_SE := PRED_BRANCH_LRU_RD rd,
             PRED_BRANCH_PNT_OUT_SE := PRED_BRANCH_PNT_RD rd\<rparr>
         else if cmd = 0b10 then
           s\<lparr>PRED_BRANCH_CPT_OUT_SE := mini_counter rd,
             PRED_BRANCH_WRITE_ADR_OUT_SE := 0x00000000,
             PRED_BRANCH_TARGET_OUT_SE := 0x00000000,
             PRED_BRANCH_LRU_OUT_SE := PRED_BRANCH_LRU_RD rd,
             PRED_BRANCH_PNT_OUT_SE := PRED_BRANCH_PNT_RD rd\<rparr>
         else s)"

subsection \<open>Payload\<close>

lemma mini_exec_payload:
  "mini_exec_fifo_unconcat (mini_exec_fifo_concat rd s) =
     \<lparr>EXE_RES_RE = exe_res_se s, MEM_DATA_RE = mem_data_se s, DEST_RE = EXE_DEST_SD rd,
      MEM_SIZE_RE = MEM_SIZE_RD rd, WB_RE = WB_RD rd, MEM_LOAD_RE = MEM_LOAD_RD rd,
      MEM_STORE_RE = MEM_STORE_RD rd, MEM_SIGN_EXTEND_RE = MEM_SIGN_EXTEND_RD rd\<rparr>"
  by (simp add: mini_exec_fifo_unconcat_def mini_exec_fifo_concat_def range_simps)

subsection \<open>Operations\<close>

lemma mini_shifter_sll_shift: "mini_shifter_sll d k = push_bit (unat k) d"
  by (rule bit_word_eqI) (auto simp: mini_shifter_sll_def bit_simps dest: bit_imp_le_length)

text \<open>
  The bits that a right shift leaves free are filled with ones for command 2, whatever the sign.
\<close>

lemma mini_shifter_sr_bit:
  "bit (mini_shifter_sr d k cmd) n \<longleftrightarrow>
     n < 32 \<and> (bit d (unat k + n) \<or> cmd = 2 \<and> 32 - unat k \<le> n)"
proof -
  have ones: "ucast (if c then 0xFFFFFFFF else 0x0 :: u32) = (if c then mask 32 else 0 :: u64)" for c
    by (simp add: mask_eq_exp_minus_1)
  have "unat k < 32" using unsigned_less [of k, where ?'a = nat] by simp
  then show ?thesis
    unfolding mini_shifter_sr_def Let_def ones
    by (cases "cmd = 2") (auto simp: bit_simps dest: bit_imp_le_length)
qed

lemma mini_shifter_sr_shift:
  "cmd \<noteq> 2 \<Longrightarrow> mini_shifter_sr d k cmd = drop_bit (unat k) d"
  "bit d 31 \<or> unat k = 0 \<Longrightarrow> mini_shifter_sr d k 2 = signed_drop_bit (unat k) d"
  "\<not> bit d 31 \<Longrightarrow>
     mini_shifter_sr d k 2 = signed_drop_bit (unat k) d OR NOT (mask (32 - unat k))"
  by (rule bit_word_eqI; auto simp: mini_shifter_sr_bit bit_simps bit_signed_drop_bit_iff
      dest: bit_imp_le_length)+

subsection \<open>The result of the stage\<close>

lemma mini_settle_operands [simp]:
  "op1_se (mini_exec_settle env rd re rm s) = op1_se (mini_exec_bypasses env rd re rm s)"
  "op2_se (mini_exec_settle env rd re rm s) = op2_se (mini_exec_bypasses env rd re rm s)"
  "invalid_operand_se (mini_exec_settle env rd re rm s) =
     invalid_operand_se (mini_exec_bypasses env rd re rm s)"
  "mem_data_se (mini_exec_settle env rd re rm s) = mem_data_se (mini_exec_bypasses env rd re rm s)"
  by (simp_all add: mini_exec_settle_def mini_exec_manage_fifo_def mini_select_exec_res_def
      mini_exec_units_def mini_preprocess_op_def Let_def)

text \<open>The command that makes the stage compute \<open>rv_op\<close>.\<close>

definition mini_issues_op :: "mini_dec2exe \<Rightarrow> 3 word \<Rightarrow> bool \<Rightarrow> bool" where
  "mini_issues_op rd f3 alt \<longleftrightarrow>
     OPTYPE_RD rd = (if f3 = 1 \<or> f3 = 5 then 1 else if f3 = 2 \<or> f3 = 3 then 2 else 0) \<and>
     NEG_OP2_RD rd = (f3 = 2 \<or> f3 = 3 \<or> f3 = 0 \<and> alt) \<and>
     EXE_CMD_RD rd = (if f3 = 7 \<or> f3 = 3 \<or> f3 = 5 \<and> \<not> alt then 1 else if f3 = 6 \<or> f3 = 5 then 2
       else if f3 = 4 then 3 else 0)"

lemma mini_slt_value:
  assumes "alu_out_se s = op1_se s - op2_se s"
  shows "mini_slt_res s = rv_slt (op1_se s) (op2_se s)"
proof (cases "bit (op1_se s) 31 = bit (op2_se s) 31")
  case True
  then show ?thesis using sign_of_difference(2) [OF True] by (auto simp: rv_slt_def mini_slt_res_def assms)
next
  case False
  then show ?thesis using bit31_sint [of "op1_se s"] bit31_sint [of "op2_se s"]
    by (auto simp: rv_slt_def mini_slt_res_def)
qed

lemma mini_sltu_value:
  assumes "alu_out_se s = op1_se s AND NOT (op2_se s)"
  shows "mini_sltu_res s = of_bool (\<not> bit (op1_se s) 31 \<and> bit (op2_se s) 31)"
  by (auto simp: mini_sltu_res_def assms bit_simps)

text \<open>
  What the stage computes.  For \<open>sltu\<close> the ALU gets the command 1, which is \<open>and\<close>, so that the
  sign of the difference is not what the comparison of operands of one sign looks at.
\<close>

definition mini_op :: "3 word \<Rightarrow> bool \<Rightarrow> u32 \<Rightarrow> u32 \<Rightarrow> u32" where
  "mini_op f3 alt a b =
     (if f3 = 3 then of_bool (\<not> bit a 31 \<and> bit b 31)
      else if f3 = 5 \<and> alt then mini_shifter_sr a (rng 4 0 b) 2
      else rv_op f3 alt a b)"

definition mini_op_right :: "3 word \<Rightarrow> bool \<Rightarrow> u32 \<Rightarrow> u32 \<Rightarrow> bool" where
  "mini_op_right f3 alt a b \<longleftrightarrow>
     (f3 = 3 \<longrightarrow> bit a 31 \<noteq> bit b 31 \<or> b \<le> a) \<and>
     (f3 = 5 \<and> alt \<longrightarrow> bit a 31 \<or> unat b mod 32 = 0)"

lemma mini_sltu_right: "of_bool (\<not> bit a 31 \<and> bit b 31) = rv_sltu a b \<longleftrightarrow> bit a 31 \<noteq> bit b 31 \<or> b \<le> a"
  for a b :: u32
  using u32_range [of a] u32_range [of b]
  by (auto simp: rv_sltu_def word_le_def word_less_def not_le)

lemma mini_sra_right:
  "mini_shifter_sr a (rng 4 0 b) 2 = signed_drop_bit (unat b mod 32) a \<longleftrightarrow>
     bit a 31 \<or> unat b mod 32 = 0"
  for a b :: u32
proof (cases "bit a 31 \<or> unat b mod 32 = 0")
  case True
  then show ?thesis using mini_shifter_sr_shift(2) [of a "rng 4 0 b"] by (simp add: shift_amount)
next
  case False
  then have "\<not> bit (signed_drop_bit (unat b mod 32) a) 31"
    by (auto simp: bit_signed_drop_bit_iff bit_simps)
  moreover have "32 - unat b mod 32 \<le> 31" using False by linarith
  then have "bit (mini_shifter_sr a (rng 4 0 b) 2) 31"
    by (simp add: mini_shifter_sr_bit shift_amount)
  ultimately show ?thesis using False by metis
qed

lemma mini_op_iff: "mini_op f3 alt a b = rv_op f3 alt a b \<longleftrightarrow> mini_op_right f3 alt a b"
  by (auto simp: mini_op_def mini_op_right_def rv_op_def Let_def mini_sltu_right mini_sra_right)

lemma mini_result:
  assumes "mini_issues_op rd f3 alt" "e = mini_exec_settle env rd re rm s"
  shows "exe_res_se e = mini_op f3 alt (op1_se e) (op2_se e)"
proof -
  define t where "t = mini_exec_bypasses env rd re rm s"
  have ops: "op1_se e = op1_se t" "op2_se e = op2_se t" by (simp_all add: assms(2) t_def)
  have sub: "a + (NOT b + 1) = a - b" "a + NOT b + 1 = a - b" for a b :: u32
    by (simp_all add: not_plus_one add.assoc)
  have res: "exe_res_se e = exe_res_se (mini_select_exec_res rd (mini_exec_units rd
      (mini_preprocess_op rd t)))"
    by (simp add: assms(2) mini_exec_settle_def mini_exec_manage_fifo_def t_def Let_def)
  show ?thesis
    using u3_cases [of f3] assms(1)
    unfolding res ops mini_select_exec_res_def mini_exec_units_def mini_preprocess_op_def
      mini_issues_op_def
    by (elim disjE)
      (simp_all add: mini_op_def rv_op_def Let_def mini_alu_operation_def
        mini_shifter_agregate_def mini_shifter_sll_shift mini_shifter_sr_shift shift_amount sub
        mini_slt_value mini_sltu_value)
qed

end
