(* ===== verification/Mini_Decode.thy ===== *)
theory Mini_Decode
  imports Mini_Exec Decode_Instr
begin

text \<open>
  The decode stage of the earlier processor (\<open>sysc_miniriscv/version1\<close>, \<open>src/dec.cpp\<close> and
  \<open>include/dec.h\<close>): recognition of the instructions, register addresses, bypasses, operands and
  commands, branch conditions, stalls, the program counter, and the payload for execute.

  Lemmas: the decoder recognises what that of the core recognises; with the execute stage behind
  it, it computes the results of the instruction set but for two operations; operands are the
  newest; branches and jumps that are not in the prediction cache go where they should.
\<close>

subsection \<open>Recognition\<close>

record mini_type =
  r_type_inst_sd :: bool
  i_type_inst_sd :: bool
  s_type_inst_sd :: bool
  b_type_inst_sd :: bool
  u_type_inst_sd :: bool
  j_type_inst_sd :: bool
  jalr_type_inst_sd :: bool

definition mini_decoding_instruction_type :: "u32 \<Rightarrow> mini_type" where
  "mini_decoding_instruction_type ir =
     \<lparr>r_type_inst_sd = (opcode ir = 0b0110011 \<and> funct7 ir \<noteq> 0b0000001),
      i_type_inst_sd = (opcode ir = 0b0010011 \<or> opcode ir = 0b0000011),
      s_type_inst_sd = (opcode ir = 0b0100011),
      b_type_inst_sd = (opcode ir = 0b1100011),
      u_type_inst_sd = (opcode ir = 0b0110111 \<or> opcode ir = 0b0010111),
      j_type_inst_sd = (opcode ir = 0b1101111),
      jalr_type_inst_sd = (opcode ir = 0b1100111)\<rparr>"

record mini_instr =
  add_i_sd :: bool
  slt_i_sd :: bool
  sltu_i_sd :: bool
  and_i_sd :: bool
  or_i_sd :: bool
  xor_i_sd :: bool
  sll_i_sd :: bool
  srl_i_sd :: bool
  sub_i_sd :: bool
  sra_i_sd :: bool
  addi_i_sd :: bool
  slti_i_sd :: bool
  sltiu_i_sd :: bool
  andi_i_sd :: bool
  ori_i_sd :: bool
  xori_i_sd :: bool
  fence_i_sd :: bool
  slli_i_sd :: bool
  srli_i_sd :: bool
  srai_i_sd :: bool
  lw_i_sd :: bool
  lh_i_sd :: bool
  lhu_i_sd :: bool
  lb_i_sd :: bool
  lbu_i_sd :: bool
  beq_i_sd :: bool
  bne_i_sd :: bool
  blt_i_sd :: bool
  bge_i_sd :: bool
  bltu_i_sd :: bool
  bgeu_i_sd :: bool
  lui_i_sd :: bool
  auipc_i_sd :: bool
  jal_i_sd :: bool
  jalr_i_sd :: bool
  sw_i_sd :: bool
  sh_i_sd :: bool
  sb_i_sd :: bool

definition mini_decoding_instruction :: "u32 \<Rightarrow> mini_instr" where
  "mini_decoding_instruction ir =
     \<lparr>add_i_sd = (opcode ir = 0b0110011 \<and> funct7 ir = 0b0000000 \<and> funct3 ir = 0b000),
      slt_i_sd = (opcode ir = 0b0110011 \<and> funct7 ir = 0b0000000 \<and> funct3 ir = 0b010),
      sltu_i_sd = (opcode ir = 0b0110011 \<and> funct7 ir = 0b0000000 \<and> funct3 ir = 0b011),
      and_i_sd = (opcode ir = 0b0110011 \<and> funct7 ir = 0b0000000 \<and> funct3 ir = 0b111),
      or_i_sd = (opcode ir = 0b0110011 \<and> funct7 ir = 0b0000000 \<and> funct3 ir = 0b110),
      xor_i_sd = (opcode ir = 0b0110011 \<and> funct7 ir = 0b0000000 \<and> funct3 ir = 0b100),
      sll_i_sd = (opcode ir = 0b0110011 \<and> funct7 ir = 0b0000000 \<and> funct3 ir = 0b001),
      srl_i_sd = (opcode ir = 0b0110011 \<and> funct7 ir = 0b0000000 \<and> funct3 ir = 0b101),
      sub_i_sd = (opcode ir = 0b0110011 \<and> funct7 ir = 0b0100000 \<and> funct3 ir = 0b000),
      sra_i_sd = (opcode ir = 0b0110011 \<and> funct7 ir = 0b0100000 \<and> funct3 ir = 0b101),
      addi_i_sd = (opcode ir = 0b0010011 \<and> funct3 ir = 0b000),
      slti_i_sd = (opcode ir = 0b0010011 \<and> funct3 ir = 0b010),
      sltiu_i_sd = (opcode ir = 0b0010011 \<and> funct3 ir = 0b011),
      andi_i_sd = (opcode ir = 0b0010011 \<and> funct3 ir = 0b111),
      ori_i_sd = (opcode ir = 0b0010011 \<and> funct3 ir = 0b110),
      xori_i_sd = (opcode ir = 0b0010011 \<and> funct3 ir = 0b100),
      fence_i_sd = (opcode ir = 0b0001111 \<and> funct3 ir = 0b000),
      slli_i_sd = (opcode ir = 0b0010011 \<and> funct7 ir = 0b0000000 \<and> funct3 ir = 0b001),
      srli_i_sd = (opcode ir = 0b0010011 \<and> funct7 ir = 0b0000000 \<and> funct3 ir = 0b101),
      srai_i_sd = (opcode ir = 0b0010011 \<and> funct7 ir = 0b0100000 \<and> funct3 ir = 0b101),
      lw_i_sd = (opcode ir = 0b0000011 \<and> funct3 ir = 0b010),
      lh_i_sd = (opcode ir = 0b0000011 \<and> funct3 ir = 0b001),
      lhu_i_sd = (opcode ir = 0b0000011 \<and> funct3 ir = 0b101),
      lb_i_sd = (opcode ir = 0b0000011 \<and> funct3 ir = 0b000),
      lbu_i_sd = (opcode ir = 0b0000011 \<and> funct3 ir = 0b100),
      beq_i_sd = (opcode ir = 0b1100011 \<and> funct3 ir = 0b000),
      bne_i_sd = (opcode ir = 0b1100011 \<and> funct3 ir = 0b001),
      blt_i_sd = (opcode ir = 0b1100011 \<and> funct3 ir = 0b100),
      bge_i_sd = (opcode ir = 0b1100011 \<and> funct3 ir = 0b101),
      bltu_i_sd = (opcode ir = 0b1100011 \<and> funct3 ir = 0b110),
      bgeu_i_sd = (opcode ir = 0b1100011 \<and> funct3 ir = 0b111),
      lui_i_sd = (opcode ir = 0b0110111),
      auipc_i_sd = (opcode ir = 0b0010111),
      jal_i_sd = (opcode ir = 0b1101111),
      jalr_i_sd = (opcode ir = 0b1100111),
      sw_i_sd = (opcode ir = 0b0100011 \<and> funct3 ir = 0b010),
      sh_i_sd = (opcode ir = 0b0100011 \<and> funct3 ir = 0b001),
      sb_i_sd = (opcode ir = 0b0100011 \<and> funct3 ir = 0b000)\<rparr>"

abbreviation "mty ir \<equiv> mini_decoding_instruction_type ir"
abbreviation "mfl ir \<equiv> mini_decoding_instruction ir"

subsection \<open>Inputs and state\<close>

record mini_dec_in =
  INSTR_RI :: u32
  PC_RI :: u32
  IF2DEC_EMPTY_SI :: bool
  PRED_BRANCH_MISS_RI :: bool
  PRED_BRANCH_CPT_RI :: u2
  PRED_BRANCH_LRU_RI :: bool
  PRED_BRANCH_PNT_RI :: u2
  RDATA1_SR :: u32
  RDATA2_SR :: u32
  READ_PC_SR :: u32
  DEC2EXE_EMPTY_SD :: bool
  EXE2MEM_EMPTY_SE :: bool
  MEM2WBK_EMPTY_SM :: bool
  dec2exe_full_sd :: bool
  dec2if_full_sd :: bool

record mini_dec =
  RADR1_SD :: u6
  RADR2_SD :: u6
  adr_dest_sd :: u6
  invalid_operand_sd :: bool
  rdata1_sd :: u32
  rdata2_sd :: u32
  block_in_dec_sd :: bool
  mem_load_sd :: bool
  mem_store_sd :: bool
  mem_size_sd :: u2
  mem_sign_extend_sd :: bool
  exe_cmd_sd :: u2
  optype_sd :: u2
  exe_neg_op2_sd :: bool
  exe_wb_sd :: bool
  block_bp_sd :: bool
  exe_op1_sd :: u32
  exe_op2_sd :: u32
  mem_data_sd :: u32
  offset_branch_sd :: u32
  jump_sd :: bool
  stall_sd :: bool
  WRITE_PC_SD :: u32
  WRITE_PC_ENABLE_SD :: bool
  dec2if_push_sd :: bool
  dec2if_in_sd :: u32
  pb_taken_sd :: bool
  IF2DEC_POP_SD :: bool
  PB_IF2DEC_POP_SD :: bool
  IF2DEC_FLUSH_SD :: bool
  PB_IF2DEC_FLUSH_SD :: bool
  dec2exe_push_sd :: bool

subsection \<open>Register addresses\<close>

definition mini_set_regs :: "u6 \<Rightarrow> u6 \<Rightarrow> u6 \<Rightarrow> mini_dec \<Rightarrow> mini_dec" where
  "mini_set_regs r1 r2 dest s = s\<lparr>RADR1_SD := r1, RADR2_SD := r2, adr_dest_sd := dest\<rparr>"

definition mini_pre_reg_read_decoding :: "u32 \<Rightarrow> mini_type \<Rightarrow> mini_dec \<Rightarrow> mini_dec" where
  "mini_pre_reg_read_decoding ir t =
     (if r_type_inst_sd t then mini_set_regs (rng 19 15 ir) (rng 24 20 ir) (rng 11 7 ir)
      else if i_type_inst_sd t then mini_set_regs (rng 19 15 ir) 0 (rng 11 7 ir)
      else if s_type_inst_sd t then mini_set_regs (rng 19 15 ir) (rng 24 20 ir) 0
      else if b_type_inst_sd t then mini_set_regs (rng 19 15 ir) (rng 24 20 ir) 0
      else if u_type_inst_sd t then mini_set_regs 0 0 (rng 11 7 ir)
      else if j_type_inst_sd t then mini_set_regs 0 0 (rng 11 7 ir)
      else if jalr_type_inst_sd t then mini_set_regs (rng 19 15 ir) 0 (rng 11 7 ir)
      else mini_set_regs 0 0 0)"

subsection \<open>Bypasses\<close>

text \<open>When an operand is not there yet, \<open>rdata1_sd\<close> (or \<open>rdata2_sd\<close>) keeps its value.\<close>

definition mini_dec_bypass_rs1 ::
  "mini_dec_in \<Rightarrow> mini_dec2exe \<Rightarrow> mini_exe2mem \<Rightarrow> mini_mem2wbk \<Rightarrow> mini_dec \<Rightarrow> mini_dec" where
  "mini_dec_bypass_rs1 i rd re rm s =
     (if RADR1_SD s = 0 then s\<lparr>invalid_operand_sd := False, rdata1_sd := RDATA1_SR i\<rparr>
      else if RADR1_SD s = EXE_DEST_SD rd \<and> \<not> DEC2EXE_EMPTY_SD i then s\<lparr>invalid_operand_sd := True\<rparr>
      else if RADR1_SD s = DEST_RE re \<and> MEM_LOAD_RE re \<and> \<not> EXE2MEM_EMPTY_SE i then
        s\<lparr>invalid_operand_sd := True\<rparr>
      else if RADR1_SD s = DEST_RE re \<and> \<not> EXE2MEM_EMPTY_SE i then
        s\<lparr>invalid_operand_sd := False, rdata1_sd := EXE_RES_RE re\<rparr>
      else if RADR1_SD s = DEST_RM rm \<and> \<not> MEM2WBK_EMPTY_SM i then
        s\<lparr>invalid_operand_sd := False, rdata1_sd := MEM_RES_RM rm\<rparr>
      else s\<lparr>invalid_operand_sd := False, rdata1_sd := RDATA1_SR i\<rparr>)"

definition mini_dec_bypass_rs2 ::
  "mini_dec_in \<Rightarrow> mini_dec2exe \<Rightarrow> mini_exe2mem \<Rightarrow> mini_mem2wbk \<Rightarrow> mini_dec \<Rightarrow> mini_dec" where
  "mini_dec_bypass_rs2 i rd re rm s =
     (if RADR2_SD s = 0 then s\<lparr>rdata2_sd := RDATA2_SR i\<rparr>
      else if RADR2_SD s = EXE_DEST_SD rd \<and> \<not> DEC2EXE_EMPTY_SD i then s\<lparr>invalid_operand_sd := True\<rparr>
      else if RADR2_SD s = DEST_RE re \<and> MEM_LOAD_RE re \<and> \<not> EXE2MEM_EMPTY_SE i then
        s\<lparr>invalid_operand_sd := True\<rparr>
      else if RADR2_SD s = DEST_RE re \<and> \<not> EXE2MEM_EMPTY_SE i then s\<lparr>rdata2_sd := EXE_RES_RE re\<rparr>
      else if RADR2_SD s = DEST_RM rm \<and> \<not> MEM2WBK_EMPTY_SM i then s\<lparr>rdata2_sd := MEM_RES_RM rm\<rparr>
      else s\<lparr>rdata2_sd := RDATA2_SR i\<rparr>)"

definition mini_dec_bypasses ::
  "mini_dec_in \<Rightarrow> mini_dec2exe \<Rightarrow> mini_exe2mem \<Rightarrow> mini_mem2wbk \<Rightarrow> mini_dec \<Rightarrow> mini_dec" where
  "mini_dec_bypasses i rd re rm s =
     (let s' = mini_dec_bypass_rs2 i rd re rm (mini_dec_bypass_rs1 i rd re rm s)
      in s'\<lparr>block_in_dec_sd := ((RADR1_SD s = EXE_DEST_SD rd \<or> RADR2_SD s = EXE_DEST_SD rd) \<and>
           MEM_LOAD_RD rd \<and> \<not> DEC2EXE_EMPTY_SD i)\<rparr>)"

subsection \<open>Operands, commands and branch conditions\<close>

definition mini_load_size :: "mini_instr \<Rightarrow> mini_dec \<Rightarrow> mini_dec" where
  "mini_load_size f s =
     (if lw_i_sd f \<or> lh_i_sd f \<or> lhu_i_sd f \<or> lb_i_sd f \<or> lbu_i_sd f then
        s\<lparr>mem_load_sd := True,
          mem_size_sd := (if lw_i_sd f then 0 else if lh_i_sd f \<or> lhu_i_sd f then 1
            else if lb_i_sd f \<or> lbu_i_sd f then 2 else mem_size_sd s),
          mem_sign_extend_sd := (lb_i_sd f \<or> lh_i_sd f)\<rparr>
      else s\<lparr>mem_load_sd := False, mem_size_sd := 0, mem_sign_extend_sd := False\<rparr>)"

definition mini_post_alu :: "mini_dec_in \<Rightarrow> mini_type \<Rightarrow> mini_instr \<Rightarrow> mini_dec \<Rightarrow> mini_dec" where
  "mini_post_alu i t f s =
     (let ir = INSTR_RI i;
          (op1, op2) =
            (if i_type_inst_sd t then (rdata1_sd s, dec_imm_i ir)
             else if u_type_inst_sd t then
               (dec_imm_u ir, if auipc_i_sd f then PC_RI i else rdata2_sd s)
             else (rdata1_sd s, rdata2_sd s))
      in (mini_load_size f s)
        \<lparr>mem_store_sd := False, exe_wb_sd := True, mem_data_sd := 0, offset_branch_sd := 0,
         jump_sd := False, exe_op1_sd := op1, exe_op2_sd := op2,
         exe_neg_op2_sd := (sub_i_sd f \<or> slt_i_sd f \<or> slti_i_sd f \<or> sltu_i_sd f \<or> sltiu_i_sd f),
         exe_cmd_sd :=
           (if and_i_sd f \<or> andi_i_sd f \<or> srl_i_sd f \<or> srli_i_sd f \<or> sltu_i_sd f \<or> sltiu_i_sd f then 1
            else if or_i_sd f \<or> ori_i_sd f \<or> sra_i_sd f \<or> srai_i_sd f then 2
            else if xor_i_sd f \<or> xori_i_sd f then 3
            else 0),
         optype_sd :=
           (if sll_i_sd f \<or> slli_i_sd f \<or> srl_i_sd f \<or> srli_i_sd f \<or> sra_i_sd f \<or> srai_i_sd f then 1
            else if slti_i_sd f \<or> slt_i_sd f \<or> sltu_i_sd f \<or> sltiu_i_sd f then 2
            else 0)\<rparr>)"

definition mini_post_store :: "mini_dec_in \<Rightarrow> mini_instr \<Rightarrow> mini_dec \<Rightarrow> mini_dec" where
  "mini_post_store i f s =
     s\<lparr>exe_cmd_sd := 0, optype_sd := 0, exe_neg_op2_sd := False, mem_load_sd := False,
       offset_branch_sd := 0, jump_sd := False, exe_op1_sd := rdata1_sd s, mem_store_sd := True,
       exe_wb_sd := True, exe_op2_sd := dec_imm_s (INSTR_RI i), mem_data_sd := rdata2_sd s,
       mem_size_sd := (if sw_i_sd f then 0 else if sh_i_sd f then 1 else if sb_i_sd f then 2
         else mem_size_sd s)\<rparr>"

definition mini_branch_taken :: "mini_instr \<Rightarrow> u32 \<Rightarrow> u32 \<Rightarrow> bool" where
  "mini_branch_taken f op1 op2 =
     (let res_comparaison = ucast op1 - ucast op2 :: 33 word;
          different_sign = (bit op1 31 \<noteq> bit op2 31);
          equal = (res_comparaison = 0)
      in if bne_i_sd f then \<not> equal
         else if beq_i_sd f then equal
         else if blt_i_sd f then
           (if different_sign then bit op1 31 else bit res_comparaison 31)
         else if bltu_i_sd f then
           (if different_sign then bit op2 31 else bit res_comparaison 31)
         else if bge_i_sd f then
           (if different_sign then bit op2 31 else \<not> bit res_comparaison 31)
         else if bgeu_i_sd f then
           (if different_sign then bit op1 31 else \<not> bit res_comparaison 31)
         else False)"

definition mini_post_branch :: "mini_dec_in \<Rightarrow> mini_instr \<Rightarrow> mini_dec \<Rightarrow> mini_dec" where
  "mini_post_branch i f s =
     s\<lparr>mem_load_sd := False, mem_store_sd := False, mem_sign_extend_sd := False, mem_size_sd := 0,
       exe_wb_sd := True, mem_data_sd := 0, exe_cmd_sd := 0, optype_sd := 0, exe_neg_op2_sd := False,
       offset_branch_sd := dec_imm_b (INSTR_RI i), exe_op1_sd := rdata1_sd s,
       exe_op2_sd := rdata2_sd s, jump_sd := mini_branch_taken f (rdata1_sd s) (rdata2_sd s)\<rparr>"

definition mini_post_jump :: "mini_dec_in \<Rightarrow> mini_type \<Rightarrow> mini_dec \<Rightarrow> mini_dec" where
  "mini_post_jump i t s =
     s\<lparr>exe_cmd_sd := 0, exe_neg_op2_sd := False, exe_wb_sd := True, mem_load_sd := False,
       mem_store_sd := False, mem_sign_extend_sd := False, mem_size_sd := 0, optype_sd := 0,
       mem_data_sd := 0, jump_sd := True, exe_op1_sd := READ_PC_SR i, exe_op2_sd := 0,
       offset_branch_sd :=
         (if jalr_type_inst_sd t then dec_imm_i (INSTR_RI i) + (rdata1_sd s - PC_RI i)
          else dec_imm_j (INSTR_RI i))\<rparr>"

definition mini_post_nop :: "mini_dec \<Rightarrow> mini_dec" where
  "mini_post_nop s =
     s\<lparr>exe_cmd_sd := 0, exe_op1_sd := 0, exe_op2_sd := 0, exe_neg_op2_sd := False,
       exe_wb_sd := False, mem_load_sd := False, mem_store_sd := False,
       mem_sign_extend_sd := False, mem_size_sd := 0, optype_sd := 0, offset_branch_sd := 0,
       mem_data_sd := 0, jump_sd := False\<rparr>"

text \<open>\<open>illegal_inst\<close> is computed by the method and not used.\<close>

definition mini_post_reg_read_decoding ::
  "mini_dec_in \<Rightarrow> mini_type \<Rightarrow> mini_instr \<Rightarrow> mini_dec \<Rightarrow> mini_dec" where
  "mini_post_reg_read_decoding i t f s =
     (if r_type_inst_sd t \<or> i_type_inst_sd t \<or> u_type_inst_sd t then mini_post_alu i t f s
      else if s_type_inst_sd t then mini_post_store i f s
      else if b_type_inst_sd t then mini_post_branch i f s
      else if jalr_type_inst_sd t \<or> j_type_inst_sd t then mini_post_jump i t s
      else mini_post_nop s)\<lparr>block_bp_sd := jalr_type_inst_sd t\<rparr>"

subsection \<open>Stalls, program counter and handshakes\<close>

definition mini_stall_method :: "mini_dec_in \<Rightarrow> mini_dec \<Rightarrow> mini_dec" where
  "mini_stall_method i s =
     s\<lparr>stall_sd := (invalid_operand_sd s \<or> block_in_dec_sd s \<or> IF2DEC_EMPTY_SI i \<or>
         dec2exe_full_sd i)\<rparr>"

definition mini_pb_taken :: "mini_dec_in \<Rightarrow> bool" where
  "mini_pb_taken i \<longleftrightarrow> \<not> PRED_BRANCH_MISS_RI i \<and> 2 \<le> PRED_BRANCH_CPT_RI i"

text \<open>The next program counter, if there is one, as \<open>pc_inc\<close> chooses it.\<close>

definition mini_next_pc :: "mini_dec_in \<Rightarrow> mini_dec \<Rightarrow> u32 option" where
  "mini_next_pc i s =
     (let pc = READ_PC_SR i; pb_taken = mini_pb_taken i
      in if dec2if_full_sd i then None
         else if IF2DEC_EMPTY_SI i \<or> \<not> jump_sd s then
           (if pb_taken \<and> \<not> IF2DEC_EMPTY_SI i \<and> \<not> stall_sd s then Some pc else Some (pc + 4))
         else if jump_sd s \<and> \<not> IF2DEC_EMPTY_SI i \<and> \<not> stall_sd s then
           (if \<not> PRED_BRANCH_MISS_RI i then
              (if \<not> pb_taken then Some (pc + offset_branch_sd s) else Some (PC_RI i + 4))
            else Some (pc + offset_branch_sd s - 4))
         else None)"

definition mini_if2dec :: "bool \<Rightarrow> bool \<Rightarrow> mini_dec \<Rightarrow> mini_dec" where
  "mini_if2dec pop flush s =
     s\<lparr>IF2DEC_POP_SD := pop, PB_IF2DEC_POP_SD := pop, IF2DEC_FLUSH_SD := flush,
       PB_IF2DEC_FLUSH_SD := flush\<rparr>"

definition mini_pc_inc :: "mini_dec_in \<Rightarrow> mini_dec \<Rightarrow> mini_dec" where
  "mini_pc_inc i s =
     (let pb_taken = mini_pb_taken i; next_pc = mini_next_pc i s;
          pc_out = (case next_pc of None \<Rightarrow> READ_PC_SR i | Some a \<Rightarrow> a);
          s1 = s\<lparr>WRITE_PC_ENABLE_SD := (next_pc \<noteq> None), dec2if_push_sd := (next_pc \<noteq> None)\<rparr>;
          s2 = (if pb_taken then
                  (let p = s1\<lparr>pb_taken_sd := True\<rparr>
                   in if jump_sd s \<and> \<not> stall_sd s then mini_if2dec True False p
                      else if \<not> jump_sd s \<and> \<not> stall_sd s then mini_if2dec True True p
                      else mini_if2dec False False p)
                else if jump_sd s \<and> \<not> stall_sd s then
                  mini_if2dec True True (s1\<lparr>pb_taken_sd := False\<rparr>)
                else if \<not> jump_sd s \<and> \<not> stall_sd s then
                  mini_if2dec True False (s1\<lparr>pb_taken_sd := False\<rparr>)
                else mini_if2dec False False s1)
      in s2\<lparr>dec2exe_push_sd := (\<not> stall_sd s), WRITE_PC_SD := pc_out, dec2if_in_sd := pc_out\<rparr>)"

subsection \<open>The payload for execute\<close>

text \<open>
  Bit 131 is written twice: the second write, the branch flag, replaces the low bit of the index
  into the prediction cache.
\<close>

definition mini_concat_dec2exe :: "mini_dec_in \<Rightarrow> mini_type \<Rightarrow> mini_instr \<Rightarrow> mini_dec \<Rightarrow> 201 word" where
  "mini_concat_dec2exe i t f s =
     (put_bit 0 (sltu_i_sd f \<or> sltiu_i_sd f)
     (put_bit 1 (slt_i_sd f \<or> slti_i_sd f)
     (put 7 2 (adr_dest_sd s)
     (put 11 8 (optype_sd s)
     (put 13 12 (mem_size_sd s)
     (put_bit 14 (mem_sign_extend_sd s)
     (put_bit 15 (mem_store_sd s)
     (put_bit 16 (mem_load_sd s)
     (put 48 17 (mem_data_sd s)
     (put_bit 49 (exe_wb_sd s)
     (put_bit 50 (exe_neg_op2_sd s)
     (put 82 51 (exe_op2_sd s)
     (put 114 83 (exe_op1_sd s)
     (put 116 115 (exe_cmd_sd s)
     (put 122 117 (RADR2_SD s)
     (put 128 123 (RADR1_SD s)
     (put_bit 129 (block_bp_sd s)
     (put_bit 130 (jump_sd s)
     (put_bit 131 (b_type_inst_sd t)
     (put 132 131 (PRED_BRANCH_PNT_RI i)
     (put_bit 133 (PRED_BRANCH_LRU_RI i)
     (put 135 134 (PRED_BRANCH_CPT_RI i)
     (put 167 136 (PC_RI i + offset_branch_sd s)
     (put_bit 168 (PRED_BRANCH_MISS_RI i)
     (put 200 169 (PC_RI i) 0)))))))))))))))))))))))))"

definition mini_unconcat_dec2exe :: "201 word \<Rightarrow> mini_dec2exe" where
  "mini_unconcat_dec2exe v =
     \<lparr>PRED_BRANCH_ADR_RD = rng 200 169 v, PRED_BRANCH_MISS_RD = bit v 168,
      PRED_BRANCH_TARGET_ADR_RD = rng 167 136 v, PRED_BRANCH_CPT_RD = rng 135 134 v,
      PRED_BRANCH_LRU_RD = bit v 133, PRED_BRANCH_PNT_RD = rng 132 131 v,
      IS_BRANCH_RD = bit v 131, BRANCH_TAKEN_RD = bit v 130, BLOCK_BP_RD = bit v 129,
      BP_RADR1_RD = rng 128 123 v, BP_RADR2_RD = rng 122 117 v, EXE_CMD_RD = rng 116 115 v,
      OP1_RD = rng 114 83 v, OP2_RD = rng 82 51 v, NEG_OP2_RD = bit v 50, WB_RD = bit v 49,
      MEM_DATA_RD = rng 48 17 v, MEM_LOAD_RD = bit v 16, MEM_STORE_RD = bit v 15,
      MEM_SIGN_EXTEND_RD = bit v 14, MEM_SIZE_RD = rng 13 12 v, OPTYPE_RD = rng 11 8 v,
      EXE_DEST_SD = rng 7 2 v\<rparr>"

subsection \<open>A settled activation\<close>

definition mini_dec_settle ::
  "mini_dec_in \<Rightarrow> mini_dec2exe \<Rightarrow> mini_exe2mem \<Rightarrow> mini_mem2wbk \<Rightarrow> mini_dec \<Rightarrow> mini_dec" where
  "mini_dec_settle i rd re rm s =
     (let t = mty (INSTR_RI i); f = mfl (INSTR_RI i)
      in mini_pc_inc i (mini_stall_method i (mini_post_reg_read_decoding i t f
           (mini_dec_bypasses i rd re rm (mini_pre_reg_read_decoding (INSTR_RI i) t s)))))"

end
