(* ===== verification/Mini_Decode_Exec.thy ===== *)
theory Mini_Decode_Exec
  imports Mini_Decode
begin

text \<open>
  Decode and execute of the earlier processor together: what decode hands on, what execute makes
  of it, the branch decisions, the operands and the addresses that go back to fetch.

  The theorems compare it with the instruction set; where it differs from it, they say when.
\<close>

subsection \<open>The payload\<close>

definition mini_decoded ::
  "mini_dec_in \<Rightarrow> mini_dec2exe \<Rightarrow> mini_exe2mem \<Rightarrow> mini_mem2wbk \<Rightarrow> mini_dec \<Rightarrow> mini_dec" where
  "mini_decoded i rd re rm s =
     mini_post_reg_read_decoding i (mty (INSTR_RI i)) (mfl (INSTR_RI i))
       (mini_dec_bypasses i rd re rm
         (mini_pre_reg_read_decoding (INSTR_RI i) (mty (INSTR_RI i)) s))"

definition mini_issue ::
  "mini_dec_in \<Rightarrow> mini_dec2exe \<Rightarrow> mini_exe2mem \<Rightarrow> mini_mem2wbk \<Rightarrow> mini_dec \<Rightarrow> mini_dec2exe" where
  "mini_issue i rd re rm s =
     mini_unconcat_dec2exe (mini_concat_dec2exe i (mty (INSTR_RI i)) (mfl (INSTR_RI i))
       (mini_dec_settle i rd re rm s))"

lemma mini_if2dec_keeps [simp]:
  "exe_cmd_sd (mini_if2dec a b s) = exe_cmd_sd s"
  "optype_sd (mini_if2dec a b s) = optype_sd s"
  "exe_neg_op2_sd (mini_if2dec a b s) = exe_neg_op2_sd s"
  "exe_op1_sd (mini_if2dec a b s) = exe_op1_sd s"
  "exe_op2_sd (mini_if2dec a b s) = exe_op2_sd s"
  "mem_data_sd (mini_if2dec a b s) = mem_data_sd s"
  "mem_load_sd (mini_if2dec a b s) = mem_load_sd s"
  "mem_store_sd (mini_if2dec a b s) = mem_store_sd s"
  "mem_size_sd (mini_if2dec a b s) = mem_size_sd s"
  "mem_sign_extend_sd (mini_if2dec a b s) = mem_sign_extend_sd s"
  "exe_wb_sd (mini_if2dec a b s) = exe_wb_sd s"
  "block_bp_sd (mini_if2dec a b s) = block_bp_sd s"
  "RADR1_SD (mini_if2dec a b s) = RADR1_SD s"
  "RADR2_SD (mini_if2dec a b s) = RADR2_SD s"
  "adr_dest_sd (mini_if2dec a b s) = adr_dest_sd s"
  "jump_sd (mini_if2dec a b s) = jump_sd s"
  "stall_sd (mini_if2dec a b s) = stall_sd s"
  "offset_branch_sd (mini_if2dec a b s) = offset_branch_sd s"
  "WRITE_PC_ENABLE_SD (mini_if2dec a b s) = WRITE_PC_ENABLE_SD s"
  "dec2if_push_sd (mini_if2dec a b s) = dec2if_push_sd s"
  "IF2DEC_POP_SD (mini_if2dec a b s) = a"
  "IF2DEC_FLUSH_SD (mini_if2dec a b s) = b"
  by (simp_all add: mini_if2dec_def)

lemma mini_dec_settle_keeps:
  fixes i rd re rm s
  defines "z \<equiv> mini_dec_settle i rd re rm s" and "d \<equiv> mini_decoded i rd re rm s"
  shows "exe_cmd_sd z = exe_cmd_sd d" "optype_sd z = optype_sd d"
    "exe_neg_op2_sd z = exe_neg_op2_sd d" "exe_op1_sd z = exe_op1_sd d"
    "exe_op2_sd z = exe_op2_sd d" "mem_data_sd z = mem_data_sd d"
    "mem_load_sd z = mem_load_sd d" "mem_store_sd z = mem_store_sd d"
    "mem_size_sd z = mem_size_sd d" "mem_sign_extend_sd z = mem_sign_extend_sd d"
    "exe_wb_sd z = exe_wb_sd d" "block_bp_sd z = block_bp_sd d" "RADR1_SD z = RADR1_SD d"
    "RADR2_SD z = RADR2_SD d" "adr_dest_sd z = adr_dest_sd d" "jump_sd z = jump_sd d"
    "offset_branch_sd z = offset_branch_sd d"
    "stall_sd z = stall_sd (mini_stall_method i d)"
  by (simp_all add: z_def d_def mini_dec_settle_def mini_decoded_def mini_pc_inc_def
      mini_stall_method_def Let_def)

lemma rng_put_bit_low:
  "l < LENGTH('a) \<Longrightarrow> l \<le> h \<Longrightarrow> (rng h l (put_bit l b x) :: 'b::len word) = put_bit 0 b (rng h l x)"
  for x :: "'a::len word"
  by (rule bit_word_eqI) (auto simp: bit_rng bit_put_bit bit_simps)

text \<open>
  Everything arrives but the low bit of the index into the prediction cache, in whose place
  execute reads the branch flag.
\<close>

lemma mini_issue_fields:
  fixes i rd re rm s
  defines "p \<equiv> mini_issue i rd re rm s" and "d \<equiv> mini_decoded i rd re rm s"
  shows "EXE_CMD_RD p = exe_cmd_sd d" "OPTYPE_RD p = ucast (optype_sd d)"
    "NEG_OP2_RD p = exe_neg_op2_sd d" "OP1_RD p = exe_op1_sd d" "OP2_RD p = exe_op2_sd d"
    "MEM_DATA_RD p = mem_data_sd d" "MEM_LOAD_RD p = mem_load_sd d"
    "MEM_STORE_RD p = mem_store_sd d" "MEM_SIZE_RD p = mem_size_sd d"
    "MEM_SIGN_EXTEND_RD p = mem_sign_extend_sd d" "WB_RD p = exe_wb_sd d"
    "BLOCK_BP_RD p = block_bp_sd d" "BP_RADR1_RD p = RADR1_SD d" "BP_RADR2_RD p = RADR2_SD d"
    "EXE_DEST_SD p = adr_dest_sd d" "BRANCH_TAKEN_RD p = jump_sd d"
    "IS_BRANCH_RD p = b_type_inst_sd (mty (INSTR_RI i))"
    "PRED_BRANCH_PNT_RD p = put_bit 0 (b_type_inst_sd (mty (INSTR_RI i))) (PRED_BRANCH_PNT_RI i)"
    "PRED_BRANCH_TARGET_ADR_RD p = PC_RI i + offset_branch_sd d"
    "PRED_BRANCH_ADR_RD p = PC_RI i" "PRED_BRANCH_MISS_RD p = PRED_BRANCH_MISS_RI i"
    "PRED_BRANCH_CPT_RD p = PRED_BRANCH_CPT_RI i" "PRED_BRANCH_LRU_RD p = PRED_BRANCH_LRU_RI i"
  unfolding p_def d_def mini_issue_def mini_concat_dec2exe_def mini_unconcat_dec2exe_def
  by (simp_all add: range_simps rng_put_bit_low mini_dec_settle_keeps)

subsection \<open>Operands\<close>

lemma mini_dec_bypasses_keeps [simp]:
  "RADR1_SD (mini_dec_bypasses i rd re rm s) = RADR1_SD s"
  "RADR2_SD (mini_dec_bypasses i rd re rm s) = RADR2_SD s"
  "adr_dest_sd (mini_dec_bypasses i rd re rm s) = adr_dest_sd s"
  by (simp_all add: mini_dec_bypasses_def mini_dec_bypass_rs1_def mini_dec_bypass_rs2_def Let_def)

lemma mini_dec_bypasses_r0 [simp]:
  "RADR1_SD s = 0 \<Longrightarrow> rdata1_sd (mini_dec_bypasses i rd re rm s) = RDATA1_SR i"
  "RADR2_SD s = 0 \<Longrightarrow> rdata2_sd (mini_dec_bypasses i rd re rm s) = RDATA2_SR i"
  by (auto simp: mini_dec_bypasses_def mini_dec_bypass_rs1_def mini_dec_bypass_rs2_def Let_def)

text \<open>The second operand of execute is that of decode when it is not a register.\<close>

lemma mini_op2_direct:
  "BP_RADR2_RD p = 0 \<or> BLOCK_BP_RD p \<Longrightarrow> op2_se (mini_exec_bypasses env p re rm x) = OP2_RD p"
  "MEM_STORE_RD p \<Longrightarrow> \<not> invalid_operand_se (mini_exec_bypasses env p re rm x) \<Longrightarrow>
     op2_se (mini_exec_bypasses env p re rm x) = OP2_RD p"
  "BP_RADR1_RD p = 0 \<or> BLOCK_BP_RD p \<Longrightarrow> op1_se (mini_exec_bypasses env p re rm x) = OP1_RD p"
  by (auto simp: mini_exec_bypasses_def mini_bypass_rs1_def mini_bypass_rs2_def split: if_splits)

subsection \<open>Commands\<close>

lemmas mini_decode_simps =
  mini_issue_fields mini_decoded_def mini_post_reg_read_decoding_def mini_pre_reg_read_decoding_def
  mini_set_regs_def mini_decoding_instruction_type_def

lemma mini_r_type:
  assumes "opcode (INSTR_RI i) = 0b0110011"
    and "funct7 (INSTR_RI i) = 0 \<or>
      funct7 (INSTR_RI i) = 0b0100000 \<and> (funct3 (INSTR_RI i) = 0 \<or> funct3 (INSTR_RI i) = 5)"
  shows "mini_issues_op (mini_issue i rd re rm s) (funct3 (INSTR_RI i)) (funct7 (INSTR_RI i) \<noteq> 0)"
  using assms u3_cases [of "funct3 (INSTR_RI i)"]
  by (elim disjE conjE; simp add: mini_issues_op_def mini_decode_simps mini_post_alu_def Let_def
      mini_decoding_instruction_def)

lemma mini_r_operands:
  fixes i rd re rm s
  assumes "opcode (INSTR_RI i) = 0b0110011" "funct7 (INSTR_RI i) \<noteq> 1"
  defines "q \<equiv> mini_pre_reg_read_decoding (INSTR_RI i) (mty (INSTR_RI i)) s"
  shows "OP1_RD (mini_issue i rd re rm s) = rdata1_sd (mini_dec_bypasses i rd re rm q)"
    "OP2_RD (mini_issue i rd re rm s) = rdata2_sd (mini_dec_bypasses i rd re rm q)"
proof -
  have t: "r_type_inst_sd (mty (INSTR_RI i))" "\<not> i_type_inst_sd (mty (INSTR_RI i))"
    "\<not> u_type_inst_sd (mty (INSTR_RI i))"
    using assms(1,2) by (simp_all add: mini_decoding_instruction_type_def)
  show "OP1_RD (mini_issue i rd re rm s) = rdata1_sd (mini_dec_bypasses i rd re rm q)"
    "OP2_RD (mini_issue i rd re rm s) = rdata2_sd (mini_dec_bypasses i rd re rm q)"
    by (simp_all add: mini_issue_fields mini_decoded_def mini_post_reg_read_decoding_def t
        mini_post_alu_def Let_def q_def)
qed

lemma mini_i_type:
  assumes "opcode (INSTR_RI i) = 0b0010011"
    and "(funct3 (INSTR_RI i) \<noteq> 1 \<and> funct3 (INSTR_RI i) \<noteq> 5) \<or> funct7 (INSTR_RI i) = 0 \<or>
      funct7 (INSTR_RI i) = 0b0100000 \<and> funct3 (INSTR_RI i) = 5"
  shows "mini_issues_op (mini_issue i rd re rm s) (funct3 (INSTR_RI i))
    (funct3 (INSTR_RI i) = 5 \<and> funct7 (INSTR_RI i) \<noteq> 0)"
  using assms u3_cases [of "funct3 (INSTR_RI i)"]
  by (elim disjE conjE; simp add: mini_issues_op_def mini_decode_simps mini_post_alu_def Let_def
      mini_decoding_instruction_def)

lemma mini_i_operand:
  assumes "opcode (INSTR_RI i) = 0b0010011 \<or> opcode (INSTR_RI i) = 0b0000011"
  shows "BP_RADR2_RD (mini_issue i rd re rm s) = 0"
    "OP2_RD (mini_issue i rd re rm s) = dec_imm_i (INSTR_RI i)"
  using assms by (auto simp: mini_decode_simps mini_post_alu_def mini_load_size_def Let_def)

lemma mini_load:
  assumes "opcode (INSTR_RI i) = 0b0000011"
  shows "mini_issues_op (mini_issue i rd re rm s) 0 False"
  using assms by (simp add: mini_issues_op_def mini_decode_simps mini_post_alu_def Let_def
      mini_decoding_instruction_def)

lemma mini_u_type:
  assumes "opcode (INSTR_RI i) = 0b0110111 \<or> opcode (INSTR_RI i) = 0b0010111"
  shows "mini_issues_op (mini_issue i rd re rm s) 0 False"
    "OP1_RD (mini_issue i rd re rm s) = dec_imm_u (INSTR_RI i)"
    "OP2_RD (mini_issue i rd re rm s) =
       (if opcode (INSTR_RI i) = 0b0010111 then PC_RI i else RDATA2_SR i)"
    "BP_RADR1_RD (mini_issue i rd re rm s) = 0" "BP_RADR2_RD (mini_issue i rd re rm s) = 0"
  using assms by (auto simp: mini_issues_op_def mini_decode_simps mini_post_alu_def
      mini_load_size_def Let_def mini_decoding_instruction_def)

lemma mini_store:
  assumes "opcode (INSTR_RI i) = 0b0100011"
  shows "mini_issues_op (mini_issue i rd re rm s) 0 False" "MEM_STORE_RD (mini_issue i rd re rm s)"
    "OP2_RD (mini_issue i rd re rm s) = dec_imm_s (INSTR_RI i)"
  using assms by (auto simp: mini_issues_op_def mini_decode_simps mini_post_store_def)

lemma mini_jump:
  assumes "opcode (INSTR_RI i) = 0b1101111 \<or> opcode (INSTR_RI i) = 0b1100111"
  shows "mini_issues_op (mini_issue i rd re rm s) 0 False"
    "OP1_RD (mini_issue i rd re rm s) = READ_PC_SR i" "OP2_RD (mini_issue i rd re rm s) = 0"
    "BP_RADR1_RD (mini_issue i rd re rm s) = 0 \<or> BLOCK_BP_RD (mini_issue i rd re rm s)"
    "BP_RADR2_RD (mini_issue i rd re rm s) = 0"
  using assms by (auto simp: mini_issues_op_def mini_decode_simps mini_post_jump_def)

subsection \<open>Results\<close>

definition mini_right :: "u32 \<Rightarrow> u32 \<Rightarrow> u32 \<Rightarrow> bool" where
  "mini_right ir a b \<longleftrightarrow>
     (opcode ir = 0b0110011 \<longrightarrow> mini_op_right (funct3 ir) (funct7 ir \<noteq> 0) a b) \<and>
     (opcode ir = 0b0010011 \<longrightarrow>
        mini_op_right (funct3 ir) (funct3 ir = 5 \<and> funct7 ir \<noteq> 0) a (dec_imm_i ir))"

lemma mini_issue_result:
  assumes "rv_result (INSTR_RI i) (PC_RI i) a b = Some v"
    and e: "e = mini_exec_settle env (mini_issue i rd re rm s) re' rm' x"
    and ab: "a = op1_se e" "b = op2_se e" and valid: "\<not> invalid_operand_se e"
    and r0: "opcode (INSTR_RI i) = 0b0110111 \<Longrightarrow> RDATA2_SR i = 0"
    and pc: "READ_PC_SR i = PC_RI i + 4"
  shows "exe_res_se e = v \<longleftrightarrow> mini_right (INSTR_RI i) a b"
proof -
  have add0: "mini_op 0 False a b = a + b" for a b by (simp add: mini_op_def rv_op_def)
  show ?thesis
    using assms(1)
  proof (cases rule: rv_result_cases)
    case R
    show ?thesis
      using mini_result [OF mini_r_type [OF R(1,2)] e] R mini_op_iff
      by (simp add: ab mini_right_def)
  next
    case I
    have "op2_se e = dec_imm_i (INSTR_RI i)"
      using mini_i_operand [OF disjI1 [OF I(1)]] by (simp add: e mini_op2_direct)
    then show ?thesis
      using mini_result [OF mini_i_type [OF I(1,2)] e] I mini_op_iff
      by (simp add: ab mini_right_def)
  next
    case Lui
    note u = mini_u_type [OF disjI1 [OF Lui(1)]]
    have "op1_se e = dec_imm_u (INSTR_RI i)" "op2_se e = 0"
      using u Lui(1) r0 by (simp_all add: e mini_op2_direct)
    then show ?thesis using mini_result [OF u(1) e] Lui by (simp add: add0 mini_right_def)
  next
    case Auipc
    note u = mini_u_type [OF disjI2 [OF Auipc(1)]]
    have "op1_se e = dec_imm_u (INSTR_RI i)" "op2_se e = PC_RI i"
      using u Auipc(1) by (simp_all add: e mini_op2_direct)
    then show ?thesis
      using mini_result [OF u(1) e] Auipc by (simp add: add0 mini_right_def add.commute [of _ "PC_RI i"])
  next
    case Load
    have "op2_se e = dec_imm_i (INSTR_RI i)"
      using mini_i_operand [OF disjI2 [OF Load(1)]] by (simp add: e mini_op2_direct)
    then show ?thesis
      using mini_result [OF mini_load [OF Load(1)] e] Load by (simp add: ab add0 mini_right_def)
  next
    case Store
    note st = mini_store [OF Store(1)]
    have "op2_se e = dec_imm_s (INSTR_RI i)"
      using st mini_op2_direct(2) valid by (simp add: e)
    then show ?thesis
      using mini_result [OF st(1) e] Store by (simp add: ab add0 mini_right_def)
  next
    case Jump
    note ju = mini_jump [OF Jump(1)]
    have "op1_se e = PC_RI i + 4" "op2_se e = 0"
      using ju pc by (simp_all add: e mini_op2_direct)
    then show ?thesis
      using mini_result [OF ju(1) e] Jump by (auto simp: add0 mini_right_def)
  qed
qed


subsection \<open>Branch decisions\<close>

lemma mini_branch_by_funct3:
  assumes "opcode ir = 0b1100011" "funct3 ir \<noteq> 2" "funct3 ir \<noteq> 3"
  shows "mini_branch_taken (mfl ir) a b = rv_branch (funct3 ir) a b"
proof -
  have ge: "sint b \<le> sint a \<longleftrightarrow> \<not> sint a < sint b" "uint b \<le> uint a \<longleftrightarrow> \<not> uint a < uint b"
    by auto
  show ?thesis
    using u3_cases [of "funct3 ir"] assms(2,3)
    unfolding mini_branch_taken_def Let_def difference_33 rv_branch_def ge signed_less_by_sign
    by (elim disjE) (simp_all add: mini_decoding_instruction_def assms(1))
qed

text \<open>Whether an instruction jumps, and where.\<close>

definition rv_jumps :: "u32 \<Rightarrow> u32 \<Rightarrow> u32 \<Rightarrow> bool" where
  "rv_jumps ir a b \<longleftrightarrow>
     opcode ir = 0b1100011 \<and> rv_branch (funct3 ir) a b \<or> opcode ir = 0b1101111 \<or>
     opcode ir = 0b1100111"

definition mini_target :: "u32 \<Rightarrow> u32 \<Rightarrow> u32 \<Rightarrow> u32" where
  "mini_target ir pc a =
     (if opcode ir = 0b1100011 then pc + dec_imm_b ir
      else if opcode ir = 0b1101111 then pc + dec_imm_j ir
      else a + dec_imm_i ir)"

lemma mini_jump_decision:
  assumes "opcode (INSTR_RI i) = 0b1100011 \<Longrightarrow> funct3 (INSTR_RI i) \<noteq> 2 \<and> funct3 (INSTR_RI i) \<noteq> 3"
    and "d = mini_decoded i rd re rm s"
  shows "jump_sd d = rv_jumps (INSTR_RI i) (rdata1_sd d) (rdata2_sd d)"
    "jump_sd d \<Longrightarrow> PC_RI i + offset_branch_sd d = mini_target (INSTR_RI i) (PC_RI i) (rdata1_sd d)"
  using assms(1) mini_branch_by_funct3 [of "INSTR_RI i"]
  unfolding assms(2)
  by (auto simp: mini_decoded_def mini_post_reg_read_decoding_def mini_decoding_instruction_type_def
      mini_post_alu_def mini_load_size_def mini_post_store_def mini_post_branch_def
      mini_post_jump_def mini_post_nop_def rv_jumps_def mini_target_def Let_def)

subsection \<open>Handshakes and redirection\<close>

lemma mini_dec_outputs:
  fixes i rd re rm s
  defines "z \<equiv> mini_dec_settle i rd re rm s" and "d \<equiv> mini_decoded i rd re rm s"
  shows "dec2exe_push_sd z = (\<not> stall_sd z)"
    "rdata1_sd z = rdata1_sd d" "rdata2_sd z = rdata2_sd d"
    "stall_sd z = (invalid_operand_sd d \<or> block_in_dec_sd d \<or> IF2DEC_EMPTY_SI i \<or> dec2exe_full_sd i)"
    "PRED_BRANCH_MISS_RI i \<Longrightarrow> IF2DEC_POP_SD z = (\<not> stall_sd z)"
    "PRED_BRANCH_MISS_RI i \<Longrightarrow> IF2DEC_FLUSH_SD z = (jump_sd z \<and> \<not> stall_sd z)"
    "WRITE_PC_ENABLE_SD z = (mini_next_pc i (mini_stall_method i d) \<noteq> None)"
    "dec2if_push_sd z = (mini_next_pc i (mini_stall_method i d) \<noteq> None)"
    "WRITE_PC_SD z = (case mini_next_pc i (mini_stall_method i d) of None \<Rightarrow> READ_PC_SR i | Some a \<Rightarrow> a)"
    "dec2if_in_sd z = WRITE_PC_SD z"
  by (auto simp: z_def d_def mini_dec_settle_def mini_decoded_def [symmetric] Let_def mini_pc_inc_def
      mini_stall_method_def mini_pb_taken_def mini_if2dec_def)

text \<open>
  An instruction that is not in the prediction cache leaves the decode stage exactly when it
  is not stalled; if it jumps, the instruction behind it is flushed and the target is sent to
  fetch, and otherwise the next address in line (the program counter is one instruction ahead).
  The target of \<open>jalr\<close> keeps its bit 0.
\<close>

theorem mini_redirect:
  assumes "PRED_BRANCH_MISS_RI i" "\<not> dec2if_full_sd i" "READ_PC_SR i = PC_RI i + 4"
    and "opcode (INSTR_RI i) = 0b1100011 \<Longrightarrow> funct3 (INSTR_RI i) \<noteq> 2 \<and> funct3 (INSTR_RI i) \<noteq> 3"
    and "d = mini_dec_settle i rd re rm s" "\<not> stall_sd d"
    and "jumps = rv_jumps (INSTR_RI i) (rdata1_sd d) (rdata2_sd d)"
  shows "dec2exe_push_sd d \<and> IF2DEC_POP_SD d \<and> (IF2DEC_FLUSH_SD d \<longleftrightarrow> jumps) \<and>
    dec2if_push_sd d \<and> WRITE_PC_ENABLE_SD d \<and> WRITE_PC_SD d = dec2if_in_sd d \<and>
    dec2if_in_sd d =
      (if jumps then mini_target (INSTR_RI i) (PC_RI i) (rdata1_sd d) else PC_RI i + 8)"
proof -
  define e where "e = mini_decoded i rd re rm s"
  note out = mini_dec_outputs [of i rd re rm s, folded assms(5) e_def]
  have jump: "jump_sd d = jump_sd e" and stall: "stall_sd (mini_stall_method i e) = stall_sd d"
    by (simp_all add: assms(5) e_def mini_dec_settle_keeps)
  note dec = mini_jump_decision [OF assms(4) e_def]
  have empty: "\<not> IF2DEC_EMPTY_SI i" using assms(6) out(4) by simp
  have next_eq: "mini_next_pc i (mini_stall_method i e) =
      Some (if jump_sd e then PC_RI i + offset_branch_sd e else PC_RI i + 8)"
    using assms(1-3,6) empty stall
    by (simp add: mini_next_pc_def mini_pb_taken_def Let_def mini_stall_method_def)
  have jumps: "jumps = jump_sd e" using dec(1) assms(7) out(2,3) by simp
  show ?thesis
    using out(1,5,6,7,8,9,10) assms(1,6) next_eq dec(2) out(2) jump jumps by simp
qed

text \<open>
  An instruction that hits in the prediction cache.  When the prediction was right, fetch has
  the instruction that comes next already, and gets the address after that one only if the branch
  is not taken: behind a branch predicted as taken it continues with the instruction behind the
  branch.  When the prediction was wrong, the instruction fetched is flushed; a branch that is not
  taken after all continues behind it, but one that is taken continues four bytes behind its target.
\<close>

theorem mini_predicted_branch:
  assumes "\<not> PRED_BRANCH_MISS_RI i" "\<not> dec2if_full_sd i" "READ_PC_SR i = PC_RI i + 4"
    and "opcode (INSTR_RI i) = 0b1100011" "funct3 (INSTR_RI i) \<noteq> 2" "funct3 (INSTR_RI i) \<noteq> 3"
    and "d = mini_dec_settle i rd re rm s" "\<not> stall_sd d"
    and "taken = rv_branch (funct3 (INSTR_RI i)) (rdata1_sd d) (rdata2_sd d)"
    and "predicted \<longleftrightarrow> 2 \<le> PRED_BRANCH_CPT_RI i"
  shows "dec2exe_push_sd d \<and> IF2DEC_POP_SD d \<and> (IF2DEC_FLUSH_SD d \<longleftrightarrow> taken \<noteq> predicted) \<and>
    dec2if_push_sd d \<and>
    dec2if_in_sd d =
      (if taken then
         (if predicted then PC_RI i + 4 else PC_RI i + dec_imm_b (INSTR_RI i) + 4)
       else (if predicted then PC_RI i + 4 else PC_RI i + 8))"
proof -
  define e where "e = mini_decoded i rd re rm s"
  note out = mini_dec_outputs [of i rd re rm s, folded assms(7) e_def]
  have jump: "jump_sd d = jump_sd e" and stall: "stall_sd (mini_stall_method i e) = stall_sd d"
    by (simp_all add: assms(7) e_def mini_dec_settle_keeps)
  have known: "funct3 (INSTR_RI i) \<noteq> 2 \<and> funct3 (INSTR_RI i) \<noteq> 3" using assms(5,6) by simp
  have empty: "\<not> IF2DEC_EMPTY_SI i" using assms(8) out(4) by simp
  have taken: "jump_sd e = taken"
    using mini_jump_decision(1) [OF known e_def] assms(4,9) out(2,3) by (simp add: rv_jumps_def)
  have target: "taken \<Longrightarrow> PC_RI i + offset_branch_sd e = PC_RI i + dec_imm_b (INSTR_RI i)"
    using mini_jump_decision(2) [OF known e_def] taken assms(4) by (simp add: mini_target_def)
  have pb: "mini_pb_taken i = predicted" using assms(1,10) by (simp add: mini_pb_taken_def)
  have next_eq: "mini_next_pc i (mini_stall_method i e) =
      Some (if taken then (if predicted then PC_RI i + 4 else PC_RI i + 4 + offset_branch_sd e)
        else (if predicted then PC_RI i + 4 else PC_RI i + 8))"
    using assms(1-3,8) empty stall taken
    by (simp add: mini_next_pc_def pb Let_def mini_stall_method_def)
  have flush: "IF2DEC_POP_SD d" "IF2DEC_FLUSH_SD d \<longleftrightarrow> taken \<noteq> predicted"
    using stall assms(8) taken
    by (auto simp: assms(7) mini_dec_settle_def mini_decoded_def [symmetric] Let_def mini_pc_inc_def
        pb e_def mini_stall_method_def)
  show ?thesis
    using out(1,8,9,10) assms(8) next_eq target flush by (auto simp: algebra_simps)
qed

subsection \<open>The newest operands\<close>

text \<open>
  The newest value of a register: the result behind execute, the one behind the memory stage, or
  the register itself.
\<close>

definition mini_newest :: "mini_dec_in \<Rightarrow> mini_exe2mem \<Rightarrow> mini_mem2wbk \<Rightarrow> u6 \<Rightarrow> u32 \<Rightarrow> u32" where
  "mini_newest i re rm r file =
     (if r = 0 then file
      else if r = DEST_RE re \<and> \<not> EXE2MEM_EMPTY_SE i then EXE_RES_RE re
      else if r = DEST_RM rm \<and> \<not> MEM2WBK_EMPTY_SM i then MEM_RES_RM rm
      else file)"

text \<open>A register whose new value is not there yet.\<close>

definition mini_pending :: "mini_dec_in \<Rightarrow> mini_dec2exe \<Rightarrow> mini_exe2mem \<Rightarrow> u6 \<Rightarrow> bool" where
  "mini_pending i rd re r \<longleftrightarrow>
     r \<noteq> 0 \<and> (r = EXE_DEST_SD rd \<and> \<not> DEC2EXE_EMPTY_SD i \<or>
       r = DEST_RE re \<and> MEM_LOAD_RE re \<and> \<not> EXE2MEM_EMPTY_SE i)"

lemma mini_bypassed_rs1:
  fixes i rd re rm s
  defines "d \<equiv> mini_dec_bypass_rs1 i rd re rm s"
  shows "invalid_operand_sd d = mini_pending i rd re (RADR1_SD s)"
    "\<not> mini_pending i rd re (RADR1_SD s) \<Longrightarrow> rdata1_sd d = mini_newest i re rm (RADR1_SD s) (RDATA1_SR i)"
    "RADR2_SD d = RADR2_SD s"
proof -
  define exe load memory wbk where
    "exe \<longleftrightarrow> RADR1_SD s = EXE_DEST_SD rd \<and> \<not> DEC2EXE_EMPTY_SD i" and
    "load \<longleftrightarrow> RADR1_SD s = DEST_RE re \<and> MEM_LOAD_RE re \<and> \<not> EXE2MEM_EMPTY_SE i" and
    "memory \<longleftrightarrow> RADR1_SD s = DEST_RE re \<and> \<not> EXE2MEM_EMPTY_SE i" and
    "wbk \<longleftrightarrow> RADR1_SD s = DEST_RM rm \<and> \<not> MEM2WBK_EMPTY_SM i"
  note ahead = this [symmetric]
  show "invalid_operand_sd d = mini_pending i rd re (RADR1_SD s)"
    "\<not> mini_pending i rd re (RADR1_SD s) \<Longrightarrow> rdata1_sd d = mini_newest i re rm (RADR1_SD s) (RDATA1_SR i)"
    "RADR2_SD d = RADR2_SD s"
    unfolding d_def mini_dec_bypass_rs1_def mini_pending_def mini_newest_def ahead by auto
qed

lemma mini_bypassed_rs2:
  fixes i rd re rm s
  defines "d \<equiv> mini_dec_bypass_rs2 i rd re rm s"
  shows "invalid_operand_sd d = (invalid_operand_sd s \<or> mini_pending i rd re (RADR2_SD s))"
    "\<not> mini_pending i rd re (RADR2_SD s) \<Longrightarrow> rdata2_sd d = mini_newest i re rm (RADR2_SD s) (RDATA2_SR i)"
    "rdata1_sd d = rdata1_sd s"
proof -
  define exe load memory wbk where
    "exe \<longleftrightarrow> RADR2_SD s = EXE_DEST_SD rd \<and> \<not> DEC2EXE_EMPTY_SD i" and
    "load \<longleftrightarrow> RADR2_SD s = DEST_RE re \<and> MEM_LOAD_RE re \<and> \<not> EXE2MEM_EMPTY_SE i" and
    "memory \<longleftrightarrow> RADR2_SD s = DEST_RE re \<and> \<not> EXE2MEM_EMPTY_SE i" and
    "wbk \<longleftrightarrow> RADR2_SD s = DEST_RM rm \<and> \<not> MEM2WBK_EMPTY_SM i"
  note ahead = this [symmetric]
  show "invalid_operand_sd d = (invalid_operand_sd s \<or> mini_pending i rd re (RADR2_SD s))"
    "\<not> mini_pending i rd re (RADR2_SD s) \<Longrightarrow> rdata2_sd d = mini_newest i re rm (RADR2_SD s) (RDATA2_SR i)"
    "rdata1_sd d = rdata1_sd s"
    unfolding d_def mini_dec_bypass_rs2_def mini_pending_def mini_newest_def ahead by auto
qed

lemma mini_bypassed:
  fixes i rd re rm s
  defines "d \<equiv> mini_dec_bypasses i rd re rm s"
  shows "invalid_operand_sd d \<longleftrightarrow> mini_pending i rd re (RADR1_SD s) \<or> mini_pending i rd re (RADR2_SD s)"
    "\<not> mini_pending i rd re (RADR1_SD s) \<Longrightarrow> rdata1_sd d = mini_newest i re rm (RADR1_SD s) (RDATA1_SR i)"
    "\<not> mini_pending i rd re (RADR2_SD s) \<Longrightarrow> rdata2_sd d = mini_newest i re rm (RADR2_SD s) (RDATA2_SR i)"
  by (simp_all add: d_def mini_dec_bypasses_def Let_def mini_bypassed_rs1 mini_bypassed_rs2)

lemma mini_load_size_keeps [simp]:
  "RADR1_SD (mini_load_size f s) = RADR1_SD s"
  "RADR2_SD (mini_load_size f s) = RADR2_SD s"
  "rdata1_sd (mini_load_size f s) = rdata1_sd s"
  "rdata2_sd (mini_load_size f s) = rdata2_sd s"
  "invalid_operand_sd (mini_load_size f s) = invalid_operand_sd s"
  "block_in_dec_sd (mini_load_size f s) = block_in_dec_sd s"
  "adr_dest_sd (mini_load_size f s) = adr_dest_sd s"
  by (simp_all add: mini_load_size_def)

lemma mini_post_alu_keeps [simp]:
  "RADR1_SD (mini_post_alu i t f s) = RADR1_SD s"
  "RADR2_SD (mini_post_alu i t f s) = RADR2_SD s"
  "rdata1_sd (mini_post_alu i t f s) = rdata1_sd s"
  "rdata2_sd (mini_post_alu i t f s) = rdata2_sd s"
  "invalid_operand_sd (mini_post_alu i t f s) = invalid_operand_sd s"
  "block_in_dec_sd (mini_post_alu i t f s) = block_in_dec_sd s"
  "adr_dest_sd (mini_post_alu i t f s) = adr_dest_sd s"
  by (simp_all add: mini_post_alu_def Let_def split_beta)

lemma mini_post_keeps:
  fixes i t f s
  defines "d \<equiv> mini_post_reg_read_decoding i t f s"
  shows "RADR1_SD d = RADR1_SD s"
    "RADR2_SD d = RADR2_SD s"
    "rdata1_sd d = rdata1_sd s"
    "rdata2_sd d = rdata2_sd s"
    "invalid_operand_sd d = invalid_operand_sd s"
    "block_in_dec_sd d = block_in_dec_sd s"
    "adr_dest_sd d = adr_dest_sd s"
  by (simp_all add: d_def mini_post_reg_read_decoding_def mini_post_store_def mini_post_branch_def
      mini_post_jump_def mini_post_nop_def)

text \<open>
  C30: when the decode stage hands an instruction on, no instruction ahead still has to compute or
  load a register that it reads, and its operands are the newest values of these registers.
\<close>

theorem mini_operands_newest:
  assumes "d = mini_dec_settle i rd re rm s" "dec2exe_push_sd d"
  shows "\<not> mini_pending i rd re (RADR1_SD d) \<and> \<not> mini_pending i rd re (RADR2_SD d) \<and>
    rdata1_sd d = mini_newest i re rm (RADR1_SD d) (RDATA1_SR i) \<and>
    rdata2_sd d = mini_newest i re rm (RADR2_SD d) (RDATA2_SR i)"
proof -
  define p where "p = mini_pre_reg_read_decoding (INSTR_RI i) (mty (INSTR_RI i)) s"
  note out = mini_dec_outputs [of i rd re rm s, folded assms(1)]
  have adr: "RADR1_SD d = RADR1_SD p" "RADR2_SD d = RADR2_SD p"
    by (simp_all add: assms(1) mini_dec_settle_keeps mini_decoded_def mini_post_keeps p_def)
  have "\<not> invalid_operand_sd (mini_dec_bypasses i rd re rm p)"
    using assms(2) out(1,4) by (simp add: mini_decoded_def mini_post_keeps p_def)
  then show ?thesis
    using mini_bypassed [where i = i and rd = rd and re = re and rm = rm and s = p] out(2,3)
    by (simp add: adr mini_decoded_def mini_post_keeps p_def)
qed

subsection \<open>Instances\<close>

definition mini_in :: "u32 \<Rightarrow> mini_dec_in" where
  "mini_in ir =
     \<lparr>INSTR_RI = ir, PC_RI = 0x100, IF2DEC_EMPTY_SI = False, PRED_BRANCH_MISS_RI = True,
      PRED_BRANCH_CPT_RI = 0, PRED_BRANCH_LRU_RI = False, PRED_BRANCH_PNT_RI = 0, RDATA1_SR = 6,
      RDATA2_SR = 7, READ_PC_SR = 0x104, DEC2EXE_EMPTY_SD = True, EXE2MEM_EMPTY_SE = True,
      MEM2WBK_EMPTY_SM = True, dec2exe_full_sd = False, dec2if_full_sd = False\<rparr>"

definition mini_dec_zero :: mini_dec where
  "mini_dec_zero =
     \<lparr>RADR1_SD = 0, RADR2_SD = 0, adr_dest_sd = 0, invalid_operand_sd = False, rdata1_sd = 0,
      rdata2_sd = 0, block_in_dec_sd = False, mem_load_sd = False, mem_store_sd = False,
      mem_size_sd = 0, mem_sign_extend_sd = False, exe_cmd_sd = 0, optype_sd = 0,
      exe_neg_op2_sd = False, exe_wb_sd = False, block_bp_sd = False, exe_op1_sd = 0,
      exe_op2_sd = 0, mem_data_sd = 0, offset_branch_sd = 0, jump_sd = False, stall_sd = False,
      WRITE_PC_SD = 0, WRITE_PC_ENABLE_SD = False, dec2if_push_sd = False, dec2if_in_sd = 0,
      pb_taken_sd = False, IF2DEC_POP_SD = False, PB_IF2DEC_POP_SD = False,
      IF2DEC_FLUSH_SD = False, PB_IF2DEC_FLUSH_SD = False, dec2exe_push_sd = False\<rparr>"

definition mini_no_mem :: mini_exe2mem where "mini_no_mem = mini_exec_fifo_unconcat 0"
definition mini_no_wbk :: mini_mem2wbk where
  "mini_no_wbk = \<lparr>MEM_RES_RM = 0, DEST_RM = 0, WB_RM = False\<rparr>"

definition mini_alone :: "u32 \<Rightarrow> mini_dec" where
  "mini_alone ir =
     mini_dec_settle (mini_in ir) (mini_unconcat_dec2exe 0) mini_no_mem mini_no_wbk mini_dec_zero"

definition mini_env :: mini_exec_env where
  "mini_env = \<lparr>mini_exec_env.DEC2EXE_EMPTY_SD = False, mini_exec_env.EXE2MEM_EMPTY_SE = True,
     mini_exec_env.MEM2WBK_EMPTY_SM = True, exe2mem_full_se = False\<rparr>"

definition mini_exec_zero :: mini_exec where
  "mini_exec_zero = \<lparr>op1_se = 0, op2_se = 0, invalid_operand_se = False, mem_data_se = 0,
     alu_in_op2_se = 0, shift_val_se = 0, alu_out_se = 0, shifter_out_se = 0, exe_res_se = 0,
     exe2mem_push_se = False, DEC2EXE_POP_SE = False\<rparr>"

text \<open>An instruction with no other one ahead, through decode and execute.\<close>

definition mini_executed :: "u32 \<Rightarrow> mini_exec" where
  "mini_executed ir =
     mini_exec_settle mini_env
       (mini_issue (mini_in ir) (mini_unconcat_dec2exe 0) mini_no_mem mini_no_wbk mini_dec_zero)
       mini_no_mem mini_no_wbk mini_exec_zero"

lemma mini_bypasses_alone:
  "rdata1_sd (mini_dec_bypasses (mini_in ir) rd re rm s) = 6"
  "rdata2_sd (mini_dec_bypasses (mini_in ir) rd re rm s) = 7"
  "\<not> invalid_operand_sd (mini_dec_bypasses (mini_in ir) rd re rm s)"
  "\<not> block_in_dec_sd (mini_dec_bypasses (mini_in ir) rd re rm s)"
  by (simp_all add: mini_dec_bypasses_def mini_dec_bypass_rs1_def mini_dec_bypass_rs2_def
      mini_in_def Let_def)

lemma mini_alone_pushes:
  "\<not> stall_sd (mini_alone ir)" "dec2exe_push_sd (mini_alone ir)"
  "rdata1_sd (mini_alone ir) = 6" "rdata2_sd (mini_alone ir) = 7"
  by (simp_all add: mini_alone_def mini_dec_outputs mini_decoded_def mini_post_keeps
      mini_bypasses_alone) (simp_all add: mini_in_def)

lemma mini_executed_operands:
  fixes ir
  defines "p \<equiv> mini_issue (mini_in ir) (mini_unconcat_dec2exe 0) mini_no_mem mini_no_wbk mini_dec_zero"
  shows "op1_se (mini_executed ir) = OP1_RD p" "op2_se (mini_executed ir) = OP2_RD p"
    "\<not> invalid_operand_se (mini_executed ir)"
  by (simp_all add: mini_executed_def p_def [symmetric] mini_exec_bypasses_def
      mini_bypass_rs1_def mini_bypass_rs2_def mini_env_def)

text \<open>\<open>sltu x3, x1, x2\<close> for 6 and 7, and \<open>beq x1, x2, +8\<close>, \<open>jal x1, +16\<close>.\<close>

lemma mini_sltu_fields:
  "opcode 0x0020B1B3 = 0b0110011" "funct7 0x0020B1B3 = 0" "funct3 0x0020B1B3 = 3"
  by code_simp+

lemma mini_jal_fields: "opcode 0x010000EF = 0b1101111" "dec_imm_j 0x010000EF = 16"
  by code_simp+

lemma mini_in_instr [simp]:
  "INSTR_RI (mini_in ir) = ir" "PC_RI (mini_in ir) = 0x100" "READ_PC_SR (mini_in ir) = 0x104"
  "RDATA1_SR (mini_in ir) = 6" "RDATA2_SR (mini_in ir) = 7" "PRED_BRANCH_MISS_RI (mini_in ir)"
  "\<not> dec2if_full_sd (mini_in ir)" "DEC2EXE_EMPTY_SD (mini_in ir)" "EXE2MEM_EMPTY_SE (mini_in ir)"
  "MEM2WBK_EMPTY_SM (mini_in ir)"
  by (simp_all add: mini_in_def)


theorem mini_redirect_witness:
  "IF2DEC_FLUSH_SD (mini_alone 0x010000EF) \<and> dec2if_in_sd (mini_alone 0x010000EF) = 0x110"
  using mini_redirect [of "mini_in 0x010000EF", OF _ _ _ _ mini_alone_def mini_alone_pushes(1) refl]
    mini_jal_fields
  by (simp add: rv_jumps_def mini_target_def)

lemma mini_beq_fields:
  "opcode 0x00208463 = 0b1100011" "funct3 0x00208463 = 0" "dec_imm_b 0x00208463 = 8"
  by code_simp+

lemma mini_hit_operands:
  fixes i rd re rm s ir
  defines "d \<equiv> mini_dec_settle ((mini_in ir)\<lparr>PRED_BRANCH_MISS_RI := False, PRED_BRANCH_CPT_RI := 3,
    RDATA2_SR := 6\<rparr>) rd re rm s"
  shows "\<not> stall_sd d" "rdata1_sd d = 6" "rdata2_sd d = 6"
  by (simp_all add: d_def mini_dec_outputs mini_decoded_def mini_post_keeps mini_dec_bypasses_def
      mini_dec_bypass_rs1_def mini_dec_bypass_rs2_def Let_def)
    (simp_all add: mini_in_def)

text \<open>A taken branch that was predicted as taken: execution goes on behind it, not at its target.\<close>

theorem mini_predicted_branch_witness:
  "dec2if_in_sd (mini_dec_settle ((mini_in 0x00208463)\<lparr>PRED_BRANCH_MISS_RI := False,
     PRED_BRANCH_CPT_RI := 3, RDATA2_SR := 6\<rparr>) (mini_unconcat_dec2exe 0) mini_no_mem mini_no_wbk
     mini_dec_zero) = 0x104"
  using mini_predicted_branch [of "(mini_in 0x00208463)\<lparr>PRED_BRANCH_MISS_RI := False,
      PRED_BRANCH_CPT_RI := 3, RDATA2_SR := 6\<rparr>", OF _ _ _ _ _ _ refl mini_hit_operands(1) refl refl]
  by (simp add: mini_beq_fields mini_hit_operands rv_branch_def)

theorem mini_operands_newest_witness: "rdata1_sd (mini_alone 0x0020B1B3) = 6"
  using mini_operands_newest [OF mini_alone_def mini_alone_pushes(2)]
  by (simp add: mini_newest_def)

end
