(* ===== verification/Mini_Mem.thy ===== *)
theory Mini_Mem
  imports Mini_Decode_Exec Memory_Lanes
begin

text \<open>
  The memory and write-back stages and the register file of the earlier processor
  (\<open>sysc_miniriscv/version1/src/mem.cpp\<close>, \<open>wbk.cpp\<close>, \<open>reg.cpp\<close>).  The register array is declared
  with 32 entries; an access outside it, which C++ leaves undefined, is \<open>None\<close>.

  Lemmas: loads and stores access the addressed bytes; a result reaches its register through the
  payloads of all stages; every access to the program counter is outside the register array.
\<close>

subsection \<open>The memory stage\<close>

record mini_mem_env =
  MCACHE_RESULT_SM :: u32
  MCACHE_STALL_SM :: bool
  mem2wbk_full_sm :: bool
  EXE2MEM_EMPTY_SE :: bool

record mini_mem =
  mem2wbk_push_sm :: bool
  EXE2MEM_POP_SM :: bool
  MEM_SIZE_SM :: u2
  wb_sm :: bool
  MCACHE_DATA_SM :: u32
  MCACHE_ADR_SM :: u32
  MCACHE_LOAD_SM :: bool
  MCACHE_STORE_SM :: bool
  MCACHE_ADR_VALID_SM :: bool
  data_sm :: u32

text \<open>Five of the six bits of \<open>DEST_RE\<close> go into the payload.\<close>

definition mini_mem2wbk_concat :: "mini_exe2mem \<Rightarrow> mini_mem \<Rightarrow> 38 word" where
  "mini_mem2wbk_concat re s =
     put 31 0 (data_sm s) (put 36 32 (DEST_RE re) (put_bit 37 (wb_sm s) 0))"

definition mini_mem2wbk_unconcat :: "38 word \<Rightarrow> mini_mem2wbk" where
  "mini_mem2wbk_unconcat ff_dout =
     \<lparr>MEM_RES_RM = rng 31 0 ff_dout, DEST_RM = rng 36 32 ff_dout, WB_RM = bit ff_dout 37\<rparr>"

definition mini_fifo_gestion :: "mini_mem_env \<Rightarrow> mini_mem \<Rightarrow> mini_mem" where
  "mini_fifo_gestion env s =
     (let stall = MCACHE_STALL_SM env \<or> mem2wbk_full_sm env \<or> EXE2MEM_EMPTY_SE env
      in s\<lparr>mem2wbk_push_sm := \<not> stall, EXE2MEM_POP_SM := \<not> stall\<rparr>)"

definition mini_mem_preprocess :: "mini_mem_env \<Rightarrow> mini_exe2mem \<Rightarrow> mini_mem \<Rightarrow> mini_mem" where
  "mini_mem_preprocess env re s =
     (let din = MEM_DATA_RE re;
          range_start = mem_range_start (unat (rng 1 0 (EXE_RES_RE re) :: u2));
          range_size = mem_range_size (MEM_SIZE_RE re);
          range_end = min 31 (range_start + range_size);
          dout0 = (if MEM_SIGN_EXTEND_RE re \<and> bit din range_end then 0xFFFFFFFF else 0) :: u32;
          dout = put range_end range_start (rng range_size 0 din :: u32) dout0
      in s\<lparr>MEM_SIZE_SM := MEM_SIZE_RE re,
           wb_sm := (WB_RE re \<or> MEM_LOAD_RE re),
           MCACHE_DATA_SM := dout,
           MCACHE_ADR_SM := (if MEM_STORE_RE re then EXE_RES_RE re
                             else EXE_RES_RE re AND 0xFFFFFFFC),
           MCACHE_LOAD_SM := MEM_LOAD_RE re,
           MCACHE_STORE_SM := MEM_STORE_RE re,
           MCACHE_ADR_VALID_SM := (\<not> EXE2MEM_EMPTY_SE env)\<rparr>)"

definition mini_sign_extend :: "mini_mem_env \<Rightarrow> mini_exe2mem \<Rightarrow> mini_mem \<Rightarrow> mini_mem" where
  "mini_sign_extend env re s =
     (let din = MCACHE_RESULT_SM env;
          range_start = mem_range_start (unat (rng 2 0 (EXE_RES_RE re) :: 3 word));
          range_size = mem_range_size (MEM_SIZE_RE re);
          range_end = min 31 (range_start + range_size);
          dout0 = (if MEM_SIGN_EXTEND_RE re \<and> bit din range_end then 0xFFFFFFFF else 0) :: u32;
          dout = put range_size 0 (rng range_end range_start din :: u32) dout0
      in s\<lparr>data_sm := (if MEM_LOAD_RE re then dout else EXE_RES_RE re)\<rparr>)"

definition mini_mem_settle :: "mini_mem_env \<Rightarrow> mini_exe2mem \<Rightarrow> mini_mem \<Rightarrow> mini_mem" where
  "mini_mem_settle env re s =
     mini_fifo_gestion env (mini_sign_extend env re (mini_mem_preprocess env re s))"

subsection \<open>Write-back and registers\<close>

record mini_wbk =
  WADR_SW :: u6
  WENABLE_SW :: bool
  MEM2WBK_POP_SW :: bool
  WDATA_SW :: u32

definition mini_wbk_method :: "mini_mem2wbk \<Rightarrow> bool \<Rightarrow> mini_wbk" where
  "mini_wbk_method rm mem2wbk_empty =
     \<lparr>WADR_SW = DEST_RM rm, WENABLE_SW = (WB_RM rm \<and> \<not> mem2wbk_empty),
      MEM2WBK_POP_SW = (\<not> mem2wbk_empty), WDATA_SW = MEM_RES_RM rm\<rparr>"

type_synonym mini_regs = "u32 list"

definition mini_reg_get :: "u6 \<Rightarrow> mini_regs \<Rightarrow> u32 option" where
  "mini_reg_get a regs = (if unat a < 32 then Some (regs ! unat a) else None)"

definition mini_reg_set :: "u6 \<Rightarrow> u32 \<Rightarrow> mini_regs \<Rightarrow> mini_regs option" where
  "mini_reg_set a v regs = (if unat a < 32 then Some (regs[unat a := v]) else None)"

text \<open>The three ports of \<open>read\<close>.\<close>

definition mini_reg_read :: "u6 \<Rightarrow> u6 \<Rightarrow> mini_regs \<Rightarrow> u32 option \<times> u32 option \<times> u32 option" where
  "mini_reg_read radr1 radr2 regs =
     (mini_reg_get radr1 regs, mini_reg_get radr2 regs, mini_reg_get 32 regs)"

definition mini_reg_reset :: "u32 \<Rightarrow> mini_regs option" where
  "mini_reg_reset start = mini_reg_set 32 start (replicate 32 0)"

definition mini_reg_write :: "bool \<Rightarrow> u32 \<Rightarrow> mini_wbk \<Rightarrow> mini_regs \<Rightarrow> mini_regs option" where
  "mini_reg_write write_pc_enable write_pc w regs =
     (case (if write_pc_enable \<or> (WADR_SW w = 32 \<and> WENABLE_SW w) then mini_reg_set 32 write_pc regs
            else Some regs) of
        None \<Rightarrow> None
      | Some regs' \<Rightarrow>
          (if WADR_SW w \<noteq> 0 \<and> WADR_SW w \<noteq> 32 \<and> WENABLE_SW w then
             mini_reg_set (WADR_SW w) (WDATA_SW w) regs'
           else Some regs'))"

subsection \<open>Payload and memory accesses\<close>

lemma mini_mem_payload:
  "mini_mem2wbk_unconcat (mini_mem2wbk_concat re s) =
     \<lparr>MEM_RES_RM = data_sm s, DEST_RM = put_bit 5 False (DEST_RE re), WB_RM = wb_sm s\<rparr>"
proof -
  have "(rng 36 32 (put 36 32 d x) :: u6) = put_bit 5 False d" for d :: u6 and x :: "38 word"
    by (rule bit_word_eqI) (auto simp: bit_rng bit_put bit_put_bit dest: bit_imp_le_length)
  then show ?thesis
    by (simp add: mini_mem2wbk_unconcat_def mini_mem2wbk_concat_def range_simps)
qed

lemma mini_mem_settle_data:
  "data_sm (mini_mem_settle env re s) = data_sm (mini_sign_extend env re s)"
  "MCACHE_DATA_SM (mini_mem_settle env re s) = MCACHE_DATA_SM (mini_mem_preprocess env re s)"
  "MCACHE_ADR_SM (mini_mem_settle env re s) = MCACHE_ADR_SM (mini_mem_preprocess env re s)"
  "wb_sm (mini_mem_settle env re s) = wb_sm (mini_mem_preprocess env re s)"
  by (simp_all add: mini_mem_settle_def mini_fifo_gestion_def mini_sign_extend_def Let_def)

text \<open>
  For an aligned address, the stored bytes are in the lanes the address selects and the
  address goes out unchanged; a load asks for the word of the address and delivers the addressed
  bytes, extended by sign or by zero, except that in the upper word of a double word it delivers
  those at the lowest lane.
\<close>

theorem mini_memory_access:
  assumes "lane_bytes (MEM_SIZE_RE re) dvd unat (EXE_RES_RE re)"
    and "m = mini_mem_settle env re s"
  shows "(\<forall>i < 8 * lane_bytes (MEM_SIZE_RE re).
      bit (MCACHE_DATA_SM m) (8 * (unat (EXE_RES_RE re) mod 4) + i) = bit (MEM_DATA_RE re) i) \<and>
    MCACHE_ADR_SM m = (if MEM_STORE_RE re then EXE_RES_RE re else EXE_RES_RE re AND NOT 3) \<and>
    data_sm m =
      (if MEM_LOAD_RE re then
         lane_extend (MEM_SIGN_EXTEND_RE re) (MEM_SIZE_RE re)
           (if unat (EXE_RES_RE re) mod 8 < 4 then unat (EXE_RES_RE re) mod 4 else 0)
           (MCACHE_RESULT_SM env)
       else EXE_RES_RE re)"
proof -
  have "MCACHE_ADR_SM m = (if MEM_STORE_RE re then EXE_RES_RE re else EXE_RES_RE re AND NOT 3)"
    unfolding assms(2) mini_mem_settle_data mini_mem_preprocess_def Let_def word_mask by simp
  moreover have "data_sm m =
      (if MEM_LOAD_RE re then
         lane_extend (MEM_SIGN_EXTEND_RE re) (MEM_SIZE_RE re)
           (if unat (EXE_RES_RE re) mod 8 < 4 then unat (EXE_RES_RE re) mod 4 else 0)
           (MCACHE_RESULT_SM env)
       else EXE_RES_RE re)"
    by (simp add: assms(2) mini_mem_settle_data mini_sign_extend_def Let_def
        load_data [OF assms(1), unfolded Let_def])
  moreover have "bit (MCACHE_DATA_SM m) (8 * (unat (EXE_RES_RE re) mod 4) + i) = bit (MEM_DATA_RE re) i"
    if "i < 8 * lane_bytes (MEM_SIZE_RE re)" for i
    using store_data [OF assms(1) that refl refl]
    by (simp add: assms(2) mini_mem_settle_data mini_mem_preprocess_def Let_def)
  ultimately show ?thesis by blast
qed

subsection \<open>The register array\<close>

text \<open>
  Reading the program counter, resetting it and writing it access the register array behind its
  last entry.  A clock edge that does not write the program counter leaves the addressed register
  with the value, unless it is register 0, and the others as they were.
\<close>

theorem mini_register_array:
  assumes "length regs = 32"
  shows "snd (snd (mini_reg_read r1 r2 regs)) = None \<and> mini_reg_reset start = None \<and>
    mini_reg_write write_pc_enable write_pc w regs =
      (if write_pc_enable \<or> WENABLE_SW w \<and> 32 \<le> unat (WADR_SW w) then None
       else Some (if WENABLE_SW w \<and> WADR_SW w \<noteq> 0 then regs[unat (WADR_SW w) := WDATA_SW w]
         else regs))"
proof -
  have "unat (WADR_SW w) \<ge> 32" if "WADR_SW w = 32" using that by simp
  moreover have "WADR_SW w \<noteq> 0" if "unat (WADR_SW w) \<ge> 32" using that by (auto simp: unat_eq_0)
  ultimately show ?thesis
    by (auto simp: mini_reg_read_def mini_reg_get_def mini_reg_reset_def mini_reg_set_def
        mini_reg_write_def not_less)
qed

subsection \<open>From decode to the register\<close>

definition rv_load_size :: "3 word \<Rightarrow> u2" where
  "rv_load_size f3 = (if f3 = 0 \<or> f3 = 4 then 2 else if f3 = 1 \<or> f3 = 5 then 1 else 0)"

text \<open>What the instruction does in the memory stage.\<close>

lemma mini_issue_dest:
  fixes i rd re rm s
  assumes "opcode (INSTR_RI i) \<in> {0b0010011, 0b0110111, 0b0010111, 0b0000011, 0b1101111, 0b1100111}
      \<or> opcode (INSTR_RI i) = 0b0110011 \<and> funct7 (INSTR_RI i) \<noteq> 1"
  defines "p \<equiv> mini_issue i rd re rm s"
  shows "EXE_DEST_SD p = rng 11 7 (INSTR_RI i)" "WB_RD p"
  using assms(1)
  by (auto simp: p_def mini_decode_simps mini_post_alu_def mini_post_jump_def Let_def)

lemma mini_issue_access:
  fixes i rd re rm s
  defines "p \<equiv> mini_issue i rd re rm s"
  shows "opcode (INSTR_RI i) \<noteq> 0b0000011 \<Longrightarrow> \<not> MEM_LOAD_RD p"
    "opcode (INSTR_RI i) \<noteq> 0b0100011 \<Longrightarrow> \<not> MEM_STORE_RD p"
  by (auto simp: p_def mini_decode_simps mini_post_alu_def mini_load_size_def mini_post_store_def
      mini_post_branch_def mini_post_jump_def mini_post_nop_def mini_decoding_instruction_def Let_def)

lemma mini_issue_load:
  fixes i rd re rm s
  assumes "opcode (INSTR_RI i) = 0b0000011" "funct3 (INSTR_RI i) \<in> {0, 1, 2, 4, 5}"
  defines "p \<equiv> mini_issue i rd re rm s"
  shows "MEM_LOAD_RD p" "MEM_SIZE_RD p = rv_load_size (funct3 (INSTR_RI i))"
    "MEM_SIGN_EXTEND_RD p \<longleftrightarrow> funct3 (INSTR_RI i) < 2"
  using assms(1,2)
  by (auto simp: p_def mini_decode_simps mini_post_alu_def mini_load_size_def
      mini_decoding_instruction_def rv_load_size_def Let_def)

lemma mini_dest_five_bits: "put_bit 5 False (rng 11 7 ir :: u6) = rng 11 7 ir" for ir :: u32
  by (rule bit_word_eqI) (auto simp: bit_put_bit bit_rng)

lemma rv_result_opcode:
  assumes "rv_result ir pc a b = Some v" "opcode ir \<noteq> 0b0100011"
  shows "opcode ir \<in> {0b0010011, 0b0110111, 0b0010111, 0b0000011, 0b1101111, 0b1100111} \<or>
    opcode ir = 0b0110011 \<and> funct7 ir \<noteq> 1"
  using assms(1) by (cases rule: rv_result_cases) (use assms(2) in auto)


subsection \<open>Instances\<close>

definition mini_mem_idle :: mini_mem_env where
  "mini_mem_idle = \<lparr>MCACHE_RESULT_SM = 0xCAFE8180, MCACHE_STALL_SM = False,
     mem2wbk_full_sm = False, EXE2MEM_EMPTY_SE = False\<rparr>"

definition mini_mem_zero :: mini_mem where
  "mini_mem_zero = \<lparr>mem2wbk_push_sm = False, EXE2MEM_POP_SM = False, MEM_SIZE_SM = 0,
     wb_sm = False, MCACHE_DATA_SM = 0, MCACHE_ADR_SM = 0, MCACHE_LOAD_SM = False,
     MCACHE_STORE_SM = False, MCACHE_ADR_VALID_SM = False, data_sm = 0\<rparr>"

text \<open>A signed byte load from address 1.\<close>

definition mini_byte_load :: mini_exe2mem where
  "mini_byte_load = mini_no_mem\<lparr>EXE_RES_RE := 1, MEM_SIZE_RE := 2, MEM_LOAD_RE := True,
     MEM_SIGN_EXTEND_RE := True\<rparr>"

theorem mini_memory_access_witness:
  "data_sm (mini_mem_settle mini_mem_idle mini_byte_load mini_mem_zero) = 0xFFFFFF81"
proof -
  have "lane_extend True 2 1 0xCAFE8180 = 0xFFFFFF81" by code_simp
  then show ?thesis
    using mini_memory_access [of mini_byte_load _ mini_mem_idle mini_mem_zero, OF _ refl]
    by (simp add: mini_byte_load_def mini_no_mem_def mini_exec_fifo_unconcat_def lane_bytes_def
        mini_mem_idle_def)
qed

theorem mini_register_array_witness:
  "mini_reg_write True 0x100 \<lparr>WADR_SW = 0, WENABLE_SW = False, MEM2WBK_POP_SW = False, WDATA_SW = 0\<rparr>
     (replicate 32 0) = None"
  using mini_register_array [where regs = "replicate 32 0" and write_pc_enable = True
      and write_pc = "0x100" and w = "\<lparr>WADR_SW = 0, WENABLE_SW = False, MEM2WBK_POP_SW = False, WDATA_SW = 0\<rparr>"]
  by simp

text \<open>\<open>add x3, x1, x2\<close> for 6 and 7.\<close>

lemma mini_add_fields:
  "opcode 0x002081B3 = 0b0110011" "funct7 0x002081B3 = 0" "funct3 0x002081B3 = 0"
  "rng 11 7 (0x002081B3 :: u32) = (3 :: u6)"
  by code_simp+


end
