(* ===== verification/Mini_Front.thy ===== *)
theory Mini_Front
  imports Mini_Decode_Exec Branch_Cache
begin

text \<open>
  The fetch stage and the branch prediction cache of the earlier processor
  (\<open>sysc_miniriscv/version1/src/ifetch.cpp\<close>, \<open>pred_branch_cache.cpp\<close>).  One evaluation of
  \<open>fetch_method\<close> is a function of the signals before it; a signal that the method writes and reads
  has its old value in that evaluation.  The cache is that of the core with two entries instead of
  four, so its loop bodies are those of \<open>Branch_Cache\<close>; an access outside the arrays is \<open>None\<close>.

  Lemmas: the address of fetch is one evaluation late; whatever branches are executed, the cache
  is only accessed inside its arrays, and only ever uses its second entry.
\<close>

subsection \<open>Fetch\<close>

record mini_fetch_in =
  PC_RD :: u32
  PRED_BRANCH_MISS_OUT_SP :: bool
  PRED_BRANCH_TARGET_ADR_OUT_SP :: u32
  PRED_BRANCH_PNT_OUT_SP :: u2
  PRED_BRANCH_LRU_OUT_SP :: bool
  PRED_BRANCH_CPT_OUT_SP :: u2
  IC_INST_SI :: u32
  IC_STALL_SI :: bool
  DEC2IF_EMPTY_SD :: bool
  IF2DEC_FULL_SI :: bool
  IF2DEC_FLUSH_SD :: bool
  PB_IF2DEC_FLUSH_SD :: bool

text \<open>The outputs of the three FIFOs.\<close>

record mini_fetch_fifos =
  if2dec_out_si :: u64
  pb_if2dec_out_si :: "70 word"
  target_pc_out_si :: "35 word"

record mini_fetch =
  miss_ri :: bool
  cpt_ri :: u2
  target_adr_ri :: u32
  adr_si :: u32
  ADR_SI :: u32
  ADR_VALID_SI :: bool
  PRED_BRANCH_CHECK_ADR_IN_SI :: u32
  pb_if2dec_in_si :: "70 word"
  target_pc_in_si :: "35 word"
  if2dec_in_si :: u64
  PRED_BRANCH_PNT_RI :: u2
  PRED_BRANCH_CPT_RI :: u2
  PRED_BRANCH_LRU_RI :: bool
  PRED_BRANCH_TARGET_ADR_RI :: u32
  PRED_BRANCH_ADR_RI :: u32
  PRED_BRANCH_MISS_RI :: bool
  INSTR_RI :: u32
  PC_RI :: u32
  IF2DEC_PUSH_SI :: bool
  DEC2IF_POP_SI :: bool
  PB_IF2DEC_PUSH_SI :: bool
  target_pc_push_si :: bool
  target_pc_pop_si :: bool

definition mini_pb_if2dec :: "mini_fetch_in \<Rightarrow> 70 word" where
  "mini_pb_if2dec i =
     put 69 68 (PRED_BRANCH_PNT_OUT_SP i) (put 67 66 (PRED_BRANCH_CPT_OUT_SP i)
       (put_bit 65 (PRED_BRANCH_LRU_OUT_SP i) (put 64 33 (PRED_BRANCH_TARGET_ADR_OUT_SP i)
         (put 32 1 (PC_RD i) (put_bit 0 (PRED_BRANCH_MISS_OUT_SP i) 0)))))"

definition mini_target_pc :: "mini_fetch_in \<Rightarrow> 35 word" where
  "mini_target_pc i =
     put 34 33 (PRED_BRANCH_CPT_OUT_SP i) (put 32 1 (PRED_BRANCH_TARGET_ADR_OUT_SP i)
       (put_bit 0 (PRED_BRANCH_MISS_OUT_SP i) 0))"

definition mini_if2dec_in :: "u32 \<Rightarrow> u32 \<Rightarrow> u64" where
  "mini_if2dec_in inst adr = put 63 32 inst (put 31 0 adr 0)"

definition mini_fetch_method ::
  "mini_fetch_in \<Rightarrow> mini_fetch_fifos \<Rightarrow> mini_fetch \<Rightarrow> mini_fetch" where
  "mini_fetch_method i q s =
     (let stall = IC_STALL_SI i \<or> IF2DEC_FULL_SI i \<or> DEC2IF_EMPTY_SD i
      in s\<lparr>adr_si := (if \<not> miss_ri s \<and> 2 \<le> cpt_ri s then target_adr_ri s else PC_RD i),
           ADR_SI := adr_si s,
           PRED_BRANCH_CHECK_ADR_IN_SI := adr_si s,
           pb_if2dec_in_si := mini_pb_if2dec i,
           PRED_BRANCH_PNT_RI := rng 69 68 (pb_if2dec_out_si q),
           PRED_BRANCH_CPT_RI := rng 67 66 (pb_if2dec_out_si q),
           PRED_BRANCH_LRU_RI := bit (pb_if2dec_out_si q) 65,
           PRED_BRANCH_TARGET_ADR_RI := rng 64 33 (pb_if2dec_out_si q),
           PRED_BRANCH_ADR_RI := rng 32 1 (pb_if2dec_out_si q),
           PRED_BRANCH_MISS_RI := bit (pb_if2dec_out_si q) 0,
           target_pc_in_si := mini_target_pc i,
           cpt_ri := rng 34 33 (target_pc_out_si q),
           target_adr_ri := rng 32 1 (target_pc_out_si q),
           miss_ri := bit (target_pc_out_si q) 0,
           if2dec_in_si := mini_if2dec_in (IC_INST_SI i) (adr_si s),
           INSTR_RI := rng 63 32 (if2dec_out_si q),
           PC_RI := rng 31 0 (if2dec_out_si q),
           IF2DEC_PUSH_SI := (if IF2DEC_FLUSH_SD i then False else \<not> stall),
           DEC2IF_POP_SI := (if IF2DEC_FLUSH_SD i then True else \<not> stall),
           ADR_VALID_SI := (if IF2DEC_FLUSH_SD i then False else \<not> DEC2IF_EMPTY_SD i),
           PB_IF2DEC_PUSH_SI := (if PB_IF2DEC_FLUSH_SD i then False else \<not> stall),
           target_pc_push_si := True,
           target_pc_pop_si := (\<not> DEC2IF_EMPTY_SD i)\<rparr>)"

text \<open>
  With no prediction in the FIFO behind fetch, the address of fetch, the one of the lookup and
  the one sent along with the instruction are those of the evaluation before; after a second
  evaluation with the same program counter they are that program counter, and what decode then
  reads from the FIFO is the instruction with its address.
\<close>

theorem mini_fetch_address:
  assumes "PC_RD j = PC_RD i" "bit (target_pc_out_si q) 0" "miss_ri s"
    and "t = mini_fetch_method j q' (mini_fetch_method i q s)"
  shows "ADR_SI (mini_fetch_method i q s) = adr_si s \<and>
    ADR_SI t = PC_RD i \<and> PRED_BRANCH_CHECK_ADR_IN_SI t = PC_RD i \<and>
    rng 31 0 (if2dec_in_si t) = PC_RD i \<and> rng 63 32 (if2dec_in_si t) = IC_INST_SI j \<and>
    (IF2DEC_PUSH_SI t \<longrightarrow> \<not> IF2DEC_FLUSH_SD j \<and> DEC2IF_POP_SI t \<and> ADR_VALID_SI t)"
  using assms by (auto simp: mini_fetch_method_def Let_def mini_if2dec_in_def range_simps)

text \<open>What decode reads of the lookup is what the prediction cache answered.\<close>

lemma mini_prediction_payload:
  assumes "pb_if2dec_out_si q = mini_pb_if2dec i"
  shows "PRED_BRANCH_PNT_RI (mini_fetch_method j q s) = PRED_BRANCH_PNT_OUT_SP i"
    "PRED_BRANCH_CPT_RI (mini_fetch_method j q s) = PRED_BRANCH_CPT_OUT_SP i"
    "PRED_BRANCH_LRU_RI (mini_fetch_method j q s) = PRED_BRANCH_LRU_OUT_SP i"
    "PRED_BRANCH_TARGET_ADR_RI (mini_fetch_method j q s) = PRED_BRANCH_TARGET_ADR_OUT_SP i"
    "PRED_BRANCH_ADR_RI (mini_fetch_method j q s) = PC_RD i"
    "PRED_BRANCH_MISS_RI (mini_fetch_method j q s) = PRED_BRANCH_MISS_OUT_SP i"
  by (simp_all add: mini_fetch_method_def Let_def assms mini_pb_if2dec_def range_simps)

subsection \<open>The prediction cache\<close>

definition mini_pred_check :: "u32 \<Rightarrow> pred_cache \<Rightarrow> pred_out \<Rightarrow> pred_out" where
  "mini_pred_check adr c out0 =
     (let (out, miss, replace_index) = fold (pred_check_body adr c) [0..<2] (out0, True, 0);
          out' = (if miss then out\<lparr>PRED_PNT := replace_index\<rparr> else out)
      in out'\<lparr>PRED_MISS := miss\<rparr>)"

definition mini_pred_reset :: "pred_cache \<Rightarrow> pred_cache" where
  "mini_pred_reset c =
     c\<lparr>present := replicate 2 False, lru := replicate 2 False, p_nb := 0, inverse_lru := False\<rparr>"

definition mini_pred_write ::
  "u2 \<Rightarrow> u32 \<Rightarrow> u32 \<Rightarrow> u2 \<Rightarrow> u2 \<Rightarrow> pred_cache \<Rightarrow> pred_cache option" where
  "mini_pred_write cmd adr target cpt pnt c =
     (if cmd \<noteq> 0 \<and> 2 \<le> unat pnt then None else Some (pred_write cmd adr target cpt pnt c))"

definition mini_pred_update :: "mini_pred_out \<Rightarrow> pred_cache \<Rightarrow> pred_cache option" where
  "mini_pred_update o1 =
     mini_pred_write (PRED_BRANCH_CMD_OUT_SE o1) (PRED_BRANCH_WRITE_ADR_OUT_SE o1)
       (PRED_BRANCH_TARGET_OUT_SE o1) (PRED_BRANCH_CPT_OUT_SE o1) (PRED_BRANCH_PNT_OUT_SE o1)"

text \<open>
  The states of the cache, with the indices that its lookups have given out.  An index reaches
  decode with the instruction; decode and execute send it back with the command of the branch.
\<close>

inductive mini_pred_reach :: "pred_cache \<Rightarrow> u2 set \<Rightarrow> bool" where
  start: "mini_pred_reach (mini_pred_reset c) {}"
| lookup: "mini_pred_reach c P \<Longrightarrow> mini_pred_reach c (insert (PRED_PNT (mini_pred_check adr c out)) P)"
| update: "mini_pred_reach c P \<Longrightarrow> mini_dec_in.PRED_BRANCH_PNT_RI i \<in> P \<Longrightarrow>
    o1 = mini_pred_branch_signals (mini_issue i rd re rm s) o0 \<Longrightarrow>
    mini_pred_update o1 c = Some c' \<Longrightarrow> mini_pred_reach c' P"

definition mini_second_only :: "pred_cache \<Rightarrow> bool" where
  "mini_second_only c \<longleftrightarrow> length (present c) = 2 \<and> \<not> present c ! 0"

lemma mini_fold_small:
  assumes "\<forall>i \<in> set ks. i < 2" "unat r < 2" "m \<or> unat (PRED_PNT out) < 2"
    and "fold (pred_check_body adr c) ks (out, m, r) = (out', m', r')"
  shows "unat r' < 2 \<and> (m' \<or> unat (PRED_PNT out') < 2)"
  using assms
proof (induction ks arbitrary: out m r)
  case Nil
  then show ?case by simp
next
  case (Cons i ks)
  obtain o1 m1 r1 where b: "pred_check_body adr c i (out, m, r) = (o1, m1, r1)"
    by (metis prod_cases3)
  have "unat (of_nat i :: u2) = i" if "i < 2" using that by (simp add: unat_of_nat)
  then have "unat r1 < 2 \<and> (m1 \<or> unat (PRED_PNT o1) < 2)"
    using b Cons.prems(1-3) by (auto simp: pred_check_body_def Let_def split: if_splits)
  then show ?case using Cons.IH [of r1 m1 o1] Cons.prems(1,4) b by simp
qed

lemma mini_pred_check_small: "unat (PRED_PNT (mini_pred_check adr c out)) < 2"
proof -
  obtain o1 m1 r1 where f: "fold (pred_check_body adr c) [0..<2] (out, True, 0) = (o1, m1, r1)"
    by (metis prod_cases3)
  then have "unat r1 < 2 \<and> (m1 \<or> unat (PRED_PNT o1) < 2)"
    by (intro mini_fold_small [OF _ _ _ f]) simp_all
  then show ?thesis by (auto simp: mini_pred_check_def f)
qed

text \<open>Bit 0 of the index that comes back is the branch flag.\<close>

lemma mini_index_back:
  assumes "PRED_BRANCH_CMD_OUT_SE (mini_pred_branch_signals p o0) \<noteq> 0"
  shows "IS_BRANCH_RD p" "PRED_BRANCH_PNT_OUT_SE (mini_pred_branch_signals p o0) = PRED_BRANCH_PNT_RD p"
  using assms by (auto simp: mini_pred_branch_signals_def Let_def split: if_splits)

lemma put_bit_0_small: "unat pnt < 2 \<Longrightarrow> put_bit 0 True pnt = 1" for pnt :: u2
  using u2_cases [of pnt] by (elim disjE) (simp_all add: put_bit_def set_bit_eq_or)

lemma mini_update_entry:
  assumes "unat (mini_dec_in.PRED_BRANCH_PNT_RI i) < 2"
    and "o1 = mini_pred_branch_signals (mini_issue i rd re rm s) o0"
  shows "mini_pred_update o1 c =
    Some (if PRED_BRANCH_CMD_OUT_SE o1 = 0 then c
      else pred_write (PRED_BRANCH_CMD_OUT_SE o1) (PRED_BRANCH_WRITE_ADR_OUT_SE o1)
        (PRED_BRANCH_TARGET_OUT_SE o1) (PRED_BRANCH_CPT_OUT_SE o1) 1 c)"
proof (cases "PRED_BRANCH_CMD_OUT_SE o1 = 0")
  case True
  then show ?thesis by (simp add: mini_pred_update_def mini_pred_write_def pred_write_def)
next
  case False
  note index = mini_index_back [OF False [unfolded assms(2)], folded assms(2)]
  have "PRED_BRANCH_PNT_OUT_SE o1 = 1"
    using index put_bit_0_small [OF assms(1)] by (simp add: mini_issue_fields)
  then show ?thesis using False by (simp add: mini_pred_update_def mini_pred_write_def)
qed

lemma mini_pred_invariant:
  "mini_pred_reach c P \<Longrightarrow> mini_second_only c \<and> (\<forall>pnt \<in> P. unat pnt < 2)"
proof (induction rule: mini_pred_reach.induct)
  case (update c P i o1 rd re rm s o0 c')
  have small: "unat (mini_dec_in.PRED_BRANCH_PNT_RI i) < 2" using update.IH update.hyps(2) by blast
  let ?w = "pred_write (PRED_BRANCH_CMD_OUT_SE o1) (PRED_BRANCH_WRITE_ADR_OUT_SE o1)
    (PRED_BRANCH_TARGET_OUT_SE o1) (PRED_BRANCH_CPT_OUT_SE o1) 1 c"
  have "c' = (if PRED_BRANCH_CMD_OUT_SE o1 = 0 then c else ?w)"
    using update.hyps(4) unfolding mini_update_entry [OF small update.hyps(3)] by (rule option.inject [THEN iffD1, symmetric])
  moreover have "mini_second_only ?w"
    using update.IH by (simp add: mini_second_only_def pred_write_present)
  ultimately show ?case using update.IH by presburger
qed (auto simp: mini_second_only_def mini_pred_reset_def mini_pred_check_small)

text \<open>
  Whatever branches are looked up and executed, an update of the prediction cache stays inside
  its two entries, and uses only the second of them: the branch flag has replaced the low bit of
  the index.
\<close>

theorem mini_prediction_index:
  assumes "mini_pred_reach c P" "mini_dec_in.PRED_BRANCH_PNT_RI i \<in> P"
    and "o1 = mini_pred_branch_signals (mini_issue i rd re rm s) o0"
  shows "\<exists>c'. mini_pred_update o1 c = Some c' \<and> mini_pred_reach c' P \<and> \<not> present c' ! 0"
proof -
  have "unat (mini_dec_in.PRED_BRANCH_PNT_RI i) < 2"
    using mini_pred_invariant [OF assms(1)] assms(2) by blast
  then obtain c' where c': "mini_pred_update o1 c = Some c'"
    using mini_update_entry [OF _ assms(3), of c] by blast
  have "mini_pred_reach c' P" by (rule mini_pred_reach.update [OF assms c'])
  moreover have "\<not> present c' ! 0"
    using mini_pred_invariant [OF calculation] by (simp add: mini_second_only_def)
  ultimately show ?thesis using c' by blast
qed

subsection \<open>Instances\<close>

definition mini_fetch_at :: "u32 \<Rightarrow> mini_fetch_in" where
  "mini_fetch_at pc =
     \<lparr>PC_RD = pc, PRED_BRANCH_MISS_OUT_SP = True, PRED_BRANCH_TARGET_ADR_OUT_SP = 0,
      PRED_BRANCH_PNT_OUT_SP = 0, PRED_BRANCH_LRU_OUT_SP = False, PRED_BRANCH_CPT_OUT_SP = 0,
      IC_INST_SI = 0x13, IC_STALL_SI = False, DEC2IF_EMPTY_SD = False, IF2DEC_FULL_SI = False,
      IF2DEC_FLUSH_SD = False, PB_IF2DEC_FLUSH_SD = False\<rparr>"

definition mini_fifos_missed :: mini_fetch_fifos where
  "mini_fifos_missed = \<lparr>if2dec_out_si = 0, pb_if2dec_out_si = 1, target_pc_out_si = 1\<rparr>"

definition mini_fetch_start :: mini_fetch where
  "mini_fetch_start = \<lparr>miss_ri = True, cpt_ri = 0, target_adr_ri = 0, adr_si = 0x100, ADR_SI = 0,
     ADR_VALID_SI = False, PRED_BRANCH_CHECK_ADR_IN_SI = 0, pb_if2dec_in_si = 0,
     target_pc_in_si = 0, if2dec_in_si = 0, PRED_BRANCH_PNT_RI = 0, PRED_BRANCH_CPT_RI = 0,
     PRED_BRANCH_LRU_RI = False, PRED_BRANCH_TARGET_ADR_RI = 0, PRED_BRANCH_ADR_RI = 0,
     PRED_BRANCH_MISS_RI = True, INSTR_RI = 0, PC_RI = 0, IF2DEC_PUSH_SI = False,
     DEC2IF_POP_SI = False, PB_IF2DEC_PUSH_SI = False, target_pc_push_si = False,
     target_pc_pop_si = False\<rparr>"

theorem mini_fetch_address_witness:
  "ADR_SI (mini_fetch_method (mini_fetch_at 0x104) mini_fifos_missed mini_fetch_start) = 0x100"
  using mini_fetch_address [of "mini_fetch_at 0x104" "mini_fetch_at 0x104" mini_fifos_missed
      mini_fetch_start, OF _ _ _ refl]
  by (simp add: mini_fetch_at_def mini_fifos_missed_def mini_fetch_start_def)

text \<open>A branch that misses, looked up and executed on the empty cache.\<close>

theorem mini_prediction_index_witness:
  "\<exists>c'. mini_pred_update (mini_pred_branch_signals
      (mini_issue ((mini_in 0x00208463)\<lparr>mini_dec_in.PRED_BRANCH_PNT_RI :=
           PRED_PNT (mini_pred_check 0x100 (mini_pred_reset pred_empty) pred_out_0)\<rparr>)
         (mini_unconcat_dec2exe 0) mini_no_mem mini_no_wbk mini_dec_zero)
      \<lparr>PRED_BRANCH_CMD_OUT_SE = 0, PRED_BRANCH_WRITE_ADR_OUT_SE = 0, PRED_BRANCH_TARGET_OUT_SE = 0,
       PRED_BRANCH_CPT_OUT_SE = 0, PRED_BRANCH_LRU_OUT_SE = False, PRED_BRANCH_PNT_OUT_SE = 0\<rparr>)
      (mini_pred_reset pred_empty) = Some c' \<and> \<not> present c' ! 0"
  using mini_prediction_index [OF mini_pred_reach.lookup [OF mini_pred_reach.start,
        of pred_empty "0x100" pred_out_0] _ refl,
      of "(mini_in 0x00208463)\<lparr>mini_dec_in.PRED_BRANCH_PNT_RI :=
           PRED_PNT (mini_pred_check 0x100 (mini_pred_reset pred_empty) pred_out_0)\<rparr>"]
  by simp blast

end
