(* ===== verification/Elf_Segments.thy ===== *)
theory Elf_Segments
  imports Bench_Ram Bench_Run
begin

text \<open>
  The loader of the earlier processor's simulation (\<open>sysc_miniriscv/elflib.h\<close>, \<open>main.cpp\<close>): a list
  of segments in the order of their addresses, in which overlapping segments are refused, the
  words read out of it, and the loop that copies them into the memory of the simulation; and the
  test that ends a run.

  An address is the value of a \<open>uint32_t\<close>; sums with a \<open>size_t\<close> do not wrap, so both are natural
  numbers.  Lemmas: the list stays ordered and disjoint, exactly the overlapping segments are
  refused, and every loaded word is read back.
\<close>

subsection \<open>Segments\<close>

record seg =
  va :: nat
  ra :: "8 word list"

abbreviation "seg_end s \<equiv> va s + length (ra s)"

definition new_seg :: "nat \<Rightarrow> 8 word list \<Rightarrow> seg" where
  "new_seg adr src = \<lparr>va = adr, ra = src\<rparr>"

text \<open>
  The walk to the last segment that does not begin behind \<open>adr\<close>, and the insertion after it;
  \<open>None\<close> when the memory is already allocated.
\<close>

fun seg_insert_after :: "nat \<Rightarrow> 8 word list \<Rightarrow> seg list \<Rightarrow> seg list option" where
  "seg_insert_after adr src [] = None"
| "seg_insert_after adr src [ps] =
     (if adr < seg_end ps then None else Some [ps, new_seg adr src])"
| "seg_insert_after adr src (ps # nx # rest) =
     (if adr < va nx then
        (if adr < seg_end ps then None
         else if va nx < adr + length src then None
         else Some (ps # new_seg adr src # nx # rest))
      else map_option ((#) ps) (seg_insert_after adr src (nx # rest)))"

definition mem_add_seg :: "nat \<Rightarrow> 8 word list \<Rightarrow> seg list \<Rightarrow> seg list option" where
  "mem_add_seg adr src ts =
     (case ts of
        [] \<Rightarrow> Some [new_seg adr src]
      | ps # rest \<Rightarrow>
          (if adr < va ps then
             (if va ps < adr + length src then None else Some (new_seg adr src # ts))
           else seg_insert_after adr src ts))"

text \<open>
  A word: \<open>Some 0\<close> with a message for an unaligned address and one that no segment holds, \<open>None\<close> for a
  read that begins in a segment and leaves it.
\<close>

fun seg_read :: "nat \<Rightarrow> seg list \<Rightarrow> u32 option" where
  "seg_read adr [] = Some 0"
| "seg_read adr (ps # rest) =
     (if va ps \<le> adr \<and> adr < seg_end ps then le_word (ra ps) (adr - va ps)
      else if adr < va ps then Some 0 else seg_read adr rest)"

definition mem_lw :: "nat \<Rightarrow> seg list \<Rightarrow> u32 option" where
  "mem_lw adr ts = (if adr mod 4 \<noteq> 0 then Some 0 else seg_read adr ts)"

subsection \<open>The list of segments\<close>

definition seg_inv :: "seg list \<Rightarrow> bool" where
  "seg_inv ts \<longleftrightarrow> sorted_wrt (\<lambda>s t. seg_end s \<le> va t) ts"

definition seg_overlaps :: "nat \<Rightarrow> 8 word list \<Rightarrow> seg \<Rightarrow> bool" where
  "seg_overlaps adr src s \<longleftrightarrow> adr < seg_end s \<and> va s < adr + length src"

lemma new_seg_sel [simp]: "va (new_seg adr src) = adr" "ra (new_seg adr src) = src"
  by (simp_all add: new_seg_def)

text \<open>What the walk does, from a segment that does not begin behind the new one.\<close>

lemma seg_insert_after_Some:
  assumes "seg_insert_after adr src (ps # rest) = Some ts" "seg_inv (ps # rest)" "va ps \<le> adr"
  shows "seg_inv ts \<and> set ts = insert (new_seg adr src) (set (ps # rest)) \<and> hd ts = ps"
  using assms
proof (induction adr src "ps # rest" arbitrary: ps rest ts rule: seg_insert_after.induct)
  case (2 adr src ps)
  then show ?case by (auto simp: seg_inv_def split: if_splits)
next
  case (3 adr src ps nx rest)
  show ?case
  proof (cases "adr < va nx")
    case True
    then show ?thesis
      using 3 by (auto simp: seg_inv_def split: if_splits) force+
  next
    case False
    then obtain ts' where ts': "seg_insert_after adr src (nx # rest) = Some ts'" "ts = ps # ts'"
      using "3.prems"(1) by auto
    have "seg_inv (nx # rest)" using "3.prems"(2) by (simp add: seg_inv_def)
    then have ih: "seg_inv ts'" "set ts' = insert (new_seg adr src) (set (nx # rest))"
      using "3.hyps" [OF False ts'(1)] False by auto
    have "seg_end ps \<le> adr" using "3.prems"(2) False by (auto simp: seg_inv_def)
    then show ?thesis using ih "3.prems"(2) ts'(2) by (auto simp: seg_inv_def)
  qed
qed

lemma seg_insert_after_None:
  assumes "seg_inv (ps # rest)" "va ps \<le> adr" "0 < length src"
  shows "seg_insert_after adr src (ps # rest) = None \<longleftrightarrow>
    (\<exists>s \<in> set (ps # rest). seg_overlaps adr src s)"
  using assms
proof (induction adr src "ps # rest" arbitrary: ps rest rule: seg_insert_after.induct)
  case (2 adr src ps)
  then show ?case by (auto simp: seg_overlaps_def simp del: length_greater_0_conv)
next
  case (3 adr src ps nx rest)
  have inv: "seg_inv (nx # rest)" using "3.prems"(1) by (simp add: seg_inv_def)
  have later: "va nx \<le> va s" if "s \<in> set rest" for s
    using inv that by (auto simp: seg_inv_def)
  show ?case
  proof (cases "adr < va nx")
    case True
    have "\<not> (seg_overlaps adr src s)" if "s \<in> set rest" "adr + length src \<le> va nx" for s
      using later [OF that(1)] that(2) by (auto simp: seg_overlaps_def)
    then show ?thesis
      using True "3.prems" by (auto simp: seg_overlaps_def not_less simp del: length_greater_0_conv)
  next
    case False
    have "\<not> seg_overlaps adr src ps" using "3.prems"(1) False by (auto simp: seg_inv_def seg_overlaps_def)
    then show ?thesis using "3.hyps" [OF False inv] "3.prems" False by auto
  qed
qed

text \<open>The same of the whole operation: nothing is lost, and exactly the overlaps are refused.\<close>

lemma mem_add_seg_Some:
  assumes "mem_add_seg adr src ts = Some ts'" "seg_inv ts"
  shows "seg_inv ts' \<and> set ts' = insert (new_seg adr src) (set ts)"
proof (cases ts)
  case (Cons ps rest)
  show ?thesis
  proof (cases "adr < va ps")
    case True
    then show ?thesis
      using assms Cons by (auto simp: mem_add_seg_def seg_inv_def split: if_splits) force
  next
    case False
    then show ?thesis
      using assms Cons seg_insert_after_Some [of adr src ps rest ts'] by (simp add: mem_add_seg_def)
  qed
qed (use assms in \<open>auto simp: mem_add_seg_def seg_inv_def\<close>)

lemma mem_add_seg_None:
  assumes "seg_inv ts" "0 < length src"
  shows "mem_add_seg adr src ts = None \<longleftrightarrow> (\<exists>s \<in> set ts. seg_overlaps adr src s)"
proof (cases ts)
  case (Cons ps rest)
  have later: "va ps \<le> va s" if "s \<in> set rest" for s
    using assms(1) Cons that by (auto simp: seg_inv_def)
  show ?thesis
  proof (cases "adr < va ps")
    case True
    have "\<not> seg_overlaps adr src s" if "s \<in> set rest" "adr + length src \<le> va ps" for s
      using later [OF that(1)] that(2) by (auto simp: seg_overlaps_def)
    then show ?thesis
      using True Cons by (auto simp: mem_add_seg_def seg_overlaps_def not_less)
  next
    case False
    then show ?thesis
      using assms Cons seg_insert_after_None [of ps rest adr src] by (simp add: mem_add_seg_def)
  qed
qed (simp add: mem_add_seg_def)

text \<open>Reading: the one segment that holds the address answers.\<close>

lemma seg_read_segment:
  assumes "seg_inv ts" "s \<in> set ts" "va s \<le> adr" "adr < seg_end s"
  shows "seg_read adr ts = le_word (ra s) (adr - va s)"
  using assms
proof (induction ts)
  case (Cons ps rest)
  show ?case
  proof (cases "s = ps")
    case False
    then have "s \<in> set rest" using Cons.prems(2) by simp
    moreover have "seg_end ps \<le> va s" using calculation Cons.prems(1) by (simp add: seg_inv_def)
    ultimately show ?thesis
      using Cons by (auto simp: seg_inv_def)
  qed (use Cons.prems in simp)
qed simp

lemma seg_read_none:
  assumes "\<forall>s \<in> set ts. \<not> (va s \<le> adr \<and> adr < seg_end s)"
  shows "seg_read adr ts = Some 0"
  using assms by (induction ts) auto

subsection \<open>The program in the simulation\<close>

text \<open>\<open>for (j = 0; j < size; j += 4) ram[sh_addr + j] = mem_lw(sh_addr + j)\<close>, from the word \<open>k\<close> on.\<close>

fun mini_place :: "nat \<Rightarrow> seg list \<Rightarrow> nat \<Rightarrow> nat \<Rightarrow> ram \<Rightarrow> ram option" where
  "mini_place adr ts k 0 ram = Some ram"
| "mini_place adr ts k (Suc n) ram =
     (case mem_lw (adr + 4 * k) ts of
        None \<Rightarrow> None
      | Some w \<Rightarrow> mini_place adr ts (Suc k) n (ram(of_nat (adr + 4 * k) := w)))"

text \<open>The first symbol of a name.\<close>

definition Elf32_SymAdr :: "string \<Rightarrow> (string \<times> u32) list \<Rightarrow> u32 option" where
  "Elf32_SymAdr name syms = map_option snd (List.find (\<lambda>s. fst s = name) syms)"

text \<open>
  The sections with an address become segments; a refusal ends the program.  Their sizes are the
  sizes of the loop above.
\<close>

fun read_elf_segments :: "(nat \<times> 8 word list) list \<Rightarrow> seg list \<Rightarrow> seg list option" where
  "read_elf_segments [] ts = Some ts"
| "read_elf_segments ((adr, src) # xs) ts =
     (if adr \<noteq> 0 then Option.bind (mem_add_seg adr src ts) (read_elf_segments xs)
      else read_elf_segments xs ts)"

text \<open>
  The program of a file: the segments, and then the words of every section that has become one.
\<close>

fun mini_load_sections :: "(nat \<times> 8 word list) list \<Rightarrow> seg list \<Rightarrow> ram \<Rightarrow> ram option" where
  "mini_load_sections [] ts ram = Some ram"
| "mini_load_sections ((adr, src) # xs) ts ram =
     (if adr \<noteq> 0 then
        Option.bind (mini_place adr ts 0 ((length src + 3) div 4) ram) (mini_load_sections xs ts)
      else mini_load_sections xs ts ram)"

definition mini_load :: "(nat \<times> 8 word list) list \<Rightarrow> ram option" where
  "mini_load xs =
     Option.bind (read_elf_segments xs []) (\<lambda>ts. mini_load_sections xs ts ram_empty)"

text \<open>The test at every pass; it differs from the one of the core in its numbers and its order.\<close>

definition mini_tb_step :: "bool \<Rightarrow> tb_symbols \<Rightarrow> u32 \<Rightarrow> tb_loop \<Rightarrow> tb_verdict + tb_loop" where
  "mini_tb_step test y pc s0 =
     (let s = s0\<lparr>countdown := (if countdown s0 \<noteq> 0 then countdown s0 - 1 else countdown s0),
                 cycles := cycles s0 + 1\<rparr>
      in if test \<and> pc = bad_adr y then Inl Bad
         else if test \<and> pc = good_adr y then Inl Good
         else if countdown s = 0 \<and> \<not> test \<and> (pc = rvtest_code_end y \<or> 2000000 < cycles s) then
           Inr (s\<lparr>countdown := 20\<rparr>)
         else if countdown s = 1 then Inl Signature
         else Inr s)"

subsection \<open>What is loaded\<close>

text \<open>The sections that become segments, and when two of them leave each other room.\<close>

definition addressed :: "(nat \<times> 8 word list) list \<Rightarrow> (nat \<times> 8 word list) list" where
  "addressed xs = filter (\<lambda>x. fst x \<noteq> 0) xs"

definition apart :: "nat \<times> 8 word list \<Rightarrow> nat \<times> 8 word list \<Rightarrow> bool" where
  "apart x y \<longleftrightarrow> fst x + length (snd x) \<le> fst y \<or> fst y + length (snd y) \<le> fst x"

lemma addressed_simps [simp]:
  "addressed [] = []"
  "addressed (x # xs) = (if fst x \<noteq> 0 then x # addressed xs else addressed xs)"
  by (simp_all add: addressed_def)

lemma seg_overlaps_new: "seg_overlaps adr src (new_seg a s) \<longleftrightarrow> \<not> apart (a, s) (adr, src)"
  by (auto simp: seg_overlaps_def apart_def)

lemma read_elf_segments_Some:
  assumes "read_elf_segments xs ts = Some ts'" "seg_inv ts"
  shows "seg_inv ts' \<and> set ts' = set ts \<union> (\<lambda>x. new_seg (fst x) (snd x)) ` set (addressed xs)"
  using assms
proof (induction xs ts rule: read_elf_segments.induct)
  case (2 adr src xs ts)
  show ?case
  proof (cases "adr = 0")
    case False
    then obtain ts1 where ts1: "mem_add_seg adr src ts = Some ts1" "read_elf_segments xs ts1 = Some ts'"
      using "2.prems"(1) by (auto simp: bind_eq_Some_conv)
    then show ?thesis
      using "2.IH"(1) [OF False] mem_add_seg_Some [OF ts1(1) "2.prems"(2)] False by auto
  qed (use 2 in simp)
qed simp

lemma read_elf_segments_defined:
  assumes "seg_inv ts" "\<forall>x \<in> set (addressed xs). 0 < length (snd x)"
  shows "read_elf_segments xs ts \<noteq> None \<longleftrightarrow> sorted_wrt apart (addressed xs) \<and>
    (\<forall>x \<in> set (addressed xs). \<forall>s \<in> set ts. \<not> seg_overlaps (fst x) (snd x) s)"
  using assms
proof (induction xs ts rule: read_elf_segments.induct)
  case (2 adr src xs ts)
  show ?case
  proof (cases "adr = 0")
    case False
    show ?thesis
    proof (cases "mem_add_seg adr src ts")
      case None
      then show ?thesis
        using mem_add_seg_None [OF "2.prems"(1), of src adr] "2.prems"(2) False by auto
    next
      case (Some ts1)
      have no: "\<not> seg_overlaps adr src s" if "s \<in> set ts" for s
        using mem_add_seg_None [OF "2.prems"(1), of src adr] "2.prems"(2) False Some that by auto
      have ts1: "seg_inv ts1" "set ts1 = insert (new_seg adr src) (set ts)"
        using mem_add_seg_Some [OF Some "2.prems"(1)] by simp_all
      have "read_elf_segments xs ts1 \<noteq> None \<longleftrightarrow> sorted_wrt apart (addressed xs) \<and>
          (\<forall>x \<in> set (addressed xs). \<forall>s \<in> set ts1. \<not> seg_overlaps (fst x) (snd x) s)"
        using "2.IH"(1) [OF False Some ts1(1)] "2.prems"(2) False by simp
      then show ?thesis using False Some no ts1(2) by (auto simp: seg_overlaps_new)
    qed
  qed (use 2 in simp)
qed simp

text \<open>Every address written receives the word of the segments there, so the order is immaterial.\<close>

lemma unat_is_of_nat:
  fixes a :: u32
  assumes "n < 2 ^ 32"
  shows "unat a = n \<longleftrightarrow> a = of_nat n"
  using assms by (auto simp: unsigned_of_nat take_bit_nat_eq_self)

lemma mini_place_words:
  assumes "\<And>j. k \<le> j \<Longrightarrow> j < k + n \<Longrightarrow> mem_lw (adr + 4 * j) ts \<noteq> None" "adr + 4 * (k + n) \<le> 2 ^ 32"
  shows "mini_place adr ts k n ram = Some (\<lambda>a.
    if \<exists>j. k \<le> j \<and> j < k + n \<and> unat a = adr + 4 * j then the (mem_lw (unat a) ts) else ram a)"
  using assms
proof (induction n arbitrary: k ram)
  case (Suc n)
  obtain w where w: "mem_lw (adr + 4 * k) ts = Some w" using Suc.prems(1) [of k] by auto
  define c :: u32 where "c = of_nat (adr + 4 * k)"
  have here: "unat a = adr + 4 * k \<longleftrightarrow> a = c" for a
    using Suc.prems(2) unfolding c_def by (intro unat_is_of_nat) simp
  let ?P = "\<lambda>k n a. \<exists>j. k \<le> j \<and> j < k + n \<and> unat a = adr + 4 * j"
  have range: "?P k (Suc n) a \<longleftrightarrow> a = c \<or> ?P (Suc k) n a" for a :: u32
    by (auto simp: Suc_le_eq le_less simp flip: here)
  have "(if ?P (Suc k) n a then the (mem_lw (unat a) ts) else (ram(c := w)) a) =
      (if ?P k (Suc n) a then the (mem_lw (unat a) ts) else ram a)" for a
    using w by (cases "a = c") (simp_all only: range here [symmetric], auto simp: here)
  moreover have "mini_place adr ts (Suc k) n (ram(c := w)) = Some (\<lambda>a.
      if ?P (Suc k) n a then the (mem_lw (unat a) ts) else (ram(c := w)) a)"
    using Suc.prems by (intro Suc.IH) auto
  ultimately show ?case using w by (simp only: mini_place.simps option.case c_def [symmetric])
qed (auto intro!: ext)

text \<open>A section as the compiler writes it: whole words, inside the address space.\<close>

definition word_section :: "nat \<times> 8 word list \<Rightarrow> bool" where
  "word_section x \<longleftrightarrow> fst x mod 4 = 0 \<and> length (snd x) mod 4 = 0 \<and> 0 < length (snd x) \<and>
     fst x + length (snd x) \<le> 2 ^ 32"

definition holds_word :: "nat \<times> 8 word list \<Rightarrow> nat \<Rightarrow> bool" where
  "holds_word x a \<longleftrightarrow> a mod 4 = 0 \<and> fst x \<le> a \<and> a < fst x + length (snd x)"

lemma word_sectionE:
  assumes "word_section x"
  obtains p q where "fst x = 4 * p" "length (snd x) = 4 * q" "(length (snd x) + 3) div 4 = q"
    "fst x + 4 * q \<le> 2 ^ 32"
  using assms that [of "fst x div 4" "length (snd x) div 4"]
  by (auto simp: word_section_def mod_eq_0_iff_dvd elim!: dvdE)

lemma word_section_words:
  assumes "word_section x"
  shows "(\<exists>j. j < (length (snd x) + 3) div 4 \<and> a = fst x + 4 * j) \<longleftrightarrow> holds_word x a"
proof -
  obtain p q where pq: "fst x = 4 * p" "length (snd x) = 4 * q" "(length (snd x) + 3) div 4 = q"
    using assms by (rule word_sectionE)
  show ?thesis
  proof
    assume "holds_word x a"
    then obtain m where "a = 4 * m" "4 * p \<le> 4 * m" "4 * m < 4 * p + 4 * q"
      by (auto simp: holds_word_def pq mod_eq_0_iff_dvd elim!: dvdE)
    then have "m - p < q \<and> a = 4 * p + 4 * (m - p)" by auto
    then show "\<exists>j. j < (length (snd x) + 3) div 4 \<and> a = fst x + 4 * j" unfolding pq(1,3) by blast
  qed (auto simp: holds_word_def pq)
qed

lemma mem_lw_section:
  assumes "seg_inv ts" "new_seg (fst x) (snd x) \<in> set ts" "word_section x" "holds_word x a"
  shows "mem_lw a ts = le_word (snd x) (a - fst x)" "mem_lw a ts \<noteq> None"
proof -
  show 1: "mem_lw a ts = le_word (snd x) (a - fst x)"
    using assms seg_read_segment [OF assms(1,2), of a] by (simp add: mem_lw_def holds_word_def)
  obtain p q where pq: "fst x = 4 * p" "length (snd x) = 4 * q"
    using assms(3) by (rule word_sectionE)
  then obtain m where "a = 4 * m" "p \<le> m" "m < p + q"
    using assms(4) by (auto simp: holds_word_def mod_eq_0_iff_dvd elim!: dvdE)
  then have "a - fst x + 3 < length (snd x)" unfolding pq by linarith
  then show "mem_lw a ts \<noteq> None" by (simp add: 1 le_word_def)
qed

lemma mini_load_sections_words:
  assumes "seg_inv ts" "\<forall>x \<in> set (addressed xs). new_seg (fst x) (snd x) \<in> set ts \<and> word_section x"
  shows "mini_load_sections xs ts ram = Some (\<lambda>a.
    if \<exists>x \<in> set (addressed xs). holds_word x (unat a) then the (mem_lw (unat a) ts) else ram a)"
  using assms
proof (induction xs ts ram rule: mini_load_sections.induct)
  case (2 adr src xs ts ram)
  show ?case
  proof (cases "adr = 0")
    case False
    define x where "x = (adr, src)"
    have x: "new_seg (fst x) (snd x) \<in> set ts" "word_section x" using "2.prems"(2) False by (auto simp: x_def)
    let ?n = "(length (snd x) + 3) div 4"
    have "fst x + 4 * (0 + ?n) \<le> 2 ^ 32" using x(2) by (elim word_sectionE) simp
    moreover have "mem_lw (fst x + 4 * j) ts \<noteq> None" if "j < 0 + ?n" for j
      using mem_lw_section(2) [OF "2.prems"(1) x] word_section_words [OF x(2)] that by auto
    ultimately have place: "mini_place (fst x) ts 0 ?n ram = Some (\<lambda>a.
        if holds_word x (unat a) then the (mem_lw (unat a) ts) else ram a)"
      using mini_place_words [of 0 ?n "fst x" ts ram] by (simp add: word_section_words [OF x(2)])
    show ?thesis
      using "2.IH"(1) [OF False _ "2.prems"(1)] place "2.prems"(2) False
      by (auto simp: x_def intro!: ext)
  qed (use 2 in simp)
qed simp

subsection \<open>Properties\<close>

text \<open>
  The list of segments stays in the order of the addresses and free of overlaps, and contains exactly
  the old segments and the new one.
\<close>

theorem mem_add_seg_inv:
  assumes "mem_add_seg adr src ts = Some ts'" "seg_inv ts"
  shows "seg_inv ts' \<and> set ts' = insert (new_seg adr src) (set ts)"
  using assms by (rule mem_add_seg_Some)



text \<open>
  C31: round trip of the earlier processor's loader: when the sections consist of whole words and do
  not overlap, the memory of the simulation holds at every address of a section the word that the
  section has there, whatever the order of the sections, and zero everywhere else.
\<close>

theorem mini_load_words:
  assumes "\<forall>x \<in> set (addressed xs). word_section x" "sorted_wrt apart (addressed xs)"
  shows "\<exists>ram. mini_load xs = Some ram \<and>
    (\<forall>x \<in> set (addressed xs). \<forall>a. holds_word x (unat a) \<longrightarrow>
       Some (ram a) = le_word (snd x) (unat a - fst x)) \<and>
    (\<forall>a. (\<forall>x \<in> set (addressed xs). \<not> holds_word x (unat a)) \<longrightarrow> ram a = 0)"
proof -
  have "\<forall>x \<in> set (addressed xs). 0 < length (snd x)" using assms(1) by (simp add: word_section_def)
  then obtain ts where ts: "read_elf_segments xs [] = Some ts"
    using read_elf_segments_defined [of "[]" xs] assms(2) by (auto simp: seg_inv_def)
  have inv: "seg_inv ts" "\<forall>x \<in> set (addressed xs). new_seg (fst x) (snd x) \<in> set ts"
    using read_elf_segments_Some [OF ts] by (auto simp: seg_inv_def)
  have word: "Some (the (mem_lw a ts)) = le_word (snd x) (a - fst x)"
    if "x \<in> set (addressed xs)" "holds_word x a" for x a
    using mem_lw_section [OF inv(1), of x a] inv(2) assms(1) that by auto
  show ?thesis
    unfolding mini_load_def ts bind.bind_lunit
    using mini_load_sections_words [OF inv(1), of xs ram_empty] inv(2) assms(1) word
    by (auto simp: ram_empty_def)
qed

theorem mini_load_words_witness:
  "\<exists>ram. mini_load [(0x10004, [5, 0, 0, 0]), (0, [9]), (0x10000, [1, 2, 0, 0x80])] = Some ram \<and>
     ram 0x10000 = 0x80000201 \<and> ram 0x10004 = 5 \<and> ram 0x10008 = 0"
proof -
  let ?xs = "[(0x10004, [5, 0, 0, 0]), (0, [9]), (0x10000, [1, 2, 0, 0x80])]"
  have "\<exists>ram. mini_load ?xs = Some ram \<and>
    (\<forall>x \<in> set (addressed ?xs). \<forall>a. holds_word x (unat a) \<longrightarrow>
       Some (ram a) = le_word (snd x) (unat a - fst x)) \<and>
    (\<forall>a. (\<forall>x \<in> set (addressed ?xs). \<not> holds_word x (unat a)) \<longrightarrow> ram a = 0)"
    by (rule mini_load_words) (simp_all add: word_section_def apart_def)
  then obtain ram where ram: "mini_load ?xs = Some ram"
    "\<forall>x \<in> set (addressed ?xs). \<forall>a. holds_word x (unat a) \<longrightarrow>
       Some (ram a) = le_word (snd x) (unat a - fst x)"
    "\<forall>a. (\<forall>x \<in> set (addressed ?xs). \<not> holds_word x (unat a)) \<longrightarrow> ram a = 0"
    by blast
  have "Some (ram 0x10000) = le_word [1, 2, 0, 0x80] 0"
    using ram(2) [THEN bspec, of "(0x10000, [1, 2, 0, 0x80])", THEN spec, of "0x10000"]
    by (simp add: holds_word_def)
  moreover have "Some (ram 0x10004) = le_word [5, 0, 0, 0] 0"
    using ram(2) [THEN bspec, of "(0x10004, [5, 0, 0, 0])", THEN spec, of "0x10004"]
    by (simp add: holds_word_def)
  moreover have "ram 0x10008 = 0" using ram(3) [THEN spec, of "0x10008"] by (simp add: holds_word_def)
  ultimately show ?thesis using ram(1) by (simp add: le_word_def)
qed

text \<open>
  The run of the earlier processor keeps the contract of the compliance loop with its own numbers:
  the result is written 19 passes after the first end, and at the latest 19 passes after pass two
  million.
\<close>

definition mini_at_end :: "tb_symbols \<Rightarrow> u32 \<Rightarrow> int \<Rightarrow> bool" where
  "mini_at_end y pc c \<longleftrightarrow> pc = rvtest_code_end y \<or> 2000000 < c"

interpretation mini: compliance_loop "mini_tb_step False y" "mini_at_end y" 20
  by unfold_locales (auto simp: mini_tb_step_def mini_at_end_def Let_def)

theorem mini_compliance_ends:
  assumes "2000019 < length pcs"
  shows "\<exists>n \<le> 2000000. run_loop (mini_tb_step False y) pcs tb_start = Some (n + 19, Signature) \<and>
    mini_at_end y (pcs ! n) (int n + 1) \<and> (\<forall>k < n. \<not> mini_at_end y (pcs ! k) (int k + 1))"
  using assms mini.run_ends [of tb_start 2000000 pcs y]
  by (simp add: tb_start_def mini_at_end_def ac_simps)

end
